(* ===== verification/LD_Prelude.thy ===== *)
theory LD_Prelude
  imports Main "HOL-Library.Word"
begin

text \<open>
  The library shared by every component: machine integers, the outcome of a Rust call
  (a value, an error returned through \<open>Result\<close>, or a panic), actions that thread a mutable state
  through fallible calls, invariants of such actions, and list splicing.  Integer arithmetic
  follows the release profile of \<^verbatim>\<open>src/Cargo.toml\<close>, which leaves overflow checks off: \<open>+\<close>, \<open>-\<close>
  and \<open>*\<close> wrap.  Slicing out of range, indexing out of range and a zero divisor panic in every
  profile, and they are \<open>Panic\<close> here.
\<close>

unbundle bit_operations_syntax

type_synonym u8 = "8 word"
type_synonym u16 = "16 word"
type_synonym u32 = "32 word"
type_synonym u64 = "64 word"
type_synonym bytes = "8 word list"

named_theorems keeps_rules \<open>invariants kept by the actions of the components\<close>
named_theorems safe_rules \<open>actions that never panic from a state satisfying an invariant\<close>

section \<open>Outcomes of fallible calls\<close>

datatype ('e, 'a) outcome = Ok 'a | Err 'e | Panic

primrec bind_outcome :: "('e, 'a) outcome \<Rightarrow> ('a \<Rightarrow> ('e, 'b) outcome) \<Rightarrow> ('e, 'b) outcome" where
  "bind_outcome (Ok x) f = f x"
| "bind_outcome (Err e) f = Err e"
| "bind_outcome Panic f = Panic"

primrec map_err :: "('e \<Rightarrow> 'd) \<Rightarrow> ('e, 'a) outcome \<Rightarrow> ('d, 'a) outcome" where
  "map_err g (Ok x) = Ok x"
| "map_err g (Err e) = Err (g e)"
| "map_err g Panic = Panic"

primrec is_ok :: "('e, 'a) outcome \<Rightarrow> bool" where
  "is_ok (Ok x) = True"
| "is_ok (Err e) = False"
| "is_ok Panic = False"

primrec ok_or :: "'e \<Rightarrow> 'a option \<Rightarrow> ('e, 'a) outcome" where
  "ok_or e None = Err e"
| "ok_or e (Some x) = Ok x"

lemma bind_outcome_eq_Ok [simp]:
  "bind_outcome m f = Ok y \<longleftrightarrow> (\<exists>x. m = Ok x \<and> f x = Ok y)"
  by (cases m) auto

lemma bind_outcome_eq_Panic:
  "bind_outcome m f = Panic \<longleftrightarrow> m = Panic \<or> (\<exists>x. m = Ok x \<and> f x = Panic)"
  by (cases m) auto

lemma map_err_eq_Ok [simp]: "map_err g m = Ok y \<longleftrightarrow> m = Ok y"
  by (cases m) auto

lemma map_err_eq_Panic [simp]: "map_err g m = Panic \<longleftrightarrow> m = Panic"
  by (cases m) auto

lemma ok_or_eq_Ok [simp]: "ok_or e x = Ok y \<longleftrightarrow> x = Some y"
  by (cases x) auto

lemma ok_or_neq_Panic [simp]: "ok_or e x \<noteq> Panic"
  by (cases x) auto

section \<open>Stateful actions\<close>

text \<open>
  A method that mutates its receiver and can fail maps a state to an outcome and the state it
  leaves behind.  The state is returned on every path: a Rust method that returns early with
  an error keeps the mutations it has already made.
\<close>

type_synonym ('s, 'e, 'a) action = "'s \<Rightarrow> ('e, 'a) outcome \<times> 's"

definition ret :: "'a \<Rightarrow> ('s, 'e, 'a) action" where
  "ret x = (\<lambda>s. (Ok x, s))"

definition fail :: "'e \<Rightarrow> ('s, 'e, 'a) action" where
  "fail e = (\<lambda>s. (Err e, s))"

definition panic :: "('s, 'e, 'a) action" where
  "panic = (\<lambda>s. (Panic, s))"

definition andthen :: "('s, 'e, 'a) action \<Rightarrow> ('a \<Rightarrow> ('s, 'e, 'b) action) \<Rightarrow> ('s, 'e, 'b) action" where
  "andthen m f = (\<lambda>s. case m s of
     (Ok x, t) \<Rightarrow> f x t | (Err e, t) \<Rightarrow> (Err e, t) | (Panic, t) \<Rightarrow> (Panic, t))"

definition gets :: "('s \<Rightarrow> 'a) \<Rightarrow> ('s, 'e, 'a) action" where
  "gets f = (\<lambda>s. (Ok (f s), s))"

definition modify :: "('s \<Rightarrow> 's) \<Rightarrow> ('s, 'e, unit) action" where
  "modify f = (\<lambda>s. (Ok (), f s))"

definition lift_outcome :: "('s \<Rightarrow> ('e, 'a) outcome) \<Rightarrow> ('s, 'e, 'a) action" where
  "lift_outcome f = (\<lambda>s. (f s, s))"

lemmas action_defs = ret_def fail_def panic_def gets_def modify_def lift_outcome_def

lemma run_ret [simp]: "ret x s = (Ok x, s)"
  and run_fail [simp]: "fail e s = (Err e, s)"
  and run_panic [simp]: "panic s = (Panic, s)"
  and run_gets [simp]: "gets f s = (Ok (f s), s)"
  and run_modify [simp]: "modify h s = (Ok (), h s)"
  and run_lift_outcome [simp]: "lift_outcome g s = (g s, s)"
  by (simp_all add: action_defs)

lemma andthen_Ok [simp]: "m s = (Ok x, t) \<Longrightarrow> andthen m f s = f x t"
  by (simp add: andthen_def)

lemma andthen_Err [simp]: "m s = (Err e, t) \<Longrightarrow> andthen m f s = (Err e, t)"
  by (simp add: andthen_def)

lemma andthen_Panic [simp]: "m s = (Panic, t) \<Longrightarrow> andthen m f s = (Panic, t)"
  by (simp add: andthen_def)

lemma andthen_eq_Ok:
  "andthen m f s = (Ok y, t) \<longleftrightarrow> (\<exists>x u. m s = (Ok x, u) \<and> f x u = (Ok y, t))"
  by (auto simp: andthen_def split: prod.splits outcome.splits)

lemma andthen_OkE:
  assumes "andthen m f s = (Ok y, t)"
  obtains x u where "m s = (Ok x, u)" and "f x u = (Ok y, t)"
  using assms by (auto simp: andthen_eq_Ok)

lemma andthen_assoc: "andthen (andthen m f) g = andthen m (\<lambda>x. andthen (f x) g)"
  by (auto simp: andthen_def fun_eq_iff split: prod.splits outcome.splits)

section \<open>Invariants of actions\<close>

definition keeps :: "('s \<Rightarrow> bool) \<Rightarrow> ('s, 'e, 'a) action \<Rightarrow> bool" where
  "keeps I m \<longleftrightarrow> (\<forall>s. I s \<longrightarrow> I (snd (m s)))"

definition safe :: "('s \<Rightarrow> bool) \<Rightarrow> ('s, 'e, 'a) action \<Rightarrow> bool" where
  "safe I m \<longleftrightarrow> (\<forall>s. I s \<longrightarrow> fst (m s) \<noteq> Panic \<and> I (snd (m s)))"

lemma keepsD: "keeps I m \<Longrightarrow> I s \<Longrightarrow> m s = (r, t) \<Longrightarrow> I t"
  by (auto simp: keeps_def)

lemma keeps_ret [keeps_rules]: "keeps I (ret x)"
  and keeps_fail [keeps_rules]: "keeps I (fail e)"
  and keeps_panic [keeps_rules]: "keeps I panic"
  and keeps_gets [keeps_rules]: "keeps I (gets f)"
  and keeps_lift_outcome [keeps_rules]: "keeps I (lift_outcome g)"
  by (simp_all add: keeps_def)

lemma keeps_modify [keeps_rules]: "(\<And>s. I s \<Longrightarrow> I (f s)) \<Longrightarrow> keeps I (modify f)"
  by (simp add: keeps_def)

lemma keeps_andthen [keeps_rules]:
  assumes "keeps I m" and "\<And>x. keeps I (f x)"
  shows "keeps I (andthen m f)"
proof -
  have "I (snd (andthen m f s))" if "I s" for s
  proof (cases "m s")
    case (Pair r t)
    with that assms(1) have "I t" by (auto dest: keepsD)
    with Pair assms(2) show ?thesis
      by (cases r) (auto simp: keeps_def)
  qed
  then show ?thesis by (simp add: keeps_def)
qed

lemma keeps_if [keeps_rules]:
  "(b \<Longrightarrow> keeps I m) \<Longrightarrow> (\<not> b \<Longrightarrow> keeps I n) \<Longrightarrow> keeps I (if b then m else n)"
  by simp

lemma safe_ret [safe_rules]: "safe I (ret x)"
  and safe_fail [safe_rules]: "safe I (fail e)"
  and safe_gets [safe_rules]: "safe I (gets f)"
  by (simp_all add: safe_def)

lemma safe_lift_outcome [safe_rules]:
  "(\<And>s. I s \<Longrightarrow> g s \<noteq> Panic) \<Longrightarrow> safe I (lift_outcome g)"
  by (simp add: safe_def)

lemma safe_modify [safe_rules]: "(\<And>s. I s \<Longrightarrow> I (f s)) \<Longrightarrow> safe I (modify f)"
  by (simp add: safe_def)

text \<open>The continuation only has to be safe for the values the first action can return.\<close>

lemma safe_andthen [safe_rules]:
  assumes "safe I m" and "\<And>x s t. I s \<Longrightarrow> m s = (Ok x, t) \<Longrightarrow> safe I (f x)"
  shows "safe I (andthen m f)"
proof -
  have "fst (andthen m f s) \<noteq> Panic \<and> I (snd (andthen m f s))" if "I s" for s
  proof (cases "m s")
    case (Pair r t)
    with that assms(1) have "r \<noteq> Panic" and "I t"
      by (auto simp: safe_def)
    with Pair assms(2) [OF that] show ?thesis
      by (cases r) (auto simp: safe_def)
  qed
  then show ?thesis by (simp add: safe_def)
qed

lemma safe_if [safe_rules]:
  "(b \<Longrightarrow> safe I m) \<Longrightarrow> (\<not> b \<Longrightarrow> safe I n) \<Longrightarrow> safe I (if b then m else n)"
  by simp

lemma keeps_case_prod [keeps_rules]:
  "(\<And>a b. keeps I (f a b)) \<Longrightarrow> keeps I (case p of (a, b) \<Rightarrow> f a b)"
  by (cases p) simp

lemma safe_case_prod [safe_rules]:
  "(\<And>a b. p = (a, b) \<Longrightarrow> safe I (f a b)) \<Longrightarrow> safe I (case p of (a, b) \<Rightarrow> f a b)"
  by (cases p) simp

lemma andthen_lift_outcome:
  "andthen (lift_outcome g) f s =
     (case g s of Ok x \<Rightarrow> f x s | Err e \<Rightarrow> (Err e, s) | Panic \<Rightarrow> (Panic, s))"
  by (simp add: andthen_def split: outcome.splits)

lemma bind_outcome_case:
  "bind_outcome m f = (case m of Ok x \<Rightarrow> f x | Err e \<Rightarrow> Err e | Panic \<Rightarrow> Panic)"
  by (cases m) auto

lemma safe_imp_keeps: "safe I m \<Longrightarrow> keeps I m"
  by (simp add: safe_def keeps_def)

lemma safeD: "safe I m \<Longrightarrow> I s \<Longrightarrow> m s = (r, t) \<Longrightarrow> r \<noteq> Panic \<and> I t"
  by (auto simp: safe_def)

section \<open>Loops over a collection\<close>

text \<open>A \<open>for\<close> loop whose body can return early with an error.\<close>

primrec for_each :: "'a list \<Rightarrow> ('a \<Rightarrow> ('s, 'e, unit) action) \<Rightarrow> ('s, 'e, unit) action" where
  "for_each [] f = ret ()"
| "for_each (x # xs) f = andthen (f x) (\<lambda>_. for_each xs f)"

lemma keeps_for_each [keeps_rules]: "(\<And>x. keeps I (f x)) \<Longrightarrow> keeps I (for_each xs f)"
  by (induction xs) (auto intro: keeps_rules)

lemma safe_for_each [safe_rules]: "(\<And>x. x \<in> set xs \<Longrightarrow> safe I (f x)) \<Longrightarrow> safe I (for_each xs f)"
  by (induction xs) (auto intro!: safe_rules)

lemma andthen_ret_left [simp]: "andthen (ret x) f = f x"
  by (simp add: fun_eq_iff)

lemma for_each_append: "for_each (xs @ ys) f = andthen (for_each xs f) (\<lambda>_. for_each ys f)"
  by (induction xs) (simp_all add: andthen_assoc)

section \<open>Unfolding actions\<close>

lemma case_bind_outcome:
  "(case bind_outcome m f of Ok x \<Rightarrow> k x | Err e \<Rightarrow> h e | Panic \<Rightarrow> p) =
     (case m of Ok y \<Rightarrow> (case f y of Ok x \<Rightarrow> k x | Err e \<Rightarrow> h e | Panic \<Rightarrow> p) | Err e \<Rightarrow> h e | Panic \<Rightarrow> p)"
  by (cases m) simp_all

lemma case_if_outcome:
  "(case (if b then r else r') of Ok x \<Rightarrow> k x | Err e \<Rightarrow> h e | Panic \<Rightarrow> p) =
     (if b then case r of Ok x \<Rightarrow> k x | Err e \<Rightarrow> h e | Panic \<Rightarrow> p
      else case r' of Ok x \<Rightarrow> k x | Err e \<Rightarrow> h e | Panic \<Rightarrow> p)"
  by simp

lemma if_action: "(if b then m else n) s = (if b then m s else n s)"
  by simp

lemma andthen_gets: "andthen (gets f) g s = g (f s) s"
  by (simp add: andthen_def)

lemma andthen_ret: "andthen (ret x) g s = g x s"
  by simp

lemma lift_outcome_Ok: "lift_outcome (\<lambda>_. Ok x) = ret x"
  by (simp add: fun_eq_iff)

lemma andthen_modify: "andthen (modify f) g = (\<lambda>s. g () (f s))"
  by (simp add: fun_eq_iff)

lemma andthen_cong_at: "m s = m' s \<Longrightarrow> andthen m f s = andthen m' f s"
  by (simp add: andthen_def)

end
