(* ===== verification/LD_Bytes.thy ===== *)
theory LD_Bytes
  imports LD_Prelude
begin

text \<open>
  Byte strings: the little- and big-endian encodings of machine words (\<open>to_le_bytes\<close>,
  \<open>from_le_bytes\<close>, \<open>to_be_bytes\<close>, \<open>from_be_bytes\<close>), range slices with their panics, in-place
  copies into a slice, and the checked addition of \<open>u64\<close>.
\<close>

section \<open>Word encodings\<close>

primrec to_le :: "nat \<Rightarrow> 'a::len word \<Rightarrow> bytes" where
  "to_le 0 w = []"
| "to_le (Suc n) w = ucast w # to_le n (drop_bit 8 w)"

primrec from_le :: "bytes \<Rightarrow> 'a::len word" where
  "from_le [] = 0"
| "from_le (b # bs) = ucast b OR push_bit 8 (from_le bs)"

definition to_be :: "nat \<Rightarrow> 'a::len word \<Rightarrow> bytes" where
  "to_be n w = rev (to_le n w)"

definition from_be :: "bytes \<Rightarrow> 'a::len word" where
  "from_be bs = from_le (rev bs)"

lemma length_to_le [simp]: "length (to_le n w) = n"
  by (induction n arbitrary: w) auto

lemma length_to_be [simp]: "length (to_be n w) = n"
  by (simp add: to_be_def)

lemma to_le_numeral [simp]:
  "to_le (numeral k) w = ucast w # to_le (pred_numeral k) (drop_bit 8 w)"
  by (simp add: numeral_eq_Suc)

lemma bit_from_le:
  "bit (from_le bs :: 'a::len word) i \<longleftrightarrow>
     i < LENGTH('a) \<and> i < 8 * length bs \<and> bit (bs ! (i div 8)) (i mod 8)"
proof (induction bs arbitrary: i)
  case Nil
  then show ?case by simp
next
  case (Cons b bs)
  show ?case
  proof (cases "i < 8")
    case True
    then show ?thesis
      by (auto simp: bit_simps)
  next
    case False
    then obtain j where j: "i = j + 8"
      by (metis add.commute le_Suc_ex not_less)
    moreover have "(j + 8) div 8 = Suc (j div 8)" by simp
    ultimately show ?thesis
      using Cons.IH [of j] by (auto simp: bit_simps dest: bit_imp_le_length)
  qed
qed

lemma nth_to_le: "i < n \<Longrightarrow> to_le n w ! i = ucast (drop_bit (8 * i) w)"
proof (induction n arbitrary: w i)
  case 0
  then show ?case by simp
next
  case (Suc n)
  then show ?case
    by (cases i) (auto simp: drop_bit_drop_bit add.commute)
qed

lemma bit_drop_8: "bit (ucast (drop_bit k w) :: u8) j \<longleftrightarrow> j < 8 \<and> bit w (k + j)"
  by (auto simp: bit_simps)

lemma from_le_to_le:
  assumes "LENGTH('a::len) \<le> 8 * n"
  shows "from_le (to_le n (w :: 'a word)) = w"
proof (rule bit_word_eqI)
  fix i
  assume "i < LENGTH('a)"
  with assms have "i div 8 < n" by auto
  with \<open>i < LENGTH('a)\<close> assms show "bit (from_le (to_le n w) :: 'a word) i = bit w i"
    by (auto simp: bit_from_le nth_to_le bit_drop_8)
qed

lemma to_le_from_le:
  assumes "8 * length bs \<le> LENGTH('a::len)"
  shows "to_le (length bs) (from_le bs :: 'a word) = bs"
proof (rule nth_equalityI)
  fix i
  assume i: "i < length (to_le (length bs) (from_le bs :: 'a word))"
  show "to_le (length bs) (from_le bs :: 'a word) ! i = bs ! i"
  proof (rule bit_word_eqI)
    fix j
    assume "j < LENGTH(8)"
    with i assms show "bit (to_le (length bs) (from_le bs :: 'a word) ! i) j = bit (bs ! i) j"
      by (auto simp: nth_to_le bit_drop_8 bit_from_le)
  qed
qed simp

lemma from_be_to_be: "LENGTH('a::len) \<le> 8 * n \<Longrightarrow> from_be (to_be n (w :: 'a word)) = w"
  by (simp add: from_be_def to_be_def from_le_to_le)

lemma to_be_from_be:
  "8 * length bs \<le> LENGTH('a::len) \<Longrightarrow> to_be (length bs) (from_be bs :: 'a word) = bs"
  using to_le_from_le [of "rev bs", where 'a = 'a] by (simp add: from_be_def to_be_def)

lemma from_le_to_le_u16 [simp]: "from_le (to_le 2 (w :: u16)) = w"
  and from_le_to_le_u32 [simp]: "from_le (to_le 4 (v :: u32)) = v"
  and from_le_to_le_u64 [simp]: "from_le (to_le 8 (u :: u64)) = u"
  by (rule from_le_to_le; simp)+

section \<open>Slices\<close>

text \<open>The slice \<open>&xs[a..b]\<close>, which panics unless \<open>a \<le> b \<le> xs.len()\<close>, and \<open>xs.get(a..b)\<close>.\<close>

definition get_range :: "'a list \<Rightarrow> nat \<Rightarrow> nat \<Rightarrow> 'a list option" where
  "get_range xs a b = (if a \<le> b \<and> b \<le> length xs then Some (take (b - a) (drop a xs)) else None)"

definition idx_range :: "'a list \<Rightarrow> nat \<Rightarrow> nat \<Rightarrow> ('e, 'a list) outcome" where
  "idx_range xs a b = (case get_range xs a b of None \<Rightarrow> Panic | Some ys \<Rightarrow> Ok ys)"

text \<open>\<open>xs[a..a + ys.len()].copy_from_slice(ys)\<close>.\<close>

definition splice :: "'a list \<Rightarrow> nat \<Rightarrow> 'a list \<Rightarrow> 'a list" where
  "splice xs a ys = take a xs @ ys @ drop (a + length ys) xs"

definition copy_into :: "'a list \<Rightarrow> nat \<Rightarrow> 'a list \<Rightarrow> ('e, 'a list) outcome" where
  "copy_into xs a ys = (if a + length ys \<le> length xs then Ok (splice xs a ys) else Panic)"

lemma idx_range_ok [simp]: "a \<le> b \<Longrightarrow> b \<le> length xs \<Longrightarrow> idx_range xs a b = Ok (take (b - a) (drop a xs))"
  by (simp add: idx_range_def get_range_def)

lemma idx_range_panic_iff: "idx_range xs a b = Panic \<longleftrightarrow> b < a \<or> length xs < b"
  by (auto simp: idx_range_def get_range_def)

lemma idx_range_not_Err [simp]: "idx_range xs a b \<noteq> Err e"
  by (simp add: idx_range_def split: option.splits)

lemma length_splice [simp]: "a + length ys \<le> length xs \<Longrightarrow> length (splice xs a ys) = length xs"
  by (simp add: splice_def)

lemma nth_splice:
  "a + length ys \<le> length xs \<Longrightarrow> i < length xs \<Longrightarrow>
     splice xs a ys ! i = (if a \<le> i \<and> i < a + length ys then ys ! (i - a) else xs ! i)"
  by (auto simp: splice_def nth_append)

lemma take_drop_splice_same [simp]:
  "a + length ys \<le> length xs \<Longrightarrow> take (length ys) (drop a (splice xs a ys)) = ys"
  by (simp add: splice_def)

lemma take_drop_splice_disjoint:
  assumes "a + length ys \<le> length xs" and "b + n \<le> a \<or> a + length ys \<le> b" and "b + n \<le> length xs"
  shows "take n (drop b (splice xs a ys)) = take n (drop b xs)"
  using assms by (intro nth_equalityI) (auto simp: nth_splice)

section \<open>Checked addition\<close>

definition checked_add :: "u64 \<Rightarrow> u64 \<Rightarrow> u64 option" where
  "checked_add a b = (if unat a + unat b < 2 ^ 64 then Some (a + b) else None)"

lemma checked_add_Some_iff:
  "checked_add a b = Some c \<longleftrightarrow> unat a + unat b < 2 ^ 64 \<and> c = a + b"
  by (auto simp: checked_add_def)

lemma unat_add_no_overflow:
  fixes a b :: "'a::len word"
  shows "unat a + unat b < 2 ^ LENGTH('a) \<Longrightarrow> unat (a + b) = unat a + unat b"
  by (simp add: unat_word_ariths)

lemma unat_u64_less: "unat (a :: u64) < 2 ^ 64"
  using unsigned_less [of a, where 'a = nat] by simp

lemma unat_ucast_up:
  fixes x :: "'b::len word"
  assumes "LENGTH('b) \<le> LENGTH('a::len)"
  shows "unat (ucast x :: 'a word) = unat x"
proof -
  have "unat x < 2 ^ LENGTH('b)"
    by (rule unsigned_less)
  also have "(2::nat) ^ LENGTH('b) \<le> 2 ^ LENGTH('a)"
    using assms by simp
  finally show ?thesis
    by (simp add: unsigned_ucast_eq take_bit_nat_eq_self_iff)
qed

lemma unat_of_nat_u64: "n < 2 ^ 64 \<Longrightarrow> unat (of_nat n :: u64) = n"
  by (simp add: unat_of_nat take_bit_nat_eq_self_iff)

lemma unat_add_of_nat: "unat (a :: u64) + n < 2 ^ 64 \<Longrightarrow> unat (a + of_nat n) = unat a + n"
  by (subst unat_add_no_overflow) (simp_all add: unat_of_nat_u64)

lemma unat_of_nat_u32: "n < 2 ^ 32 \<Longrightarrow> unat (of_nat n :: u32) = n"
  by (simp add: unat_of_nat take_bit_nat_eq_self_iff)

lemma take_length_append: "length xs = n \<Longrightarrow> take n (xs @ ys) = xs"
  by simp

end
