(* ===== verification/LD_Text.thy ===== *)
theory LD_Text
  imports LD_Bytes
begin

text \<open>
  The parts of Rust's \<open>str\<close> that the program uses.  A \<open>string\<close> is the UTF-8 byte sequence of a
  Rust string, one \<open>char\<close> per byte, so \<open>as_bytes\<close> is a re-reading of the same list.  Operations that
  Rust defines on Unicode scalar values (white space, replacement of invalid sequences) are
  written on the byte encodings of those values.
\<close>

section \<open>Bytes and strings\<close>

definition as_bytes :: "string \<Rightarrow> bytes" where
  "as_bytes s = map of_char s"

definition of_bytes :: "bytes \<Rightarrow> string" where
  "of_bytes bs = map (\<lambda>b. char_of (unat b)) bs"

lemma length_as_bytes [simp]: "length (as_bytes s) = length s"
  by (simp add: as_bytes_def)

lemma unat_of_char [simp]: "unat (of_char c :: u8) = (of_char c :: nat)"
proof -
  have "(of_char c :: u8) = of_nat (of_char c)"
    by (metis of_nat_of_char)
  moreover have "(of_char c :: nat) < 2 ^ LENGTH(8)"
    using nat_of_char_less_256 [of c] by simp
  ultimately show ?thesis
    by (simp add: unat_of_nat take_bit_nat_eq_self_iff del: of_nat_of_char)
qed

lemma of_bytes_as_bytes [simp]: "of_bytes (as_bytes s) = s"
  by (induction s) (simp_all add: as_bytes_def of_bytes_def)

section \<open>Decimal and hexadecimal text\<close>

definition digit_char :: "nat \<Rightarrow> char" where
  "digit_char d = (if d < 10 then char_of (48 + d) else char_of (87 + d))"

fun show_radix :: "nat \<Rightarrow> nat \<Rightarrow> string" where
  "show_radix r n = (if r < 2 \<or> n < r then [digit_char n]
     else show_radix r (n div r) @ [digit_char (n mod r)])"

declare show_radix.simps [simp del]

text \<open>\<open>format!("{}", n)\<close> and \<open>format!("{:#x}", n)\<close> of an unsigned integer.\<close>

definition show_nat :: "nat \<Rightarrow> string" where
  "show_nat n = show_radix 10 n"

definition show_hex :: "nat \<Rightarrow> string" where
  "show_hex n = ''0x'' @ show_radix 16 n"

definition is_digit :: "char \<Rightarrow> bool" where
  "is_digit c \<longleftrightarrow> 48 \<le> (of_char c :: nat) \<and> (of_char c :: nat) \<le> 57"

definition digit_val :: "char \<Rightarrow> nat" where
  "digit_val c = of_char c - 48"

text \<open>
  \<open>str::parse\<close> for an unsigned integer below \<open>bound\<close>: an optional leading \<open>+\<close>, then at least one
  digit; any other byte or an overflow is an error.
\<close>

fun parse_digits :: "nat \<Rightarrow> nat \<Rightarrow> string \<Rightarrow> nat option" where
  "parse_digits bound acc [] = Some acc"
| "parse_digits bound acc (c # cs) =
     (if is_digit c \<and> acc * 10 + digit_val c < bound
      then parse_digits bound (acc * 10 + digit_val c) cs else None)"

definition parse_uint :: "nat \<Rightarrow> string \<Rightarrow> nat option" where
  "parse_uint bound s = (case s of
      [] \<Rightarrow> None
    | c # cs \<Rightarrow> (if c = CHR ''+'' then (if cs = [] then None else parse_digits bound 0 cs)
                else parse_digits bound 0 s))"

lemma digit_char_decimal:
  assumes "d < 10"
  shows "is_digit (digit_char d)" and "digit_val (digit_char d) = d" and "digit_char d \<noteq> CHR ''+''"
proof -
  have c: "(of_char (digit_char d) :: nat) = 48 + d"
    using assms by (simp add: digit_char_def)
  then show "is_digit (digit_char d)" and "digit_val (digit_char d) = d"
    using assms by (simp_all add: is_digit_def digit_val_def)
  show "digit_char d \<noteq> CHR ''+''"
  proof
    assume "digit_char d = CHR ''+''"
    then have "(of_char (digit_char d) :: nat) = 43" by simp
    with c show False by simp
  qed
qed

lemma show_radix_digits: "\<forall>c \<in> set (show_radix 10 n). is_digit c \<and> c \<noteq> CHR ''+''"
proof (induction "10 :: nat" n rule: show_radix.induct)
  case (1 n)
  then show ?case
    by (subst show_radix.simps) (auto simp: digit_char_decimal)
qed

lemma show_radix_not_Nil [simp]: "show_radix r n \<noteq> []"
  by (subst show_radix.simps) simp

lemma parse_digits_append:
  "parse_digits bound acc (xs @ ys) =
     (case parse_digits bound acc xs of None \<Rightarrow> None | Some a \<Rightarrow> parse_digits bound a ys)"
  by (induction xs arbitrary: acc) auto

lemma parse_digits_show: "n < bound \<Longrightarrow> parse_digits bound 0 (show_radix 10 n) = Some n"
proof (induction "10 :: nat" n rule: show_radix.induct)
  case (1 n)
  show ?case
  proof (cases "n < 10")
    case True
    with "1.prems" show ?thesis
      by (subst show_radix.simps) (simp add: digit_char_decimal)
  next
    case False
    with 1 have "parse_digits bound 0 (show_radix 10 (n div 10)) = Some (n div 10)" by simp
    with False "1.prems" show ?thesis
      by (subst show_radix.simps) (simp add: digit_char_decimal parse_digits_append)
  qed
qed

lemma parse_show_nat: "n < bound \<Longrightarrow> parse_uint bound (show_nat n) = Some n"
proof -
  assume n: "n < bound"
  obtain c cs where s: "show_radix 10 n = c # cs"
    by (cases "show_radix 10 n") auto
  moreover have "c \<noteq> CHR ''+''"
    using show_radix_digits [of n] s by auto
  ultimately show ?thesis
    using parse_digits_show [OF n] by (simp add: parse_uint_def show_nat_def)
qed

section \<open>Splitting and trimming\<close>

definition starts_with :: "string \<Rightarrow> string \<Rightarrow> bool" where
  "starts_with s p \<longleftrightarrow> take (length p) s = p"

definition strip_prefix :: "string \<Rightarrow> string \<Rightarrow> string option" where
  "strip_prefix s p = (if starts_with s p then Some (drop (length p) s) else None)"

fun contains :: "string \<Rightarrow> string \<Rightarrow> bool" where
  "contains [] p = (p = [])"
| "contains (c # cs) p = (starts_with (c # cs) p \<or> contains cs p)"

fun split_once :: "char \<Rightarrow> string \<Rightarrow> (string \<times> string) option" where
  "split_once d [] = None"
| "split_once d (c # cs) = (if c = d then Some ([], cs)
     else map_option (\<lambda>(a, b). (c # a, b)) (split_once d cs))"

text \<open>
  \<open>str::lines\<close>: cut after every line feed, drop the line feed and a carriage return before it; a
  last line without a line feed keeps its carriage return.
\<close>

definition strip_cr :: "string \<Rightarrow> string" where
  "strip_cr s = (if s \<noteq> [] \<and> last s = CHR 0x0D then butlast s else s)"

fun lines_acc :: "string \<Rightarrow> string \<Rightarrow> string list" where
  "lines_acc cur [] = (if cur = [] then [] else [rev cur])"
| "lines_acc cur (c # cs) =
     (if c = CHR 0x0A then strip_cr (rev cur) # lines_acc [] cs else lines_acc (c # cur) cs)"

definition lines :: "string \<Rightarrow> string list" where
  "lines s = lines_acc [] s"

text \<open>The UTF-8 encodings of the code points with the Unicode property \<open>White_Space\<close>.\<close>

definition white_space :: "string list" where
  "white_space = map (\<lambda>n. [char_of n]) [9, 10, 11, 12, 13, 32 :: nat]
     @ map (map char_of) ([[0xC2, 0x85], [0xC2, 0xA0], [0xE1, 0x9A, 0x80]]
     @ map (\<lambda>n. [0xE2, 0x80, n]) ([0x80..<0x8B] @ [0xA8, 0xA9, 0xAF])
     @ [[0xE2, 0x81, 0x9F], [0xE3, 0x80, 0x80 :: nat]])"

lemma white_space_code [code]: "white_space =
    [[CHR 0x09], [CHR 0x0A], [CHR 0x0B], [CHR 0x0C], [CHR 0x0D], [CHR 0x20], [CHR 0xC2, CHR 0x85], [CHR
     0xC2, CHR 0xA0], [CHR 0xE1, CHR 0x9A, CHR 0x80], [CHR 0xE2, CHR 0x80, CHR 0x80], [CHR 0xE2, CHR
     0x80, CHR 0x81], [CHR 0xE2, CHR 0x80, CHR 0x82], [CHR 0xE2, CHR 0x80, CHR 0x83], [CHR 0xE2, CHR
     0x80, CHR 0x84], [CHR 0xE2, CHR 0x80, CHR 0x85], [CHR 0xE2, CHR 0x80, CHR 0x86], [CHR 0xE2, CHR
     0x80, CHR 0x87], [CHR 0xE2, CHR 0x80, CHR 0x88], [CHR 0xE2, CHR 0x80, CHR 0x89], [CHR 0xE2, CHR
     0x80, CHR 0x8A], [CHR 0xE2, CHR 0x80, CHR 0xA8], [CHR 0xE2, CHR 0x80, CHR 0xA9], [CHR 0xE2, CHR
     0x80, CHR 0xAF], [CHR 0xE2, CHR 0x81, CHR 0x9F], [CHR 0xE3, CHR 0x80, CHR 0x80]]"
  by code_simp

definition ws_prefix :: "string \<Rightarrow> nat" where
  "ws_prefix s = (case find (starts_with s) white_space of None \<Rightarrow> 0 | Some w \<Rightarrow> length w)"

fun trim_start :: "string \<Rightarrow> string" where
  "trim_start [] = []"
| "trim_start (c # cs) =
     (case ws_prefix (c # cs) of 0 \<Rightarrow> c # cs | Suc n \<Rightarrow> trim_start (drop n cs))"

fun trim_end_rev :: "string \<Rightarrow> string" where
  "trim_end_rev [] = []"
| "trim_end_rev (c # cs) =
     (case find (\<lambda>w. starts_with (c # cs) (rev w)) white_space of
        None \<Rightarrow> c # cs | Some w \<Rightarrow> trim_end_rev (drop (length w - 1) cs))"

definition trim :: "string \<Rightarrow> string" where
  "trim s = rev (trim_end_rev (rev (trim_start s)))"

fun split_ws_acc :: "string \<Rightarrow> string \<Rightarrow> string list" where
  "split_ws_acc cur [] = (if cur = [] then [] else [rev cur])"
| "split_ws_acc cur (c # cs) =
     (case ws_prefix (c # cs) of
        0 \<Rightarrow> split_ws_acc (c # cur) cs
      | Suc n \<Rightarrow> (if cur = [] then [] else [rev cur]) @ split_ws_acc [] (drop n cs))"

definition split_whitespace :: "string \<Rightarrow> string list" where
  "split_whitespace s = split_ws_acc [] s"

section \<open>Lossy decoding\<close>

text \<open>
  \<open>String::from_utf8_lossy\<close>: every maximal prefix of an ill-formed sequence is replaced by the
  encoding of U+FFFD.  \<open>utf8_step bs\<close> is the length of the next unit and whether it is well
  formed, following the table of Unicode 3.9.
\<close>

definition cont :: "u8 \<Rightarrow> bool" where
  "cont b \<longleftrightarrow> 0x80 \<le> b \<and> b \<le> 0xBF"

definition second_ok :: "u8 \<Rightarrow> u8 \<Rightarrow> bool" where
  "second_ok a b \<longleftrightarrow>
     (if a = 0xE0 then 0xA0 \<le> b \<and> b \<le> 0xBF
      else if a = 0xED then 0x80 \<le> b \<and> b \<le> 0x9F
      else if a = 0xF0 then 0x90 \<le> b \<and> b \<le> 0xBF
      else if a = 0xF4 then 0x80 \<le> b \<and> b \<le> 0x8F
      else cont b)"

definition utf8_width :: "u8 \<Rightarrow> nat" where
  "utf8_width a = (if a < 0x80 then 1 else if 0xC2 \<le> a \<and> a \<le> 0xDF then 2
     else if 0xE0 \<le> a \<and> a \<le> 0xEF then 3 else if 0xF0 \<le> a \<and> a \<le> 0xF4 then 4 else 0)"

fun utf8_step :: "bytes \<Rightarrow> nat \<times> bool" where
  "utf8_step [] = (0, True)"
| "utf8_step (a # bs) = (case utf8_width a of
      0 \<Rightarrow> (1, False)
    | Suc 0 \<Rightarrow> (1, True)
    | Suc (Suc w) \<Rightarrow>
       (case bs of [] \<Rightarrow> (1, False) | b # cs \<Rightarrow>
          if \<not> second_ok a b then (1, False)
          else if w = 0 then (2, True)
          else (case cs of [] \<Rightarrow> (2, False) | c # ds \<Rightarrow>
             if \<not> cont c then (2, False)
             else if w = 1 then (3, True)
             else (case ds of [] \<Rightarrow> (3, False) | d # _ \<Rightarrow>
                if cont d then (4, True) else (3, False)))))"

function lossy :: "bytes \<Rightarrow> bytes" where
  "lossy bs = (if bs = [] then []
     else (case utf8_step bs of (n, well_formed) \<Rightarrow>
       (if well_formed then take n bs else [0xEF, 0xBF, 0xBD]) @ lossy (drop (max 1 n) bs)))"
  by pat_completeness auto
termination
  by (relation "measure length") auto

declare lossy.simps [simp del]

definition from_utf8_lossy :: "bytes \<Rightarrow> string" where
  "from_utf8_lossy bs = of_bytes (lossy bs)"

lemma lossy_ascii: "\<forall>b \<in> set bs. b < 0x80 \<Longrightarrow> lossy bs = bs"
proof (induction bs)
  case Nil
  show ?case by (simp add: lossy.simps)
next
  case (Cons b bs)
  then have "utf8_step (b # bs) = (1, True)" by (simp add: utf8_width_def)
  with Cons show ?case by (subst lossy.simps) simp
qed

definition ascii :: "string \<Rightarrow> bool" where
  "ascii s \<longleftrightarrow> list_all (\<lambda>c. (of_char c :: nat) < 128) s"

lemma lossy_as_bytes: "ascii s \<Longrightarrow> lossy (as_bytes s) = as_bytes s"
  by (rule lossy_ascii) (auto simp: as_bytes_def ascii_def list_all_iff word_less_nat_alt)

lemma from_utf8_lossy_ascii: "ascii s \<Longrightarrow> from_utf8_lossy (as_bytes s) = s"
  by (simp add: from_utf8_lossy_def lossy_as_bytes)

text \<open>\<open>String::from_utf8\<close>: lossy decoding changes a byte sequence exactly when it is ill formed.\<close>

definition from_utf8 :: "bytes \<Rightarrow> string option" where
  "from_utf8 bs = (if lossy bs = bs then Some (of_bytes bs) else None)"

lemma from_utf8_ascii: "ascii s \<Longrightarrow> from_utf8 (as_bytes s) = Some s"
  by (simp add: from_utf8_def lossy_as_bytes)

section \<open>Joining\<close>

fun join :: "string \<Rightarrow> string list \<Rightarrow> string" where
  "join sep [] = []"
| "join sep [s] = s"
| "join sep (s # t # ts) = s @ sep @ join sep (t # ts)"

text \<open>The line feed, the double quote and the em dash (U+2014 in UTF-8), which string literals lack.\<close>

definition nl :: string where "nl = [char_of (10 :: nat)]"
definition dquote :: string where "dquote = [char_of (34 :: nat)]"
definition em_dash :: string where "em_dash = map char_of [0xE2 :: nat, 0x80, 0x94]"

end
