(* ===== verification/LD_Core.thy ===== *)
theory LD_Core
  imports LD_Text
begin

text \<open>
  The crate \<^verbatim>\<open>crates/core\<close>: its constants, the error type every crate returns, the data types of a
  device and the validation of a device configuration.  The file \<^verbatim>\<open>metrics.rs\<close> (plain counters with
  floating-point fields, no operations) is left out.  A \<open>Uuid\<close> stands for its canonical text, an
  \<open>io::Error\<close> for the text it displays, and a path for its text.
\<close>

named_theorems core_consts \<open>the constants of the core crate, unfolded\<close>

type_synonym uuid = string
type_synonym io_error = string
type_synonym path = string
type_synonym i32 = "32 word"

section \<open>constants.rs\<close>

definition DEFAULT_VCPU_COUNT :: u32 where [core_consts]: "DEFAULT_VCPU_COUNT = 4"
definition DEFAULT_RAM_MB :: u64 where [core_consts]: "DEFAULT_RAM_MB = 2048"
definition MIN_RAM_MB :: u64 where [core_consts]: "MIN_RAM_MB = 512"
definition MAX_RAM_MB :: u64 where [core_consts]: "MAX_RAM_MB = 8192"
definition KERNEL_LOAD_ADDR :: u64 where [core_consts]: "KERNEL_LOAD_ADDR = 0x100000"
definition INITRAMFS_LOAD_ADDR :: u64 where [core_consts]: "INITRAMFS_LOAD_ADDR = 0x8000000"
definition DEVICE_TREE_ADDR :: u64 where [core_consts]: "DEVICE_TREE_ADDR = 0x40000000"
definition VIRTIO_MMIO_START :: u64 where [core_consts]: "VIRTIO_MMIO_START = 0xfea00000"
definition VIRTIO_MMIO_SIZE :: u64 where [core_consts]: "VIRTIO_MMIO_SIZE = 0x200"
definition MAX_VIRTIO_DEVICES :: nat where [core_consts]: "MAX_VIRTIO_DEVICES = 16"
definition SERIAL_IO_BASE :: u16 where [core_consts]: "SERIAL_IO_BASE = 0x3f8"
definition DAEMON_SOCKET_PATH :: string where "DAEMON_SOCKET_PATH = ''/tmp/litedroid-daemon.sock''"
definition DAEMON_PID_PATH :: string where "DAEMON_PID_PATH = ''/tmp/litedroid-daemon.pid''"
definition DEFAULT_DATA_DIR :: string where "DEFAULT_DATA_DIR = ''~/.local/share/litedroid''"
definition DEFAULT_CONFIG_DIR :: string where "DEFAULT_CONFIG_DIR = ''~/.config/litedroid''"
definition ADB_PORT :: u16 where [core_consts]: "ADB_PORT = 5555"
definition TAP_IFACE_PREFIX :: string where "TAP_IFACE_PREFIX = ''litedroid-tap''"
definition IPC_PROTOCOL_VERSION :: u32 where [core_consts]: "IPC_PROTOCOL_VERSION = 1"
definition DEFAULT_KERNEL_CMDLINE :: string where
  "DEFAULT_KERNEL_CMDLINE = ''console=ttyS0 '' @ ''androidboot.hardware=litedroid ''
     @ ''androidboot.serialno=LITEDROID001 '' @ ''androidboot.mode=normal ''
     @ ''root=/dev/ram0 rw init=/init''"

section \<open>error.rs\<close>

datatype LiteDroidError =
    KvmUnavailable string
  | KvmIoctl string
  | VmCreationFailed string
  | VcpuCreationFailed u32 string
  | VcpuRunFailed u32 string
  | MemoryAllocationFailed u64 u64
  | MemoryMapFailed string
  | GuestAddressOutOfRange u64
  | DiskImageNotFound path
  | DiskIo string
  | KernelNotFound path
  | InitramfsNotFound path
  | KernelLoadFailed string
  | SystemImageNotFound path
  | AdbConnectionFailed string
  | AdbProtocolError string
  | AdbCommandFailed string
  | DisplayInitFailed string
  | AudioInitFailed string
  | NetworkInterfaceFailed string
  | NatSetupFailed string
  | InputError string
  | IpcConnectionFailed string
  | IpcProtocolError string
  | DaemonNotRunning string
  | DaemonStartFailed string
  | ConfigError string
  | DeviceNotFound string
  | DeviceAlreadyExists string
  | ApkNotFound path
  | ApkInstallFailed string
  | ApkLaunchFailed string string
  | AbiMismatch string string
  | SnapshotError string
  | PermissionDenied string
  | OsError io_error
  | NotImplemented string
  | Unavailable string

text \<open>The \<open>Display\<close> text that the \<open>#[error(..)]\<close> attributes give each variant.\<close>

fun error_text :: "LiteDroidError \<Rightarrow> string" where
  "error_text (KvmUnavailable m) = ''KVM unavailable: '' @ m"
| "error_text (KvmIoctl m) = ''KVM ioctl error: '' @ m"
| "error_text (VmCreationFailed m) = ''VM creation failed: '' @ m"
| "error_text (VcpuCreationFailed i r) =
     ''vCPU creation failed (cpu_index='' @ show_nat (unat i) @ ''): '' @ r"
| "error_text (VcpuRunFailed i r) =
     ''vCPU run failed (cpu_index='' @ show_nat (unat i) @ ''): '' @ r"
| "error_text (MemoryAllocationFailed r a) =
     ''Memory allocation failed: requested '' @ show_nat (unat r) @ ''MB, available ''
       @ show_nat (unat a) @ ''MB''"
| "error_text (MemoryMapFailed m) = ''Memory map failed: '' @ m"
| "error_text (GuestAddressOutOfRange a) = ''Guest address out of range: '' @ show_hex (unat a)"
| "error_text (DiskImageNotFound p) = ''Disk image not found: '' @ p"
| "error_text (DiskIo m) = ''Disk I/O error: '' @ m"
| "error_text (KernelNotFound p) = ''Kernel not found: '' @ p"
| "error_text (InitramfsNotFound p) = ''Initramfs not found: '' @ p"
| "error_text (KernelLoadFailed m) = ''Kernel load failed: '' @ m"
| "error_text (SystemImageNotFound p) = ''System image not found: '' @ p"
| "error_text (AdbConnectionFailed m) = ''ADB connection failed: '' @ m"
| "error_text (AdbProtocolError m) = ''ADB protocol error: '' @ m"
| "error_text (AdbCommandFailed m) = ''ADB command failed: '' @ m"
| "error_text (DisplayInitFailed m) = ''Display initialization failed: '' @ m"
| "error_text (AudioInitFailed m) = ''Audio initialization failed: '' @ m"
| "error_text (NetworkInterfaceFailed m) = ''Network interface failed: '' @ m"
| "error_text (NatSetupFailed m) = ''NAT setup failed: '' @ m"
| "error_text (InputError m) = ''Input error: '' @ m"
| "error_text (IpcConnectionFailed m) = ''IPC connection failed: '' @ m"
| "error_text (IpcProtocolError m) = ''IPC protocol error: '' @ m"
| "error_text (DaemonNotRunning m) = ''Daemon not running: '' @ m"
| "error_text (DaemonStartFailed m) = ''Daemon start failed: '' @ m"
| "error_text (ConfigError m) = ''Configuration error: '' @ m"
| "error_text (DeviceNotFound m) = ''Device not found: '' @ m"
| "error_text (DeviceAlreadyExists m) = ''Device already exists: '' @ m"
| "error_text (ApkNotFound p) = ''APK not found: '' @ p"
| "error_text (ApkInstallFailed m) = ''APK install failed: '' @ m"
| "error_text (ApkLaunchFailed p r) = ''APK launch failed (package='' @ p @ ''): '' @ r"
| "error_text (AbiMismatch r p) = ''ABI mismatch: required='' @ r @ '', provided='' @ p"
| "error_text (SnapshotError m) = ''Snapshot error: '' @ m"
| "error_text (PermissionDenied m) = ''Permission denied: '' @ m"
| "error_text (OsError e) = ''OS error: '' @ e"
| "error_text (NotImplemented m) = ''Not implemented: '' @ m"
| "error_text (Unavailable m) = ''Unavailable: '' @ m"

type_synonym 'a ld_result = "(LiteDroidError, 'a) outcome"

text \<open>The \<open>?\<close> operator on an \<open>io::Error\<close>.\<close>

definition os_error :: "('s, io_error, 'a) action \<Rightarrow> ('s, LiteDroidError, 'a) action" where
  "os_error m = (\<lambda>s. case m s of (r, s') \<Rightarrow> (map_err OsError r, s'))"

lemma os_error_Ok [simp]: "m s = (Ok x, t) \<Longrightarrow> os_error m s = (Ok x, t)"
  by (simp add: os_error_def)

lemma os_error_eq_Ok: "os_error m s = (Ok x, t) \<longleftrightarrow> m s = (Ok x, t)"
  by (auto simp: os_error_def split: prod.splits)

lemma os_error_no_panic [simp]: "fst (os_error m s) = Panic \<longleftrightarrow> fst (m s) = Panic"
  by (simp add: os_error_def split: prod.splits)

lemma snd_os_error [simp]: "snd (os_error m s) = snd (m s)"
  by (simp add: os_error_def split: prod.splits)

section \<open>types.rs\<close>

datatype Architecture = Arch_X86_64 | Aarch64

fun architecture_text :: "Architecture \<Rightarrow> string" where
  "architecture_text Arch_X86_64 = ''x86_64''"
| "architecture_text Aarch64 = ''aarch64''"

datatype PowerState = Off | Starting | Running | Pausing | Paused | Resuming | Stopping | PowerError

fun power_state_text :: "PowerState \<Rightarrow> string" where
  "power_state_text Off = ''off''"
| "power_state_text Starting = ''starting''"
| "power_state_text Running = ''running''"
| "power_state_text Pausing = ''pausing''"
| "power_state_text Paused = ''paused''"
| "power_state_text Resuming = ''resuming''"
| "power_state_text Stopping = ''stopping''"
| "power_state_text PowerError = ''error''"

datatype BootMode = Cold | Fast

datatype AndroidAbi = Abi_X86_64 | Arm64V8a | ArmeabiV7a

fun android_abi_text :: "AndroidAbi \<Rightarrow> string" where
  "android_abi_text Abi_X86_64 = ''x86_64''"
| "android_abi_text Arm64V8a = ''arm64-v8a''"
| "android_abi_text ArmeabiV7a = ''armeabi-v7a''"

record DisplayConfig =
  width :: u32
  height :: u32
  dpi :: u32
  refresh_rate :: u32

definition display_config_default :: DisplayConfig where
  "display_config_default = \<lparr>width = 1080, height = 1920, dpi = 420, refresh_rate = 60\<rparr>"

datatype PortProtocol = Tcp | Udp

record PortForward =
  host_port :: u16
  guest_port :: u16
  protocol :: PortProtocol

record NetworkConfig =
  net_enabled :: bool
  port_forwards :: "PortForward list"
  guest_ip :: string
  gateway_ip :: string

definition network_config_default :: NetworkConfig where
  "network_config_default =
     \<lparr>net_enabled = True, port_forwards = [], guest_ip = ''10.0.2.15'', gateway_ip = ''10.0.2.2''\<rparr>"

record AudioConfig =
  audio_enabled :: bool
  backend :: string
  cfg_sample_rate :: u32
  cfg_channels :: u32

definition audio_config_default :: AudioConfig where
  "audio_config_default =
     \<lparr>audio_enabled = True, backend = ''pulseaudio'', cfg_sample_rate = 48000, cfg_channels = 2\<rparr>"

record StorageConfig =
  userdata_path :: string
  userdata_size_mb :: u64
  cache_path :: string
  cache_size_mb :: u64

definition storage_config_default :: StorageConfig where
  "storage_config_default =
     \<lparr>userdata_path = [], userdata_size_mb = 4096, cache_path = [], cache_size_mb = 1024\<rparr>"

record SnapshotInfo =
  snap_name :: string
  created_at :: string
  snap_size_bytes :: u64
  snap_boot_mode :: BootMode
  description :: string

record ApkInfo =
  package_name :: string
  version_name :: string
  version_code :: u32
  min_sdk :: u32
  target_sdk :: u32
  abis :: "AndroidAbi list"
  permissions :: "string list"
  apk_size_bytes :: u64

record Point =
  point_x :: i32
  point_y :: i32

datatype MouseButton = MouseLeft | MouseRight | MouseMiddle

datatype AndroidButton = Back | Home | Recent | Power | VolumeUp | VolumeDown

datatype InputEvent =
    MouseDown MouseButton i32 i32
  | MouseUp MouseButton i32 i32
  | MouseMove i32 i32
  | KeyDown u32
  | KeyUp u32
  | TouchStart u32 i32 i32
  | TouchMove u32 i32 i32
  | TouchEnd u32
  | AndroidButtonEvent AndroidButton

section \<open>device.rs\<close>

datatype DeviceProfile = Minimal | Developer | Compatibility

record DeviceConfig =
  dev_name :: string
  dev_id :: uuid
  architecture :: Architecture
  vcpu_count :: u32
  ram_mb :: u64
  display :: DisplayConfig
  network :: NetworkConfig
  audio :: AudioConfig
  storage :: StorageConfig
  kernel_path :: path
  initramfs_path :: path
  system_image_path :: path
  dtb_path :: "path option"
  supported_abis :: "AndroidAbi list"
  kernel_cmdline :: string
  android_version :: string
  api_level :: u32
  profile :: DeviceProfile

text \<open>The fresh identifier of \<open>Uuid::new_v4()\<close> is the argument.\<close>

definition device_config_default :: "uuid \<Rightarrow> DeviceConfig" where
  "device_config_default new_v4 =
     \<lparr>dev_name = ''LiteDroid'',
      dev_id = new_v4,
      architecture = Arch_X86_64,
      vcpu_count = DEFAULT_VCPU_COUNT,
      ram_mb = DEFAULT_RAM_MB,
      display = display_config_default,
      network = network_config_default,
      audio = audio_config_default,
      storage = storage_config_default,
      kernel_path = [],
      initramfs_path = [],
      system_image_path = [],
      dtb_path = None,
      supported_abis = [Abi_X86_64],
      kernel_cmdline = DEFAULT_KERNEL_CMDLINE,
      android_version = ''14'',
      api_level = 34,
      profile = Developer\<rparr>"

definition validate :: "DeviceConfig \<Rightarrow> unit ld_result" where
  "validate c =
     (if ram_mb c < MIN_RAM_MB then
        Err (ConfigError (''RAM '' @ show_nat (unat (ram_mb c)) @ ''MB is below the minimum of ''
          @ show_nat (unat MIN_RAM_MB) @ ''MB''))
      else if ram_mb c > MAX_RAM_MB then
        Err (ConfigError (''RAM '' @ show_nat (unat (ram_mb c)) @ ''MB exceeds the maximum of ''
          @ show_nat (unat MAX_RAM_MB) @ ''MB''))
      else if vcpu_count c = 0 then Err (ConfigError ''vCPU count must be at least 1'')
      else if supported_abis c = [] then Err (ConfigError ''At least one ABI must be specified'')
      else Ok ())"

record DeviceState =
  st_id :: uuid
  st_name :: string
  st_power_state :: PowerState
  st_boot_mode :: BootMode
  st_pid :: "u32 option"
  uptime_secs :: u64
  st_config :: DeviceConfig

record DeviceInfo =
  info_id :: uuid
  info_name :: string
  info_power_state :: PowerState
  info_architecture :: Architecture
  info_vcpu_count :: u32
  info_ram_mb :: u64
  info_android_version :: string
  info_api_level :: u32

definition device_info_from :: "DeviceState \<Rightarrow> DeviceInfo" where
  "device_info_from s =
     \<lparr>info_id = st_id s,
      info_name = st_name s,
      info_power_state = st_power_state s,
      info_architecture = architecture (st_config s),
      info_vcpu_count = vcpu_count (st_config s),
      info_ram_mb = ram_mb (st_config s),
      info_android_version = android_version (st_config s),
      info_api_level = api_level (st_config s)\<rparr>"

section \<open>Validated configurations\<close>

lemma validate_Ok_iff:
  "validate c = Ok () \<longleftrightarrow>
     512 \<le> unat (ram_mb c) \<and> unat (ram_mb c) \<le> 8192 \<and> vcpu_count c \<noteq> 0 \<and> supported_abis c \<noteq> []"
  by (auto simp: validate_def core_consts word_less_nat_alt word_le_nat_alt not_less)

lemma validate_not_Panic [simp]: "validate c \<noteq> Panic"
  by (simp add: validate_def)

definition mem_size_of :: "DeviceConfig \<Rightarrow> u64" where
  "mem_size_of c = ram_mb c * 1024 * 1024"

lemma unat_mem_size_of:
  assumes "validate c = Ok ()"
  shows "unat (mem_size_of c) = unat (ram_mb c) * 1048576"
proof -
  from assms have "unat (ram_mb c) \<le> 8192" by (simp add: validate_Ok_iff)
  then have "unat (ram_mb c) * 1048576 < 2 ^ 64" by simp
  moreover have "mem_size_of c = of_nat (unat (ram_mb c) * 1048576)"
    by (simp add: mem_size_of_def)
  ultimately show ?thesis
    by (metis unat_of_nat_u64)
qed

text \<open>Names, messages and power states survive their textual form.\<close>

lemma power_state_text_inj: "power_state_text a = power_state_text b \<Longrightarrow> a = b"
  by (cases a; cases b) auto

end
