(* ===== verification/LD_Kvm.thy ===== *)
theory LD_Kvm
  imports LD_Core "HOL-Library.AList" "HOL-Library.Char_ord" "HOL-Library.List_Lexorder"
    "HOL-Library.Multiset"
begin

text \<open>
  The crate \<^verbatim>\<open>crates/kvm\<close>: CPUID filtering (\<^verbatim>\<open>cpuid.rs\<close>), the capability table and the wrappers
  \<open>Hypervisor\<close>, \<open>Vm\<close> and \<open>Vcpu\<close> around the \<open>kvm_ioctls\<close> crate.  That crate is the parameter \<open>kvm_api\<close>, one
  function per ioctl over a state \<open>'k\<close> of the kernel.  Every wrapper records the ioctl it issues in a
  trace, so that the order of calls can be stated without assuming anything about the kernel.
\<close>

section \<open>cpuid.rs\<close>

record cpuid_entry =
  cp_function :: u32
  cp_index :: u32
  cp_flags :: u32
  eax :: u32
  ebx :: u32
  ecx :: u32
  edx :: u32

definition KVM_CPUID_SIGNATURE :: bytes where
  "KVM_CPUID_SIGNATURE = as_bytes ''KVMKVMKVM'' @ [0, 0, 0]"

definition filter_entry :: "cpuid_entry \<Rightarrow> cpuid_entry" where
  "filter_entry e =
     (if cp_function e = 0x1 then
        e\<lparr>ecx := ecx e OR push_bit 31 1 OR push_bit 21 1, edx := edx e OR push_bit 9 1\<rparr>
      else if cp_function e = 0x40000000 then
        e\<lparr>eax := 0x40000001,
          ebx := from_le (take 4 KVM_CPUID_SIGNATURE),
          ecx := from_le (take 4 (drop 4 KVM_CPUID_SIGNATURE)),
          edx := from_le (take 4 (drop 8 KVM_CPUID_SIGNATURE))\<rparr>
      else if cp_function e = 0x40000001 then
        e\<lparr>eax := 0, ebx := 0, ecx := 0, edx := 0\<rparr>
      else e)"

definition filter_for_android :: "cpuid_entry list \<Rightarrow> cpuid_entry list" where
  "filter_for_android cpuid = map filter_entry cpuid"

fun supports_avx :: "cpuid_entry list \<Rightarrow> bool" where
  "supports_avx [] = False"
| "supports_avx (e # es) =
     (if cp_function e = 0x1
      then (let avx = (drop_bit 27 (ecx e) AND 1 = 1);
                osxsave = (drop_bit 27 (ecx e) AND 3 = 3)
            in avx \<and> osxsave)
      else supports_avx es)"

fun supports_sse42 :: "cpuid_entry list \<Rightarrow> bool" where
  "supports_sse42 [] = False"
| "supports_sse42 (e # es) =
     (if cp_function e = 0x1 then drop_bit 20 (ecx e) AND 1 = 1 else supports_sse42 es)"

lemma filter_entry_function [simp]: "cp_function (filter_entry e) = cp_function e"
  by (simp add: filter_entry_def)

lemma filter_entry_idem: "filter_entry (filter_entry e) = filter_entry e"
  by (simp add: filter_entry_def or.assoc or.left_commute)

lemma bit_or_flag: "bit (x OR push_bit n 1 :: u32) i \<longleftrightarrow> bit x i \<or> (i = n \<and> n < 32)"
  by (auto simp: bit_or_iff bit_exp_iff)

lemma filter_leaf1:
  assumes "cp_function e = 1"
  shows "filter_entry e =
     e\<lparr>ecx := (ecx e OR push_bit 31 1) OR push_bit 21 1, edx := edx e OR push_bit 9 1\<rparr>"
  using assms by (simp only: filter_entry_def refl if_True or.assoc)

lemma filter_leaf1_bits:
  assumes "cp_function e = 1"
  shows "bit (ecx (filter_entry e)) i \<longleftrightarrow> (i = 31 \<or> i = 21 \<or> bit (ecx e) i)"
    and "bit (edx (filter_entry e)) i \<longleftrightarrow> (i = 9 \<or> bit (edx e) i)"
  unfolding filter_leaf1 [OF assms] cpuid_entry.select_convs cpuid_entry.update_convs
  by (cases e; auto simp only: bit_or_flag cpuid_entry.simps)+

lemma and_1_eq: "x AND 1 = 1 \<longleftrightarrow> bit (x :: u32) 0"
  by (simp add: and_one_eq bit_0 odd_iff_mod_2_eq_one)

lemma and_3_eq: "x AND 3 = 3 \<longleftrightarrow> bit (x :: u32) 0 \<and> bit x 1"
proof -
  have 3: "(3 :: u32) = mask 2" by (simp add: mask_eq_exp_minus_1)
  have "x AND mask 2 = mask 2 \<longleftrightarrow> (\<forall>i < 32. (bit x i \<and> i < 2) = (i < 2))"
    by (auto simp: bit_eq_iff bit_simps)
  also have "\<dots> \<longleftrightarrow> bit x 0 \<and> bit x 1"
  proof (intro iffI)
    assume *: "\<forall>i < 32. (bit x i \<and> i < 2) = (i < 2)"
    show "bit x 0 \<and> bit x 1"
      using * [rule_format, of 0] * [rule_format, of 1] by simp
  qed (auto simp: less_2_cases_iff)
  finally show ?thesis by (simp add: 3)
qed

lemma supports_avx_bits:
  "supports_avx es \<longleftrightarrow> (case find (\<lambda>e. cp_function e = 1) es of
     None \<Rightarrow> False | Some e \<Rightarrow> bit (ecx e) 27 \<and> bit (ecx e) 28)"
  by (induction es) (auto simp: Let_def and_1_eq and_3_eq bit_drop_bit_eq)

lemma supports_sse42_bits:
  "supports_sse42 es \<longleftrightarrow> (case find (\<lambda>e. cp_function e = 1) es of
     None \<Rightarrow> False | Some e \<Rightarrow> bit (ecx e) 20)"
  by (induction es) (auto simp: and_1_eq bit_drop_bit_eq)

lemma find_filter:
  "find (\<lambda>e. cp_function e = f) (filter_for_android es) =
     map_option filter_entry (find (\<lambda>e. cp_function e = f) es)"
  by (induction es) (simp_all add: filter_for_android_def)

lemma find_leaf: "find (\<lambda>e. cp_function e = f) es = Some e \<Longrightarrow> cp_function e = f"
  by (induction es) (auto split: if_splits)

lemma supports_avx_filter: "supports_avx (filter_for_android es) = supports_avx es"
proof (cases "find (\<lambda>e. cp_function e = 1) es")
  case (Some e)
  then show ?thesis
    by (simp add: supports_avx_bits find_filter filter_leaf1_bits [OF find_leaf [OF Some]])
qed (simp add: supports_avx_bits find_filter)

lemma supports_sse42_filter: "supports_sse42 (filter_for_android es) = supports_sse42 es"
proof (cases "find (\<lambda>e. cp_function e = 1) es")
  case (Some e)
  then show ?thesis
    by (simp add: supports_sse42_bits find_filter filter_leaf1_bits [OF find_leaf [OF Some]])
qed (simp add: supports_sse42_bits find_filter)

lemma filter_signature:
  assumes "cp_function e = 0x40000000"
  shows "eax (filter_entry e) = 0x40000001"
    and "to_le 4 (ebx (filter_entry e)) @ to_le 4 (ecx (filter_entry e)) @ to_le 4 (edx (filter_entry e))
           = KVM_CPUID_SIGNATURE"
  using assms by (simp_all add: filter_entry_def KVM_CPUID_SIGNATURE_def as_bytes_def)

text \<open>What the guest is promised about one entry of the table.\<close>

definition filtered_entry :: "cpuid_entry \<Rightarrow> cpuid_entry \<Rightarrow> bool" where
  "filtered_entry e e' \<longleftrightarrow>
     cp_function e' = cp_function e \<and> cp_index e' = cp_index e \<and> cp_flags e' = cp_flags e \<and>
     (if cp_function e = 1 then
        eax e' = eax e \<and> ebx e' = ebx e \<and> bit (ecx e') 31 \<and> bit (ecx e') 21 \<and> bit (edx e') 9 \<and>
        (\<forall>i \<in> set [0..<32]. i \<noteq> 31 \<longrightarrow> i \<noteq> 21 \<longrightarrow> bit (ecx e') i = bit (ecx e) i) \<and>
        (\<forall>i \<in> set [0..<32]. i \<noteq> 9 \<longrightarrow> bit (edx e') i = bit (edx e) i)
      else if cp_function e = 0x40000000 then
        eax e' = 0x40000001 \<and> to_le 4 (ebx e') @ to_le 4 (ecx e') @ to_le 4 (edx e') = KVM_CPUID_SIGNATURE
      else if cp_function e = 0x40000001 then eax e' = 0 \<and> ebx e' = 0 \<and> ecx e' = 0 \<and> edx e' = 0
      else e' = e)"

lemma filtered_entry_filter: "filtered_entry e (filter_entry e)"
proof -
  consider "cp_function e = 1" | "cp_function e = 0x40000000"
    | "cp_function e \<notin> {1, 0x40000000}" by auto
  then show ?thesis
  proof cases
    case 1
    then show ?thesis
      using filter_leaf1 [OF 1] filter_leaf1_bits [OF 1]
      by (simp add: filtered_entry_def del: upt_Suc)
  next
    case 2
    then show ?thesis
      by (simp add: filtered_entry_def filter_signature del: to_le_numeral) (simp add: filter_entry_def)
  next
    case 3
    then show ?thesis by (simp add: filtered_entry_def filter_entry_def)
  qed
qed


section \<open>KvmCapabilities\<close>

text \<open>A capability of \<open>kvm_ioctls::Cap\<close> is named by its variant.\<close>

type_synonym cap = string

definition probes :: "(string \<times> cap) list" where
  "probes = [
    (''IRQCHIP'', ''Irqchip''), (''HLT'', ''Hlt''),
    (''MMU_SHADOW_CACHE_CONTROL'', ''MmuShadowCacheControl''),
    (''USER_MEMORY'', ''UserMemory''), (''SET_TSS_ADDR'', ''SetTssAddr''),
    (''VAPIC'', ''Vapic''), (''EXT_CPUID'', ''ExtCpuid''), (''CLOCKSOURCE'', ''Clocksource''),
    (''NR_VCPUS'', ''NrVcpus''), (''NR_MEMSLOTS'', ''NrMemslots''), (''PIT'', ''Pit''),
    (''PV_MMU'', ''PvMmu''), (''MP_STATE'', ''MpState''),
    (''COALESCED_MMIO'', ''CoalescedMmio''), (''SYNC_MMU'', ''SyncMmu''),
    (''IOMMU'', ''Iommu''), (''USER_NMI'', ''UserNmi''), (''IRQ_ROUTING'', ''IrqRouting''),
    (''IRQFD'', ''Irqfd''), (''PIT_STATE2'', ''PitState2''), (''IOEVENTFD'', ''Ioeventfd''),
    (''SET_IDENTITY_MAP_ADDR'', ''SetIdentityMapAddr''), (''ADJUST_CLOCK'', ''AdjustClock''),
    (''INTERNAL_ERROR_DATA'', ''InternalErrorData''), (''HYPERV'', ''Hyperv''),
    (''ENABLE_CAP'', ''EnableCap''), (''SYNC_REGS'', ''SyncRegs''),
    (''KVMCLOCK_CTRL'', ''KvmclockCtrl''), (''SIGNAL_MSI'', ''SignalMsi''),
    (''IOAPIC_POLARITY_IGNORED'', ''IoapicPolarityIgnored''),
    (''ENABLE_CAP_VM'', ''EnableCapVm''), (''IOEVENTFD_NO_LENGTH'', ''IoeventfdNoLength''),
    (''VM_ATTRIBUTES'', ''VmAttributes''), (''ARM_PSCI'', ''ArmPsci''),
    (''EXT_EMUL_CPUID'', ''ExtEmulCpuid''), (''CHECK_EXTENSION_VM'', ''CheckExtensionVm''),
    (''S390_USER_SIGP'', ''S390UserSigp''), (''MSI_DEVID'', ''MsiDevid''),
    (''PPC_GET_PVINFO'', ''PpcGetPvinfo''), (''PPC_BOOKE_WATCHDOG'', ''PpcBookeWatchdog''),
    (''PPC_EPR'', ''PpcEpr''), (''COALESCED_PIO'', ''CoalescedPio''),
    (''TSC_DEADLINE_TIMER'', ''TscDeadlineTimer''), (''ASYNC_PF'', ''AsyncPf''),
    (''PCI_2_3'', ''Pci23''), (''READONLY_MEM'', ''ReadonlyMem''),
    (''IRQFD_RESAMPLE'', ''IrqfdResample''), (''S390_GMAP'', ''S390Gmap''),
    (''PPC_GET_SMMU_INFO'', ''PpcGetSmmuInfo''), (''PPC_RTAS'', ''PpcRtas''),
    (''GET_MSR_FEATURES'', ''GetMsrFeatures''), (''MAX_VCPUS'', ''MaxVcpus''),
    (''MAX_VCPU_ID'', ''MaxVcpuId''), (''DEVICE_CTRL'', ''DeviceCtrl''),
    (''IMMEDIATE_EXIT'', ''ImmediateExit''), (''ARM_PMU_V3'', ''ArmPmuV3'')]"

record KvmCapabilities =
  cap_flags :: "(string \<times> bool) list"

text \<open>
  \<open>HashMap::insert\<close> replaces the value of a key it already holds; the order of the pairs stands for the
  unspecified iteration order.
\<close>

definition kvm_capabilities_new :: "(cap \<Rightarrow> bool) \<Rightarrow> KvmCapabilities" where
  "kvm_capabilities_new check_extension =
     \<lparr>cap_flags = foldl (\<lambda>m (name, c). AList.update name (check_extension c) m) [] probes\<rparr>"

definition is_available :: "KvmCapabilities \<Rightarrow> string \<Rightarrow> bool" where
  "is_available k name = (case map_of (cap_flags k) name of None \<Rightarrow> False | Some b \<Rightarrow> b)"

lemma map_of_foldl_update:
  "map_of (foldl (\<lambda>m (name, c). AList.update name (f c) m) m0 ps) =
     map_of m0 ++ map_of (rev (map (\<lambda>(name, c). (name, f c)) ps))"
  by (induction ps arbitrary: m0) (auto simp: update_conv' map_add_def fun_eq_iff split: option.splits)

lemma map_of_rev_distinct: "distinct (map fst xs) \<Longrightarrow> map_of (rev xs) = map_of xs"
  by (subst map_of_inject_set) (simp_all add: rev_map [symmetric])

lemma probes_distinct: "distinct (map fst probes)"
  by (simp add: probes_def)

lemma is_available_new:
  "is_available (kvm_capabilities_new f) name \<longleftrightarrow>
     (case map_of probes name of None \<Rightarrow> False | Some c \<Rightarrow> f c)"
proof -
  have "map_of (cap_flags (kvm_capabilities_new f)) name = map_of (map (\<lambda>(n, c). (n, f c)) probes) name"
    using map_of_foldl_update [of f "[]" probes] probes_distinct
    by (simp add: kvm_capabilities_new_def map_of_rev_distinct case_prod_unfold comp_def)
  also have "\<dots> = map_option f (map_of probes name)"
    by (simp add: map_of_map)
  finally show ?thesis
    by (simp add: is_available_def split: option.split)
qed

text \<open>\<open>summary\<close> iterates over the hash map; the two marks are U+2713 and U+2717 in UTF-8.\<close>

definition check_mark :: string where "check_mark = map char_of [0xE2 :: nat, 0x9C, 0x93]"
definition cross_mark :: string where "cross_mark = map char_of [0xE2 :: nat, 0x9C, 0x97]"

definition summary_lines :: "(string \<times> bool) list \<Rightarrow> string list" where
  "summary_lines flags =
     (let available = sort (map fst (filter snd flags));
          unavailable = sort (map fst (filter (\<lambda>p. \<not> snd p) flags))
      in [''KVM capabilities:'']
         @ (if available = [] then [] else [''  '' @ check_mark @ '' '' @ join '', '' available])
         @ (if unavailable = [] then [] else [''  '' @ cross_mark @ '' '' @ join '', '' unavailable]))"

definition summary :: "KvmCapabilities \<Rightarrow> string" where
  "summary k = join nl (summary_lines (cap_flags k))"

text \<open>The iteration order of the hash map does not show in the summary.\<close>

lemma summary_order:
  assumes "mset (cap_flags a) = mset (cap_flags b)"
  shows "summary a = summary b"
proof -
  have "sort (map fst (filter P (cap_flags a))) = sort (map fst (filter P (cap_flags b)))" for P
  proof (rule properties_for_sort)
    show "mset (sort (map fst (filter P (cap_flags b)))) = mset (map fst (filter P (cap_flags a)))"
      using assms by (metis mset_filter mset_map mset_sort)
  qed simp
  then show ?thesis
    by (simp add: summary_def summary_lines_def)
qed

section \<open>The kvm_ioctls crate\<close>

text \<open>
  The register structures of \<open>kvm_bindings\<close>, with the fields the monitor names; the registers it
  never names are kept in one opaque field.
\<close>

record kvm_segment =
  seg_base :: u64
  seg_limit :: u32
  selector :: u16
  seg_type :: u8
  seg_present :: u8
  dpl :: u8
  db :: u8
  seg_s :: u8
  seg_l :: u8
  seg_g :: u8
  avl :: u8
  unusable :: u8

record kvm_dtable =
  dt_base :: u64
  dt_limit :: u16

record kvm_sregs =
  cs :: kvm_segment
  ds :: kvm_segment
  es :: kvm_segment
  fs :: kvm_segment
  gs :: kvm_segment
  ss :: kvm_segment
  gdt :: kvm_dtable
  cr0 :: u64
  cr3 :: u64
  cr4 :: u64
  efer :: u64
  other_sregs :: bytes

record kvm_regs =
  rax :: u64
  rbx :: u64
  rcx :: u64
  rdx :: u64
  rsi :: u64
  rdi :: u64
  rsp :: u64
  rbp :: u64
  rip :: u64
  rflags :: u64
  other_regs :: bytes

record kvm_userspace_memory_region =
  slot :: u32
  region_flags :: u32
  guest_phys_addr :: u64
  memory_size :: u64
  region_userspace_addr :: u64

text \<open>
  The exits of \<open>kvm_ioctls::VcpuExit\<close> that the wrapper tells apart; \<open>ExitOther\<close> is any further
  variant.  The buffer of an \<open>ExitMmioRead\<close> is given by its length.
\<close>

datatype VcpuExit =
    ExitHlt
  | ExitIoOut u16 bytes
  | ExitIoIn u16 nat
  | ExitMmioRead u64 nat
  | ExitMmioWrite u64 bytes
  | ExitException
  | ExitShutdown
  | ExitFailEntry u64 u32
  | ExitInternalError
  | ExitUnknown
  | ExitOther

text \<open>An error of the crate: its \<open>errno\<close> and the text it displays.\<close>

type_synonym kerr = "nat \<times> string"
type_synonym ('k, 'a) ioctl = "'k \<Rightarrow> (kerr + 'a) \<times> 'k"
type_synonym ram_contents = "nat \<Rightarrow> u8"

text \<open>
  One function per ioctl over the state \<open>'k\<close> of the kernel.  \<open>api_run\<close> also receives and returns the
  contents of the guest RAM, which the guest shares with the monitor and changes while it
  runs, and \<open>api_mmio_reply\<close> stores the bytes of a completed MMIO read.
\<close>

record 'k kvm_api =
  api_open :: "('k, unit) ioctl"
  api_check_extension :: "'k \<Rightarrow> cap \<Rightarrow> bool"
  api_create_vm :: "('k, unit) ioctl"
  api_get_supported_cpuid :: "nat \<Rightarrow> ('k, cpuid_entry list) ioctl"
  api_create_vcpu :: "u64 \<Rightarrow> ('k, unit) ioctl"
  api_create_irq_chip :: "('k, unit) ioctl"
  api_create_pit2 :: "('k, unit) ioctl"
  api_set_tss_address :: "u64 \<Rightarrow> ('k, unit) ioctl"
  api_set_identity_map_address :: "u64 \<Rightarrow> ('k, unit) ioctl"
  api_set_user_memory_region :: "kvm_userspace_memory_region \<Rightarrow> ('k, unit) ioctl"
  api_get_regs :: "u32 \<Rightarrow> ('k, kvm_regs) ioctl"
  api_set_regs :: "u32 \<Rightarrow> kvm_regs \<Rightarrow> ('k, unit) ioctl"
  api_get_sregs :: "u32 \<Rightarrow> ('k, kvm_sregs) ioctl"
  api_set_sregs :: "u32 \<Rightarrow> kvm_sregs \<Rightarrow> ('k, unit) ioctl"
  api_set_cpuid2 :: "u32 \<Rightarrow> cpuid_entry list \<Rightarrow> ('k, unit) ioctl"
  api_run :: "u32 \<Rightarrow> ram_contents \<Rightarrow> 'k \<Rightarrow> (kerr + VcpuExit) \<times> ram_contents \<times> 'k"
  api_mmio_reply :: "u32 \<Rightarrow> bytes \<Rightarrow> 'k \<Rightarrow> 'k"

datatype kvm_call =
    OpenKvm
  | CreateVm
  | GetSupportedCpuid nat
  | CreateVcpu u64
  | CreateIrqChip
  | CreatePit2
  | SetTssAddress u64
  | SetIdentityMapAddress u64
  | SetUserMemoryRegion kvm_userspace_memory_region
  | GetRegs u32
  | SetRegs u32 kvm_regs
  | GetSregs u32
  | SetSregs u32 kvm_sregs
  | SetCpuid2 u32 "cpuid_entry list"
  | RunVcpu u32

record 'k kvm_world =
  kstate :: 'k
  ktrace :: "kvm_call list"

text \<open>Issue one ioctl, record it, and translate its error.\<close>

definition issue ::
  "kvm_call \<Rightarrow> ('k, 'a) ioctl \<Rightarrow> (kerr \<Rightarrow> LiteDroidError) \<Rightarrow> ('k kvm_world, LiteDroidError, 'a) action" where
  "issue c io g = (\<lambda>w. case io (kstate w) of (r, k) \<Rightarrow>
     ((case r of Inl e \<Rightarrow> Err (g e) | Inr x \<Rightarrow> Ok x), \<lparr>kstate = k, ktrace = ktrace w @ [c]\<rparr>))"

section \<open>Hypervisor\<close>

definition ENOENT :: nat where "ENOENT = 2"
definition ENODEV :: nat where "ENODEV = 19"
definition EACCES :: nat where "EACCES = 13"

record Hypervisor =
  capabilities :: KvmCapabilities

definition open_error :: "kerr \<Rightarrow> LiteDroidError" where
  "open_error e =
     (if fst e = ENOENT \<or> fst e = ENODEV then
        KvmUnavailable (''/dev/kvm not found '' @ em_dash @ '' is the KVM kernel module loaded?'')
      else if fst e = EACCES then
        PermissionDenied (''Permission denied opening /dev/kvm '' @ em_dash
          @ '' try adding the user to the '' @ [CHR 0x27] @ ''kvm'' @ [CHR 0x27] @ '' group.'')
      else KvmUnavailable (''failed to open /dev/kvm: '' @ snd e))"

definition hypervisor_new :: "'k kvm_api \<Rightarrow> ('k kvm_world, LiteDroidError, Hypervisor) action" where
  "hypervisor_new K =
     andthen (issue OpenKvm (api_open K) open_error)
       (\<lambda>_. gets (\<lambda>w. \<lparr>capabilities = kvm_capabilities_new (api_check_extension K (kstate w))\<rparr>))"

definition check_extension :: "'k kvm_api \<Rightarrow> cap \<Rightarrow> 'k kvm_world \<Rightarrow> bool" where
  "check_extension K c w = api_check_extension K (kstate w) c"

definition create_vm :: "'k kvm_api \<Rightarrow> ('k kvm_world, LiteDroidError, unit) action" where
  "create_vm K = issue CreateVm (api_create_vm K)
     (\<lambda>e. VmCreationFailed (''kvm create_vm failed: '' @ snd e))"

text \<open>
  The retry loop keeps the last error; \<open>expect\<close> would panic if the list of sizes were empty.
\<close>

fun cpuid_retry ::
  "'k kvm_api \<Rightarrow> nat list \<Rightarrow> kerr option \<Rightarrow> ('k kvm_world, LiteDroidError, cpuid_entry list) action" where
  "cpuid_retry K [] last_error w =
     (case last_error of
        None \<Rightarrow> (Panic, w)
      | Some e \<Rightarrow> (Err (KvmIoctl (''KVM_GET_SUPPORTED_CPUID failed after retries: '' @ snd e)), w))"
| "cpuid_retry K (n # ns) last_error w =
     (case api_get_supported_cpuid K n (kstate w) of
        (Inr cpuid, k) \<Rightarrow> (Ok cpuid, \<lparr>kstate = k, ktrace = ktrace w @ [GetSupportedCpuid n]\<rparr>)
      | (Inl e, k) \<Rightarrow> cpuid_retry K ns (Some e) \<lparr>kstate = k, ktrace = ktrace w @ [GetSupportedCpuid n]\<rparr>)"

definition get_supported_cpuid :: "'k kvm_api \<Rightarrow> ('k kvm_world, LiteDroidError, cpuid_entry list) action" where
  "get_supported_cpuid K = cpuid_retry K [256, 128, 64, 32] None"

section \<open>Vm\<close>

text \<open>A \<open>Vcpu\<close> is its index.\<close>

record Vcpu =
  vcpu_index :: u32

definition create_vcpu :: "'k kvm_api \<Rightarrow> u32 \<Rightarrow> ('k kvm_world, LiteDroidError, Vcpu) action" where
  "create_vcpu K index =
     andthen (issue (CreateVcpu (ucast index)) (api_create_vcpu K (ucast index))
        (\<lambda>e. VcpuCreationFailed index
           (''kvm create_vcpu('' @ show_nat (unat index) @ '') failed: '' @ snd e)))
       (\<lambda>_. ret \<lparr>vcpu_index = index\<rparr>)"

definition create_irq_chip :: "'k kvm_api \<Rightarrow> ('k kvm_world, LiteDroidError, unit) action" where
  "create_irq_chip K = issue CreateIrqChip (api_create_irq_chip K)
     (\<lambda>e. KvmIoctl (''KVM_CREATE_IRQCHIP failed: '' @ snd e))"

definition create_pit :: "'k kvm_api \<Rightarrow> ('k kvm_world, LiteDroidError, unit) action" where
  "create_pit K = issue CreatePit2 (api_create_pit2 K)
     (\<lambda>e. KvmIoctl (''KVM_CREATE_PIT2 failed: '' @ snd e))"

definition set_tss_addr :: "'k kvm_api \<Rightarrow> u64 \<Rightarrow> ('k kvm_world, LiteDroidError, unit) action" where
  "set_tss_addr K addr = issue (SetTssAddress addr) (api_set_tss_address K addr)
     (\<lambda>e. KvmIoctl (''KVM_SET_TSS_ADDR('' @ show_hex (unat addr) @ '') failed: '' @ snd e))"

definition set_identity_map_addr :: "'k kvm_api \<Rightarrow> u64 \<Rightarrow> ('k kvm_world, LiteDroidError, unit) action" where
  "set_identity_map_addr K addr = issue (SetIdentityMapAddress addr) (api_set_identity_map_address K addr)
     (\<lambda>e. KvmIoctl (''KVM_SET_IDENTITY_MAP_ADDR('' @ show_hex (unat addr) @ '') failed: '' @ snd e))"

definition set_user_memory_region ::
  "'k kvm_api \<Rightarrow> u32 \<Rightarrow> u64 \<Rightarrow> u64 \<Rightarrow> u64 \<Rightarrow> ('k kvm_world, LiteDroidError, unit) action" where
  "set_user_memory_region K s guest_addr msize uaddr =
     (let region = \<lparr>slot = s, region_flags = 0, guest_phys_addr = guest_addr, memory_size = msize,
                    region_userspace_addr = uaddr\<rparr>
      in issue (SetUserMemoryRegion region) (api_set_user_memory_region K region)
           (\<lambda>e. KvmIoctl (''KVM_SET_USER_MEMORY_REGION(slot='' @ show_nat (unat s) @ '', guest=''
              @ show_hex (unat guest_addr) @ '', size='' @ show_hex (unat msize) @ '') failed: '' @ snd e)))"

section \<open>Vcpu\<close>

definition vcpu_error :: "Vcpu \<Rightarrow> string \<Rightarrow> kerr \<Rightarrow> LiteDroidError" where
  "vcpu_error v what e = VcpuRunFailed (vcpu_index v) (what @ '' failed: '' @ snd e)"

definition get_regs :: "'k kvm_api \<Rightarrow> Vcpu \<Rightarrow> ('k kvm_world, LiteDroidError, kvm_regs) action" where
  "get_regs K v = issue (GetRegs (vcpu_index v)) (api_get_regs K (vcpu_index v)) (vcpu_error v ''GET_REGS'')"

definition set_regs :: "'k kvm_api \<Rightarrow> Vcpu \<Rightarrow> kvm_regs \<Rightarrow> ('k kvm_world, LiteDroidError, unit) action" where
  "set_regs K v r = issue (SetRegs (vcpu_index v) r) (api_set_regs K (vcpu_index v) r) (vcpu_error v ''SET_REGS'')"

definition get_sregs :: "'k kvm_api \<Rightarrow> Vcpu \<Rightarrow> ('k kvm_world, LiteDroidError, kvm_sregs) action" where
  "get_sregs K v = issue (GetSregs (vcpu_index v)) (api_get_sregs K (vcpu_index v)) (vcpu_error v ''GET_SREGS'')"

definition set_sregs :: "'k kvm_api \<Rightarrow> Vcpu \<Rightarrow> kvm_sregs \<Rightarrow> ('k kvm_world, LiteDroidError, unit) action" where
  "set_sregs K v r = issue (SetSregs (vcpu_index v) r) (api_set_sregs K (vcpu_index v) r) (vcpu_error v ''SET_SREGS'')"

definition set_cpuid :: "'k kvm_api \<Rightarrow> Vcpu \<Rightarrow> cpuid_entry list \<Rightarrow> ('k kvm_world, LiteDroidError, unit) action" where
  "set_cpuid K v c = issue (SetCpuid2 (vcpu_index v) c) (api_set_cpuid2 K (vcpu_index v) c) (vcpu_error v ''SET_CPUID'')"

datatype VcpuExitInfo =
    Hlt
  | IoOut u16 bytes
  | IoIn u16
  | MmioRead u64 u8
  | MmioWrite u64 u8 bytes
  | Exception
  | Shutdown
  | FailEntry u64
  | InternalError
  | Unknown

text \<open>
  \<open>mmio_read addr len\<close> is the closure that fills the buffer of an MMIO read, \<open>None\<close> when it leaves the
  buffer alone.  The state is the guest RAM with the kernel.
\<close>

definition run_with_mmio ::
  "'k kvm_api \<Rightarrow> Vcpu \<Rightarrow> (u64 \<Rightarrow> nat \<Rightarrow> bytes option ld_result) \<Rightarrow>
     (ram_contents \<times> 'k kvm_world, LiteDroidError, VcpuExitInfo) action" where
  "run_with_mmio K v mmio_read = (\<lambda>(m, w).
     case api_run K (vcpu_index v) m (kstate w) of (r, m', k) \<Rightarrow>
       (let w' = \<lparr>kstate = k, ktrace = ktrace w @ [RunVcpu (vcpu_index v)]\<rparr> in
        case r of
          Inl e \<Rightarrow> (Err (vcpu_error v ''KVM_RUN'' e), (m', w'))
        | Inr exit \<Rightarrow>
            (case exit of
               ExitHlt \<Rightarrow> (Ok Hlt, (m', w'))
             | ExitIoOut port data \<Rightarrow> (Ok (IoOut port data), (m', w'))
             | ExitIoIn port n \<Rightarrow> (Ok (IoIn port), (m', w'))
             | ExitMmioRead addr n \<Rightarrow>
                 (case mmio_read addr n of
                    Ok None \<Rightarrow> (Ok (MmioRead addr (of_nat n)), (m', w'))
                  | Ok (Some data) \<Rightarrow>
                      (Ok (MmioRead addr (of_nat n)), (m', w'\<lparr>kstate := api_mmio_reply K (vcpu_index v) data k\<rparr>))
                  | Err e \<Rightarrow> (Err e, (m', w'))
                  | Panic \<Rightarrow> (Panic, (m', w')))
             | ExitMmioWrite addr data \<Rightarrow> (Ok (MmioWrite addr (of_nat (length data)) data), (m', w'))
             | ExitException \<Rightarrow> (Ok Exception, (m', w'))
             | ExitShutdown \<Rightarrow> (Ok Shutdown, (m', w'))
             | ExitFailEntry reason cpu \<Rightarrow> (Ok (FailEntry reason), (m', w'))
             | ExitInternalError \<Rightarrow> (Ok InternalError, (m', w'))
             | ExitUnknown \<Rightarrow> (Ok Unknown, (m', w'))
             | ExitOther \<Rightarrow> (Ok Unknown, (m', w')))))"

text \<open>\<open>run\<close> leaves the buffer of an MMIO read alone.\<close>

definition vcpu_run :: "'k kvm_api \<Rightarrow> Vcpu \<Rightarrow> (ram_contents \<times> 'k kvm_world, LiteDroidError, VcpuExitInfo) action" where
  "vcpu_run K v = run_with_mmio K v (\<lambda>_ _. Ok None)"

section \<open>Facts about the wrappers\<close>

lemma issue_not_Panic [simp]: "fst (issue c io g w) \<noteq> Panic"
  by (simp add: issue_def split: prod.splits sum.splits)

lemma issue_trace [simp]: "ktrace (snd (issue c io g w)) = ktrace w @ [c]"
  by (simp add: issue_def split: prod.splits)

text \<open>A run without a closure issues one ioctl, never panics, and completes no MMIO read.\<close>

lemma vcpu_run_effect:
  assumes "vcpu_run K v (m, w) = (r, (m', w'))"
  shows "r \<noteq> Panic \<and> ktrace w' = ktrace w @ [RunVcpu (vcpu_index v)]
    \<and> (m', kstate w') = snd (api_run K (vcpu_index v) m (kstate w))"
  using assms by (auto simp: vcpu_run_def run_with_mmio_def Let_def split: prod.splits sum.splits VcpuExit.splits)

lemma issue_Ok_trace: "issue c io g w = (r, w') \<Longrightarrow> ktrace w' = ktrace w @ [c]"
  by (metis issue_trace snd_conv)

lemma issue_eq_Ok:
  "issue c io g w = (Ok x, w') \<longleftrightarrow>
     (\<exists>k. io (kstate w) = (Inr x, k) \<and> w' = \<lparr>kstate = k, ktrace = ktrace w @ [c]\<rparr>)"
  by (auto simp: issue_def split: prod.splits sum.splits)

text \<open>
  Attempts are made in the order of the list until one succeeds; the error reported is that of
  the last attempt.
\<close>

lemma cpuid_retry_correct:
  "cpuid_retry K ns le w = (r, w') \<Longrightarrow> ns \<noteq> [] \<or> le \<noteq> None \<Longrightarrow>
     \<exists>j \<le> length ns. ktrace w' = ktrace w @ map GetSupportedCpuid (take j ns) \<and>
       (case r of Ok c \<Rightarrow> j > 0 \<and> (\<exists>k k'. api_get_supported_cpuid K (ns ! (j - 1)) k = (Inr c, k'))
        | Err e \<Rightarrow> j = length ns | Panic \<Rightarrow> False)"
proof (induction ns arbitrary: le w)
  case Nil
  then show ?case by (cases le) auto
next
  case (Cons n ns)
  obtain q k where q: "api_get_supported_cpuid K n (kstate w) = (q, k)" by fastforce
  let ?w1 = "\<lparr>kstate = k, ktrace = ktrace w @ [GetSupportedCpuid n]\<rparr>"
  show ?case
  proof (cases q)
    case (Inl e)
    with q Cons.prems have "cpuid_retry K ns (Some e) ?w1 = (r, w')" by simp
    from Cons.IH [OF this] obtain j where "j \<le> length ns"
        and "ktrace w' = ktrace ?w1 @ map GetSupportedCpuid (take j ns)"
        and "case r of Ok c \<Rightarrow> j > 0 \<and> (\<exists>k k'. api_get_supported_cpuid K (ns ! (j - 1)) k = (Inr c, k'))
             | Err e \<Rightarrow> j = length ns | Panic \<Rightarrow> False"
      by auto
    then show ?thesis
      by (intro exI [of _ "Suc j"]) (auto split: outcome.splits)
  next
    case (Inr c)
    with q have "\<exists>k k'. api_get_supported_cpuid K n k = (Inr c, k')" by blast
    moreover from Inr q Cons.prems
    have "r = Ok c" and "w' = \<lparr>kstate = k, ktrace = ktrace w @ [GetSupportedCpuid n]\<rparr>"
      by simp_all
    ultimately show ?thesis
      by (intro exI [of _ 1]) simp
  qed
qed

lemma get_supported_cpuid_not_Panic: "get_supported_cpuid K w = (r, w') \<Longrightarrow> r \<noteq> Panic"
  using cpuid_retry_correct [of K "[256, 128, 64, 32]" None w r w']
  by (auto simp: get_supported_cpuid_def)

text \<open>A kernel that accepts tables of up to \<open>m\<close> entries is asked for the largest size it accepts.\<close>

theorem cpuid_largest_table:
  assumes "\<And>n k. api_get_supported_cpuid K n k = ((if n \<le> m then Inr (tbl n) else Inl (e n)), k)"
  shows "fst (get_supported_cpuid K w) =
     (if 32 \<le> m then Ok (tbl (if 256 \<le> m then 256 else if 128 \<le> m then 128 else if 64 \<le> m then 64 else 32))
      else Err (KvmIoctl (''KVM_GET_SUPPORTED_CPUID failed after retries: '' @ snd (e 32))))"
  using assms by (simp add: get_supported_cpuid_def)

end
