(* ===== verification/LD_Memory.thy ===== *)
theory LD_Memory
  imports LD_Core
begin

text \<open>
  The crate \<^verbatim>\<open>crates/memory\<close>: guest-physical RAM.  The mapping returned by \<open>mmap\<close> is a function from
  offsets to bytes, of which only the offsets below \<open>gm_size\<close> belong to the allocation; \<open>mmap\<close> itself
  is a parameter, since it belongs to the operating system.  The locale \<open>byte_store\<close> is the interface the
  boot code and the block device rely on.
\<close>

section \<open>GuestMemory\<close>

record GuestMemory =
  gm_ptr :: u64
  gm_size :: u64
  ram :: "nat \<Rightarrow> u8"

text \<open>
  \<open>mmap size\<close> is \<open>None\<close> for \<open>MAP_FAILED\<close> and otherwise the address and the contents of the new
  mapping; a null address makes \<open>NonNull::new(..).expect(..)\<close> panic.
\<close>

definition guest_memory_new :: "(u64 \<Rightarrow> (u64 \<times> (nat \<Rightarrow> u8)) option) \<Rightarrow> u64 \<Rightarrow> GuestMemory ld_result" where
  "guest_memory_new mmap size_bytes =
     (if size_bytes = 0 then Err (MemoryAllocationFailed 0 0)
      else case mmap size_bytes of
        None \<Rightarrow> Err (MemoryMapFailed (''mmap failed for '' @ show_nat (unat size_bytes) @ '' bytes''))
      | Some (p, contents) \<Rightarrow>
          (if p = 0 then Panic else Ok \<lparr>gm_ptr = p, gm_size = size_bytes, ram = contents\<rparr>))"

text \<open>\<open>addr.checked_add(len as u64)\<close> for the length of a buffer, a \<open>usize\<close>.\<close>

definition checked_add_len :: "u64 \<Rightarrow> nat \<Rightarrow> u64 option" where
  "checked_add_len a n = (if unat a + n < 2 ^ 64 then Some (a + of_nat n) else None)"

definition read_guest :: "GuestMemory \<Rightarrow> u64 \<Rightarrow> nat \<Rightarrow> bytes ld_result" where
  "read_guest m addr len =
     (case checked_add_len addr len of
        None \<Rightarrow> Err (GuestAddressOutOfRange addr)
      | Some end_addr \<Rightarrow>
          (if end_addr > gm_size m then Err (GuestAddressOutOfRange addr)
           else Ok (map (\<lambda>i. ram m (unat addr + i)) [0..<len])))"

definition write_guest :: "GuestMemory \<Rightarrow> u64 \<Rightarrow> bytes \<Rightarrow> GuestMemory ld_result" where
  "write_guest m addr data =
     (case checked_add_len addr (length data) of
        None \<Rightarrow> Err (GuestAddressOutOfRange addr)
      | Some end_addr \<Rightarrow>
          (if end_addr > gm_size m then Err (GuestAddressOutOfRange addr)
           else Ok (m\<lparr>ram := (\<lambda>i. if unat addr \<le> i \<and> i < unat addr + length data
                                 then data ! (i - unat addr) else ram m i)\<rparr>)))"

definition load_blob :: "GuestMemory \<Rightarrow> u64 \<Rightarrow> bytes \<Rightarrow> GuestMemory ld_result" where
  "load_blob m addr data = write_guest m addr data"

definition userspace_addr :: "GuestMemory \<Rightarrow> u64" where
  "userspace_addr m = gm_ptr m"

definition guest_memory_size :: "GuestMemory \<Rightarrow> u64" where
  "guest_memory_size m = gm_size m"

section \<open>The byte-store interface\<close>

text \<open>
  A store of bytes addressed by \<open>u64\<close>: \<open>peek\<close> is its contents and \<open>cap\<close> its size.  A range is readable
  and writable exactly when it lies inside the store, a failed access names the address and
  changes nothing, and a write changes exactly the bytes of its range.
\<close>

text \<open>A sequence of writes that stops at the first error.\<close>

primrec write_seq :: "('m \<Rightarrow> u64 \<Rightarrow> bytes \<Rightarrow> 'm ld_result) \<Rightarrow> (u64 \<times> bytes) list \<Rightarrow> 'm \<Rightarrow> 'm ld_result" where
  "write_seq wr [] m = Ok m"
| "write_seq wr (w # ws) m = bind_outcome (wr m (fst w) (snd w)) (write_seq wr ws)"

definition in_range :: "nat \<Rightarrow> u64 \<times> bytes \<Rightarrow> bool" where
  "in_range c w \<longleftrightarrow> unat (fst w) + length (snd w) \<le> c"

definition apart :: "u64 \<times> bytes \<Rightarrow> u64 \<times> bytes \<Rightarrow> bool" where
  "apart v w \<longleftrightarrow> unat (fst v) + length (snd v) \<le> unat (fst w) \<or> unat (fst w) + length (snd w) \<le> unat (fst v)"

definition covers :: "u64 \<times> bytes \<Rightarrow> nat \<Rightarrow> bool" where
  "covers w i \<longleftrightarrow> unat (fst w) \<le> i \<and> i < unat (fst w) + length (snd w)"

locale byte_store =
  fixes rd :: "'m \<Rightarrow> u64 \<Rightarrow> nat \<Rightarrow> bytes ld_result"
    and wr :: "'m \<Rightarrow> u64 \<Rightarrow> bytes \<Rightarrow> 'm ld_result"
    and cap :: "'m \<Rightarrow> nat"
    and peek :: "'m \<Rightarrow> nat \<Rightarrow> u8"
  assumes rd_spec: "rd m a n = (if unat a + n \<le> cap m
            then Ok (map (peek m) [unat a..<unat a + n]) else Err (GuestAddressOutOfRange a))"
    and wr_fails: "cap m < unat a + length d \<Longrightarrow> wr m a d = Err (GuestAddressOutOfRange a)"
    and wr_succeeds: "unat a + length d \<le> cap m \<Longrightarrow> \<exists>m'. wr m a d = Ok m'"
    and wr_cap: "wr m a d = Ok m' \<Longrightarrow> cap m' = cap m"
    and wr_peek: "wr m a d = Ok m' \<Longrightarrow>
           peek m' i = (if unat a \<le> i \<and> i < unat a + length d then d ! (i - unat a) else peek m i)"
begin

lemma wr_not_Panic: "wr m a d \<noteq> Panic"
  using wr_fails [of m a d] wr_succeeds [of a d m] by (cases "unat a + length d \<le> cap m") auto

lemma rd_not_Panic: "rd m a n \<noteq> Panic"
  by (simp add: rd_spec)

lemma wr_in_range: "wr m a d = Ok m' \<Longrightarrow> unat a + length d \<le> cap m"
  using wr_fails [of m a d] by fastforce

lemma rd_length: "rd m a n = Ok bs \<Longrightarrow> length bs = n"
  by (auto simp: rd_spec split: if_splits)

lemma rd_wr_same:
  assumes "wr m a d = Ok m'"
  shows "rd m' a (length d) = Ok d"
proof -
  have "map (peek m') [unat a..<unat a + length d] = d"
    using wr_peek [OF assms] by (intro nth_equalityI) auto
  with wr_in_range [OF assms] wr_cap [OF assms] show ?thesis
    by (simp add: rd_spec)
qed

lemma rd_wr_apart:
  assumes "wr m a d = Ok m'" and "unat b + n \<le> unat a \<or> unat a + length d \<le> unat b"
  shows "rd m' b n = rd m b n"
proof -
  have "map (peek m') [unat b..<unat b + n] = map (peek m) [unat b..<unat b + n]"
    using wr_peek [OF assms(1)] assms(2) by auto
  with wr_cap [OF assms(1)] show ?thesis by (simp add: rd_spec)
qed

lemma rd_sub:
  assumes "rd m a n = Ok bs" and "k + l \<le> n" and "unat a + n < 2 ^ 64"
  shows "rd m (a + of_nat k) l = Ok (take l (drop k bs))"
proof -
  have bs: "bs = map (peek m) [unat a..<unat a + n]" and le: "unat a + n \<le> cap m"
    using assms(1) by (auto simp: rd_spec split: if_splits)
  have k: "unat (a + of_nat k) = unat a + k"
    using assms(2,3) by (subst unat_add_no_overflow) (simp_all add: unat_of_nat_u64)
  have "take l (drop k bs) = map (peek m) [unat a + k..<unat a + k + l]"
    unfolding bs using assms(2) by (simp add: drop_map take_map)
  with k le assms(2) show ?thesis by (simp add: rd_spec)
qed

lemma write_seq_cap: "write_seq wr ws m = Ok m' \<Longrightarrow> cap m' = cap m"
  by (induction ws arbitrary: m) (auto dest: wr_cap)

lemma write_seq_succeeds:
  "\<forall>w \<in> set ws. in_range (cap m) w \<Longrightarrow> \<exists>m'. write_seq wr ws m = Ok m'"
proof (induction ws arbitrary: m)
  case Nil
  then show ?case by simp
next
  case (Cons w ws)
  then obtain m1 where m1: "wr m (fst w) (snd w) = Ok m1"
    using wr_succeeds [of "fst w" "snd w" m] by (auto simp: in_range_def)
  with Cons.prems have "\<forall>v \<in> set ws. in_range (cap m1) v"
    by (simp add: wr_cap)
  with Cons.IH m1 show ?case by auto
qed

lemma write_seq_peek:
  "write_seq wr ws m = Ok m' \<Longrightarrow> \<forall>w \<in> set ws. \<not> covers w i \<Longrightarrow> peek m' i = peek m i"
proof (induction ws arbitrary: m)
  case Nil
  then show ?case by simp
next
  case (Cons w ws)
  then obtain m1 where m1: "wr m (fst w) (snd w) = Ok m1" and "write_seq wr ws m1 = Ok m'"
    by auto
  with Cons have "peek m' i = peek m1 i" by simp
  also have "\<dots> = peek m i"
    using wr_peek [OF m1] Cons.prems(2) by (auto simp: covers_def)
  finally show ?case .
qed

lemma write_seq_frame:
  assumes "write_seq wr ws m = Ok m'"
    and "\<forall>w \<in> set ws. unat b + n \<le> unat (fst w) \<or> unat (fst w) + length (snd w) \<le> unat b"
  shows "rd m' b n = rd m b n"
proof -
  have "peek m' i = peek m i" if "i \<in> set [unat b..<unat b + n]" for i
    using that assms(2) by (intro write_seq_peek [OF assms(1)]) (fastforce simp: covers_def)
  then have "map (peek m') [unat b..<unat b + n] = map (peek m) [unat b..<unat b + n]"
    by auto
  with write_seq_cap [OF assms(1)] show ?thesis by (simp add: rd_spec)
qed

text \<open>Writes to pairwise disjoint ranges can all be read back at the end.\<close>

lemma write_seq_read_back:
  assumes "write_seq wr ws m = Ok m'" and "sorted_wrt apart ws" and "w \<in> set ws"
  shows "rd m' (fst w) (length (snd w)) = Ok (snd w)"
  using assms
proof (induction ws arbitrary: m)
  case Nil
  then show ?case by simp
next
  case (Cons v ws)
  then obtain m1 where m1: "wr m (fst v) (snd v) = Ok m1" and rest: "write_seq wr ws m1 = Ok m'"
    by auto
  show ?case
  proof (cases "w \<in> set ws")
    case True
    with Cons rest show ?thesis by simp
  next
    case False
    with Cons.prems(3) have "w = v" by simp
    moreover have "rd m' (fst v) (length (snd v)) = rd m1 (fst v) (length (snd v))"
      using Cons.prems(2) by (intro write_seq_frame [OF rest]) (auto simp: apart_def)
    ultimately show ?thesis
      using rd_wr_same [OF m1] by simp
  qed
qed

end

section \<open>GuestMemory is a byte store\<close>

lemma checked_add_len_le:
  "(case checked_add_len a n of None \<Rightarrow> x | Some e \<Rightarrow> if e > s then x else y) =
     (if unat a + n \<le> unat s then y else x)"
proof (cases "unat a + n < 2 ^ 64")
  case True
  then have "unat (a + of_nat n) = unat a + n"
    by (subst unat_add_no_overflow) (simp_all add: unat_of_nat_u64)
  with True show ?thesis
    by (simp add: checked_add_len_def word_less_nat_alt)
next
  case False
  with unat_u64_less [of s] show ?thesis
    by (simp add: checked_add_len_def)
qed

lemma read_guest_eq:
  "read_guest m a n = (if unat a + n \<le> unat (gm_size m)
     then Ok (map (ram m) [unat a..<unat a + n]) else Err (GuestAddressOutOfRange a))"
proof -
  have "map (\<lambda>i. ram m (unat a + i)) [0..<n] = map (ram m) [unat a..<unat a + n]"
    by (intro nth_equalityI) auto
  then show ?thesis
    by (simp add: read_guest_def checked_add_len_le)
qed

lemma write_guest_eq:
  "write_guest m a d = (if unat a + length d \<le> unat (gm_size m)
     then Ok (m\<lparr>ram := (\<lambda>i. if unat a \<le> i \<and> i < unat a + length d then d ! (i - unat a) else ram m i)\<rparr>)
     else Err (GuestAddressOutOfRange a))"
  by (simp add: write_guest_def checked_add_len_le)

interpretation gm: byte_store read_guest write_guest "\<lambda>m. unat (gm_size m)" ram
  by unfold_locales (auto simp: read_guest_eq write_guest_eq split: if_splits)

lemma write_guest_fields:
  "write_guest m a d = Ok m' \<Longrightarrow> gm_size m' = gm_size m \<and> gm_ptr m' = gm_ptr m"
  by (auto simp: write_guest_eq split: if_splits)

lemma guest_memory_new_Ok:
  "guest_memory_new mmap n = Ok m \<longleftrightarrow>
     n \<noteq> 0 \<and> (\<exists>p c. mmap n = Some (p, c) \<and> p \<noteq> 0 \<and> m = \<lparr>gm_ptr = p, gm_size = n, ram = c\<rparr>)"
  by (auto simp: guest_memory_new_def split: option.splits if_splits)

end
