(* ===== verification/LD_Devices.thy ===== *)
theory LD_Devices
  imports LD_Core
begin

text \<open>
  The crate \<^verbatim>\<open>crates/devices\<close>: the trait \<open>VirtDevice\<close>, the MMIO bus \<open>VirtioBus\<close>, and the serial and
  entropy devices.  The trait is the locale \<open>virt_device\<close> (its contract: one writable status
  register, cleared by \<open>reset\<close>, kept by every other access) and, for dynamic dispatch, a record of
  functions \<open>vtable\<close>.  The lock around the device list is a single owner of the list.
\<close>

definition VIRTIO_MAGIC :: u32 where [core_consts]: "VIRTIO_MAGIC = 0x74726976"
definition VIRTIO_VERSION_2 :: u32 where [core_consts]: "VIRTIO_VERSION_2 = 2"
definition VIRTIO_ID_CONSOLE :: u32 where [core_consts]: "VIRTIO_ID_CONSOLE = 3"
definition VIRTIO_ID_RNG :: u32 where [core_consts]: "VIRTIO_ID_RNG = 4"

section \<open>The VirtDevice contract\<close>

text \<open>
  \<open>status_reg d\<close> is the offset of the status register of \<open>d\<close> and \<open>status_of d\<close> its contents.  A read
  may change the device (the entropy device consumes its source) but never its status.
\<close>

locale virt_device =
  fixes mmio_read :: "'d \<Rightarrow> u64 \<Rightarrow> u32 \<Rightarrow> u64 \<times> 'd"
    and mmio_write :: "'d \<Rightarrow> u64 \<Rightarrow> u32 \<Rightarrow> u64 \<Rightarrow> 'd"
    and reset :: "'d \<Rightarrow> 'd"
    and status_reg :: "'d \<Rightarrow> u64"
    and status_of :: "'d \<Rightarrow> u32"
  assumes read_status: "fst (mmio_read d (status_reg d) n) = ucast (status_of d)"
    and read_keeps: "status_of (snd (mmio_read d off n)) = status_of d"
    and read_reg: "status_reg (snd (mmio_read d off n)) = status_reg d"
    and write_status: "status_of (mmio_write d (status_reg d) n v) = ucast v"
    and write_keeps: "off \<noteq> status_reg d \<Longrightarrow> status_of (mmio_write d off n v) = status_of d"
    and write_reg: "status_reg (mmio_write d off n v) = status_reg d"
    and reset_status: "status_of (reset d) = 0"
    and reset_reg: "status_reg (reset d) = status_reg d"
    and reset_idem: "reset (reset d) = reset d"
begin

lemma status_round_trip:
  "fst (mmio_read (mmio_write d (status_reg d) n v) (status_reg d) k) = ucast (ucast v :: u32)"
  using read_status [of "mmio_write d (status_reg d) n v" k] by (simp add: write_status write_reg)

lemma status_after_reset: "fst (mmio_read (reset d) (status_reg d) k) = 0"
  using read_status [of "reset d" k] by (simp add: reset_status reset_reg)

text \<open>After any sequence of register writes the status register holds the last value written to it.\<close>

lemma status_after_writes:
  "status_of (fold (\<lambda>(off, n, v) d. mmio_write d off n v) ws d) =
     (case filter (\<lambda>(off, n, v). off = status_reg d) (rev ws) of
        [] \<Rightarrow> status_of d | (off, n, v) # _ \<Rightarrow> ucast v)"
proof (induction ws rule: rev_induct)
  case Nil
  then show ?case by simp
next
  case (snoc w ws)
  obtain off n v where w: "w = (off, n, v)" by (cases w) auto
  have reg: "status_reg (fold (\<lambda>(off, n, v) d. mmio_write d off n v) ws d) = status_reg d"
    by (induction ws rule: rev_induct) (auto simp: write_reg)
  let ?d = "fold (\<lambda>(off, n, v) d. mmio_write d off n v) ws d"
  have "status_of (mmio_write ?d (status_reg d) n v) = ucast v"
    using write_status [of ?d n v] reg by simp
  moreover have "off \<noteq> status_reg d \<Longrightarrow> status_of (mmio_write ?d off n v) = status_of ?d"
    using write_keeps [of off ?d n v] reg by simp
  ultimately show ?case
    using snoc w by auto
qed

end

text \<open>A virtio device also identifies itself in its first three registers.\<close>

locale virtio_device = virt_device +
  fixes device_id :: u32
  assumes magic: "fst (mmio_read d 0x00 n) = ucast VIRTIO_MAGIC"
    and version: "fst (mmio_read d 0x04 n) = 2"
    and ident: "fst (mmio_read d 0x08 n) = ucast device_id"
begin

text \<open>No sequence of accesses disturbs the identification a driver probes.\<close>

lemma probe_after_writes:
  "fst (mmio_read (fold (\<lambda>(off, n, v) d. mmio_write d off n v) ws d) 0x00 k) = ucast VIRTIO_MAGIC \<and>
   fst (mmio_read (fold (\<lambda>(off, n, v) d. mmio_write d off n v) ws d) 0x08 k) = ucast device_id"
  by (simp add: magic ident)

end

section \<open>VirtioBus\<close>

record 'd vtable =
  vt_name :: "'d \<Rightarrow> string"
  vt_device_type :: "'d \<Rightarrow> string"
  vt_mmio_read :: "'d \<Rightarrow> u64 \<Rightarrow> u32 \<Rightarrow> u64 \<times> 'd"
  vt_mmio_write :: "'d \<Rightarrow> u64 \<Rightarrow> u32 \<Rightarrow> u64 \<Rightarrow> 'd"
  vt_reset :: "'d \<Rightarrow> 'd"
  vt_device_tree_compatible :: "'d \<Rightarrow> string"

record 'd VirtioBus =
  devices :: "'d list"

definition virtio_bus_new :: "'d VirtioBus" where
  "virtio_bus_new = \<lparr>devices = []\<rparr>"

definition add_device :: "'d \<Rightarrow> ('d VirtioBus, LiteDroidError, unit) action" where
  "add_device d = (\<lambda>b.
     if length (devices b) \<ge> MAX_VIRTIO_DEVICES
     then (Err (DeviceAlreadyExists ''maximum device count reached''), b)
     else (Ok (), b\<lparr>devices := devices b @ [d]\<rparr>))"

definition bus_read :: "'d vtable \<Rightarrow> u64 \<Rightarrow> u32 \<Rightarrow> 'd VirtioBus \<Rightarrow> u64 \<times> 'd VirtioBus" where
  "bus_read vt address sz b =
     (if address < VIRTIO_MMIO_START then (0, b)
      else let offset = address - VIRTIO_MMIO_START;
               index = unat (offset div VIRTIO_MMIO_SIZE);
               reg_offset = offset mod VIRTIO_MMIO_SIZE
           in if index < length (devices b)
              then case vt_mmio_read vt (devices b ! index) reg_offset sz of
                     (v, d) \<Rightarrow> (v, b\<lparr>devices := (devices b)[index := d]\<rparr>)
              else (0, b))"

definition bus_write :: "'d vtable \<Rightarrow> u64 \<Rightarrow> u32 \<Rightarrow> u64 \<Rightarrow> 'd VirtioBus \<Rightarrow> 'd VirtioBus" where
  "bus_write vt address sz v b =
     (if address < VIRTIO_MMIO_START then b
      else let offset = address - VIRTIO_MMIO_START;
               index = unat (offset div VIRTIO_MMIO_SIZE);
               reg_offset = offset mod VIRTIO_MMIO_SIZE
           in if index < length (devices b)
              then b\<lparr>devices := (devices b)
                     [index := vt_mmio_write vt (devices b ! index) reg_offset sz v]\<rparr>
              else b)"

definition device_count :: "'d VirtioBus \<Rightarrow> nat" where
  "device_count b = length (devices b)"

definition reset_all :: "'d vtable \<Rightarrow> 'd VirtioBus \<Rightarrow> 'd VirtioBus" where
  "reset_all vt b = b\<lparr>devices := map (vt_reset vt) (devices b)\<rparr>"

text \<open>The address of register \<open>r\<close> of the device in slot \<open>i\<close>.\<close>

definition slot_address :: "nat \<Rightarrow> u64 \<Rightarrow> u64" where
  "slot_address i r = VIRTIO_MMIO_START + of_nat i * VIRTIO_MMIO_SIZE + r"

lemma slot_decode:
  assumes "i < MAX_VIRTIO_DEVICES" and "r < VIRTIO_MMIO_SIZE"
  shows "\<not> slot_address i r < VIRTIO_MMIO_START"
    and "unat ((slot_address i r - VIRTIO_MMIO_START) div VIRTIO_MMIO_SIZE) = i"
    and "(slot_address i r - VIRTIO_MMIO_START) mod VIRTIO_MMIO_SIZE = r"
proof -
  have i: "i < 16" and r: "unat r < 512"
    using assms by (simp_all add: core_consts word_less_nat_alt)
  have off: "slot_address i r - VIRTIO_MMIO_START = of_nat (i * 512 + unat r)"
    by (simp add: slot_address_def core_consts)
  have u: "unat (of_nat (i * 512 + unat r) :: u64) = i * 512 + unat r"
    using i r by (intro unat_of_nat_u64) simp
  have o: "unat (slot_address i r - VIRTIO_MMIO_START) = i * 512 + unat r"
    using u by (simp only: off)
  have sz: "unat VIRTIO_MMIO_SIZE = 512"
    by (simp add: core_consts)
  show "unat ((slot_address i r - VIRTIO_MMIO_START) div VIRTIO_MMIO_SIZE) = i"
    using r by (simp add: unat_div o sz)
  have "unat ((slot_address i r - VIRTIO_MMIO_START) mod VIRTIO_MMIO_SIZE) = unat r"
    using r by (simp add: unat_mod o sz)
  then show "(slot_address i r - VIRTIO_MMIO_START) mod VIRTIO_MMIO_SIZE = r"
    by (simp add: word_unat_eq_iff)
  have "slot_address i r = of_nat (0xfea00000 + (i * 512 + unat r))"
    by (simp add: slot_address_def core_consts)
  then have "unat (slot_address i r) = 0xfea00000 + (i * 512 + unat r)"
    using i r unat_of_nat_u64 [of "0xfea00000 + (i * 512 + unat r)"] by simp
  then show "\<not> slot_address i r < VIRTIO_MMIO_START"
    by (simp add: core_consts word_less_nat_alt)
qed

definition bus_ok :: "'d VirtioBus \<Rightarrow> bool" where
  "bus_ok b \<longleftrightarrow> length (devices b) \<le> MAX_VIRTIO_DEVICES"

lemma bus_ok_new [simp]: "bus_ok virtio_bus_new"
  by (simp add: bus_ok_def virtio_bus_new_def)

lemma bus_ok_add [keeps_rules]: "keeps bus_ok (add_device d)"
  by (auto simp: keeps_def bus_ok_def add_device_def)

lemma bus_ok_access [simp]:
  "bus_ok (bus_write vt a n v b) = bus_ok b"
  "bus_ok (snd (bus_read vt a n b)) = bus_ok b"
  "bus_ok (reset_all vt b) = bus_ok b"
  by (simp_all add: bus_ok_def bus_write_def bus_read_def reset_all_def Let_def split: prod.splits)

text \<open>Routing: an access to a register of slot \<open>i\<close> reaches the device in slot \<open>i\<close> and no other.\<close>

lemma bus_read_slot:
  assumes "bus_ok b" and "i < device_count b" and "r < VIRTIO_MMIO_SIZE"
  shows "bus_read vt (slot_address i r) n b =
    (fst (vt_mmio_read vt (devices b ! i) r n),
     b\<lparr>devices := (devices b)[i := snd (vt_mmio_read vt (devices b ! i) r n)]\<rparr>)"
proof -
  have "i < MAX_VIRTIO_DEVICES"
    using assms by (simp add: bus_ok_def device_count_def)
  then show ?thesis
    using assms slot_decode [of i r]
    by (simp add: bus_read_def device_count_def Let_def split: prod.splits)
qed

lemma bus_write_slot:
  assumes "bus_ok b" and "i < device_count b" and "r < VIRTIO_MMIO_SIZE"
  shows "bus_write vt (slot_address i r) n v b =
    b\<lparr>devices := (devices b)[i := vt_mmio_write vt (devices b ! i) r n v]\<rparr>"
proof -
  have "i < MAX_VIRTIO_DEVICES"
    using assms by (simp add: bus_ok_def device_count_def)
  then show ?thesis
    using assms slot_decode [of i r]
    by (simp add: bus_write_def device_count_def Let_def)
qed

lemma bus_unmapped:
  assumes "device_count b \<le> unat ((a - VIRTIO_MMIO_START) div VIRTIO_MMIO_SIZE)"
  shows "bus_read vt a n b = (0, b)" and "bus_write vt a n v b = b"
  using assms by (simp_all add: bus_read_def bus_write_def device_count_def Let_def)

section \<open>VirtioSerialDevice\<close>

text \<open>The output callback is the list of byte strings it has been called with, oldest first.\<close>

record VirtioSerialDevice =
  serial_status :: u32
  interrupt_status :: u32
  serial_output :: "bytes list"

definition serial_new :: VirtioSerialDevice where
  "serial_new = \<lparr>serial_status = 0, interrupt_status = 0, serial_output = []\<rparr>"

definition serial_mmio_read :: "VirtioSerialDevice \<Rightarrow> u64 \<Rightarrow> u32 \<Rightarrow> u64 \<times> VirtioSerialDevice" where
  "serial_mmio_read d off sz =
     (if off = 0x00 then ucast VIRTIO_MAGIC
      else if off = 0x04 then ucast VIRTIO_VERSION_2
      else if off = 0x08 then ucast VIRTIO_ID_CONSOLE
      else if off = 0x0c then 0
      else if off = 0x34 then ucast (interrupt_status d)
      else if off = 0x40 then ucast (serial_status d)
      else 0, d)"

definition serial_mmio_write :: "VirtioSerialDevice \<Rightarrow> u64 \<Rightarrow> u32 \<Rightarrow> u64 \<Rightarrow> VirtioSerialDevice" where
  "serial_mmio_write d off sz v =
     (if off = 0x40 then d\<lparr>serial_status := ucast v\<rparr>
      else if off = 0x100 then
        (let bytes = to_le 8 v; len = min (unat sz) 8
         in d\<lparr>serial_output := serial_output d @ [take len bytes]\<rparr>)
      else d)"

definition serial_reset :: "VirtioSerialDevice \<Rightarrow> VirtioSerialDevice" where
  "serial_reset d = d\<lparr>serial_status := 0, interrupt_status := 0\<rparr>"

definition serial_name :: "VirtioSerialDevice \<Rightarrow> string" where
  "serial_name d = ''virtio-serial''"

definition serial_device_type :: "VirtioSerialDevice \<Rightarrow> string" where
  "serial_device_type d = ''serial''"

definition serial_compatible :: "VirtioSerialDevice \<Rightarrow> string" where
  "serial_compatible d = ''virtio,serial''"

interpretation serial: virtio_device serial_mmio_read serial_mmio_write serial_reset
    "\<lambda>_. 0x40" serial_status VIRTIO_ID_CONSOLE
  by unfold_locales
    (auto simp: serial_mmio_read_def serial_mmio_write_def serial_reset_def core_consts Let_def)

section \<open>VirtioRngDevice\<close>

text \<open>
  \<open>read_exact f n\<close> is the outcome of \<open>read_exact\<close> of \<open>n\<close> bytes on the handle \<open>f\<close> of \<^verbatim>\<open>/dev/urandom\<close>:
  the bytes (none on an error) and the handle afterwards.
\<close>

record 'f VirtioRngDevice =
  rng_status :: u32
  urandom :: 'f

definition rng_new :: "'f \<Rightarrow> 'f VirtioRngDevice" where
  "rng_new f = \<lparr>rng_status = 0, urandom = f\<rparr>"

definition rng_mmio_read ::
    "('f \<Rightarrow> nat \<Rightarrow> bytes option \<times> 'f) \<Rightarrow> 'f VirtioRngDevice \<Rightarrow> u64 \<Rightarrow> u32 \<Rightarrow> u64 \<times> 'f VirtioRngDevice" where
  "rng_mmio_read read_exact d off sz =
     (if off = 0x00 then (ucast VIRTIO_MAGIC, d)
      else if off = 0x04 then (ucast VIRTIO_VERSION_2, d)
      else if off = 0x08 then (ucast VIRTIO_ID_RNG, d)
      else if off = 0x0c then (0, d)
      else if off = 0x40 then (ucast (rng_status d), d)
      else if off = 0x100 then
        (case read_exact (urandom d) (unat sz) of
           (Some buf, f) \<Rightarrow> (foldl (\<lambda>val b. push_bit 8 val OR ucast b) 0 buf, d\<lparr>urandom := f\<rparr>)
         | (None, f) \<Rightarrow> (0, d\<lparr>urandom := f\<rparr>))
      else (0, d))"

definition rng_mmio_write :: "'f VirtioRngDevice \<Rightarrow> u64 \<Rightarrow> u32 \<Rightarrow> u64 \<Rightarrow> 'f VirtioRngDevice" where
  "rng_mmio_write d off sz v = (if off = 0x40 then d\<lparr>rng_status := ucast v\<rparr> else d)"

definition rng_reset :: "'f VirtioRngDevice \<Rightarrow> 'f VirtioRngDevice" where
  "rng_reset d = d\<lparr>rng_status := 0\<rparr>"

definition rng_name :: "'f VirtioRngDevice \<Rightarrow> string" where
  "rng_name d = ''virtio-rng''"

definition rng_device_type :: "'f VirtioRngDevice \<Rightarrow> string" where
  "rng_device_type d = ''rng''"

definition rng_compatible :: "'f VirtioRngDevice \<Rightarrow> string" where
  "rng_compatible d = ''virtio,rng''"

interpretation rng: virtio_device "rng_mmio_read read_exact" rng_mmio_write rng_reset
    "\<lambda>_. 0x40" rng_status VIRTIO_ID_RNG for read_exact
  by unfold_locales
    (auto simp: rng_mmio_read_def rng_mmio_write_def rng_reset_def core_consts
      split: prod.splits option.splits)

text \<open>The value delivered to the guest is the big-endian reading of the random bytes.\<close>

lemma foldl_push_bit:
  "foldl (\<lambda>val b. push_bit 8 val OR ucast b) 0 buf = (from_be buf :: u64)"
proof (induction buf rule: rev_induct)
  case Nil
  then show ?case by (simp add: from_be_def)
next
  case (snoc b buf)
  then show ?case by (simp add: from_be_def or.commute)
qed

lemma rng_data:
  assumes "read_exact (urandom d) (unat n) = (Some buf, f)"
  shows "rng_mmio_read read_exact d 0x100 n = (from_be buf, d\<lparr>urandom := f\<rparr>)"
  using assms by (simp add: rng_mmio_read_def foldl_push_bit)

end
