(* ===== verification/LD_Storage.thy ===== *)
theory LD_Storage
  imports LD_Devices
begin

text \<open>
  The crate \<^verbatim>\<open>crates/storage\<close>: \<open>RawDiskImage\<close>, a file descriptor with positional I/O, and the bus
  device \<open>VirtioBlkDevice\<close> over it.  The C library is the parameter \<open>libc\<close>, a record of the calls the
  code makes over an operating-system state \<open>'os\<close>; the predicate \<open>posix_disk\<close> states what the manual
  pages promise of \<open>pread\<close> and \<open>pwrite\<close> on a regular file.  An \<open>off_t\<close> is the same 64 bits as the \<open>u64\<close> it
  is cast from.
\<close>

definition SECTOR_SIZE :: u64 where [core_consts]: "SECTOR_SIZE = 512"
definition VIRTIO_BLK_MAGIC :: u32 where [core_consts]: "VIRTIO_BLK_MAGIC = 0x74726976"
definition VIRTIO_BLK_VERSION :: u32 where [core_consts]: "VIRTIO_BLK_VERSION = 2"
definition VIRTIO_ID_BLOCK :: u32 where [core_consts]: "VIRTIO_ID_BLOCK = 2"

section \<open>The C library\<close>

text \<open>
  \<open>c_open path create\<close> opens with \<open>O_RDWR | O_CLOEXEC\<close>, and \<open>O_CREAT\<close> when \<open>create\<close>; \<open>c_fstat\<close> returns the
  result and \<open>st_size\<close>; \<open>c_pread fd len off\<close> returns the result and the bytes placed in the buffer.
\<close>

record 'os libc =
  c_open :: "string \<Rightarrow> bool \<Rightarrow> 'os \<Rightarrow> int \<times> 'os"
  c_ftruncate :: "int \<Rightarrow> u64 \<Rightarrow> 'os \<Rightarrow> int \<times> 'os"
  c_fstat :: "int \<Rightarrow> 'os \<Rightarrow> int \<times> u64"
  c_pread :: "int \<Rightarrow> nat \<Rightarrow> u64 \<Rightarrow> 'os \<Rightarrow> int \<times> bytes"
  c_pwrite :: "int \<Rightarrow> bytes \<Rightarrow> u64 \<Rightarrow> 'os \<Rightarrow> int \<times> 'os"
  c_fsync :: "int \<Rightarrow> 'os \<Rightarrow> int \<times> 'os"
  c_close :: "int \<Rightarrow> 'os \<Rightarrow> int \<times> 'os"
  last_os_error :: "'os \<Rightarrow> string"

text \<open>\<open>CString::new\<close> rejects a text with an interior NUL byte, naming its position.\<close>

definition cstring_new :: "string \<Rightarrow> (string, string) outcome" where
  "cstring_new s =
     (case find (\<lambda>i. s ! i = CHR 0x00) [0..<length s] of
        Some i \<Rightarrow> Err (''nul byte found in provided data at position: '' @ show_nat i)
      | None \<Rightarrow> Ok s)"

section \<open>RawDiskImage\<close>

record RawDiskImage =
  disk_fd :: int
  disk_size :: u64

definition disk_cstring :: "path \<Rightarrow> string ld_result" where
  "disk_cstring p = map_err (\<lambda>e. DiskIo (''invalid path for disk image: '' @ e))
     (cstring_new (from_utf8_lossy (as_bytes p)))"

definition disk_create :: "'os libc \<Rightarrow> path \<Rightarrow> u64 \<Rightarrow> ('os, LiteDroidError, RawDiskImage) action" where
  "disk_create C p size_bytes =
     andthen (lift_outcome (\<lambda>_. disk_cstring p)) (\<lambda>cstr os.
       case c_open C cstr True os of (fd, os1) \<Rightarrow>
         if fd < 0 then
           (Err (DiskIo (''failed to create disk image at '' @ p @ '': '' @ last_os_error C os1)), os1)
         else case c_ftruncate C fd size_bytes os1 of (r, os2) \<Rightarrow>
           if r < 0 then
             (case c_close C fd os2 of (_, os3) \<Rightarrow>
               (Err (DiskIo (''ftruncate failed for '' @ p @ '': '' @ last_os_error C os3)), os3))
           else (Ok \<lparr>disk_fd = fd, disk_size = size_bytes\<rparr>, os2))"

definition disk_open :: "'os libc \<Rightarrow> path \<Rightarrow> ('os, LiteDroidError, RawDiskImage) action" where
  "disk_open C p =
     andthen (lift_outcome (\<lambda>_. disk_cstring p)) (\<lambda>cstr os.
       case c_open C cstr False os of (fd, os1) \<Rightarrow>
         if fd < 0 then
           (Err (DiskIo (''failed to open disk image at '' @ p @ '': '' @ last_os_error C os1)), os1)
         else case c_fstat C fd os1 of (r, st_size) \<Rightarrow>
           if r < 0 then
             (case c_close C fd os1 of (_, os2) \<Rightarrow>
               (Err (DiskIo (''fstat failed for '' @ p @ '': '' @ last_os_error C os2)), os2))
           else (Ok \<lparr>disk_fd = fd, disk_size = st_size\<rparr>, os1))"

text \<open>\<open>read\<close> fills a prefix of the caller's buffer and returns the number of bytes with the buffer.\<close>

definition disk_read :: "'os libc \<Rightarrow> RawDiskImage \<Rightarrow> u64 \<Rightarrow> bytes \<Rightarrow> 'os \<Rightarrow> (nat \<times> bytes) ld_result" where
  "disk_read C d off buf os =
     (case c_pread C (disk_fd d) (length buf) off os of (n, data) \<Rightarrow>
        if n < 0 then
          Err (DiskIo (''pread failed at offset '' @ show_nat (unat off) @ '': '' @ last_os_error C os))
        else Ok (nat n, data @ drop (length data) buf))"

definition disk_write :: "'os libc \<Rightarrow> RawDiskImage \<Rightarrow> u64 \<Rightarrow> bytes \<Rightarrow> ('os, LiteDroidError, nat) action" where
  "disk_write C d off data = (\<lambda>os.
     case c_pwrite C (disk_fd d) data off os of (n, os1) \<Rightarrow>
        if n < 0 then
          (Err (DiskIo (''pwrite failed at offset '' @ show_nat (unat off) @ '': '' @ last_os_error C os1)), os1)
        else (Ok (nat n), os1))"

definition disk_flush :: "'os libc \<Rightarrow> RawDiskImage \<Rightarrow> ('os, LiteDroidError, unit) action" where
  "disk_flush C d = (\<lambda>os.
     case c_fsync C (disk_fd d) os of (r, os1) \<Rightarrow>
        if r < 0 then (Err (DiskIo (''fsync failed: '' @ last_os_error C os1)), os1) else (Ok (), os1))"

definition disk_image_size :: "RawDiskImage \<Rightarrow> u64" where
  "disk_image_size d = disk_size d"

definition sectors :: "RawDiskImage \<Rightarrow> u64" where
  "sectors d = disk_size d div SECTOR_SIZE"

definition disk_drop :: "'os libc \<Rightarrow> RawDiskImage \<Rightarrow> 'os \<Rightarrow> 'os" where
  "disk_drop C d os = (if disk_fd d \<ge> 0 then snd (c_close C (disk_fd d) os) else os)"

lemma sectors_capacity: "unat (sectors d) * 512 \<le> unat (disk_size d)"
  by (simp add: sectors_def core_consts unat_div)

section \<open>Positional I/O on a regular file\<close>

text \<open>
  \<open>posix_disk C fd view\<close>: on descriptor \<open>fd\<close>, \<open>pread\<close> never delivers more than it was asked for and
  delivers all the bytes of the file that lie in the range; a successful \<open>pwrite\<close> stores a prefix of
  the buffer, extending the file with zeros when the range starts beyond its end.  \<open>view os\<close> is the
  contents of the file.
\<close>

definition pad_to :: "nat \<Rightarrow> bytes \<Rightarrow> bytes" where
  "pad_to n bs = bs @ replicate (n - length bs) 0"

definition file_write :: "bytes \<Rightarrow> nat \<Rightarrow> bytes \<Rightarrow> bytes" where
  "file_write bs off data = splice (pad_to (off + length data) bs) off data"

definition posix_disk :: "'os libc \<Rightarrow> int \<Rightarrow> ('os \<Rightarrow> bytes) \<Rightarrow> bool" where
  "posix_disk C fd view \<longleftrightarrow>
     (\<forall>os len off n data. c_pread C fd len off os = (n, data) \<and> 0 \<le> n \<longrightarrow>
        data = take len (drop (unat off) (view os)) \<and> n = int (length data)) \<and>
     (\<forall>os os' data off n. c_pwrite C fd data off os = (n, os') \<and> 0 \<le> n \<longrightarrow>
        n \<le> int (length data) \<and> view os' = file_write (view os) (unat off) (take (nat n) data)) \<and>
     (\<forall>os os' data off n. c_pwrite C fd data off os = (n, os') \<and> n < 0 \<longrightarrow> view os' = view os)"

lemma length_pad_to [simp]: "length (pad_to n bs) = max n (length bs)"
  by (simp add: pad_to_def)

lemma length_file_write [simp]: "length (file_write bs off data) = max (off + length data) (length bs)"
  by (simp add: file_write_def)

lemma file_write_read_same [simp]:
  "take (length data) (drop off (file_write bs off data)) = data"
  by (simp add: file_write_def)

lemma file_write_read_other:
  assumes "b + n \<le> off \<or> off + length data \<le> b" and "b + n \<le> length bs"
  shows "take n (drop b (file_write bs off data)) = take n (drop b bs)"
proof -
  have "take n (drop b (file_write bs off data)) = take n (drop b (pad_to (off + length data) bs))"
    unfolding file_write_def using assms by (intro take_drop_splice_disjoint) auto
  also have "\<dots> = take n (drop b bs)"
    using assms(2) by (simp add: pad_to_def)
  finally show ?thesis .
qed

lemma disk_read_posix:
  assumes "posix_disk C (disk_fd d) view" and "disk_read C d off buf os = Ok (n, buf')"
  shows "n \<le> length buf" and "length buf' = length buf"
    and "take n buf' = take (length buf) (drop (unat off) (view os))"
proof -
  obtain r data where p: "c_pread C (disk_fd d) (length buf) off os = (r, data)" and "0 \<le> r"
      and n: "n = nat r" and b: "buf' = data @ drop (length data) buf"
    using assms(2) by (auto simp: disk_read_def split: prod.splits if_splits)
  with assms(1) have data: "data = take (length buf) (drop (unat off) (view os))"
      and r: "r = int (length data)"
    unfolding posix_disk_def by blast+
  then have "length data \<le> length buf" by simp
  with n b r show "n \<le> length buf" and "length buf' = length buf"
    by auto
  have "take n buf' = data"
    using n b r by simp
  with data show "take n buf' = take (length buf) (drop (unat off) (view os))"
    by simp
qed

text \<open>What a complete write stores, a later read of the same range returns.\<close>

lemma disk_write_posix:
  assumes "posix_disk C (disk_fd d) view" and "disk_write C d off data os = (Ok n, os')"
  shows "n \<le> length data" and "view os' = file_write (view os) (unat off) (take n data)"
proof -
  obtain r where p: "c_pwrite C (disk_fd d) data off os = (r, os')" and "0 \<le> r" and n: "n = nat r"
    using assms(2) by (auto simp: disk_write_def split: prod.splits if_splits)
  with assms(1) have "r \<le> int (length data)"
      and "view os' = file_write (view os) (unat off) (take (nat r) data)"
    unfolding posix_disk_def by blast+
  with n show "n \<le> length data" and "view os' = file_write (view os) (unat off) (take n data)"
    by auto
qed

section \<open>VirtioBlkDevice\<close>

record VirtioBlkDevice =
  blk_disk :: RawDiskImage
  blk_status :: u32

definition blk_new :: "RawDiskImage \<Rightarrow> VirtioBlkDevice" where
  "blk_new d = \<lparr>blk_disk = d, blk_status = 0\<rparr>"

definition blk_mmio_read :: "VirtioBlkDevice \<Rightarrow> u64 \<Rightarrow> u32 \<Rightarrow> u64 \<times> VirtioBlkDevice" where
  "blk_mmio_read d off sz =
     (if off = 0x00 then ucast VIRTIO_BLK_MAGIC
      else if off = 0x04 then ucast VIRTIO_BLK_VERSION
      else if off = 0x08 then ucast VIRTIO_ID_BLOCK
      else if off = 0x0C then 0
      else if off = 0x24 then 1
      else if off = 0x30 then ucast (blk_status d)
      else if off = 0x100 then sectors (blk_disk d)
      else 0, d)"

definition blk_mmio_write :: "VirtioBlkDevice \<Rightarrow> u64 \<Rightarrow> u32 \<Rightarrow> u64 \<Rightarrow> VirtioBlkDevice" where
  "blk_mmio_write d off sz v =
     (if off = 0x28 then d
      else if off = 0x30 then d\<lparr>blk_status := ucast v\<rparr>
      else d)"

definition blk_reset :: "VirtioBlkDevice \<Rightarrow> VirtioBlkDevice" where
  "blk_reset d = d\<lparr>blk_status := 0\<rparr>"

definition blk_name :: "VirtioBlkDevice \<Rightarrow> string" where
  "blk_name d = ''virtio-blk''"

definition blk_device_type :: "VirtioBlkDevice \<Rightarrow> string" where
  "blk_device_type d = ''block''"

definition blk_compatible :: "VirtioBlkDevice \<Rightarrow> string" where
  "blk_compatible d = ''virtio,block''"

interpretation blk: virtio_device blk_mmio_read blk_mmio_write blk_reset
    "\<lambda>_. 0x30" blk_status VIRTIO_ID_BLOCK
  by unfold_locales (auto simp: blk_mmio_read_def blk_mmio_write_def blk_reset_def core_consts)

end
