(* ===== verification/LD_VirtioBlock.thy ===== *)
theory LD_VirtioBlock
  imports LD_Memory LD_Storage
begin

text \<open>
  The block device inside \<^verbatim>\<open>crates/vmm\<close> (\<open>VirtioBlock\<close>): its MMIO registers and the service of the
  request queue.  Its methods act on the device, the guest memory and the operating system
  behind the disk image, the record \<open>blk_world\<close>.
\<close>

definition VIRTIO_BLK :: u32 where [core_consts]: "VIRTIO_BLK = 2"
definition DESC_NEXT :: u16 where [core_consts]: "DESC_NEXT = 1"
definition DESC_WRITE :: u16 where [core_consts]: "DESC_WRITE = 2"

record VirtioBlock =
  vb_disk :: RawDiskImage
  queue_num :: u16
  queue_pfn :: u32
  vb_status :: u32
  last_avail :: u16

record 'os blk_world =
  vblk :: VirtioBlock
  gmem :: GuestMemory
  host :: 'os

section \<open>Helpers\<close>

definition align_up :: "u64 \<Rightarrow> u64 \<Rightarrow> u64" where
  "align_up v alignment = (v + alignment - 1) AND NOT (alignment - 1)"

definition guest_u16 :: "GuestMemory \<Rightarrow> u64 \<Rightarrow> u16 ld_result" where
  "guest_u16 m a = bind_outcome (read_guest m a 2) (\<lambda>bs. Ok (from_le bs))"

definition guest_u32 :: "GuestMemory \<Rightarrow> u64 \<Rightarrow> u32 ld_result" where
  "guest_u32 m a = bind_outcome (read_guest m a 4) (\<lambda>bs. Ok (from_le bs))"

definition guest_u64 :: "GuestMemory \<Rightarrow> u64 \<Rightarrow> u64 ld_result" where
  "guest_u64 m a = bind_outcome (read_guest m a 8) (\<lambda>bs. Ok (from_le bs))"

text \<open>The remainder of two \<open>u16\<close> values; a zero divisor panics.\<close>

definition rem_u16 :: "u16 \<Rightarrow> u16 \<Rightarrow> ('e, u16) outcome" where
  "rem_u16 a b = (if b = 0 then Panic else Ok (a mod b))"

definition rd16 :: "u64 \<Rightarrow> ('os blk_world, LiteDroidError, u16) action" where
  "rd16 a = lift_outcome (\<lambda>w. guest_u16 (gmem w) a)"

definition rd32 :: "u64 \<Rightarrow> ('os blk_world, LiteDroidError, u32) action" where
  "rd32 a = lift_outcome (\<lambda>w. guest_u32 (gmem w) a)"

definition rd64 :: "u64 \<Rightarrow> ('os blk_world, LiteDroidError, u64) action" where
  "rd64 a = lift_outcome (\<lambda>w. guest_u64 (gmem w) a)"

definition wr_mem :: "u64 \<Rightarrow> bytes \<Rightarrow> ('os blk_world, LiteDroidError, unit) action" where
  "wr_mem a d = (\<lambda>w. case write_guest (gmem w) a d of
     Ok m \<Rightarrow> (Ok (), w\<lparr>gmem := m\<rparr>) | Err e \<Rightarrow> (Err e, w) | Panic \<Rightarrow> (Panic, w))"

definition on_host :: "('os, LiteDroidError, 'a) action \<Rightarrow> ('os blk_world, LiteDroidError, 'a) action" where
  "on_host m = (\<lambda>w. case m (host w) of (r, os) \<Rightarrow> (r, w\<lparr>host := os\<rparr>))"

section \<open>Registers\<close>

definition virtio_block_new :: "'os libc \<Rightarrow> path \<Rightarrow> ('os, LiteDroidError, VirtioBlock) action" where
  "virtio_block_new C p = andthen (disk_open C p) (\<lambda>d.
     ret \<lparr>vb_disk = d, queue_num = 128, queue_pfn = 0, vb_status = 0, last_avail = 0\<rparr>)"

definition vb_read :: "VirtioBlock \<Rightarrow> u64 \<Rightarrow> nat \<Rightarrow> u64" where
  "vb_read b off sz =
     (let v = (if off = 0x00 then ucast VIRTIO_MAGIC
               else if off = 0x04 then 2
               else if off = 0x08 then ucast VIRTIO_BLK
               else if off = 0x0c then 0
               else if off = 0x10 then 0
               else if off = 0x34 then ucast (queue_num b)
               else if off = 0x38 then ucast (queue_num b)
               else if off = 0x3c then 4096
               else if off = 0x40 then ucast (queue_pfn b)
               else if off = 0x60 then ucast (vb_status b)
               else if off = 0x64 then 0
               else if off = 0x100 then sectors (vb_disk b)
               else 0)
      in if sz \<ge> 8 then v else v AND (push_bit (sz * 8) 1 - 1))"

section \<open>The request queue\<close>

definition process_request :: "'os libc \<Rightarrow> u64 \<Rightarrow> u16 \<Rightarrow> ('os blk_world, LiteDroidError, unit) action" where
  "process_request C queue head =
     (let desc = queue + ucast head * 16 in
      andthen (rd64 desc) (\<lambda>header_addr.
      andthen (rd16 (desc + 12)) (\<lambda>header_flags.
      andthen (rd16 (desc + 14)) (\<lambda>header_next.
      if header_flags AND DESC_NEXT = 0 then fail (DiskIo ''virtio request has no data descriptor'')
      else
      andthen (rd32 header_addr) (\<lambda>request_type.
      andthen (rd64 (header_addr + 8)) (\<lambda>sector.
      let payload_desc = queue + ucast header_next * 16 in
      andthen (rd64 payload_desc) (\<lambda>payload_addr.
      andthen (rd32 (payload_desc + 8)) (\<lambda>payload_len32.
      let payload_len = unat payload_len32 in
      andthen (rd16 (payload_desc + 12)) (\<lambda>payload_flags.
      andthen (rd16 (payload_desc + 14)) (\<lambda>status_next.
      andthen (gets (\<lambda>w. queue_num (vblk w))) (\<lambda>qn.
      if payload_flags AND DESC_NEXT = 0 \<or> (ucast status_next :: u64) \<ge> ucast qn
      then fail (DiskIo ''virtio request has invalid status descriptor'')
      else
      let status_desc = queue + ucast status_next * 16 in
      andthen (rd64 status_desc) (\<lambda>status_addr.
      if status_addr = 0 then fail (DiskIo ''virtio status address is null'')
      else
      let payload = replicate payload_len (0 :: u8) in
      andthen (gets (\<lambda>w. vb_disk (vblk w))) (\<lambda>disk.
      andthen
        (if request_type = 0 then
           (if payload_flags AND DESC_WRITE = 0
            then fail (DiskIo ''virtio read buffer is not writable'')
            else andthen (lift_outcome (\<lambda>w. disk_read C disk (sector * 512) payload (host w)))
              (\<lambda>(n, payload').
                 andthen (lift_outcome (\<lambda>_. idx_range payload' 0 n)) (\<lambda>data.
                 andthen (wr_mem payload_addr data) (\<lambda>_. ret (0 :: u8)))))
         else if request_type = 1 then
           (if payload_flags AND DESC_WRITE \<noteq> 0
            then fail (DiskIo ''virtio write buffer is not readable'')
            else andthen (lift_outcome (\<lambda>w. read_guest (gmem w) payload_addr payload_len)) (\<lambda>data.
                 andthen (on_host (disk_write C disk (sector * 512) data)) (\<lambda>_. ret 0)))
         else ret 1) (\<lambda>status.
      andthen (wr_mem status_addr [status]) (\<lambda>_.
      let used = align_up (queue + 16 * ucast qn + 4 + 2 * ucast qn) 4096 in
      andthen (rd16 (used + 2)) (\<lambda>used_idx.
      andthen (lift_outcome (\<lambda>_. rem_u16 used_idx qn)) (\<lambda>slot16.
      let used_slot = ucast slot16 :: u64 in
      andthen (wr_mem (used + 4 + used_slot * 8) (to_le 4 (ucast head :: u32))) (\<lambda>_.
      andthen (wr_mem (used + 8 + used_slot * 8) (to_le 4 (of_nat payload_len :: u32))) (\<lambda>_.
      wr_mem (used + 2) (to_le 2 (used_idx + 1)))))))))))))))))))))"

text \<open>One turn of the loop of \<open>process_queue\<close>: serve the next request, then advance \<open>last_avail\<close>.\<close>

definition process_next :: "'os libc \<Rightarrow> u64 \<Rightarrow> ('os blk_world, LiteDroidError, unit) action" where
  "process_next C queue =
     andthen (lift_outcome (\<lambda>w. rem_u16 (last_avail (vblk w)) (queue_num (vblk w)))) (\<lambda>slot.
     andthen (rd16 (queue + 4 + ucast slot * 2)) (\<lambda>head.
     andthen (process_request C queue head) (\<lambda>_.
     modify (\<lambda>w. w\<lparr>vblk := (vblk w)\<lparr>last_avail := last_avail (vblk w) + 1\<rparr>\<rparr>))))"

lemma keeps_rd [keeps_rules]: "keeps I (rd16 a)" "keeps I (rd32 a)" "keeps I (rd64 a)"
  by (simp_all add: rd16_def rd32_def rd64_def keeps_lift_outcome)

lemma keeps_wr_mem [keeps_rules]: "(\<And>w m. I w \<Longrightarrow> I (w\<lparr>gmem := m\<rparr>)) \<Longrightarrow> keeps I (wr_mem a d)"
  by (auto simp: keeps_def wr_mem_def split: outcome.splits)

lemma keeps_on_host [keeps_rules]: "(\<And>w os. I w \<Longrightarrow> I (w\<lparr>host := os\<rparr>)) \<Longrightarrow> keeps I (on_host m)"
  by (auto simp: keeps_def on_host_def split: prod.splits)

lemma process_request_keeps_vblk [keeps_rules]: "keeps (\<lambda>w. vblk w = b) (process_request C queue head)"
  unfolding process_request_def Let_def by (intro keeps_rules) simp_all

lemma process_next_Ok:
  assumes "process_next C queue w = (Ok (), w')"
  shows "vblk w' = (vblk w)\<lparr>last_avail := last_avail (vblk w) + 1\<rparr>"
proof -
  obtain head w1 where "process_request C queue head w = (Ok (), w1)"
      and w': "w' = w1\<lparr>vblk := (vblk w1)\<lparr>last_avail := last_avail (vblk w1) + 1\<rparr>\<rparr>"
    using assms by (auto simp: process_next_def andthen_eq_Ok rd16_def)
  then have "vblk w1 = vblk w"
    using keepsD [OF process_request_keeps_vblk] by blast
  with w' show ?thesis by simp
qed

function process_loop :: "'os libc \<Rightarrow> u64 \<Rightarrow> u16 \<Rightarrow> 'os blk_world \<Rightarrow> unit ld_result \<times> 'os blk_world" where
  "process_loop C queue avail_idx w =
     (if last_avail (vblk w) = avail_idx then (Ok (), w)
      else case process_next C queue w of
        (Ok _, w1) \<Rightarrow> process_loop C queue avail_idx w1
      | (Err e, w1) \<Rightarrow> (Err e, w1)
      | (Panic, w1) \<Rightarrow> (Panic, w1))"
  by pat_completeness auto
termination
proof (relation "measure (\<lambda>(C, queue, avail_idx, w). unat (avail_idx - last_avail (vblk w)))", goal_cases)
  case 1
  show ?case by simp
next
  case (2 C queue avail_idx w r w1 x1)
  then have w1: "last_avail (vblk w1) = last_avail (vblk w) + 1"
    using process_next_Ok [of C queue w w1] by simp
  have "avail_idx - last_avail (vblk w) \<noteq> 0"
    using 2 by simp
  then have "unat (avail_idx - last_avail (vblk w) - 1) < unat (avail_idx - last_avail (vblk w))"
    by (simp add: measure_unat)
  with w1 show ?case
    by (simp add: diff_diff_eq)
qed

declare process_loop.simps [simp del]

definition process_queue :: "'os libc \<Rightarrow> ('os blk_world, LiteDroidError, unit) action" where
  "process_queue C = (\<lambda>w.
     let queue = push_bit 12 (ucast (queue_pfn (vblk w)) :: u64) in
     case guest_u16 (gmem w) (queue + 2) of
       Ok avail_idx \<Rightarrow> process_loop C queue avail_idx w
     | Err e \<Rightarrow> (Err e, w)
     | Panic \<Rightarrow> (Panic, w))"

text \<open>
  A register write; an error of \<open>process_queue\<close> is only logged, a panic unwinds the caller.
\<close>

definition vb_write :: "'os libc \<Rightarrow> u64 \<Rightarrow> u64 \<Rightarrow> ('os blk_world, LiteDroidError, unit) action" where
  "vb_write C off v = (\<lambda>w.
     let b = vblk w in
     if off = 0x38 then (Ok (), w\<lparr>vblk := b\<lparr>queue_num := min (ucast v) 128\<rparr>\<rparr>)
     else if off = 0x40 then (Ok (), w\<lparr>vblk := b\<lparr>queue_pfn := ucast v\<rparr>\<rparr>)
     else if off = 0x50 then
       (if v = 0 \<and> queue_pfn b \<noteq> 0
        then case process_queue C w of
               (Ok _, w1) \<Rightarrow> (Ok (), w1)
             | (Err e, w1) \<Rightarrow> (Ok (), w1)
             | (Panic, w1) \<Rightarrow> (Panic, w1)
        else (Ok (), w))
     else if off = 0x60 then (Ok (), w\<lparr>vblk := b\<lparr>vb_status := ucast v\<rparr>\<rparr>)
     else (Ok (), w))"

end
