(* ===== verification/LD_Boot.thy ===== *)
theory LD_Boot
  imports LD_Kvm LD_VirtioBlock
begin

text \<open>
  The boot half of \<^verbatim>\<open>crates/vmm\<close>: the state \<open>VirtualMachine\<close>, its construction, the loading of kernel
  and initramfs into guest memory, and the page tables, descriptor tables, zero page and
  registers the guest starts with.  Files of the host are the parameter \<open>host_files\<close> and the anonymous
  mapping of guest RAM the parameter \<open>mmap\<close>.
\<close>

definition PML4_ADDR :: u64 where [core_consts]: "PML4_ADDR = 0x70000"
definition PDPT_ADDR :: u64 where [core_consts]: "PDPT_ADDR = 0x71000"
definition PD_ADDR :: u64 where [core_consts]: "PD_ADDR = 0x72000"
definition GDT_ADDR :: u64 where [core_consts]: "GDT_ADDR = 0x80000"
definition KERNEL_CODE_SEGMENT :: u16 where [core_consts]: "KERNEL_CODE_SEGMENT = 0x10"
definition KERNEL_DATA_SEGMENT :: u16 where [core_consts]: "KERNEL_DATA_SEGMENT = 0x18"
definition BOOT_STACK_POINTER :: u64 where [core_consts]: "BOOT_STACK_POINTER = 0x800000"
definition BOOT_PARAMS_ADDR :: u64 where [core_consts]: "BOOT_PARAMS_ADDR = 0x90000"
definition CMDLINE_ADDR :: u64 where [core_consts]: "CMDLINE_ADDR = 0x20000"
definition BOOT_PARAMS_SIZE :: nat where [core_consts]: "BOOT_PARAMS_SIZE = 0x1000"

section \<open>State\<close>

record VirtualMachine =
  hypervisor :: Hypervisor
  vcpus :: "Vcpu list"
  guest_memory :: GuestMemory
  vm_config :: DeviceConfig
  kernel_is_bzimage :: bool
  bzimage_header :: bytes
  initramfs_size :: u64
  block_device :: VirtioBlock
  running :: bool

text \<open>The kernel's KVM and the operating system around a machine, and the machine in them.\<close>

record ('k, 'os) vm_env =
  kvm :: "'k kvm_world"
  host_os :: 'os

record ('k, 'os) machine = "('k, 'os) vm_env" +
  vm :: VirtualMachine

record host_files =
  path_exists :: "path \<Rightarrow> bool"
  fs_read :: "path \<Rightarrow> io_error + bytes"

definition on_kvm ::
  "('k kvm_world, LiteDroidError, 'a) action \<Rightarrow> (('k, 'os, 'z) vm_env_scheme, LiteDroidError, 'a) action" where
  "on_kvm m = (\<lambda>w. case m (kvm w) of (r, k) \<Rightarrow> (r, w\<lparr>kvm := k\<rparr>))"

definition on_os ::
  "('os, LiteDroidError, 'a) action \<Rightarrow> (('k, 'os, 'z) vm_env_scheme, LiteDroidError, 'a) action" where
  "on_os m = (\<lambda>w. case m (host_os w) of (r, os) \<Rightarrow> (r, w\<lparr>host_os := os\<rparr>))"

definition on_vm ::
  "(VirtualMachine, LiteDroidError, 'a) action \<Rightarrow> (('k, 'os) machine, LiteDroidError, 'a) action" where
  "on_vm m = (\<lambda>w. case m (vm w) of (r, v) \<Rightarrow> (r, w\<lparr>vm := v\<rparr>))"

text \<open>\<open>self.guest_memory.write_guest(..)?\<close>, to which \<open>load_blob\<close> delegates.\<close>

definition put :: "u64 \<Rightarrow> bytes \<Rightarrow> (VirtualMachine, LiteDroidError, unit) action" where
  "put a d = (\<lambda>v. case write_guest (guest_memory v) a d of
     Ok m \<Rightarrow> (Ok (), v\<lparr>guest_memory := m\<rparr>) | Err e \<Rightarrow> (Err e, v) | Panic \<Rightarrow> (Panic, v))"

definition put_blob :: "u64 \<Rightarrow> bytes \<Rightarrow> (VirtualMachine, LiteDroidError, unit) action" where
  "put_blob a d = (\<lambda>v. case load_blob (guest_memory v) a d of
     Ok m \<Rightarrow> (Ok (), v\<lparr>guest_memory := m\<rparr>) | Err e \<Rightarrow> (Err e, v) | Panic \<Rightarrow> (Panic, v))"

section \<open>VirtualMachine::new\<close>

fun create_vcpus ::
  "'k kvm_api \<Rightarrow> cpuid_entry list \<Rightarrow> u32 list \<Rightarrow> Vcpu list \<Rightarrow> ('k kvm_world, LiteDroidError, Vcpu list) action" where
  "create_vcpus K cpuid [] acc = ret acc"
| "create_vcpus K cpuid (i # is) acc =
     andthen (create_vcpu K i) (\<lambda>v.
     andthen (set_cpuid K v cpuid) (\<lambda>_.
     create_vcpus K cpuid is (acc @ [v])))"

definition virtual_machine_new ::
  "'k kvm_api \<Rightarrow> 'os libc \<Rightarrow> (u64 \<Rightarrow> (u64 \<times> ram_contents) option) \<Rightarrow> DeviceConfig \<Rightarrow>
     (('k, 'os) vm_env, LiteDroidError, VirtualMachine) action" where
  "virtual_machine_new K C mmap config =
     andthen (lift_outcome (\<lambda>_. validate config)) (\<lambda>_.
     andthen (on_kvm (hypervisor_new K)) (\<lambda>hyp.
     andthen (on_kvm (create_vm K)) (\<lambda>_.
     andthen (on_kvm (create_irq_chip K)) (\<lambda>_.
     andthen (on_kvm (create_pit K)) (\<lambda>_.
     andthen (on_kvm (set_tss_addr K 0xfffbd000)) (\<lambda>_.
     andthen (on_kvm (set_identity_map_addr K 0xfffbc000)) (\<lambda>_.
     let mem_size = mem_size_of config in
     andthen (lift_outcome (\<lambda>_. guest_memory_new mmap mem_size)) (\<lambda>gm.
     andthen (on_kvm (set_user_memory_region K 0 0 mem_size (userspace_addr gm))) (\<lambda>_.
     andthen (on_kvm (get_supported_cpuid K)) (\<lambda>cpuid.
     let filtered_cpuid = filter_for_android cpuid in
     andthen (on_kvm (create_vcpus K filtered_cpuid (map of_nat [0..<unat (vcpu_count config)]) [])) (\<lambda>vs.
     andthen (on_os (virtio_block_new C (system_image_path config))) (\<lambda>b.
     ret \<lparr>hypervisor = hyp, vcpus = vs, guest_memory = gm, vm_config = config,
          kernel_is_bzimage = False, bzimage_header = [], initramfs_size = 0,
          block_device = b, running = False\<rparr>))))))))))))"

section \<open>Loading\<close>

definition read_u32 :: "bytes \<Rightarrow> nat \<Rightarrow> u32 ld_result" where
  "read_u32 data off =
     bind_outcome (ok_or (KernelLoadFailed (''bzImage header is missing field at '' @ show_hex off))
       (get_range data off (off + 4))) (\<lambda>bs. Ok (from_le bs))"

definition write_u16 :: "bytes \<Rightarrow> nat \<Rightarrow> u16 \<Rightarrow> ('e, bytes) outcome" where
  "write_u16 data off v = copy_into data off (to_le 2 v)"

definition write_u32 :: "bytes \<Rightarrow> nat \<Rightarrow> u32 \<Rightarrow> ('e, bytes) outcome" where
  "write_u32 data off v = copy_into data off (to_le 4 v)"

text \<open>\<open>(setup_sects + 1).checked_mul(512)\<close> is at most 131072 and cannot overflow a \<open>usize\<close>.\<close>

definition is_bzimage :: "bytes \<Rightarrow> bool" where
  "is_bzimage data \<longleftrightarrow> length data \<ge> 0x206 \<and> take 4 (drop 0x202 data) = as_bytes ''HdrS''"

definition setup_size_of :: "bytes \<Rightarrow> nat" where
  "setup_size_of data = (unat (data ! 0x1f1) + 1) * 512"

definition load_bzimage :: "bytes \<Rightarrow> (VirtualMachine, LiteDroidError, unit) action" where
  "load_bzimage data =
     (let setup_size = setup_size_of data in
      andthen (lift_outcome (\<lambda>_. read_u32 data 0x248)) (\<lambda>offset32.
      let payload_offset = unat offset32 in
      andthen (lift_outcome (\<lambda>_. read_u32 data 0x24c)) (\<lambda>length32.
      let payload_length = unat length32; payload_end = length data in
      if setup_size < 0x200 \<or> payload_offset < 0x200 \<or> setup_size \<ge> payload_end then
        fail (KernelLoadFailed (''invalid bzImage payload range: setup='' @ show_hex setup_size
          @ '', header offset='' @ show_hex payload_offset @ '', length='' @ show_hex payload_length))
      else
      andthen (lift_outcome (\<lambda>_. idx_range data 0 setup_size)) (\<lambda>setup.
      andthen (put_blob 0x10000 setup) (\<lambda>_.
      andthen (lift_outcome (\<lambda>_. idx_range data setup_size payload_end)) (\<lambda>payload.
      andthen (put_blob KERNEL_LOAD_ADDR payload) (\<lambda>_.
      andthen (modify (\<lambda>v. v\<lparr>kernel_is_bzimage := True\<rparr>)) (\<lambda>_.
      andthen (lift_outcome (\<lambda>_. idx_range data 0x1f1 0x290)) (\<lambda>header.
      modify (\<lambda>v. v\<lparr>bzimage_header := header\<rparr>))))))))))"

definition load_kernel :: "host_files \<Rightarrow> path \<Rightarrow> (VirtualMachine, LiteDroidError, unit) action" where
  "load_kernel F p =
     (if \<not> path_exists F p then fail (KernelNotFound p)
      else case fs_read F p of
        Inl e \<Rightarrow> fail (KernelLoadFailed (''reading '' @ p @ '': '' @ e))
      | Inr data \<Rightarrow> if is_bzimage data then load_bzimage data else put_blob KERNEL_LOAD_ADDR data)"

definition load_initramfs :: "host_files \<Rightarrow> path \<Rightarrow> (VirtualMachine, LiteDroidError, unit) action" where
  "load_initramfs F p =
     (if \<not> path_exists F p then fail (InitramfsNotFound p)
      else case fs_read F p of
        Inl e \<Rightarrow> fail (KernelLoadFailed (''reading initramfs '' @ p @ '': '' @ e))
      | Inr data \<Rightarrow>
          andthen (put_blob INITRAMFS_LOAD_ADDR data) (\<lambda>_.
          modify (\<lambda>v. v\<lparr>initramfs_size := of_nat (length data)\<rparr>)))"

section \<open>Tables and registers\<close>

definition page_entry :: "u64 \<Rightarrow> u64" where
  "page_entry i = (i * 2 * 1024 * 1024) OR 0x83"

definition setup_page_tables :: "(VirtualMachine, LiteDroidError, unit) action" where
  "setup_page_tables =
     andthen (gets (\<lambda>v. ram_mb (vm_config v) * 1024 * 1024)) (\<lambda>mem_size.
     let num_pages = (mem_size + 2 * 1024 * 1024 - 1) div (2 * 1024 * 1024) in
     andthen (put PML4_ADDR (to_le 8 (PDPT_ADDR OR 0x03))) (\<lambda>_.
     andthen (put PDPT_ADDR (to_le 8 (PD_ADDR OR 0x03))) (\<lambda>_.
     for_each (map of_nat [0..<unat (min num_pages 512)]) (\<lambda>i.
       put (PD_ADDR + i * 8) (to_le 8 (page_entry i))))))"

definition setup_gdt :: "(VirtualMachine, LiteDroidError, unit) action" where
  "setup_gdt =
     andthen (put GDT_ADDR (to_le 8 (0 :: u64))) (\<lambda>_.
     andthen (put (GDT_ADDR + 8) (to_le 8 (0 :: u64))) (\<lambda>_.
     andthen (put (GDT_ADDR + 16) (to_le 8 (0x00af9b0000000000 :: u64))) (\<lambda>_.
     put (GDT_ADDR + 24) (to_le 8 (0x00cf93000000ffff :: u64)))))"

definition make_flat_data_segment :: "u16 \<Rightarrow> kvm_segment" where
  "make_flat_data_segment sel =
     \<lparr>seg_base = 0, seg_limit = 0xfffff, selector = sel, seg_type = 3, seg_present = 1, dpl = 0, db = 1,
      seg_s = 1, seg_l = 0, seg_g = 1, avl = 0, unusable = 0\<rparr>"

definition code_segment_64 :: kvm_segment where
  "code_segment_64 =
     \<lparr>seg_base = 0, seg_limit = 0xfffff, selector = KERNEL_CODE_SEGMENT, seg_type = 0xb, seg_present = 1,
      dpl = 0, db = 0, seg_s = 1, seg_l = 1, seg_g = 1, avl = 0, unusable = 0\<rparr>"

definition sregs_64 :: "kvm_sregs \<Rightarrow> kvm_sregs" where
  "sregs_64 r = r\<lparr>cr0 := 0x80000011, cr4 := 0x20, efer := 0x500, cs := code_segment_64,
     ds := make_flat_data_segment KERNEL_DATA_SEGMENT,
     es := make_flat_data_segment KERNEL_DATA_SEGMENT,
     fs := make_flat_data_segment KERNEL_DATA_SEGMENT,
     gs := make_flat_data_segment KERNEL_DATA_SEGMENT,
     ss := make_flat_data_segment KERNEL_DATA_SEGMENT,
     gdt := (gdt r)\<lparr>dt_base := GDT_ADDR, dt_limit := 4 * 8 - 1\<rparr>,
     cr3 := PML4_ADDR\<rparr>"

definition setup_sregs :: "'k kvm_api \<Rightarrow> Vcpu \<Rightarrow> ('k kvm_world, LiteDroidError, unit) action" where
  "setup_sregs K v = andthen (get_sregs K v) (\<lambda>r. set_sregs K v (sregs_64 r))"

definition gdt_32bit :: "bytes" where
  "gdt_32bit = splice (splice (replicate 32 0) 0x10 (to_le 8 (0x00cf9a000000ffff :: u64)))
     0x18 (to_le 8 (0x00cf92000000ffff :: u64))"

definition setup_gdt_32bit :: "(VirtualMachine, LiteDroidError, unit) action" where
  "setup_gdt_32bit = put_blob GDT_ADDR gdt_32bit"

definition segment_32bit :: "u16 \<Rightarrow> u8 \<Rightarrow> kvm_segment" where
  "segment_32bit sel ty =
     \<lparr>seg_base = 0, seg_limit = 0xffffffff, selector = sel, seg_type = ty, seg_present = 1, dpl = 0, db = 1,
      seg_s = 1, seg_l = 0, seg_g = 1, avl = 0, unusable = 0\<rparr>"

definition sregs_32 :: "kvm_sregs \<Rightarrow> kvm_sregs" where
  "sregs_32 r =
     (let r1 = r\<lparr>gdt := (gdt r)\<lparr>dt_base := GDT_ADDR, dt_limit := 31\<rparr>,
                 cs := segment_32bit 0x10 0xa, ds := segment_32bit 0x18 0x2\<rparr>
      in r1\<lparr>ss := ds r1, es := ds r1, fs := ds r1, gs := ds r1,
            cr0 := 0x11, cr3 := 0, cr4 := 0, efer := 0\<rparr>)"

definition setup_sregs_32bit :: "'k kvm_api \<Rightarrow> Vcpu \<Rightarrow> ('k kvm_world, LiteDroidError, unit) action" where
  "setup_sregs_32bit K v = andthen (get_sregs K v) (\<lambda>r. set_sregs K v (sregs_32 r))"

section \<open>setup_boot\<close>

text \<open>The zero page, built in a buffer; every index is inside it.\<close>

definition boot_params :: "bytes \<Rightarrow> nat \<Rightarrow> u64 \<Rightarrow> ('e, bytes) outcome" where
  "boot_params header cmdline_len initrd_size =
     bind_outcome (copy_into (replicate BOOT_PARAMS_SIZE 0) 0x1f1 header) (\<lambda>b.
     bind_outcome (write_u32 b 0x228 (ucast CMDLINE_ADDR)) (\<lambda>b.
     bind_outcome (write_u32 b 0x238 (of_nat cmdline_len)) (\<lambda>b.
     bind_outcome (write_u32 b 0x218 (ucast INITRAMFS_LOAD_ADDR)) (\<lambda>b.
     bind_outcome (write_u32 b 0x21c (ucast initrd_size)) (\<lambda>b.
     bind_outcome (write_u16 b 0x224 0x7fff) (\<lambda>b.
     let b = b[0x210 := 0xff]
     in Ok (b[0x211 := b ! 0x211 OR 0x80])))))))"

definition regs_32 :: "kvm_regs \<Rightarrow> kvm_regs" where
  "regs_32 r = r\<lparr>rax := 0, rbx := 0, rcx := 0, rdx := 0, rsi := BOOT_PARAMS_ADDR, rdi := 0, rbp := 0,
     rip := KERNEL_LOAD_ADDR, rsp := 0x10000, rflags := 0x2\<rparr>"

text \<open>
  The header length is checked before the copy in the source; both happen before any write to
  the guest, so the order of the two error returns is kept here.
\<close>

definition setup_bzimage_boot :: "'k kvm_api \<Rightarrow> Vcpu \<Rightarrow> (('k, 'os) machine, LiteDroidError, unit) action" where
  "setup_bzimage_boot K vcpu =
     andthen (gets vm) (\<lambda>v.
     if length (bzimage_header v) \<noteq> 0x9f then fail (KernelLoadFailed ''bzImage boot header was not retained'')
     else
     let cmdline = as_bytes (kernel_cmdline (vm_config v)) in
     if length cmdline + 1 > 0x800 then
       fail (KernelLoadFailed ''kernel command line exceeds boot parameter space'')
     else
     andthen (on_vm (put_blob CMDLINE_ADDR (cmdline @ [0]))) (\<lambda>_.
     andthen (lift_outcome (\<lambda>_. boot_params (bzimage_header v) (length cmdline) (initramfs_size v))) (\<lambda>params.
     andthen (on_vm (put_blob BOOT_PARAMS_ADDR params)) (\<lambda>_.
     andthen (on_vm setup_gdt_32bit) (\<lambda>_.
     andthen (on_kvm (setup_sregs_32bit K vcpu)) (\<lambda>_.
     andthen (on_kvm (get_regs K vcpu)) (\<lambda>regs.
     on_kvm (set_regs K vcpu (regs_32 regs)))))))))"

definition regs_64 :: "kvm_regs \<Rightarrow> kvm_regs" where
  "regs_64 r = r\<lparr>rip := KERNEL_LOAD_ADDR, rsi := INITRAMFS_LOAD_ADDR, rsp := BOOT_STACK_POINTER\<rparr>"

text \<open>\<open>self.vcpus[0]\<close> panics when there is no virtual CPU.\<close>

definition setup_boot :: "'k kvm_api \<Rightarrow> (('k, 'os) machine, LiteDroidError, unit) action" where
  "setup_boot K =
     andthen (gets vm) (\<lambda>v.
     case vcpus v of [] \<Rightarrow> panic
     | vcpu # _ \<Rightarrow>
       if kernel_is_bzimage v then setup_bzimage_boot K vcpu
       else
       andthen (on_vm setup_page_tables) (\<lambda>_.
       andthen (on_vm setup_gdt) (\<lambda>_.
       andthen (on_kvm (setup_sregs K vcpu)) (\<lambda>_.
       andthen (on_kvm (get_regs K vcpu)) (\<lambda>regs.
       on_kvm (set_regs K vcpu (regs_64 regs)))))))"

end
