(* ===== verification/LD_BootSpec.thy ===== *)
theory LD_BootSpec
  imports LD_Boot
begin

text \<open>
  What the boot code of \<^verbatim>\<open>crates/vmm\<close> leaves for the guest: the translation its page tables
  implement (against a walk of the four-level tables of the processor), the zero page and command
  line of the Linux boot protocol, and the images that stay intact until the guest starts.
\<close>

section \<open>Writes of the boot code as one sequence\<close>

lemma put_blob_put: "put_blob = put"
  by (simp add: fun_eq_iff put_blob_def put_def load_blob_def)

lemma put_eq_Ok:
  "put a d v = (Ok x, v') \<longleftrightarrow> (\<exists>m. write_guest (guest_memory v) a d = Ok m \<and> v' = v\<lparr>guest_memory := m\<rparr>)"
  by (auto simp: put_def split: outcome.splits)

definition puts :: "(u64 \<times> bytes) list \<Rightarrow> (VirtualMachine, LiteDroidError, unit) action" where
  "puts ws = for_each ws (\<lambda>w. put (fst w) (snd w))"

lemma puts_eq_Ok:
  "puts ws v = (Ok (), v') \<longleftrightarrow>
     (\<exists>m. write_seq write_guest ws (guest_memory v) = Ok m \<and> v' = v\<lparr>guest_memory := m\<rparr>)"
proof (induction ws arbitrary: v)
  case Nil
  then show ?case by (auto simp: puts_def)
next
  case (Cons w ws)
  then show ?case by (auto simp: puts_def andthen_eq_Ok put_eq_Ok)
qed

lemma puts_not_Panic: "fst (puts ws v) \<noteq> Panic"
proof -
  have "safe (\<lambda>_. True) (puts ws)"
    unfolding puts_def
    by (intro safe_rules) (auto simp: safe_def put_def gm.wr_not_Panic split: outcome.splits)
  then show ?thesis by (auto simp: safe_def)
qed

lemma puts_succeeds:
  assumes "\<forall>w \<in> set ws. in_range (unat (gm_size (guest_memory v))) w"
  shows "\<exists>m. puts ws v = (Ok (), v\<lparr>guest_memory := m\<rparr>) \<and> write_seq write_guest ws (guest_memory v) = Ok m"
  using gm.write_seq_succeeds [OF assms] by (auto simp: puts_eq_Ok)

section \<open>Address translation\<close>

text \<open>
  The four-level walk of the processor in long mode: an entry whose bit 0 is clear is not present, and
  bit 7 of a directory entry ends the walk with a large page.
\<close>

definition table_entry :: "GuestMemory \<Rightarrow> u64 \<Rightarrow> u64 \<Rightarrow> u64 option" where
  "table_entry m table index =
     (case guest_u64 m (table + 8 * index) of
        Ok e \<Rightarrow> if bit e 0 then Some e else None
      | Err e \<Rightarrow> None
      | Panic \<Rightarrow> None)"

definition frame :: "nat \<Rightarrow> u64 \<Rightarrow> u64" where
  "frame k e = take_bit 52 (push_bit k (drop_bit k e))"

definition index_at :: "nat \<Rightarrow> u64 \<Rightarrow> u64" where
  "index_at k va = take_bit 9 (drop_bit k va)"

definition walk :: "GuestMemory \<Rightarrow> u64 \<Rightarrow> u64 \<Rightarrow> u64 option" where
  "walk m cr3_reg va =
     (case table_entry m (frame 12 cr3_reg) (index_at 39 va) of None \<Rightarrow> None
      | Some e4 \<Rightarrow>
     case table_entry m (frame 12 e4) (index_at 30 va) of None \<Rightarrow> None
      | Some e3 \<Rightarrow> if bit e3 7 then Some (frame 30 e3 OR take_bit 30 va) else
     case table_entry m (frame 12 e3) (index_at 21 va) of None \<Rightarrow> None
      | Some e2 \<Rightarrow> if bit e2 7 then Some (frame 21 e2 OR take_bit 21 va) else
     case table_entry m (frame 12 e2) (index_at 12 va) of None \<Rightarrow> None
      | Some e1 \<Rightarrow> Some (frame 12 e1 OR take_bit 12 va))"

definition table_writes :: "nat \<Rightarrow> (u64 \<times> bytes) list" where
  "table_writes n =
     (PML4_ADDR, to_le 8 (PDPT_ADDR OR 0x03)) # (PDPT_ADDR, to_le 8 (PD_ADDR OR 0x03))
     # map (\<lambda>i. (PD_ADDR + of_nat i * 8, to_le 8 (page_entry (of_nat i)))) [0..<n]"

definition num_entries :: "DeviceConfig \<Rightarrow> nat" where
  "num_entries c = min 512 ((unat (ram_mb c) + 1) div 2)"

lemma num_pages_entries:
  assumes "validate c = Ok ()"
  shows "unat (min ((ram_mb c * 1024 * 1024 + 2 * 1024 * 1024 - 1) div (2 * 1024 * 1024)) 512) = num_entries c"
proof -
  from assms have le: "unat (ram_mb c) \<le> 8192" by (simp add: validate_Ok_iff)
  define k where "k = unat (ram_mb c)"
  have "ram_mb c = of_nat k" by (simp add: k_def)
  then have "ram_mb c * 1024 * 1024 + 2 * 1024 * 1024 - 1 = of_nat (k * 1048576 + 2097151)"
    by simp
  moreover have "k * 1048576 + 2097151 < 2 ^ 64"
    using le by (simp add: k_def)
  ultimately have "unat (ram_mb c * 1024 * 1024 + 2 * 1024 * 1024 - 1) = k * 1048576 + 2097151"
    using unat_of_nat_u64 by metis
  then have "unat ((ram_mb c * 1024 * 1024 + 2 * 1024 * 1024 - 1) div (2 * 1024 * 1024))
      = (k * 1048576 + 2097151) div 2097152"
    by (simp add: unat_div)
  also have "\<dots> = (k + 1) div 2" by linarith
  finally show ?thesis
    by (simp add: num_entries_def min_def word_le_nat_alt k_def)
qed

lemma setup_page_tables_puts:
  assumes "validate (vm_config v) = Ok ()"
  shows "setup_page_tables v = puts (table_writes (num_entries (vm_config v))) v"
proof -
  have "for_each (map (\<lambda>i. (PD_ADDR + of_nat i * 8, to_le 8 (page_entry (of_nat i)))) is) (\<lambda>w. put (fst w) (snd w))
      = for_each (map of_nat is) (\<lambda>i. put (PD_ADDR + i * 8) (to_le 8 (page_entry i)))" for "is"
    by (induction "is") simp_all
  then show ?thesis
    unfolding setup_page_tables_def puts_def table_writes_def Let_def andthen_gets
      num_pages_entries [OF assms]
    by simp
qed

lemma unat_table_addrs:
  "unat PML4_ADDR = 0x70000" "unat PDPT_ADDR = 0x71000" "unat PD_ADDR = 0x72000"
  by (simp_all add: core_consts)

lemma unat_pd_slot: "i < 512 \<Longrightarrow> unat (PD_ADDR + of_nat i * 8) = 0x72000 + 8 * i"
proof -
  assume "i < 512"
  then have "0x72000 + 8 * i < 2 ^ 64" by simp
  moreover have "PD_ADDR + of_nat i * 8 = of_nat (0x72000 + 8 * i)"
    by (simp add: core_consts)
  ultimately show ?thesis
    by (metis unat_of_nat_u64)
qed

lemma table_writes_shape:
  assumes "n \<le> 512" and "0x73000 \<le> unat (gm_size m)"
  shows "sorted_wrt apart (table_writes n)"
    and "\<forall>w \<in> set (table_writes n). in_range (unat (gm_size m)) w"
    and "\<forall>w \<in> set (table_writes n). 0x70000 \<le> unat (fst w) \<and> unat (fst w) + length (snd w) \<le> 0x73000"
proof -
  have addr: "unat (PD_ADDR + of_nat i * 8) = 0x72000 + 8 * i" if "i < n" for i
    using that assms by (simp add: unat_pd_slot)
  show "sorted_wrt apart (table_writes n)"
    by (auto simp: table_writes_def apart_def addr unat_table_addrs sorted_wrt_map
        intro!: sorted_wrt_mono_rel [OF _ sorted_wrt_upt])
  show "\<forall>w \<in> set (table_writes n). 0x70000 \<le> unat (fst w) \<and> unat (fst w) + length (snd w) \<le> 0x73000"
    using assms by (auto simp: table_writes_def addr unat_table_addrs)
  then show "\<forall>w \<in> set (table_writes n). in_range (unat (gm_size m)) w"
    using assms by (fastforce simp: in_range_def)
qed

text \<open>After the writes the tables hold these entries and nothing else.\<close>

lemma guest_u64_written:
  assumes "write_seq write_guest ws m = Ok m'" and "sorted_wrt apart ws" and "(a, to_le 8 e) \<in> set ws"
  shows "guest_u64 m' a = Ok e"
  using gm.write_seq_read_back [OF assms] by (simp add: guest_u64_def del: to_le_numeral)

lemma guest_u64_zero:
  assumes "write_seq write_guest ws m = Ok m'" and "unat a + 8 \<le> unat (gm_size m)"
    and "\<forall>i \<in> {unat a..<unat a + 8}. ram m i = 0 \<and> (\<forall>w \<in> set ws. \<not> covers w i)"
  shows "guest_u64 m' a = Ok 0"
proof -
  have "ram m' i = 0" if "i \<in> {unat a..<unat a + 8}" for i
    using gm.write_seq_peek [OF assms(1), of i] assms(3) that by auto
  then have "map (ram m') [unat a..<unat a + 8] = replicate 8 0"
    by (intro nth_equalityI) (auto simp: nth_append)
  moreover have "unat (gm_size m') = unat (gm_size m)"
    using gm.write_seq_cap [OF assms(1)] .
  ultimately have "read_guest m' a 8 = Ok (replicate 8 0)"
    using assms(2) by (simp add: read_guest_eq)
  then show ?thesis
    by (simp add: guest_u64_def numeral_eq_Suc)
qed

lemma unat_index_at: "unat (index_at k va) = unat va div 2 ^ k mod 512"
proof -
  have "unat (index_at k va) = take_bit 9 (drop_bit k (take_bit 64 (unat va)))"
    by (simp add: index_at_def unsigned_take_bit_eq unsigned_drop_bit_eq del: take_bit_drop_bit)
  also have "take_bit 64 (unat va) = unat va"
    using unat_u64_less [of va] by (simp add: take_bit_nat_eq_self_iff)
  finally show ?thesis
    by (simp add: take_bit_eq_mod drop_bit_eq_div)
qed

lemma index_at_eq: "index_at k va = of_nat (unat va div 2 ^ k mod 512)"
proof -
  have "index_at k va = of_nat (unat (index_at k va))" by simp
  then show ?thesis by (simp only: unat_index_at)
qed

lemma frame_tables:
  "frame 12 PML4_ADDR = PML4_ADDR" "frame 12 (PDPT_ADDR OR 0x03) = PDPT_ADDR" "frame 12 (PD_ADDR OR 0x03) = PD_ADDR"
  by (simp_all add: frame_def core_consts)

lemma bit_flag_u64: "bit (push_bit n 1 :: u64) i \<longleftrightarrow> i = n \<and> n < 64"
  by (auto simp: bit_exp_iff)

lemma bit_page_entry:
  "bit (page_entry i) j \<longleftrightarrow> j < 64 \<and> (if j < 21 then j \<in> {0, 1, 7} else bit i (j - 21))"
proof -
  have "i * 2 * 1024 * 1024 = push_bit 21 i"
    by (simp add: push_bit_eq_mult)
  moreover have "bit (0x83 :: u64) j \<longleftrightarrow> j \<in> {0, 1, 7}"
  proof -
    have "(0x83 :: u64) = (push_bit 7 1 OR push_bit 1 1) OR push_bit 0 1" by simp
    then show ?thesis by (auto simp only: bit_or_iff bit_flag_u64)
  qed
  ultimately show ?thesis
    by (auto simp: page_entry_def bit_or_iff bit_push_bit_iff)
qed

lemma large_page_identity:
  assumes "unat va < 2 ^ 30"
  shows "frame 21 (page_entry (index_at 21 va)) OR take_bit 21 va = va"
proof (rule bit_word_eqI)
  fix j
  have "take_bit 30 va = va"
    using assms by (simp add: take_bit_nat_eq_self_iff word_unat_eq_iff unsigned_take_bit_eq)
  then have "bit va j \<Longrightarrow> j < 30"
    by (metis bit_take_bit_iff)
  then show "bit (frame 21 (page_entry (index_at 21 va)) OR take_bit 21 va) j = bit va j"
    by (auto simp: bit_or_iff bit_take_bit_iff frame_def bit_push_bit_iff bit_drop_bit_eq bit_page_entry index_at_def)
qed

lemma covers_table:
  assumes "w \<in> set (table_writes n)" and "covers w j" and "n \<le> 512"
  shows "j \<in> {0x70000..<0x70008} \<union> {0x71000..<0x71008} \<union> {0x72000..<0x72000 + 8 * n}"
  using assms by (auto simp: table_writes_def covers_def unat_pd_slot unat_table_addrs)

text \<open>The tables may be followed by further writes above them, such as the descriptor table.\<close>

definition table_run :: "nat \<Rightarrow> (u64 \<times> bytes) list \<Rightarrow> GuestMemory \<Rightarrow> GuestMemory \<Rightarrow> bool" where
  "table_run n xs m m' \<longleftrightarrow> n \<le> 512 \<and> 0x73000 \<le> unat (gm_size m) \<and> (\<forall>i \<in> {0x70000..<0x73000}. ram m i = 0) \<and>
     (\<forall>w \<in> set xs. 0x73000 \<le> unat (fst w)) \<and> sorted_wrt apart (table_writes n @ xs) \<and>
     write_seq write_guest (table_writes n @ xs) m = Ok m'"

lemma table_entry_written:
  assumes "table_run n xs m m'" and "(a + 8 * i, to_le 8 e) \<in> set (table_writes n)" and "bit e 0"
  shows "table_entry m' a i = Some e"
proof -
  have "guest_u64 m' (a + 8 * i) = Ok e"
    using assms(1,2) guest_u64_written [of "table_writes n @ xs" m m'] by (simp add: table_run_def)
  with assms(3) show ?thesis by (simp add: table_entry_def)
qed

lemma table_entry_absent:
  assumes run: "table_run n xs m m'"
    and a: "unat a \<in> {0x70000, 0x71000, 0x72000}" and i: "unat i < 512"
    and free: "if unat a = 0x72000 then n \<le> unat i else i \<noteq> 0"
  shows "table_entry m' a i = None"
proof -
  have n: "n \<le> 512" and sz: "0x73000 \<le> unat (gm_size m)" and zero: "\<forall>i \<in> {0x70000..<0x73000}. ram m i = 0"
    and above: "\<forall>w \<in> set xs. 0x73000 \<le> unat (fst w)"
    and ws: "write_seq write_guest (table_writes n @ xs) m = Ok m'"
    using run by (simp_all add: table_run_def)
  have addr: "unat (a + 8 * i) = unat a + 8 * unat i"
    using a i by (auto simp: unat_word_ariths)
  have "unat i \<noteq> 0" if "i \<noteq> 0" using that by (simp add: unat_eq_0)
  then have "\<not> covers w j"
    if "w \<in> set (table_writes n @ xs)" and "j \<in> {unat (a + 8 * i)..<unat (a + 8 * i) + 8}" for w j
    using covers_table [of w n j, OF _ _ n] that a i free above
    by (fastforce simp: addr covers_def split: if_splits)
  then have "guest_u64 m' (a + 8 * i) = Ok 0"
    using sz zero a i by (intro guest_u64_zero [OF ws]) (auto simp: addr)
  then show ?thesis
    by (simp add: table_entry_def)
qed

lemma index_at_less: "unat (index_at k va) < 512"
  by (simp add: unat_index_at)

lemma unat_index_at_small: "unat va < 2 ^ (k + 9) \<Longrightarrow> unat (index_at k va) = unat va div 2 ^ k"
  by (simp add: unat_index_at power_add less_mult_imp_div_less mult.commute)

lemma index_at_zero: "unat va < 2 ^ (k + 9) \<Longrightarrow> index_at k va = 0 \<longleftrightarrow> unat va < 2 ^ k"
  by (simp add: unat_index_at_small div_eq_0_iff flip: unat_eq_0)

lemma walk_tables:
  assumes run: "table_run n xs m m'" and va: "unat va < 2 ^ 48"
  shows "walk m' PML4_ADDR va = (if unat va < 2 ^ 21 * n then Some va else None)"
proof -
  have n: "n \<le> 512" using run by (simp add: table_run_def)
  note written = table_entry_written [OF run] and absent = table_entry_absent [OF run]
  have e4: "table_entry m' PML4_ADDR (index_at 39 va) = (if unat va < 2 ^ 39 then Some (PDPT_ADDR OR 3) else None)"
    using index_at_zero [of va 39] va index_at_less [of 39 va] absent [of PML4_ADDR "index_at 39 va"]
      written [of PML4_ADDR 0 "PDPT_ADDR OR 3"]
    by (auto simp: table_writes_def unat_table_addrs core_consts)
  have e3: "table_entry m' PDPT_ADDR (index_at 30 va) = (if unat va < 2 ^ 30 then Some (PD_ADDR OR 3) else None)"
    if "unat va < 2 ^ 39"
    using index_at_zero [of va 30] that index_at_less [of 30 va] absent [of PDPT_ADDR "index_at 30 va"]
      written [of PDPT_ADDR 0 "PD_ADDR OR 3"]
    by (auto simp: table_writes_def unat_table_addrs core_consts)
  have e2: "table_entry m' PD_ADDR (index_at 21 va) =
      (if unat va < 2 ^ 21 * n then Some (page_entry (index_at 21 va)) else None)" if "unat va < 2 ^ 30"
  proof (cases "unat va < 2 ^ 21 * n")
    case True
    define i where "i = unat va div 2 ^ 21"
    have i: "index_at 21 va = of_nat i" and "i < n"
      using True that by (simp_all add: i_def index_at_eq less_mult_imp_div_less mult.commute)
    then have "(PD_ADDR + 8 * index_at 21 va, to_le 8 (page_entry (index_at 21 va))) \<in> set (table_writes n)"
      by (auto simp: table_writes_def mult.commute)
    moreover have "bit (page_entry (index_at 21 va)) 0"
      by (simp add: bit_page_entry)
    ultimately show ?thesis
      using True by (simp add: written)
  next
    case False
    moreover have "n \<le> unat (index_at 21 va)"
      using False that unat_index_at_small [of va 21]
      by (simp add: less_eq_div_iff_mult_less_eq mult.commute)
    ultimately show ?thesis
      using absent [of PD_ADDR "index_at 21 va"] index_at_less [of 21 va] by (simp add: unat_table_addrs)
  qed
  have pd_not_large: "\<not> bit (PD_ADDR OR 3) 7"
    by (simp add: core_consts)
  have small: "2 ^ 21 * n \<le> 2 ^ 30" using n by simp
  show ?thesis
    using e4 e3 e2 small large_page_identity [of va] pd_not_large
    by (auto simp: walk_def frame_tables bit_page_entry)
qed

text \<open>
  On a machine that has just been created, the tables translate every address below the end of
  RAM, up to one gibibyte, to itself, and no other address.
\<close>

definition mapped_bytes :: "DeviceConfig \<Rightarrow> nat" where
  "mapped_bytes c = min (2 ^ 30) (2 ^ 21 * ((unat (ram_mb c) + 1) div 2))"

definition fresh_ram :: "VirtualMachine \<Rightarrow> bool" where
  "fresh_ram v \<longleftrightarrow> validate (vm_config v) = Ok () \<and> gm_size (guest_memory v) = mem_size_of (vm_config v) \<and>
     (\<forall>i \<in> {0x70000..<0x73000}. ram (guest_memory v) i = 0)"

lemma mapped_bytes_entries: "2097152 * num_entries c = mapped_bytes c"
  by (auto simp: num_entries_def mapped_bytes_def min_def)

lemma validated_size:
  assumes "validate (vm_config v) = Ok ()" and "gm_size (guest_memory v) = mem_size_of (vm_config v)"
  shows "512 * 1048576 \<le> unat (gm_size (guest_memory v))"
  using assms unat_mem_size_of [OF assms(1)] by (simp add: validate_Ok_iff)


section \<open>The zero page\<close>

text \<open>
  The fields of the Linux boot protocol: \<open>cmd_line_ptr\<close>, \<open>cmdline_size\<close>, \<open>ramdisk_image\<close>, \<open>ramdisk_size\<close>,
  \<open>type_of_loader\<close>, \<open>loadflags\<close> and the magic of the setup header, in a page of 4096 bytes.
\<close>

definition zero_page :: "bytes \<Rightarrow> nat \<Rightarrow> u64 \<Rightarrow> bytes \<Rightarrow> bool" where
  "zero_page header cmdline_len initrd_size params \<longleftrightarrow>
     length params = 0x1000 \<and>
     take 4 (drop 0x228 params) = to_le 4 (0x20000 :: u32) \<and>
     take 4 (drop 0x238 params) = to_le 4 (of_nat cmdline_len :: u32) \<and>
     take 4 (drop 0x218 params) = to_le 4 (0x8000000 :: u32) \<and>
     take 4 (drop 0x21c params) = to_le 4 (ucast initrd_size :: u32) \<and>
     take 1 (drop 0x210 params) = [0xff] \<and>
     take 1 (drop 0x211 params) = [header ! 0x20 OR 0x80] \<and>
     take 4 (drop 0x202 params) = take 4 (drop 0x11 header)"

lemma list_update_splice: "i < length xs \<Longrightarrow> xs[i := x] = splice xs i [x]"
  by (simp add: splice_def upd_conv_take_nth_drop)

lemma take_drop_splice_inside:
  assumes "a + length ys \<le> length xs" and "a \<le> b" and "b + n \<le> a + length ys"
  shows "take n (drop b (splice xs a ys)) = take n (drop (b - a) ys)"
  using assms by (intro nth_equalityI) (auto simp: nth_splice)

lemma take_drop_splice_at:
  "a + length ys \<le> length xs \<Longrightarrow> n = length ys \<Longrightarrow> take n (drop a (splice xs a ys)) = ys"
  by simp

lemma boot_params_correct:
  assumes "length header = 0x9f"
  shows "\<exists>params. boot_params header n sz = Ok params \<and> zero_page header n sz params"
proof -
  define z where "z = replicate 0x1000 (0 :: u8)"
  have z: "length z = 0x1000" by (simp add: z_def)
  define b where "b = splice (splice (splice (splice (splice (splice z 0x1f1 header)
    0x228 (to_le 4 (0x20000 :: u32))) 0x238 (to_le 4 (of_nat n :: u32))) 0x218 (to_le 4 (0x8000000 :: u32)))
    0x21c (to_le 4 (ucast sz :: u32))) 0x224 (to_le 2 (0x7fff :: u16))"
  have b: "length b = 0x1000" using z assms by (simp add: b_def del: to_le_numeral)
  let ?p = "splice (splice b 0x210 [0xff]) 0x211 [b ! 0x211 OR 0x80]"
  have "boot_params header n sz = Ok ?p"
    using z assms b
    by (simp add: boot_params_def copy_into_def write_u32_def write_u16_def z_def b_def core_consts Let_def
        list_update_splice del: to_le_numeral)
  moreover have "b ! 0x211 = header ! 0x20"
    using z assms by (simp add: b_def nth_splice del: to_le_numeral)
  then have "zero_page header n sz ?p"
    unfolding zero_page_def using z assms b
    by (simp add: b_def take_drop_splice_disjoint take_drop_splice_inside take_drop_splice_at del: to_le_numeral)
  ultimately show ?thesis by blast
qed

section \<open>Segments\<close>

text \<open>The descriptor of the processor manual that a segment register caches.\<close>

definition descriptor_of :: "kvm_segment \<Rightarrow> u64" where
  "descriptor_of g =
     (let lim = (if seg_g g = 1 then drop_bit 12 (seg_limit g) else seg_limit g) in
      ucast (take_bit 16 lim) OR push_bit 16 (take_bit 24 (seg_base g)) OR push_bit 40 (ucast (seg_type g))
      OR push_bit 44 (ucast (seg_s g)) OR push_bit 45 (ucast (dpl g)) OR push_bit 47 (ucast (seg_present g))
      OR push_bit 48 (ucast (take_bit 4 (drop_bit 16 lim))) OR push_bit 52 (ucast (avl g))
      OR push_bit 53 (ucast (seg_l g)) OR push_bit 54 (ucast (db g)) OR push_bit 55 (ucast (seg_g g))
      OR push_bit 56 (take_bit 8 (drop_bit 24 (seg_base g))))"

text \<open>The type, privilege, presence and size bits of a descriptor, which exclude base and limit.\<close>

definition rights :: "u64 \<Rightarrow> u64" where
  "rights e = e AND 0x00f0ff0000000000"

text \<open>Selectors of a register set index the table in memory and agree with it.\<close>

definition gdt_backs :: "(u64 \<Rightarrow> u64) \<Rightarrow> GuestMemory \<Rightarrow> kvm_sregs \<Rightarrow> bool" where
  "gdt_backs f m s \<longleftrightarrow>
     (\<forall>g \<in> set [cs s, ds s, es s, fs s, gs s, ss s].
        unat (selector g) + 7 \<le> unat (dt_limit (gdt s)) \<and>
        (case guest_u64 m (dt_base (gdt s) + ucast (selector g)) of
           Ok e \<Rightarrow> f e = f (descriptor_of g) | Err e \<Rightarrow> False | Panic \<Rightarrow> False))"

lemma gdt_32bit_entries:
  "length gdt_32bit = 32"
  "take 8 (drop 0x10 gdt_32bit) = to_le 8 (0x00cf9a000000ffff :: u64)"
  "take 8 (drop 0x18 gdt_32bit) = to_le 8 (0x00cf92000000ffff :: u64)"
proof -
  show "length gdt_32bit = 32"
    by (simp add: gdt_32bit_def del: to_le_numeral)
  show "take 8 (drop 0x10 gdt_32bit) = to_le 8 (0x00cf9a000000ffff :: u64)"
    by (simp add: gdt_32bit_def take_drop_splice_disjoint take_drop_splice_at del: to_le_numeral)
  show "take 8 (drop 0x18 gdt_32bit) = to_le 8 (0x00cf92000000ffff :: u64)"
    unfolding gdt_32bit_def by (rule take_drop_splice_at) (simp_all del: to_le_numeral)
qed

lemma descriptors:
  "descriptor_of (segment_32bit 0x10 0xa) = 0x00cf9a000000ffff"
  "descriptor_of (segment_32bit 0x18 0x2) = 0x00cf92000000ffff"
  "rights (descriptor_of code_segment_64) = rights 0x00af9b0000000000"
  "rights (descriptor_of (make_flat_data_segment KERNEL_DATA_SEGMENT)) = rights 0x00cf93000000ffff"
  by (simp_all add: descriptor_of_def segment_32bit_def code_segment_64_def make_flat_data_segment_def
      rights_def core_consts)

lemma gdt_backs_32:
  assumes "guest_u64 m (GDT_ADDR + 0x10) = Ok 0x00cf9a000000ffff"
    and "guest_u64 m (GDT_ADDR + 0x18) = Ok 0x00cf92000000ffff"
  shows "gdt_backs id m (sregs_32 r)"
  using assms descriptors(1,2) by (simp add: gdt_backs_def sregs_32_def Let_def segment_32bit_def)

lemma gdt_backs_64:
  assumes "guest_u64 m (GDT_ADDR + 0x10) = Ok 0x00af9b0000000000"
    and "guest_u64 m (GDT_ADDR + 0x18) = Ok 0x00cf93000000ffff"
  shows "gdt_backs rights m (sregs_64 r)"
  using assms descriptors(3,4)
  by (simp add: gdt_backs_def sregs_64_def code_segment_64_def make_flat_data_segment_def core_consts)

section \<open>Starting the processor\<close>

lemma on_vm_eq_Ok: "on_vm m w = (Ok x, w') \<longleftrightarrow> (\<exists>v. m (vm w) = (Ok x, v) \<and> w' = w\<lparr>vm := v\<rparr>)"
  by (auto simp: on_vm_def split: prod.splits)

lemma on_vm_andthen: "on_vm (andthen m f) = andthen (on_vm m) (\<lambda>x. on_vm (f x))"
  by (auto simp: fun_eq_iff on_vm_def andthen_def split: prod.splits outcome.splits)

lemma on_vm_ret: "on_vm (ret x) = ret x"
  by (simp add: fun_eq_iff on_vm_def)

lemma on_kvm_eq_Ok: "on_kvm m w = (Ok x, w') \<longleftrightarrow> (\<exists>k. m (kvm w) = (Ok x, k) \<and> w' = w\<lparr>kvm := k\<rparr>)"
  by (auto simp: on_kvm_def split: prod.splits)

text \<open>A kernel that answers the register ioctls of a virtual CPU.\<close>

definition registers_ok :: "'k kvm_api \<Rightarrow> u32 \<Rightarrow> bool" where
  "registers_ok K i \<longleftrightarrow>
     (\<forall>k. (\<exists>s k'. api_get_sregs K i k = (Inr s, k')) \<and> (\<forall>s. \<exists>k'. api_set_sregs K i s k = (Inr (), k')) \<and>
          (\<exists>r k'. api_get_regs K i k = (Inr r, k')) \<and> (\<forall>r. \<exists>k'. api_set_regs K i r k = (Inr (), k')))"

definition program_registers ::
  "'k kvm_api \<Rightarrow> Vcpu \<Rightarrow> (kvm_sregs \<Rightarrow> kvm_sregs) \<Rightarrow> (kvm_regs \<Rightarrow> kvm_regs) \<Rightarrow>
     (('k, 'os) machine, LiteDroidError, unit) action" where
  "program_registers K v f g =
     andthen (on_kvm (andthen (get_sregs K v) (\<lambda>r. set_sregs K v (f r)))) (\<lambda>_.
     andthen (on_kvm (get_regs K v)) (\<lambda>r. on_kvm (set_regs K v (g r))))"

lemma program_registers_ok:
  assumes "registers_ok K (vcpu_index v)"
  shows "\<exists>k s r. program_registers K v f g w = (Ok (), w\<lparr>kvm := k\<rparr>) \<and>
     ktrace k = ktrace (kvm w) @ [GetSregs (vcpu_index v), SetSregs (vcpu_index v) (f s),
       GetRegs (vcpu_index v), SetRegs (vcpu_index v) (g r)]"
proof -
  let ?i = "vcpu_index v"
  from assms obtain s k1 where 1: "api_get_sregs K ?i (kstate (kvm w)) = (Inr s, k1)"
    unfolding registers_ok_def by blast
  from assms obtain k2 where 2: "api_set_sregs K ?i (f s) k1 = (Inr (), k2)"
    unfolding registers_ok_def by blast
  from assms obtain r k3 where 3: "api_get_regs K ?i k2 = (Inr r, k3)"
    unfolding registers_ok_def by blast
  from assms obtain k4 where 4: "api_set_regs K ?i (g r) k3 = (Inr (), k4)"
    unfolding registers_ok_def by blast
  let ?k = "\<lparr>kstate = k4, ktrace = ktrace (kvm w) @ [GetSregs ?i, SetSregs ?i (f s), GetRegs ?i, SetRegs ?i (g r)]\<rparr>"
  have "program_registers K v f g w = (Ok (), w\<lparr>kvm := ?k\<rparr>)"
    using 1 2 3 4
    by (simp add: program_registers_def andthen_def on_kvm_def get_sregs_def set_sregs_def get_regs_def
        set_regs_def issue_def)
  then show ?thesis by (intro exI [of _ ?k] exI [of _ s] exI [of _ r]) simp
qed

lemma boot_run:
  assumes "setup_boot K w = andthen (on_vm (puts ws)) (\<lambda>_. program_registers K vcpu f g) w"
    and "registers_ok K (vcpu_index vcpu)" and "\<forall>x \<in> set ws. in_range (unat (gm_size (guest_memory (vm w)))) x"
  shows "\<exists>k m s r. setup_boot K w = (Ok (), w\<lparr>kvm := k, vm := (vm w)\<lparr>guest_memory := m\<rparr>\<rparr>) \<and>
     write_seq write_guest ws (guest_memory (vm w)) = Ok m \<and>
     ktrace k = ktrace (kvm w) @ [GetSregs (vcpu_index vcpu), SetSregs (vcpu_index vcpu) (f s),
       GetRegs (vcpu_index vcpu), SetRegs (vcpu_index vcpu) (g r)]"
proof -
  obtain m where m: "puts ws (vm w) = (Ok (), (vm w)\<lparr>guest_memory := m\<rparr>)"
      and ws: "write_seq write_guest ws (guest_memory (vm w)) = Ok m"
    using puts_succeeds [OF assms(3)] by blast
  then have on: "on_vm (puts ws) w = (Ok (), w\<lparr>vm := (vm w)\<lparr>guest_memory := m\<rparr>\<rparr>)"
    by (simp add: on_vm_def)
  from program_registers_ok [OF assms(2), of f g "w\<lparr>vm := (vm w)\<lparr>guest_memory := m\<rparr>\<rparr>"]
  obtain k s r where k: "program_registers K vcpu f g (w\<lparr>vm := (vm w)\<lparr>guest_memory := m\<rparr>\<rparr>) =
        (Ok (), w\<lparr>vm := (vm w)\<lparr>guest_memory := m\<rparr>, kvm := k\<rparr>)"
      and tr: "ktrace k = ktrace (kvm w) @ [GetSregs (vcpu_index vcpu), SetSregs (vcpu_index vcpu) (f s),
       GetRegs (vcpu_index vcpu), SetRegs (vcpu_index vcpu) (g r)]"
    by auto
  from on k assms(1) have "setup_boot K w = (Ok (), w\<lparr>kvm := k, vm := (vm w)\<lparr>guest_memory := m\<rparr>\<rparr>)"
    by simp
  with ws tr show ?thesis by blast
qed

text \<open>Entry in 32-bit protected mode with flat segments and no paging.\<close>

definition protected_mode_entry :: "kvm_sregs \<Rightarrow> kvm_regs \<Rightarrow> bool" where
  "protected_mode_entry s r \<longleftrightarrow>
     bit (cr0 s) 0 \<and> \<not> bit (cr0 s) 31 \<and> efer s = 0 \<and>
     (\<forall>g \<in> set [cs s, ds s, es s, fs s, gs s, ss s]. seg_base g = 0 \<and> seg_limit g = 0xffffffff \<and> db g = 1) \<and>
     rip r = KERNEL_LOAD_ADDR \<and> rsi r = BOOT_PARAMS_ADDR \<and>
     rbp r = 0 \<and> rdi r = 0 \<and> rbx r = 0 \<and> rflags r = 2"

text \<open>Entry in 64-bit mode: paging, PAE and long mode on, code in a long-mode segment.\<close>

definition long_mode_entry :: "kvm_sregs \<Rightarrow> kvm_regs \<Rightarrow> bool" where
  "long_mode_entry s r \<longleftrightarrow>
     bit (cr0 s) 0 \<and> bit (cr0 s) 31 \<and> bit (cr4 s) 5 \<and> bit (efer s) 8 \<and> bit (efer s) 10 \<and>
     cr3 s = PML4_ADDR \<and> seg_l (cs s) = 1 \<and> db (cs s) = 0 \<and>
     rip r = KERNEL_LOAD_ADDR \<and> rsi r = INITRAMFS_LOAD_ADDR \<and> rsp r = BOOT_STACK_POINTER"

lemma protected_mode_entry_32: "protected_mode_entry (sregs_32 s) (regs_32 r)"
  by (simp add: protected_mode_entry_def sregs_32_def regs_32_def segment_32bit_def Let_def)

lemma long_mode_entry_64: "long_mode_entry (sregs_64 s) (regs_64 r)"
  by (simp add: long_mode_entry_def sregs_64_def regs_64_def code_segment_64_def)

definition bzimage_writes :: "string \<Rightarrow> bytes \<Rightarrow> (u64 \<times> bytes) list" where
  "bzimage_writes cmdline params =
     [(CMDLINE_ADDR, as_bytes cmdline @ [0]), (BOOT_PARAMS_ADDR, params), (GDT_ADDR, gdt_32bit)]"

lemma setup_bzimage_boot_puts:
  assumes "length (bzimage_header (vm w)) = 0x9f" and "length (kernel_cmdline (vm_config (vm w))) < 0x800"
    and "boot_params (bzimage_header (vm w)) (length (kernel_cmdline (vm_config (vm w)))) (initramfs_size (vm w)) =
      (Ok params :: bytes ld_result)"
  shows "setup_bzimage_boot K vcpu (w :: ('k, 'os) machine) =
     andthen (on_vm (puts (bzimage_writes (kernel_cmdline (vm_config (vm w))) params)))
       (\<lambda>_. program_registers K vcpu sregs_32 regs_32) w"
proof -
  have lift: "lift_outcome (\<lambda>_. Ok params) = (ret params :: (('k, 'os) machine, LiteDroidError, bytes) action)"
    by (simp add: fun_eq_iff)
  show ?thesis
    using assms
    by (simp add: setup_bzimage_boot_def setup_sregs_32bit_def program_registers_def puts_def bzimage_writes_def
        setup_gdt_32bit_def put_blob_put on_vm_andthen on_vm_ret andthen_assoc andthen_gets lift)
qed

lemma bzimage_writes_shape:
  assumes "length cmdline < 0x800" and "length params = 0x1000" and "0x91000 \<le> unat (gm_size m)"
  shows "sorted_wrt apart (bzimage_writes cmdline params)"
    and "\<forall>w \<in> set (bzimage_writes cmdline params). in_range (unat (gm_size m)) w"
  using assms gdt_32bit_entries(1)
  by (simp_all add: bzimage_writes_def apart_def in_range_def core_consts)

text \<open>What a guest started from a bzImage finds in memory and in its registers.\<close>

definition bzimage_ready :: "VirtualMachine \<Rightarrow> GuestMemory \<Rightarrow> kvm_sregs \<Rightarrow> kvm_regs \<Rightarrow> bool" where
  "bzimage_ready v m s r \<longleftrightarrow>
     (let cmdline = kernel_cmdline (vm_config v) in
      read_guest m CMDLINE_ADDR (length cmdline + 1) = Ok (as_bytes cmdline @ [0]) \<and>
      (case read_guest m BOOT_PARAMS_ADDR 0x1000 of
         Ok params \<Rightarrow> zero_page (bzimage_header v) (length cmdline) (initramfs_size v) params
       | Err e \<Rightarrow> False | Panic \<Rightarrow> False) \<and>
      gdt_backs id m s \<and> protected_mode_entry s r)"

lemma bzimage_ready_memory: "bzimage_ready (v\<lparr>guest_memory := x\<rparr>) m s r = bzimage_ready v m s r"
  by (simp add: bzimage_ready_def Let_def split: outcome.split)

lemma bzimage_memory:
  assumes ws: "write_seq write_guest (bzimage_writes (kernel_cmdline (vm_config v)) params) (guest_memory v) = Ok m"
    and len: "length (kernel_cmdline (vm_config v)) < 0x800" and size: "0x91000 \<le> unat (gm_size (guest_memory v))"
    and params: "zero_page (bzimage_header v) (length (kernel_cmdline (vm_config v))) (initramfs_size v) params"
  shows "bzimage_ready v m (sregs_32 s) (regs_32 r)"
proof -
  have lp: "length params = 0x1000" using params by (simp add: zero_page_def)
  note rb = gm.write_seq_read_back [OF ws bzimage_writes_shape(1) [OF len lp size]]
  have g: "read_guest m GDT_ADDR 32 = Ok gdt_32bit"
    using rb [of "(GDT_ADDR, gdt_32bit)"] gdt_32bit_entries(1) by (simp add: bzimage_writes_def)
  have "guest_u64 m (GDT_ADDR + of_nat k) = Ok (from_le (take 8 (drop k gdt_32bit)))" if "k + 8 \<le> 32" for k
    using gm.rd_sub [OF g, of k 8] that by (simp add: guest_u64_def core_consts)
  from this [of 16] this [of 24] have "gdt_backs id m (sregs_32 s)"
    by (intro gdt_backs_32) (simp_all add: gdt_32bit_entries del: to_le_numeral)
  moreover have "read_guest m BOOT_PARAMS_ADDR 0x1000 = Ok params"
    using rb [of "(BOOT_PARAMS_ADDR, params)"] lp by (simp add: bzimage_writes_def)
  moreover have "read_guest m CMDLINE_ADDR (length (kernel_cmdline (vm_config v)) + 1) =
      Ok (as_bytes (kernel_cmdline (vm_config v)) @ [0])"
    using rb [of "(CMDLINE_ADDR, as_bytes (kernel_cmdline (vm_config v)) @ [0])"] by (simp add: bzimage_writes_def)
  ultimately show ?thesis
    using params by (simp add: bzimage_ready_def protected_mode_entry_32)
qed

theorem bzimage_boot_correct:
  assumes "kernel_is_bzimage (vm w)" and "vcpus (vm w) = vcpu # rest" and "registers_ok K (vcpu_index vcpu)"
    and "length (bzimage_header (vm w)) = 0x9f" and "length (kernel_cmdline (vm_config (vm w))) < 0x800"
    and "0x91000 \<le> unat (gm_size (guest_memory (vm w)))"
  shows "\<exists>k m s r. setup_boot K w = (Ok (), w\<lparr>kvm := k, vm := (vm w)\<lparr>guest_memory := m\<rparr>\<rparr>) \<and>
     bzimage_ready (vm w) m s r \<and>
     ktrace k = ktrace (kvm w) @ [GetSregs (vcpu_index vcpu), SetSregs (vcpu_index vcpu) s,
       GetRegs (vcpu_index vcpu), SetRegs (vcpu_index vcpu) r] \<and>
     (\<forall>a n. 0x91000 \<le> unat a \<longrightarrow> read_guest m a n = read_guest (guest_memory (vm w)) a n)"
proof -
  let ?v = "vm w"
  let ?c = "kernel_cmdline (vm_config ?v)"
  obtain params where bp: "boot_params (bzimage_header ?v) (length ?c) (initramfs_size ?v) = (Ok params :: bytes ld_result)"
      and zp: "zero_page (bzimage_header ?v) (length ?c) (initramfs_size ?v) params"
    using boot_params_correct [OF assms(4)] by blast
  then have lp: "length params = 0x1000" by (simp add: zero_page_def)
  have eq: "setup_boot K w = andthen (on_vm (puts (bzimage_writes ?c params)))
      (\<lambda>_. program_registers K vcpu sregs_32 regs_32) w"
    using assms(1,2) setup_bzimage_boot_puts [OF assms(4,5) bp, of K vcpu] by (simp add: setup_boot_def andthen_gets)
  from boot_run [OF eq assms(3) bzimage_writes_shape(2) [OF assms(5) lp assms(6)]] obtain k m s r where
      run: "setup_boot K w = (Ok (), w\<lparr>kvm := k, vm := ?v\<lparr>guest_memory := m\<rparr>\<rparr>)"
      and ws: "write_seq write_guest (bzimage_writes ?c params) (guest_memory ?v) = Ok m"
      and tr: "ktrace k = ktrace (kvm w) @ [GetSregs (vcpu_index vcpu), SetSregs (vcpu_index vcpu) (sregs_32 s),
       GetRegs (vcpu_index vcpu), SetRegs (vcpu_index vcpu) (regs_32 r)]"
    by blast
  have frame: "read_guest m a n = read_guest (guest_memory ?v) a n" if "0x91000 \<le> unat a" for a n
    using that lp assms(5) gdt_32bit_entries(1)
    by (intro gm.write_seq_frame [OF ws]) (simp add: bzimage_writes_def core_consts)
  from run tr frame bzimage_memory [OF ws assms(5,6) zp, of s r] show ?thesis by blast
qed

section \<open>Starting in long mode\<close>

definition gdt_writes :: "(u64 \<times> bytes) list" where
  "gdt_writes =
     [(GDT_ADDR, to_le 8 (0 :: u64)), (GDT_ADDR + 8, to_le 8 (0 :: u64)),
      (GDT_ADDR + 16, to_le 8 (0x00af9b0000000000 :: u64)), (GDT_ADDR + 24, to_le 8 (0x00cf93000000ffff :: u64))]"

lemma puts_append: "puts (xs @ ys) = andthen (puts xs) (\<lambda>_. puts ys)"
  by (simp add: puts_def for_each_append)

lemma setup_gdt_puts: "setup_gdt = puts gdt_writes"
proof -
  have "andthen m (\<lambda>_. ret ()) = m" for m :: "(VirtualMachine, LiteDroidError, unit) action"
    by (auto simp: fun_eq_iff andthen_def split: prod.splits outcome.splits)
  then show ?thesis
    by (simp add: setup_gdt_def puts_def gdt_writes_def del: to_le_numeral)
qed

lemma setup_boot_64_puts:
  assumes "\<not> kernel_is_bzimage (vm w)" and "vcpus (vm w) = vcpu # rest" and "validate (vm_config (vm w)) = Ok ()"
  shows "setup_boot K w = andthen (on_vm (puts (table_writes (num_entries (vm_config (vm w))) @ gdt_writes)))
     (\<lambda>_. program_registers K vcpu sregs_64 regs_64) w"
proof -
  have "andthen (on_vm setup_page_tables) f w =
      andthen (on_vm (puts (table_writes (num_entries (vm_config (vm w)))))) f w" for f
    using setup_page_tables_puts [OF assms(3)] by (intro andthen_cong_at) (simp add: on_vm_def)
  with assms(1,2) show ?thesis
    by (simp add: setup_boot_def andthen_gets puts_append on_vm_andthen andthen_assoc setup_gdt_puts
        setup_sregs_def program_registers_def)
qed

lemma gdt_writes_shape:
  "sorted_wrt apart gdt_writes"
  "\<forall>w \<in> set gdt_writes. 0x80000 \<le> unat (fst w) \<and> unat (fst w) + length (snd w) \<le> 0x80020"
  by (simp_all add: gdt_writes_def apart_def core_consts)

lemma boot_64_shape:
  assumes "n \<le> 512" and "0x81000 \<le> unat (gm_size m)"
  shows "sorted_wrt apart (table_writes n @ gdt_writes)"
    and "\<forall>w \<in> set (table_writes n @ gdt_writes). in_range (unat (gm_size m)) w"
    and "\<forall>w \<in> set (table_writes n @ gdt_writes). unat (fst w) + length (snd w) \<le> 0x80020"
proof -
  have m: "0x73000 \<le> unat (gm_size m)" using assms(2) by simp
  note t = table_writes_shape [OF assms(1) m]
  show "sorted_wrt apart (table_writes n @ gdt_writes)"
    using t gdt_writes_shape by (fastforce simp: sorted_wrt_append apart_def)
  show "\<forall>w \<in> set (table_writes n @ gdt_writes). unat (fst w) + length (snd w) \<le> 0x80020"
    using t gdt_writes_shape by fastforce
  then show "\<forall>w \<in> set (table_writes n @ gdt_writes). in_range (unat (gm_size m)) w"
    using assms(2) by (fastforce simp: in_range_def)
qed

text \<open>
  C5. Preparing a raw kernel starts virtual CPU 0 in 64-bit mode: paging, PAE and long mode
  are on, CR3 points at tables that identity-map the low memory, every selector indexes a
  descriptor of the table in memory with the same rights, the registers are programmed
  last, and memory above the tables is untouched.
\<close>

theorem long_mode_boot_correct:
  assumes "\<not> kernel_is_bzimage (vm w)" and "vcpus (vm w) = vcpu # rest" and "registers_ok K (vcpu_index vcpu)"
    and "fresh_ram (vm w)"
  shows "\<exists>k m s r. setup_boot K w = (Ok (), w\<lparr>kvm := k, vm := (vm w)\<lparr>guest_memory := m\<rparr>\<rparr>) \<and>
     long_mode_entry s r \<and> gdt_backs rights m s \<and>
     (\<forall>va. unat va < 2 ^ 48 \<longrightarrow> walk m (cr3 s) va =
        (if unat va < mapped_bytes (vm_config (vm w)) then Some va else None)) \<and>
     ktrace k = ktrace (kvm w) @ [GetSregs (vcpu_index vcpu), SetSregs (vcpu_index vcpu) s,
       GetRegs (vcpu_index vcpu), SetRegs (vcpu_index vcpu) r] \<and>
     (\<forall>a n. 0x81000 \<le> unat a \<longrightarrow> read_guest m a n = read_guest (guest_memory (vm w)) a n)"
proof -
  let ?v = "vm w"
  let ?n = "num_entries (vm_config ?v)"
  let ?ws = "table_writes ?n @ gdt_writes"
  have val: "validate (vm_config ?v) = Ok ()" using assms(4) by (simp add: fresh_ram_def)
  have n: "?n \<le> 512" by (simp add: num_entries_def)
  have sz: "0x81000 \<le> unat (gm_size (guest_memory ?v))"
    using validated_size [of ?v] assms(4) by (simp add: fresh_ram_def)
  note shape = boot_64_shape [OF n sz]
  from boot_run [OF setup_boot_64_puts [OF assms(1,2) val, of K] assms(3) shape(2)] obtain k m s r where
      run: "setup_boot K w = (Ok (), w\<lparr>kvm := k, vm := ?v\<lparr>guest_memory := m\<rparr>\<rparr>)"
      and ws: "write_seq write_guest ?ws (guest_memory ?v) = Ok m"
      and tr: "ktrace k = ktrace (kvm w) @ [GetSregs (vcpu_index vcpu), SetSregs (vcpu_index vcpu) (sregs_64 s),
       GetRegs (vcpu_index vcpu), SetRegs (vcpu_index vcpu) (regs_64 r)]"
    by blast
  have "table_run ?n gdt_writes (guest_memory ?v) m"
    using assms(4) n sz ws shape(1) gdt_writes_shape(2) by (fastforce simp: table_run_def fresh_ram_def)
  from walk_tables [OF this] have w: "\<forall>va. unat va < 2 ^ 48 \<longrightarrow> walk m (cr3 (sregs_64 s)) va =
        (if unat va < mapped_bytes (vm_config ?v) then Some va else None)"
    by (simp add: mapped_bytes_entries sregs_64_def)
  note written = guest_u64_written [OF ws shape(1)]
  have "gdt_backs rights m (sregs_64 s)"
    by (intro gdt_backs_64 written) (simp_all add: gdt_writes_def del: to_le_numeral)
  moreover have "read_guest m a j = read_guest (guest_memory ?v) a j" if "0x81000 \<le> unat a" for a j
    using that shape(3) by (intro gm.write_seq_frame [OF ws]) fastforce
  ultimately show ?thesis
    using run tr w long_mode_entry_64 [of s r] by blast
qed

section \<open>Loading the images\<close>

definition valid_bzimage :: "bytes \<Rightarrow> bool" where
  "valid_bzimage data \<longleftrightarrow> is_bzimage data \<and> 0x290 \<le> length data \<and> setup_size_of data < length data \<and>
     0x200 \<le> unat (from_le (take 4 (drop 0x248 data)) :: u32)"

definition payload_of :: "bytes \<Rightarrow> bytes" where
  "payload_of data = drop (setup_size_of data) data"

lemma setup_size_bounds: "0x200 \<le> setup_size_of data" "setup_size_of data \<le> 0x20000"
proof -
  have "unat (data ! 0x1f1) < 2 ^ 8"
    using unsigned_less [of "data ! 0x1f1", where 'a = nat] by simp
  then show "0x200 \<le> setup_size_of data" and "setup_size_of data \<le> 0x20000"
    by (simp_all add: setup_size_of_def)
qed

lemma read_u32_ok: "off + 4 \<le> length data \<Longrightarrow> read_u32 data off = Ok (from_le (take 4 (drop off data)))"
  by (simp add: read_u32_def get_range_def)

definition kernel_writes :: "bytes \<Rightarrow> (u64 \<times> bytes) list" where
  "kernel_writes data = [(0x10000, take (setup_size_of data) data), (KERNEL_LOAD_ADDR, payload_of data)]"

lemma load_bzimage_ok:
  assumes "valid_bzimage data" and "\<forall>x \<in> set (kernel_writes data). in_range (unat (gm_size (guest_memory v))) x"
  shows "\<exists>m. load_bzimage data v = (Ok (), v\<lparr>guest_memory := m, kernel_is_bzimage := True,
       bzimage_header := take 0x9f (drop 0x1f1 data)\<rparr>) \<and>
     write_seq write_guest (kernel_writes data) (guest_memory v) = Ok m"
proof -
  from puts_succeeds [OF assms(2)] obtain m where
      m: "puts (kernel_writes data) v = (Ok (), v\<lparr>guest_memory := m\<rparr>)"
      and ws: "write_seq write_guest (kernel_writes data) (guest_memory v) = Ok m"
    by blast
  have header: "idx_range data 0x1f1 0x290 = Ok (take 0x9f (drop 0x1f1 data))"
    using assms(1) by (simp add: valid_bzimage_def)
  have "load_bzimage data v = andthen (puts (kernel_writes data)) (\<lambda>_.
      andthen (modify (\<lambda>v. v\<lparr>kernel_is_bzimage := True\<rparr>)) (\<lambda>_.
      modify (\<lambda>v. v\<lparr>bzimage_header := take 0x9f (drop 0x1f1 data)\<rparr>))) v"
    using assms(1) setup_size_bounds [of data] header
    by (simp add: load_bzimage_def valid_bzimage_def read_u32_ok lift_outcome_Ok put_blob_put puts_def
        kernel_writes_def payload_of_def andthen_assoc Let_def andthen_modify)
  with m ws show ?thesis by simp
qed

text \<open>The kernel and the initramfs, with a gap between their load addresses large enough for the payload.\<close>

definition images_fit :: "bytes \<Rightarrow> bytes \<Rightarrow> GuestMemory \<Rightarrow> bool" where
  "images_fit kimg initrd m \<longleftrightarrow> length (payload_of kimg) \<le> 0x7f00000 \<and>
     0x8000000 + length initrd \<le> unat (gm_size m)"

definition image_writes :: "bytes \<Rightarrow> bytes \<Rightarrow> (u64 \<times> bytes) list" where
  "image_writes kimg initrd = kernel_writes kimg @ [(INITRAMFS_LOAD_ADDR, initrd)]"

lemma image_writes_shape:
  assumes "valid_bzimage kimg" and "images_fit kimg initrd m"
  shows "sorted_wrt apart (image_writes kimg initrd)"
    and "\<forall>x \<in> set (image_writes kimg initrd). in_range (unat (gm_size m)) x"
  using assms setup_size_bounds [of kimg]
  by (auto simp: image_writes_def kernel_writes_def apart_def in_range_def images_fit_def valid_bzimage_def core_consts)

lemma write_seq_append:
  "write_seq wr (xs @ ys) m = bind_outcome (write_seq wr xs m) (write_seq wr ys)"
proof (induction xs arbitrary: m)
  case (Cons x xs)
  then show ?case by (cases "wr m (fst x) (snd x)") simp_all
qed simp

lemma load_images:
  assumes files: "path_exists F kp" "path_exists F ip" "fs_read F kp = Inr kimg" "fs_read F ip = Inr initrd"
    and valid: "valid_bzimage kimg" and fit: "images_fit kimg initrd (guest_memory v)"
  shows "\<exists>m. andthen (load_kernel F kp) (\<lambda>_. load_initramfs F ip) v =
      (Ok (), v\<lparr>guest_memory := m, kernel_is_bzimage := True, bzimage_header := take 0x9f (drop 0x1f1 kimg),
                initramfs_size := of_nat (length initrd)\<rparr>) \<and>
     write_seq write_guest (image_writes kimg initrd) (guest_memory v) = Ok m"
proof -
  note shape = image_writes_shape [OF valid fit]
  then have "\<forall>x \<in> set (kernel_writes kimg). in_range (unat (gm_size (guest_memory v))) x"
    by (simp add: image_writes_def)
  from load_bzimage_ok [OF valid this] obtain m1 where
      1: "load_bzimage kimg v = (Ok (), v\<lparr>guest_memory := m1, kernel_is_bzimage := True,
       bzimage_header := take 0x9f (drop 0x1f1 kimg)\<rparr>)"
      and ws1: "write_seq write_guest (kernel_writes kimg) (guest_memory v) = Ok m1"
    by blast
  obtain m where ws: "write_seq write_guest (image_writes kimg initrd) (guest_memory v) = Ok m"
    using gm.write_seq_succeeds [OF shape(2)] by blast
  then have 2: "write_guest m1 INITRAMFS_LOAD_ADDR initrd = Ok m"
    using ws1 by (simp add: image_writes_def write_seq_append)
  from files valid 1 have "load_kernel F kp v = (Ok (), v\<lparr>guest_memory := m1, kernel_is_bzimage := True,
       bzimage_header := take 0x9f (drop 0x1f1 kimg)\<rparr>)"
    by (simp add: load_kernel_def valid_bzimage_def)
  with files 2 have "andthen (load_kernel F kp) (\<lambda>_. load_initramfs F ip) v =
      (Ok (), v\<lparr>guest_memory := m, kernel_is_bzimage := True, bzimage_header := take 0x9f (drop 0x1f1 kimg),
                initramfs_size := of_nat (length initrd)\<rparr>)"
    by (simp add: load_initramfs_def put_blob_put andthen_def put_def)
  with ws show ?thesis by blast
qed

text \<open>
  From the two files to the first instruction: after loading both images and preparing the boot,
  the guest is ready and both images are in memory as they are on the host.
\<close>


text \<open>
  An image whose header ends inside the boot fields passes every check of the loader, is copied into
  guest memory and then makes the loader panic on the slice of the header.
\<close>

text \<open>
  C38. A bzImage of between 0x250 and 0x28f bytes with no setup sectors passes the checks
  of the loader and then makes it panic.
\<close>

theorem short_bzimage_panics:
  assumes "path_exists F kp" and "fs_read F kp = Inr data" and "is_bzimage data"
    and "0x250 \<le> length data" and "length data < 0x290" and "data ! 0x1f1 = 0"
    and "0x200 \<le> unat (from_le (take 4 (drop 0x248 data)) :: u32)"
    and "0x100000 + length data \<le> unat (gm_size (guest_memory v))"
  shows "fst (load_kernel F kp v) = Panic"
proof -
  have size: "setup_size_of data = 0x200"
    using assms(6) by (simp add: setup_size_of_def)
  then have "\<forall>x \<in> set (kernel_writes data). in_range (unat (gm_size (guest_memory v))) x"
    using assms(8) by (auto simp: kernel_writes_def in_range_def payload_of_def core_consts)
  from puts_succeeds [OF this] obtain m where
      m: "puts (kernel_writes data) v = (Ok (), v\<lparr>guest_memory := m\<rparr>)"
    by blast
  have "idx_range data 0x1f1 0x290 = (Panic :: bytes ld_result)"
    using assms(5) by (simp add: idx_range_panic_iff)
  then have "load_bzimage data v = andthen (puts (kernel_writes data)) (\<lambda>_ s. (Panic, s\<lparr>kernel_is_bzimage := True\<rparr>)) v"
    using assms(4,7) size
    by (simp add: load_bzimage_def read_u32_ok lift_outcome_Ok put_blob_put puts_def
        kernel_writes_def payload_of_def andthen_assoc Let_def andthen_modify)
  with m assms(1-3) show ?thesis
    by (simp add: load_kernel_def)
qed

section \<open>Creating the machine\<close>

lemma create_vcpus_Ok:
  "create_vcpus K c is acc k = (Ok vs, k') \<Longrightarrow>
     vs = acc @ map (\<lambda>i. \<lparr>vcpu_index = i\<rparr>) is \<and>
     ktrace k' = ktrace k @ concat (map (\<lambda>i. [CreateVcpu (ucast i), SetCpuid2 i c]) is)"
proof (induction "is" arbitrary: acc k)
  case Nil
  then show ?case by simp
next
  case (Cons i "is")
  then obtain k1 k2 where 1: "issue (CreateVcpu (ucast i)) (api_create_vcpu K (ucast i)) (\<lambda>e. VcpuCreationFailed i
        (''kvm create_vcpu('' @ show_nat (unat i) @ '') failed: '' @ snd e)) k = (Ok (), k1)"
      and 2: "set_cpuid K \<lparr>vcpu_index = i\<rparr> c k1 = (Ok (), k2)"
      and 3: "create_vcpus K c is (acc @ [\<lparr>vcpu_index = i\<rparr>]) k2 = (Ok vs, k')"
    by (auto simp: andthen_eq_Ok create_vcpu_def)
  have "ktrace k2 = ktrace k @ [CreateVcpu (ucast i), SetCpuid2 i c]"
    using issue_Ok_trace [OF 1] issue_Ok_trace [OF 2 [unfolded set_cpuid_def]] by simp
  with Cons.IH [OF 3] show ?case by simp
qed

lemma on_os_eq_Ok: "on_os m w = (Ok x, w') \<longleftrightarrow> (\<exists>os. m (host_os w) = (Ok x, os) \<and> w' = w\<lparr>host_os := os\<rparr>)"
  by (auto simp: on_os_def split: prod.splits)

lemma hypervisor_new_trace: "hypervisor_new K k = (Ok h, k') \<Longrightarrow> ktrace k' = ktrace k @ [OpenKvm]"
  by (auto simp: hypervisor_new_def andthen_eq_Ok dest: issue_Ok_trace)

lemma get_supported_cpuid_trace:
  assumes "get_supported_cpuid K k = (Ok c, k')"
  shows "\<exists>j \<le> 4. ktrace k' = ktrace k @ map GetSupportedCpuid (take j [256, 128, 64, 32])"
proof -
  from cpuid_retry_correct [OF assms [unfolded get_supported_cpuid_def]] obtain j where
      "j \<le> length [256, 128, 64, 32 :: nat]"
      and "ktrace k' = ktrace k @ map GetSupportedCpuid (take j [256, 128, 64, 32])"
    by blast
  then show ?thesis by (intro exI [of _ j]) simp
qed

text \<open>The ioctls that create a machine, in order.\<close>

definition creation_calls :: "DeviceConfig \<Rightarrow> u64 \<Rightarrow> kvm_call list" where
  "creation_calls c addr =
     [OpenKvm, CreateVm, CreateIrqChip, CreatePit2, SetTssAddress 0xfffbd000, SetIdentityMapAddress 0xfffbc000,
      SetUserMemoryRegion \<lparr>slot = 0, region_flags = 0, guest_phys_addr = 0, memory_size = mem_size_of c,
        region_userspace_addr = addr\<rparr>]"

definition vcpu_calls :: "DeviceConfig \<Rightarrow> cpuid_entry list \<Rightarrow> kvm_call list" where
  "vcpu_calls c cpuid = concat (map (\<lambda>i. [CreateVcpu (ucast i), SetCpuid2 i (filter_for_android cpuid)])
     (map of_nat [0..<unat (vcpu_count c)]))"

text \<open>
  C24. A machine that is created has issued its ioctls in the required order (interrupt
  controller and timer before memory, memory before any virtual CPU, CPUID set on each
  virtual CPU), has the validated configuration, RAM of the configured size, one virtual
  CPU per configured index and a queue of 128 entries, and is not running.
\<close>

theorem vm_creation_correct:
  assumes "virtual_machine_new K C mmap c w = (Ok v, w')"
  shows "(\<exists>cpuid. \<exists>j \<le> 4. ktrace (kvm w') = ktrace (kvm w) @ creation_calls c (gm_ptr (guest_memory v))
       @ map GetSupportedCpuid (take j [256, 128, 64, 32]) @ vcpu_calls c cpuid) \<and>
     validate c = Ok () \<and> vm_config v = c \<and> gm_size (guest_memory v) = mem_size_of c \<and>
     vcpus v = map (\<lambda>i. \<lparr>vcpu_index = of_nat i\<rparr>) [0..<unat (vcpu_count c)] \<and> vcpus v \<noteq> [] \<and>
     \<not> running v \<and> \<not> kernel_is_bzimage v \<and> queue_num (block_device v) = 128"
proof -
  obtain hyp gm cpuid vs b k1 k2 k3 k4 k5 k6 k7 k8 k9 os where
      val: "validate c = Ok ()" and 1: "hypervisor_new K (kvm w) = (Ok hyp, k1)"
      and 2: "create_vm K k1 = (Ok (), k2)" and 3: "create_irq_chip K k2 = (Ok (), k3)"
      and 4: "create_pit K k3 = (Ok (), k4)" and 5: "set_tss_addr K 0xfffbd000 k4 = (Ok (), k5)"
      and 6: "set_identity_map_addr K 0xfffbc000 k5 = (Ok (), k6)"
      and gm: "guest_memory_new mmap (mem_size_of c) = Ok gm"
      and 7: "set_user_memory_region K 0 0 (mem_size_of c) (userspace_addr gm) k6 = (Ok (), k7)"
      and 8: "get_supported_cpuid K k7 = (Ok cpuid, k8)"
      and 9: "create_vcpus K (filter_for_android cpuid) (map of_nat [0..<unat (vcpu_count c)]) [] k8 = (Ok vs, k9)"
      and b: "virtio_block_new C (system_image_path c) (host_os w) = (Ok b, os)"
      and v: "v = \<lparr>hypervisor = hyp, vcpus = vs, guest_memory = gm, vm_config = c, kernel_is_bzimage = False,
        bzimage_header = [], initramfs_size = 0, block_device = b, running = False\<rparr>"
      and w': "w' = w\<lparr>kvm := k9, host_os := os\<rparr>"
    using assms by (auto simp: virtual_machine_new_def Let_def andthen_eq_Ok on_kvm_eq_Ok on_os_eq_Ok)
  note t = hypervisor_new_trace [OF 1] issue_Ok_trace [OF 2 [unfolded create_vm_def]]
    issue_Ok_trace [OF 3 [unfolded create_irq_chip_def]] issue_Ok_trace [OF 4 [unfolded create_pit_def]]
    issue_Ok_trace [OF 5 [unfolded set_tss_addr_def]] issue_Ok_trace [OF 6 [unfolded set_identity_map_addr_def]]
    issue_Ok_trace [OF 7 [unfolded set_user_memory_region_def Let_def]]
  obtain j where j: "j \<le> 4" "ktrace k8 = ktrace k7 @ map GetSupportedCpuid (take j [256, 128, 64, 32])"
    using get_supported_cpuid_trace [OF 8] by blast
  note vc = create_vcpus_Ok [OF 9]
  have "ktrace k9 = ktrace (kvm w) @ creation_calls c (gm_ptr gm) @ map GetSupportedCpuid (take j [256, 128, 64, 32])
      @ vcpu_calls c cpuid"
    using t j vc by (simp add: creation_calls_def vcpu_calls_def userspace_addr_def)
  moreover have "vs \<noteq> []"
    using val vc by (simp add: validate_Ok_iff unat_eq_0)
  moreover have "queue_num b = 128"
    using b by (auto simp: virtio_block_new_def andthen_eq_Ok)
  ultimately show ?thesis
    using val v w' gm vc j(1) by (auto simp: guest_memory_new_Ok)
qed

text \<open>
  The region registered with KVM starts at address zero.  When it reaches past the window of the
  block device, its registers are plain RAM and no access to them leaves the guest.
\<close>


section \<open>Concrete machines\<close>

text \<open>A kernel that accepts every ioctl, and a machine of the default configuration.\<close>

definition zero_segment :: kvm_segment where
  "zero_segment = \<lparr>seg_base = 0, seg_limit = 0, selector = 0, seg_type = 0, seg_present = 0, dpl = 0, db = 0,
     seg_s = 0, seg_l = 0, seg_g = 0, avl = 0, unusable = 0\<rparr>"

definition zero_sregs :: kvm_sregs where
  "zero_sregs = \<lparr>cs = zero_segment, ds = zero_segment, es = zero_segment, fs = zero_segment, gs = zero_segment,
     ss = zero_segment, gdt = \<lparr>dt_base = 0, dt_limit = 0\<rparr>, cr0 = 0, cr3 = 0, cr4 = 0, efer = 0, other_sregs = []\<rparr>"

definition zero_regs :: kvm_regs where
  "zero_regs = \<lparr>rax = 0, rbx = 0, rcx = 0, rdx = 0, rsi = 0, rdi = 0, rsp = 0, rbp = 0, rip = 0, rflags = 0,
     other_regs = []\<rparr>"

definition demo_kvm :: "VcpuExit list kvm_api" where
  "demo_kvm =
     \<lparr>api_open = (\<lambda>k. (Inr (), k)), api_check_extension = (\<lambda>k c. True), api_create_vm = (\<lambda>k. (Inr (), k)),
      api_get_supported_cpuid = (\<lambda>n k. (Inr [], k)), api_create_vcpu = (\<lambda>i k. (Inr (), k)),
      api_create_irq_chip = (\<lambda>k. (Inr (), k)), api_create_pit2 = (\<lambda>k. (Inr (), k)),
      api_set_tss_address = (\<lambda>a k. (Inr (), k)), api_set_identity_map_address = (\<lambda>a k. (Inr (), k)),
      api_set_user_memory_region = (\<lambda>r k. (Inr (), k)), api_get_regs = (\<lambda>i k. (Inr zero_regs, k)),
      api_set_regs = (\<lambda>i r k. (Inr (), k)), api_get_sregs = (\<lambda>i k. (Inr zero_sregs, k)),
      api_set_sregs = (\<lambda>i r k. (Inr (), k)), api_set_cpuid2 = (\<lambda>i c k. (Inr (), k)),
      api_run = (\<lambda>i m k. case k of [] \<Rightarrow> (Inl (5, ''no more exits''), m, []) | e # rest \<Rightarrow> (Inr e, m, rest)),
      api_mmio_reply = (\<lambda>i d k. k)\<rparr>"

lemma demo_kvm_registers: "registers_ok demo_kvm i"
  by (simp add: registers_ok_def demo_kvm_def)

definition demo_vm :: VirtualMachine where
  "demo_vm = \<lparr>hypervisor = \<lparr>capabilities = \<lparr>cap_flags = []\<rparr>\<rparr>, vcpus = [\<lparr>vcpu_index = 0\<rparr>],
     guest_memory = \<lparr>gm_ptr = 0x7f0000000000, gm_size = 0x80000000, ram = (\<lambda>_. 0)\<rparr>,
     vm_config = device_config_default ''0'', kernel_is_bzimage = False, bzimage_header = [], initramfs_size = 0,
     block_device = \<lparr>vb_disk = \<lparr>disk_fd = 3, disk_size = 0\<rparr>, queue_num = 128, queue_pfn = 0, vb_status = 0,
       last_avail = 0\<rparr>, running = False\<rparr>"

definition demo_machine :: "VcpuExit list \<Rightarrow> (VcpuExit list, unit) machine" where
  "demo_machine exits = \<lparr>kvm = \<lparr>kstate = exits, ktrace = []\<rparr>, host_os = (), vm = demo_vm\<rparr>"

lemma demo_vm_fresh: "fresh_ram demo_vm"
  by (simp add: fresh_ram_def demo_vm_def validate_Ok_iff device_config_default_def mem_size_of_def core_consts)


theorem long_mode_boot_correct_witness:
  "\<exists>w' s r. setup_boot demo_kvm (demo_machine []) = (Ok (), w') \<and> long_mode_entry s r \<and>
     walk (guest_memory (vm w')) (cr3 s) 0x100000 = Some 0x100000"
proof -
  have m: "\<not> kernel_is_bzimage (vm (demo_machine []))" "vcpus (vm (demo_machine [])) = \<lparr>vcpu_index = 0\<rparr> # []"
    "fresh_ram (vm (demo_machine []))"
    using demo_vm_fresh by (simp_all add: demo_machine_def) (simp_all add: demo_vm_def)
  have "0x100000 < mapped_bytes (vm_config demo_vm)"
    by (simp add: mapped_bytes_def demo_vm_def device_config_default_def core_consts)
  with long_mode_boot_correct [OF m(1,2) demo_kvm_registers m(3)] show ?thesis
    by (fastforce simp: demo_machine_def)
qed

definition demo_kernel :: bytes where
  "demo_kernel = splice (splice (replicate 0x400 0) 0x202 (as_bytes ''HdrS'')) 0x248 [0, 2, 0, 0]"

lemma demo_kernel_fields:
  "length demo_kernel = 0x400" "take 4 (drop 0x202 demo_kernel) = as_bytes ''HdrS''" "demo_kernel ! 0x1f1 = 0"
  "take 4 (drop 0x248 demo_kernel) = [0, 2, 0, 0]"
  by (simp_all add: demo_kernel_def take_drop_splice_disjoint take_drop_splice_at nth_splice)

lemma demo_kernel_valid: "valid_bzimage demo_kernel" "setup_size_of demo_kernel = 0x200"
  by (simp_all add: valid_bzimage_def is_bzimage_def setup_size_of_def demo_kernel_fields)

definition demo_files :: host_files where
  "demo_files = \<lparr>path_exists = (\<lambda>p. True), fs_read = (\<lambda>p. Inr (if p = ''k'' then demo_kernel
     else if p = ''s'' then take 0x260 demo_kernel else [7, 7, 7]))\<rparr>"


theorem short_bzimage_panics_witness: "fst (load_kernel demo_files ''s'' demo_vm) = Panic"
proof (rule short_bzimage_panics)
  show "fs_read demo_files ''s'' = Inr (take 0x260 demo_kernel)" by (simp add: demo_files_def)
  show "is_bzimage (take 0x260 demo_kernel)"
    using demo_kernel_fields by (simp add: is_bzimage_def drop_take)
  show "0x200 \<le> unat (from_le (take 4 (drop 0x248 (take 0x260 demo_kernel))) :: u32)"
    using demo_kernel_fields by (simp add: drop_take)
qed (simp_all add: demo_files_def demo_kernel_fields demo_vm_def)


theorem cpuid_largest_table_witness:
  "fst (get_supported_cpuid (demo_kvm\<lparr>api_get_supported_cpuid :=
       (\<lambda>n k. ((if n \<le> 100 then Inr [] else Inl (7, ''Argument list too long'')), k))\<rparr>) \<lparr>kstate = [], ktrace = []\<rparr>) = Ok []"
  using cpuid_largest_table [of "demo_kvm\<lparr>api_get_supported_cpuid :=
       (\<lambda>n k. ((if n \<le> 100 then Inr [] else Inl (7, ''Argument list too long'')), k))\<rparr>" 100 "\<lambda>_. []"
       "\<lambda>_. (7, ''Argument list too long'')" "\<lparr>kstate = [], ktrace = []\<rparr>"]
  by simp

definition demo_libc :: "unit libc" where
  "demo_libc = \<lparr>c_open = (\<lambda>p c os. (3, os)), c_ftruncate = (\<lambda>fd n os. (0, os)), c_fstat = (\<lambda>fd os. (0, 4096)),
     c_pread = (\<lambda>fd n off os. (0, [])), c_pwrite = (\<lambda>fd d off os. (int (length d), os)), c_fsync = (\<lambda>fd os. (0, os)),
     c_close = (\<lambda>fd os. (0, os)), last_os_error = (\<lambda>os. [])\<rparr>"

definition demo_mmap :: "u64 \<Rightarrow> (u64 \<times> ram_contents) option" where
  "demo_mmap n = Some (0x7f0000000000, \<lambda>_. 0)"

lemma demo_creation:
  "\<exists>v w'. virtual_machine_new demo_kvm demo_libc demo_mmap (device_config_default ''0'')
     \<lparr>kvm = \<lparr>kstate = [], ktrace = []\<rparr>, host_os = ()\<rparr> = (Ok v, w')"
proof -
  let ?c = "device_config_default ''0''"
  have c: "validate ?c = Ok ()" "mem_size_of ?c = 0x80000000" "unat (vcpu_count ?c) = 4" "system_image_path ?c = []"
    by (simp_all add: validate_Ok_iff device_config_default_def mem_size_of_def core_consts)
  have d: "virtio_block_new demo_libc [] () = (Ok \<lparr>vb_disk = \<lparr>disk_fd = 3, disk_size = 4096\<rparr>, queue_num = 128,
      queue_pfn = 0, vb_status = 0, last_avail = 0\<rparr>, ())"
    using lossy_ascii [of "[]"]
    by (simp add: virtio_block_new_def disk_open_def disk_cstring_def cstring_new_def from_utf8_lossy_def
        as_bytes_def of_bytes_def demo_libc_def andthen_def)
  have "[0..<4] = [0, 1, 2, 3 :: nat]" by (simp add: upt_rec)
  then show ?thesis
    by (simp add: virtual_machine_new_def c andthen_lift_outcome andthen_def on_kvm_def on_os_def hypervisor_new_def
        create_vm_def create_irq_chip_def create_pit_def set_tss_addr_def set_identity_map_addr_def
        set_user_memory_region_def issue_def demo_kvm_def guest_memory_new_def demo_mmap_def get_supported_cpuid_def
        create_vcpu_def set_cpuid_def d Let_def)
qed

theorem vm_creation_correct_witness:
  "\<exists>v w'. virtual_machine_new demo_kvm demo_libc demo_mmap (device_config_default ''0'')
     \<lparr>kvm = \<lparr>kstate = [], ktrace = []\<rparr>, host_os = ()\<rparr> = (Ok v, w') \<and> vcpus v \<noteq> [] \<and> \<not> running v"
  using demo_creation vm_creation_correct by blast

end
