(* ===== verification/LD_BlockSpec.thy ===== *)
theory LD_BlockSpec
  imports LD_VirtioBlock
begin

text \<open>
  What the queue service of \<open>VirtioBlock\<close> promises.  A request is split into the descriptor chain it
  names (\<open>parse_chain\<close>), the transfer, and the completion (status byte and used ring); the
  refinement lemma \<open>process_request_split\<close> says that the code does exactly these three in order.
\<close>

section \<open>Requests as descriptor chains\<close>

record chain =
  ch_type :: u32
  ch_sector :: u64
  ch_addr :: u64
  ch_len :: nat
  ch_flags :: u16
  ch_status :: u64

definition parse_chain :: "GuestMemory \<Rightarrow> u64 \<Rightarrow> u16 \<Rightarrow> u16 \<Rightarrow> chain ld_result" where
  "parse_chain m queue qn head =
     (let desc = queue + ucast head * 16 in
      bind_outcome (guest_u64 m desc) (\<lambda>header_addr.
      bind_outcome (guest_u16 m (desc + 12)) (\<lambda>header_flags.
      bind_outcome (guest_u16 m (desc + 14)) (\<lambda>header_next.
      if header_flags AND DESC_NEXT = 0 then Err (DiskIo ''virtio request has no data descriptor'')
      else
      bind_outcome (guest_u32 m header_addr) (\<lambda>request_type.
      bind_outcome (guest_u64 m (header_addr + 8)) (\<lambda>sector.
      let payload_desc = queue + ucast header_next * 16 in
      bind_outcome (guest_u64 m payload_desc) (\<lambda>payload_addr.
      bind_outcome (guest_u32 m (payload_desc + 8)) (\<lambda>payload_len.
      bind_outcome (guest_u16 m (payload_desc + 12)) (\<lambda>payload_flags.
      bind_outcome (guest_u16 m (payload_desc + 14)) (\<lambda>status_next.
      if payload_flags AND DESC_NEXT = 0 \<or> (ucast status_next :: u64) \<ge> ucast qn
      then Err (DiskIo ''virtio request has invalid status descriptor'')
      else
      bind_outcome (guest_u64 m (queue + ucast status_next * 16)) (\<lambda>status_addr.
      if status_addr = 0 then Err (DiskIo ''virtio status address is null'')
      else Ok \<lparr>ch_type = request_type, ch_sector = sector, ch_addr = payload_addr,
               ch_len = unat payload_len, ch_flags = payload_flags, ch_status = status_addr\<rparr>)))))))))))"

definition transfer :: "'os libc \<Rightarrow> chain \<Rightarrow> ('os blk_world, LiteDroidError, u8) action" where
  "transfer C ch =
     andthen (gets (\<lambda>w. vb_disk (vblk w))) (\<lambda>disk.
       if ch_type ch = 0 then
         (if ch_flags ch AND DESC_WRITE = 0
          then fail (DiskIo ''virtio read buffer is not writable'')
          else andthen (lift_outcome (\<lambda>w. disk_read C disk (ch_sector ch * 512)
                          (replicate (ch_len ch) 0) (host w)))
            (\<lambda>(n, payload').
               andthen (lift_outcome (\<lambda>_. idx_range payload' 0 n)) (\<lambda>data.
               andthen (wr_mem (ch_addr ch) data) (\<lambda>_. ret (0 :: u8)))))
       else if ch_type ch = 1 then
         (if ch_flags ch AND DESC_WRITE \<noteq> 0
          then fail (DiskIo ''virtio write buffer is not readable'')
          else andthen (lift_outcome (\<lambda>w. read_guest (gmem w) (ch_addr ch) (ch_len ch))) (\<lambda>data.
               andthen (on_host (disk_write C disk (ch_sector ch * 512) data)) (\<lambda>_. ret 0)))
       else ret 1)"

definition used_ring :: "u64 \<Rightarrow> u16 \<Rightarrow> u64" where
  "used_ring queue qn = align_up (queue + 16 * ucast qn + 4 + 2 * ucast qn) 4096"

definition complete :: "u64 \<Rightarrow> u16 \<Rightarrow> u16 \<Rightarrow> chain \<Rightarrow> u8 \<Rightarrow> ('os blk_world, LiteDroidError, unit) action" where
  "complete used qn head ch status =
     andthen (wr_mem (ch_status ch) [status]) (\<lambda>_.
     andthen (rd16 (used + 2)) (\<lambda>used_idx.
     andthen (lift_outcome (\<lambda>_. rem_u16 used_idx qn)) (\<lambda>slot16.
     andthen (wr_mem (used + 4 + ucast slot16 * 8) (to_le 4 (ucast head :: u32))) (\<lambda>_.
     andthen (wr_mem (used + 8 + ucast slot16 * 8) (to_le 4 (of_nat (ch_len ch) :: u32))) (\<lambda>_.
     wr_mem (used + 2) (to_le 2 (used_idx + 1)))))))"

lemma process_request_split:
  "process_request C queue head w =
     (case parse_chain (gmem w) queue (queue_num (vblk w)) head of
        Ok ch \<Rightarrow> andthen (transfer C ch)
          (complete (used_ring queue (queue_num (vblk w))) (queue_num (vblk w)) head ch) w
      | Err e \<Rightarrow> (Err e, w)
      | Panic \<Rightarrow> (Panic, w))"
  unfolding process_request_def parse_chain_def transfer_def complete_def used_ring_def Let_def
    rd16_def rd32_def rd64_def andthen_lift_outcome case_bind_outcome case_if_outcome if_action andthen_gets
     outcome.case run_fail andthen_assoc
  by (simp only: chain.simps)

section \<open>Completion\<close>

definition disjoint :: "nat \<Rightarrow> nat \<Rightarrow> nat \<Rightarrow> nat \<Rightarrow> bool" where
  "disjoint a n b k \<longleftrightarrow> a + n \<le> b \<or> b + k \<le> a"

text \<open>
  The payload, the status byte and the used ring lie inside guest memory and do not overlap.
\<close>

definition layout_ok :: "GuestMemory \<Rightarrow> u64 \<Rightarrow> u16 \<Rightarrow> chain \<Rightarrow> bool" where
  "layout_ok m used qn ch \<longleftrightarrow>
     qn \<noteq> 0 \<and>
     unat used + 4 + 8 * unat qn \<le> unat (gm_size m) \<and>
     unat (ch_addr ch) + ch_len ch \<le> unat (gm_size m) \<and>
     unat (ch_status ch) + 1 \<le> unat (gm_size m) \<and>
     disjoint (unat (ch_addr ch)) (ch_len ch) (unat (ch_status ch)) 1 \<and>
     disjoint (unat (ch_addr ch)) (ch_len ch) (unat used) (4 + 8 * unat qn) \<and>
     disjoint (unat (ch_status ch)) 1 (unat used) (4 + 8 * unat qn)"

lemma used_slot_addr:
  assumes "unat (used :: u64) + 4 + 8 * unat (qn :: u16) < 2 ^ 64" and "unat (slot :: u16) < unat qn"
  shows "unat (used + 2) = unat used + 2"
    and "unat (used + 4 + ucast slot * 8) = unat used + 4 + 8 * unat slot"
    and "unat (used + 8 + ucast slot * 8) = unat used + 8 + 8 * unat slot"
proof -
  have a4: "used + 4 + ucast slot * 8 = used + of_nat (4 + 8 * unat slot)"
    and a8: "used + 8 + ucast slot * 8 = used + of_nat (8 + 8 * unat slot)"
    by (simp_all add: algebra_simps)
  show "unat (used + 4 + ucast slot * 8) = unat used + 4 + 8 * unat slot"
    unfolding a4 using assms by (subst unat_add_of_nat) simp_all
  show "unat (used + 8 + ucast slot * 8) = unat used + 8 + 8 * unat slot"
    unfolding a8 using assms by (subst unat_add_of_nat) simp_all
  show "unat (used + 2) = unat used + 2"
    using assms unat_add_of_nat [of used 2] by simp
qed

definition completion_writes :: "u64 \<Rightarrow> u16 \<Rightarrow> u16 \<Rightarrow> chain \<Rightarrow> u8 \<Rightarrow> u16 \<Rightarrow> (u64 \<times> bytes) list" where
  "completion_writes used qn head ch status idx =
     [(ch_status ch, [status]),
      (used + 4 + ucast (idx mod qn) * 8, to_le 4 (ucast head :: u32)),
      (used + 8 + ucast (idx mod qn) * 8, to_le 4 (of_nat (ch_len ch) :: u32)),
      (used + 2, to_le 2 (idx + 1))]"

lemma run_wr_mem:
  "wr_mem a d w = (case write_guest (gmem w) a d of
     Ok m \<Rightarrow> (Ok (), w\<lparr>gmem := m\<rparr>) | Err e \<Rightarrow> (Err e, w) | Panic \<Rightarrow> (Panic, w))"
  by (simp add: wr_mem_def)

lemma complete_writes:
  assumes "guest_u16 m1 (used + 2) = Ok idx" and "write_guest (gmem w) (ch_status ch) [status] = Ok m1"
    and "qn \<noteq> 0" and "write_seq write_guest (completion_writes used qn head ch status idx) (gmem w) = Ok m'"
  shows "complete used qn head ch status w = (Ok (), w\<lparr>gmem := m'\<rparr>)"
  using assms
  by (auto simp: complete_def completion_writes_def run_wr_mem andthen_def rd16_def rem_u16_def)

lemma completion_writes_apart:
  assumes "layout_ok m used qn ch"
  shows "sorted_wrt apart (completion_writes used qn head ch status idx)"
    and "\<forall>v \<in> set (completion_writes used qn head ch status idx). in_range (unat (gm_size m)) v"
proof -
  have lt: "unat (idx mod qn) < unat qn"
    using assms by (simp add: layout_ok_def unat_mod unat_gt_0)
  have "unat used + 4 + 8 * unat qn < 2 ^ 64"
    using assms unat_u64_less [of "gm_size m"] by (simp add: layout_ok_def)
  note addrs = used_slot_addr [OF this lt]
  show "sorted_wrt apart (completion_writes used qn head ch status idx)"
    using assms lt by (auto simp: completion_writes_def apart_def addrs layout_ok_def disjoint_def)
  show "\<forall>v \<in> set (completion_writes used qn head ch status idx). in_range (unat (gm_size m)) v"
    using assms lt by (auto simp: completion_writes_def in_range_def addrs layout_ok_def)
qed

text \<open>Completion succeeds, publishes the status and the used element, and touches nothing else.\<close>

lemma complete_correct:
  assumes lay: "layout_ok (gmem w) used qn ch" and idx: "guest_u16 (gmem w) (used + 2) = Ok idx"
  shows "\<exists>m'. complete used qn head ch status w = (Ok (), w\<lparr>gmem := m'\<rparr>) \<and>
     read_guest m' (ch_status ch) 1 = Ok [status] \<and>
     guest_u32 m' (used + 4 + ucast (idx mod qn) * 8) = Ok (ucast head) \<and>
     guest_u32 m' (used + 8 + ucast (idx mod qn) * 8) = Ok (of_nat (ch_len ch)) \<and>
     guest_u16 m' (used + 2) = Ok (idx + 1) \<and>
     (\<forall>b n. disjoint (unat b) n (unat (ch_status ch)) 1 \<and> disjoint (unat b) n (unat used) (4 + 8 * unat qn)
        \<longrightarrow> read_guest m' b n = read_guest (gmem w) b n)"
proof -
  let ?ws = "completion_writes used qn head ch status idx"
  note ws = completion_writes_apart [OF lay, of head status idx]
  obtain m' where m': "write_seq write_guest ?ws (gmem w) = Ok m'"
    using gm.write_seq_succeeds ws(2) by blast
  obtain m1 where m1: "write_guest (gmem w) (ch_status ch) [status] = Ok m1"
    using m' by (auto simp: completion_writes_def)
  have lt: "unat (idx mod qn) < unat qn"
    using lay by (simp add: layout_ok_def unat_mod unat_gt_0)
  have "unat used + 4 + 8 * unat qn < 2 ^ 64"
    using lay unat_u64_less [of "gm_size (gmem w)"] by (simp add: layout_ok_def)
  note addrs = used_slot_addr [OF this lt]
  have "read_guest m1 (used + 2) 2 = read_guest (gmem w) (used + 2) 2"
    using lay lt by (intro gm.rd_wr_apart [OF m1]) (auto simp: addrs layout_ok_def disjoint_def)
  with idx have "guest_u16 m1 (used + 2) = Ok idx"
    by (simp add: guest_u16_def)
  then have "complete used qn head ch status w = (Ok (), w\<lparr>gmem := m'\<rparr>)"
    using m1 m' lay by (intro complete_writes) (auto simp: layout_ok_def)
  moreover have rb: "read_guest m' (fst v) (length (snd v)) = Ok (snd v)" if "v \<in> set ?ws" for v
    using gm.write_seq_read_back [OF m' ws(1) that] .
  moreover have "read_guest m' b n = read_guest (gmem w) b n"
    if "disjoint (unat b) n (unat (ch_status ch)) 1" and "disjoint (unat b) n (unat used) (4 + 8 * unat qn)"
    for b n
    using that lt by (intro gm.write_seq_frame [OF m'])
      (auto simp: completion_writes_def addrs disjoint_def)
  ultimately show ?thesis
    using rb [of "(ch_status ch, [status])"]
      rb [of "(used + 4 + ucast (idx mod qn) * 8, to_le 4 (ucast head :: u32))"]
      rb [of "(used + 8 + ucast (idx mod qn) * 8, to_le 4 (of_nat (ch_len ch) :: u32))"]
      rb [of "(used + 2, to_le 2 (idx + 1))"]
    by (intro exI [of _ m'])
      (simp add: guest_u16_def guest_u32_def completion_writes_def del: to_le_numeral)
qed

section \<open>Requests\<close>

text \<open>The contents of the image in the range a request names.\<close>

definition image_range :: "chain \<Rightarrow> bytes \<Rightarrow> bytes" where
  "image_range ch contents = take (ch_len ch) (drop (unat (ch_sector ch * 512)) contents)"

text \<open>What every completed request leaves in guest memory.\<close>

definition completed :: "GuestMemory \<Rightarrow> u64 \<Rightarrow> u16 \<Rightarrow> u16 \<Rightarrow> chain \<Rightarrow> u8 \<Rightarrow> u16 \<Rightarrow> bool" where
  "completed m used qn head ch status idx \<longleftrightarrow>
     read_guest m (ch_status ch) 1 = Ok [status] \<and>
     guest_u32 m (used + 4 + ucast (idx mod qn) * 8) = Ok (ucast head) \<and>
     guest_u32 m (used + 8 + ucast (idx mod qn) * 8) = Ok (of_nat (ch_len ch)) \<and>
     guest_u16 m (used + 2) = Ok (idx + 1)"

lemma layout_ok_size: "gm_size m = gm_size m' \<Longrightarrow> layout_ok m used qn ch = layout_ok m' used qn ch"
  by (simp add: layout_ok_def)

lemma disk_read_not_Panic [simp]: "disk_read C d off buf os \<noteq> Panic"
  by (simp add: disk_read_def split: prod.splits)

lemma disk_read_succeeds:
  assumes "0 \<le> fst (c_pread C (disk_fd d) (length buf) off os)"
  shows "\<exists>n buf'. disk_read C d off buf os = Ok (n, buf')"
  using assms by (cases "c_pread C (disk_fd d) (length buf) off os") (simp add: disk_read_def)

lemma transfer_read:
  assumes px: "posix_disk C (disk_fd (vb_disk (vblk w))) view"
    and ty: "ch_type ch = 0" "ch_flags ch AND DESC_WRITE \<noteq> 0"
    and mem: "unat (ch_addr ch) + ch_len ch \<le> unat (gm_size (gmem w))"
    and io: "0 \<le> fst (c_pread C (disk_fd (vb_disk (vblk w))) (ch_len ch) (ch_sector ch * 512) (host w))"
  shows "\<exists>m1. write_guest (gmem w) (ch_addr ch) (image_range ch (view (host w))) = Ok m1 \<and>
    transfer C ch w = (Ok 0, w\<lparr>gmem := m1\<rparr>)"
proof -
  let ?buf = "replicate (ch_len ch) (0 :: u8)"
  obtain n buf' where rd: "disk_read C (vb_disk (vblk w)) (ch_sector ch * 512) ?buf (host w) = Ok (n, buf')"
    using disk_read_succeeds [of C "vb_disk (vblk w)" ?buf "ch_sector ch * 512" "host w"] io by auto
  note d = disk_read_posix [OF px rd]
  have data: "take n buf' = image_range ch (view (host w))"
    using d(3) by (simp add: image_range_def)
  then have "length (image_range ch (view (host w))) \<le> ch_len ch"
    by (simp add: image_range_def)
  then obtain m1 where m1: "write_guest (gmem w) (ch_addr ch) (image_range ch (view (host w))) = Ok m1"
    using gm.wr_succeeds [of "ch_addr ch" "image_range ch (view (host w))" "gmem w"] mem by auto
  have "transfer C ch w = (Ok 0, w\<lparr>gmem := m1\<rparr>)"
    using ty rd d(1,2) data m1
    by (simp add: transfer_def andthen_gets andthen_lift_outcome run_wr_mem andthen_def)
  with m1 show ?thesis by blast
qed

text \<open>The steps shared by the three kinds of request: from a finished transfer to the result.\<close>

lemma request_from_transfer:
  assumes "parse_chain (gmem w) queue qn head = Ok ch" and "qn = queue_num (vblk w)"
    and "transfer C ch w = (Ok st, w1)"
    and lay: "layout_ok (gmem w1) (used_ring queue qn) qn ch"
    and idx: "guest_u16 (gmem w1) (used_ring queue qn + 2) = Ok idx"
  shows "\<exists>m'. process_request C queue head w = (Ok (), w1\<lparr>gmem := m'\<rparr>) \<and>
    completed m' (used_ring queue qn) qn head ch st idx \<and>
    (\<forall>n \<le> ch_len ch. read_guest m' (ch_addr ch) n = read_guest (gmem w1) (ch_addr ch) n)"
proof -
  from complete_correct [OF lay idx, of head st] obtain m' where
      c: "complete (used_ring queue qn) qn head ch st w1 = (Ok (), w1\<lparr>gmem := m'\<rparr>)"
      and post: "completed m' (used_ring queue qn) qn head ch st idx"
      and frame: "\<And>b n. disjoint (unat b) n (unat (ch_status ch)) 1 \<and>
        disjoint (unat b) n (unat (used_ring queue qn)) (4 + 8 * unat qn) \<Longrightarrow>
        read_guest m' b n = read_guest (gmem w1) b n"
    by (auto simp: completed_def)
  have "read_guest m' (ch_addr ch) n = read_guest (gmem w1) (ch_addr ch) n" if "n \<le> ch_len ch" for n
    using that lay by (intro frame) (auto simp: layout_ok_def disjoint_def)
  with c post assms(1-3) show ?thesis
    by (auto simp: process_request_split)
qed

lemma used_idx_untouched:
  assumes "layout_ok m used qn ch" and "write_guest m (ch_addr ch) data = Ok m1" and "length data \<le> ch_len ch"
  shows "guest_u16 m1 (used + 2) = guest_u16 m (used + 2)"
proof -
  have "unat (used + 2) = unat used + 2"
    using assms(1) unat_u64_less [of "gm_size m"] unat_add_of_nat [of used 2]
    by (simp add: layout_ok_def)
  then have "read_guest m1 (used + 2) 2 = read_guest m (used + 2) 2"
    using assms(1,3) unat_gt_0 [of qn]
    by (intro gm.rd_wr_apart [OF assms(2)]) (auto simp: layout_ok_def disjoint_def)
  then show ?thesis by (simp add: guest_u16_def)
qed

text \<open>
  C2. A read request whose payload, status byte and used ring lie inside guest memory
  without overlap completes: the payload holds the bytes of the image at the requested
  sector, the status byte is 0, the used ring gains the request, and neither the device nor
  the host file changes.
\<close>

theorem read_request_correct:
  assumes "posix_disk C (disk_fd (vb_disk (vblk w))) view"
    and "parse_chain (gmem w) queue (queue_num (vblk w)) head = Ok ch"
    and "ch_type ch = 0" and "ch_flags ch AND DESC_WRITE \<noteq> 0"
    and "layout_ok (gmem w) (used_ring queue (queue_num (vblk w))) (queue_num (vblk w)) ch"
    and "guest_u16 (gmem w) (used_ring queue (queue_num (vblk w)) + 2) = Ok idx"
    and "0 \<le> fst (c_pread C (disk_fd (vb_disk (vblk w))) (ch_len ch) (ch_sector ch * 512) (host w))"
  shows "\<exists>m'. process_request C queue head w = (Ok (), w\<lparr>gmem := m'\<rparr>) \<and>
    read_guest m' (ch_addr ch) (length (image_range ch (view (host w)))) = Ok (image_range ch (view (host w))) \<and>
    completed m' (used_ring queue (queue_num (vblk w))) (queue_num (vblk w)) head ch 0 idx"
proof -
  let ?data = "image_range ch (view (host w))"
  have len: "length ?data \<le> ch_len ch"
    by (simp add: image_range_def)
  have "unat (ch_addr ch) + ch_len ch \<le> unat (gm_size (gmem w))"
    using assms(5) by (simp add: layout_ok_def)
  then obtain m1 where m1: "write_guest (gmem w) (ch_addr ch) ?data = Ok m1"
      and tr: "transfer C ch w = (Ok 0, w\<lparr>gmem := m1\<rparr>)"
    using transfer_read [OF assms(1,3,4) _ assms(7)] by blast
  have lay1: "layout_ok (gmem (w\<lparr>gmem := m1\<rparr>)) (used_ring queue (queue_num (vblk w))) (queue_num (vblk w)) ch"
    using assms(5) layout_ok_size [of m1 "gmem w"] write_guest_fields [OF m1] by simp
  have "guest_u16 (gmem (w\<lparr>gmem := m1\<rparr>)) (used_ring queue (queue_num (vblk w)) + 2) = Ok idx"
    using used_idx_untouched [OF assms(5) m1 len] assms(6) by simp
  from request_from_transfer [OF assms(2) refl tr lay1 this] show ?thesis
    using gm.rd_wr_same [OF m1] len by auto
qed


theorem unsupported_request:
  assumes "parse_chain (gmem w) queue (queue_num (vblk w)) head = Ok ch"
    and "ch_type ch \<notin> {0, 1}"
    and "layout_ok (gmem w) (used_ring queue (queue_num (vblk w))) (queue_num (vblk w)) ch"
    and "guest_u16 (gmem w) (used_ring queue (queue_num (vblk w)) + 2) = Ok idx"
  shows "\<exists>m'. process_request C queue head w = (Ok (), w\<lparr>gmem := m'\<rparr>) \<and>
    completed m' (used_ring queue (queue_num (vblk w))) (queue_num (vblk w)) head ch 1 idx"
proof -
  have tr: "transfer C ch w = (Ok 1, w)"
    using assms(2) by (simp add: transfer_def andthen_gets)
  from request_from_transfer [OF assms(1) refl tr assms(3,4)] show ?thesis by blast
qed

section \<open>Freedom from panics\<close>

lemma guest_words_not_Panic [simp]:
  "guest_u16 m a \<noteq> Panic" "guest_u32 m a \<noteq> Panic" "guest_u64 m a \<noteq> Panic"
  by (simp_all add: guest_u16_def guest_u32_def guest_u64_def bind_outcome_eq_Panic gm.rd_not_Panic)

lemma parse_chain_not_Panic [simp]: "parse_chain m queue qn head \<noteq> Panic"
  by (simp add: parse_chain_def Let_def bind_outcome_eq_Panic)

lemma safe_wr_mem [safe_rules]: "(\<And>w m. I w \<Longrightarrow> I (w\<lparr>gmem := m\<rparr>)) \<Longrightarrow> safe I (wr_mem a d)"
  by (auto simp: safe_def wr_mem_def gm.wr_not_Panic split: outcome.splits)

lemma safe_rd16 [safe_rules]: "safe I (rd16 a)"
  unfolding rd16_def by (intro safe_rules) simp

text \<open>The state in which the queue is served: a queue size other than zero and an open disk.\<close>

definition serving :: "RawDiskImage \<Rightarrow> u16 \<Rightarrow> 'os blk_world \<Rightarrow> bool" where
  "serving d qn w \<longleftrightarrow> vb_disk (vblk w) = d \<and> queue_num (vblk w) = qn"

lemma safe_disk_write [safe_rules]:
  "(\<And>w os. I w \<Longrightarrow> I (w\<lparr>host := os\<rparr>)) \<Longrightarrow> safe I (on_host (disk_write C d off data))"
  by (auto simp: safe_def on_host_def disk_write_def split: prod.splits)

lemma safe_transfer:
  assumes "posix_disk C (disk_fd d) view"
  shows "safe (serving d qn) (transfer C ch)"
proof -
  have rd: "idx_range buf' 0 n \<noteq> Panic" if "disk_read C d off (replicate k 0) os = Ok (n, buf')" for n buf' off k os
    using disk_read_posix [OF assms that] by simp
  show ?thesis
    unfolding transfer_def
    by (intro safe_rules; insert rd) (auto simp: serving_def gm.rd_not_Panic, blast)
qed

lemma safe_complete: "qn \<noteq> 0 \<Longrightarrow> safe (serving d k) (complete used qn head ch st)"
  unfolding complete_def by (intro safe_rules) (auto simp: serving_def rem_u16_def)

lemma safe_process_request [safe_rules]:
  assumes "posix_disk C (disk_fd d) view" and "qn \<noteq> 0"
  shows "safe (serving d qn) (process_request C queue head)"
proof -
  have "safe (serving d qn) (andthen (transfer C ch) (complete (used_ring queue qn) qn head ch))" for ch
    by (intro safe_rules safe_transfer [OF assms(1)] safe_complete assms(2))
  then show ?thesis
    unfolding safe_def process_request_split
    by (auto simp: serving_def split: outcome.splits)
qed

lemma safe_process_next:
  assumes "posix_disk C (disk_fd d) view" and "qn \<noteq> 0"
  shows "safe (serving d qn) (process_next C queue)"
  unfolding process_next_def
  by (intro safe_rules safe_process_request [OF assms]) (auto simp: rem_u16_def serving_def assms(2))

lemma safe_process_loop:
  assumes "posix_disk C (disk_fd d) view" and "qn \<noteq> 0"
  shows "safe (serving d qn) (process_loop C queue a)"
proof -
  have "serving d qn w \<Longrightarrow>
      fst (process_loop C queue a w) \<noteq> Panic \<and> serving d qn (snd (process_loop C queue a w))" for w
    using assms(1)
  proof (induction C queue a w rule: process_loop.induct)
    case (1 C queue a w)
    show ?case
    proof (cases "last_avail (vblk w) = a")
      case True
      with "1.prems" show ?thesis by (simp add: process_loop.simps)
    next
      case False
      obtain r w1 where n: "process_next C queue w = (r, w1)" by fastforce
      then have "r \<noteq> Panic" and "serving d qn w1"
        using safeD [OF safe_process_next [OF "1.prems"(2) assms(2)] "1.prems"(1)] by auto
      with False n "1.IH" [OF False] "1.prems"(2) show ?thesis
        by (cases r) (simp_all add: process_loop.simps [of C queue a w])
    qed
  qed
  then show ?thesis by (simp add: safe_def)
qed

lemma vb_write_not_Panic:
  assumes "posix_disk C (disk_fd (vb_disk (vblk w))) view" and "queue_num (vblk w) \<noteq> 0"
  shows "fst (vb_write C off v w) \<noteq> Panic"
proof -
  have "serving (vb_disk (vblk w)) (queue_num (vblk w)) w"
    by (simp add: serving_def)
  then have "fst (process_queue C w) \<noteq> Panic"
    using safe_process_loop [OF assms]
    by (auto simp: process_queue_def Let_def safe_def split: outcome.splits)
  then show ?thesis
    by (auto simp: vb_write_def Let_def split: prod.splits outcome.splits)
qed

text \<open>
  C22. No register write panics while the queue size is not zero, whatever descriptors the
  guest has placed in memory.
\<close>

theorem queue_notify_never_panics:
  assumes "posix_disk C (disk_fd (vb_disk (vblk w))) view" and "queue_num (vblk w) \<noteq> 0"
  shows "fst (vb_write C off v w) \<noteq> Panic"
  using vb_write_not_Panic [OF assms] .

text \<open>A driver that sets the queue size to zero and then notifies the device crashes the monitor.\<close>

text \<open>
  C37. A guest that writes 0 to the queue-size register and then notifies the device, with
  the index in memory ahead of the device, makes the monitor panic with a division by zero.
\<close>

theorem zero_queue_size_panics:
  assumes "queue_pfn (vblk w) \<noteq> 0"
    and "guest_u16 (gmem w) (push_bit 12 (ucast (queue_pfn (vblk w))) + 2) = Ok avail_idx"
    and "avail_idx \<noteq> last_avail (vblk w)"
  shows "fst (andthen (vb_write C 0x38 0) (\<lambda>_. vb_write C 0x50 0) w) = Panic"
proof -
  let ?w = "w\<lparr>vblk := (vblk w)\<lparr>queue_num := 0\<rparr>\<rparr>"
  have "process_next C q ?w = (Panic, ?w)" for q
    by (simp add: process_next_def andthen_def rem_u16_def)
  then have "process_loop C q avail_idx ?w = (Panic, ?w)" for q
    using assms(3) by (simp add: process_loop.simps [of C q avail_idx ?w])
  then have "process_queue C ?w = (Panic, ?w)"
    using assms(2) by (simp add: process_queue_def)
  then have "vb_write C 0x50 0 ?w = (Panic, ?w)"
    using assms(1) by (simp add: vb_write_def)
  moreover have "vb_write C 0x38 0 w = (Ok (), ?w)"
    by (simp add: vb_write_def)
  ultimately show ?thesis by simp
qed

section \<open>The queue as a whole\<close>

lemma process_next_not_Ok:
  assumes "process_next C queue w = (r, w')" and "r \<noteq> Ok ()"
  shows "vblk w' = vblk w"
proof -
  let ?served = "andthen (lift_outcome (\<lambda>w. rem_u16 (last_avail (vblk w)) (queue_num (vblk w)))) (\<lambda>slot.
    andthen (rd16 (queue + 4 + ucast slot * 2)) (process_request C queue))"
  let ?bump = "\<lambda>w. w\<lparr>vblk := (vblk w)\<lparr>last_avail := last_avail (vblk w) + 1\<rparr>\<rparr>"
  have split: "process_next C queue = andthen ?served (\<lambda>_. modify ?bump)"
    by (simp add: process_next_def andthen_assoc)
  have "keeps (\<lambda>u. vblk u = vblk w) ?served"
    by (intro keeps_rules)
  moreover obtain r1 w1 where s: "?served w = (r1, w1)" by fastforce
  ultimately have "vblk w1 = vblk w"
    by (auto dest: keepsD)
  with s assms split show ?thesis
    by (cases r1) (auto simp: andthen_def)
qed

text \<open>
  A completed service has consumed the queue up to the index the driver published and changed no
  other register; an error leaves the device at the request that caused it.
\<close>

lemma process_loop_Ok:
  "process_loop C queue a w = (Ok (), w') \<Longrightarrow> vblk w' = (vblk w)\<lparr>last_avail := a\<rparr>"
proof (induction C queue a w rule: process_loop.induct)
  case (1 C queue a w)
  show ?case
  proof (cases "last_avail (vblk w) = a")
    case True
    with "1.prems" show ?thesis by (auto simp: process_loop.simps [of C queue a w])
  next
    case False
    with "1.prems" obtain w1 where n: "process_next C queue w = (Ok (), w1)"
        and l: "process_loop C queue a w1 = (Ok (), w')"
      by (auto simp: process_loop.simps [of C queue a w] split: prod.splits outcome.splits)
    with "1.IH" False have "vblk w' = (vblk w1)\<lparr>last_avail := a\<rparr>" by auto
    with process_next_Ok [OF n] show ?thesis by simp
  qed
qed

lemma process_loop_Err:
  "process_loop C queue a w = (Err e, w') \<Longrightarrow>
     \<exists>w1. process_next C queue w1 = (Err e, w') \<and> vblk w' = vblk w1 \<and> last_avail (vblk w') \<noteq> a \<and>
       queue_num (vblk w') = queue_num (vblk w)"
proof (induction C queue a w rule: process_loop.induct)
  case (1 C queue a w)
  then have ne: "last_avail (vblk w) \<noteq> a"
    by (auto simp: process_loop.simps [of C queue a w])
  obtain r w1 where n: "process_next C queue w = (r, w1)" by fastforce
  show ?case
  proof (cases r)
    case (Ok x)
    with n ne "1.prems" have "process_loop C queue a w1 = (Err e, w')"
      by (simp add: process_loop.simps [of C queue a w])
    with "1.IH" [OF ne] n Ok process_next_Ok [of C queue w w1] show ?thesis by auto
  next
    case (Err d)
    with n ne "1.prems" have "d = e" and "w1 = w'"
      by (auto simp: process_loop.simps [of C queue a w])
    with n Err ne process_next_not_Ok [OF n] show ?thesis by auto
  next
    case Panic
    with n ne "1.prems" show ?thesis
      by (simp add: process_loop.simps [of C queue a w])
  qed
qed


text \<open>
  The driver's index is looked up two bytes into the descriptor table: when the buffer of
  descriptor 0 lies in the first 64 KiB, a fresh device sees nothing to do, whatever the driver has
  published in the available ring.
\<close>

lemma to_le_mid16: "take 2 (drop 2 (to_le 8 (a :: u64))) = to_le 2 (ucast (drop_bit 16 a) :: u16)"
  by (auto simp: drop_bit_drop_bit intro!: bit_word_eqI simp: bit_simps)

lemma guest_u64_bytes: "guest_u64 m a = Ok v \<Longrightarrow> read_guest m a 8 = Ok (to_le 8 v)"
proof -
  assume "guest_u64 m a = Ok v"
  then obtain bs where bs: "read_guest m a 8 = Ok bs" and v: "v = from_le bs"
    by (auto simp: guest_u64_def)
  have "length bs = 8"
    using gm.rd_length [OF bs] .
  then have "to_le 8 v = bs"
    using to_le_from_le [of bs, where 'a = 64] v by simp
  with bs show ?thesis by simp
qed

lemma guest_u16_in_u64:
  assumes "guest_u64 m a = Ok v" and "unat a + 8 < 2 ^ 64"
  shows "guest_u16 m (a + 2) = Ok (ucast (drop_bit 16 v))"
  using gm.rd_sub [OF guest_u64_bytes [OF assms(1)], of 2 2] assms(2)
  by (simp add: guest_u16_def to_le_mid16 del: to_le_numeral)

theorem available_ring_not_consulted:
  assumes "last_avail (vblk w) = 0"
    and "guest_u64 (gmem w) (push_bit 12 (ucast (queue_pfn (vblk w)))) = Ok buffer" and "buffer < 0x10000"
  shows "process_queue C w = (Ok (), w)"
proof -
  let ?q = "push_bit 12 (ucast (queue_pfn (vblk w))) :: u64"
  have "unat ?q + 8 \<le> unat (gm_size (gmem w))"
    using assms(2) by (auto simp: guest_u64_def read_guest_eq split: if_splits)
  moreover have "unat (ucast (queue_pfn (vblk w)) :: u64) < 2 ^ 32"
    using unsigned_less [of "queue_pfn (vblk w)", where 'a = nat] by (simp add: unat_ucast_up)
  then have "unat ?q \<le> 2 ^ 44"
    by (simp add: push_bit_eq_mult unat_word_ariths)
  ultimately have "guest_u16 (gmem w) (?q + 2) = Ok (ucast (drop_bit 16 buffer))"
    by (intro guest_u16_in_u64 [OF assms(2)]) simp
  moreover have "unat (drop_bit 16 buffer) = 0"
    using assms(3) by (simp add: drop_bit_eq_div word_less_nat_alt unat_div)
  then have "drop_bit 16 buffer = 0"
    by (simp add: unat_eq_zero)
  ultimately show ?thesis
    using assms(1) by (simp add: process_queue_def process_loop.simps)
qed

section \<open>Registers\<close>

theorem register_read_fits:
  assumes "sz < 8"
  shows "unat (vb_read b off sz) < 2 ^ (8 * sz)"
proof -
  have "vb_read b off sz = take_bit (sz * 8) (vb_read b off 8)"
    using assms by (simp add: vb_read_def Let_def take_bit_eq_mask mask_eq_exp_minus_1 push_bit_eq_mult)
  then show ?thesis
    by (simp add: unsigned_take_bit_eq mult.commute)
qed

text \<open>
  The device as a state machine: the guest writes registers and its own memory, the host
  changes behind the descriptor.
\<close>

inductive blk_step :: "'os libc \<Rightarrow> 'os blk_world \<Rightarrow> 'os blk_world \<Rightarrow> bool" for C where
  register_write: "vb_write C off v w = (Ok (), w') \<Longrightarrow> blk_step C w w'"
| memory_write: "gm_size m = gm_size (gmem w) \<Longrightarrow> blk_step C w (w\<lparr>gmem := m\<rparr>)"
| host_change: "blk_step C w (w\<lparr>host := os\<rparr>)"

inductive blk_reachable :: "'os libc \<Rightarrow> path \<Rightarrow> 'os blk_world \<Rightarrow> bool" for C p where
  fresh: "virtio_block_new C p os = (Ok b, os') \<Longrightarrow> blk_reachable C p \<lparr>vblk = b, gmem = m, host = os'\<rparr>"
| step: "blk_reachable C p w \<Longrightarrow> blk_step C w w' \<Longrightarrow> blk_reachable C p w'"

inductive_cases blk_stepE: "blk_step C w w'"

lemma process_loop_keeps: "queue_num (vblk (snd (process_loop C queue a w))) = queue_num (vblk w)"
proof (induction C queue a w rule: process_loop.induct)
  case (1 C queue a w)
  obtain r w1 where n: "process_next C queue w = (r, w1)" by fastforce
  show ?case
  proof (cases r)
    case (Ok x)
    with n "1.IH" process_next_Ok [of C queue w w1] show ?thesis
      by (auto simp: process_loop.simps [of C queue a w])
  next
    case (Err e)
    with n process_next_not_Ok [OF n] show ?thesis
      by (auto simp: process_loop.simps [of C queue a w])
  next
    case Panic
    with n process_next_not_Ok [OF n] show ?thesis
      by (auto simp: process_loop.simps [of C queue a w])
  qed
qed

lemma process_loop_queue_num:
  "process_loop C queue a w = (r, w') \<Longrightarrow> queue_num (vblk w') = queue_num (vblk w)"
  by (metis process_loop_keeps snd_conv)

lemma vb_write_queue_num:
  "unat (queue_num (vblk w)) \<le> 128 \<Longrightarrow> vb_write C off v w = (r, w') \<Longrightarrow> unat (queue_num (vblk w')) \<le> 128"
  by (auto simp: vb_write_def Let_def process_queue_def min_def word_le_nat_alt
      split: if_splits prod.splits outcome.splits dest: process_loop_queue_num)

theorem queue_size_bounded:
  assumes "blk_reachable C p w"
  shows "unat (queue_num (vblk w)) \<le> 128"
  using assms
proof (induction rule: blk_reachable.induct)
  case (fresh os b os' m)
  then show ?case by (auto simp: virtio_block_new_def andthen_eq_Ok)
next
  case (step w w')
  from step.hyps(2) step.IH show ?case
    by (auto elim!: blk_stepE dest: vb_write_queue_num)
qed

section \<open>Witnesses\<close>

text \<open>A C library over one regular file, whose contents are the state.\<close>

definition ram_libc :: "bytes libc" where
  "ram_libc = \<lparr>
     c_open = (\<lambda>p create os. (3, os)),
     c_ftruncate = (\<lambda>fd n os. (0, take (unat n) (pad_to (unat n) os))),
     c_fstat = (\<lambda>fd os. (0, of_nat (length os))),
     c_pread = (\<lambda>fd len off os. (int (length (take len (drop (unat off) os))), take len (drop (unat off) os))),
     c_pwrite = (\<lambda>fd data off os. (int (length data), file_write os (unat off) data)),
     c_fsync = (\<lambda>fd os. (0, os)),
     c_close = (\<lambda>fd os. (0, os)),
     last_os_error = (\<lambda>os. [])\<rparr>"

lemma ram_libc_posix: "posix_disk ram_libc fd (\<lambda>os. os)"
  by (auto simp: posix_disk_def ram_libc_def)

lemma ram_libc_calls:
  "c_pread ram_libc fd len off os = (int (length (take len (drop (unat off) os))), take len (drop (unat off) os))"
  "c_pwrite ram_libc fd data off os = (int (length data), file_write os (unat off) data)"
  "c_open ram_libc p cr os = (3, os)" "c_fstat ram_libc fd os = (0, of_nat (length os))"
  by (simp_all add: ram_libc_def)

text \<open>
  A guest with a queue of four descriptors at \<open>0x1000\<close>: header at \<open>0x5000\<close>, payload of four bytes at
  \<open>0x6000\<close>, status byte at \<open>0x7000\<close>.
\<close>

definition demo_ram :: "u8 \<Rightarrow> u8 \<Rightarrow> nat \<Rightarrow> u8" where
  "demo_ram type flags = (\<lambda>_. 0)
     (0x1001 := 0x50, 0x100C := 1, 0x100E := 1,
      0x1011 := 0x60, 0x1018 := 4, 0x101C := flags, 0x101E := 2,
      0x1021 := 0x70, 0x5000 := type, 0x6000 := 0xAA, 0x6001 := 0xBB)"

definition demo_world :: "u8 \<Rightarrow> u8 \<Rightarrow> bytes \<Rightarrow> bytes blk_world" where
  "demo_world t f img =
     \<lparr>vblk = \<lparr>vb_disk = \<lparr>disk_fd = 3, disk_size = 4\<rparr>, queue_num = 4, queue_pfn = 1, vb_status = 0,
              last_avail = 0\<rparr>,
      gmem = \<lparr>gm_ptr = 0x7f0000000000, gm_size = 0x10000, ram = demo_ram t f\<rparr>,
      host = img\<rparr>"

lemma demo_reads:
  assumes "f = 1 \<or> f = 3"
  shows "parse_chain (gmem (demo_world t f img)) 0x1000 4 0 =
     Ok \<lparr>ch_type = ucast t, ch_sector = 0, ch_addr = 0x6000, ch_len = 4, ch_flags = ucast f, ch_status = 0x7000\<rparr>"
  using assms
  by (auto simp: parse_chain_def Let_def demo_world_def demo_ram_def guest_u64_def guest_u32_def guest_u16_def
      read_guest_eq upt_rec core_consts)

lemma demo_fields:
  "queue_num (vblk (demo_world t f img)) = 4" "queue_pfn (vblk (demo_world t f img)) = 1"
  "disk_fd (vb_disk (vblk (demo_world t f img))) = 3" "host (demo_world t f img) = img"
  "last_avail (vblk (demo_world t f img)) = 0"
  by (simp_all add: demo_world_def)

lemma demo_used_ring: "used_ring 0x1000 4 = 0x2000"
  by (simp add: used_ring_def align_up_def)

lemma demo_used_idx: "guest_u16 (gmem (demo_world t f img)) 0x2002 = Ok 0"
  by (simp add: guest_u16_def read_guest_eq demo_world_def demo_ram_def upt_rec)

lemma demo_payload: "read_guest (gmem (demo_world t f img)) 0x6000 4 = Ok [0xAA, 0xBB, 0, 0]"
  by (simp add: read_guest_eq demo_world_def demo_ram_def upt_rec)

lemma demo_layout:
  "layout_ok (gmem (demo_world t f img)) 0x2000 4
     \<lparr>ch_type = ty, ch_sector = 0, ch_addr = 0x6000, ch_len = 4, ch_flags = fl, ch_status = 0x7000\<rparr>"
  by (simp add: layout_ok_def disjoint_def demo_world_def)

lemmas demo_simps = demo_fields demo_used_ring demo_used_idx demo_payload demo_layout demo_reads

theorem read_request_correct_witness:
  "\<exists>m'. process_request ram_libc 0x1000 0 (demo_world 0 3 [1, 2, 3, 4, 5]) =
      (Ok (), (demo_world 0 3 [1, 2, 3, 4, 5])\<lparr>gmem := m'\<rparr>) \<and> read_guest m' 0x6000 (length [1, 2, 3, 4 :: u8]) = Ok [1, 2, 3, 4]"
  using read_request_correct [of ram_libc "demo_world 0 3 [1, 2, 3, 4, 5]" "\<lambda>os. os" "0x1000" 0
      "\<lparr>ch_type = 0, ch_sector = 0, ch_addr = 0x6000, ch_len = 4, ch_flags = 3, ch_status = 0x7000\<rparr>" 0]
  by (auto simp: demo_simps ram_libc_posix image_range_def core_consts ram_libc_calls)


theorem unsupported_request_witness:
  "\<exists>m'. process_request ram_libc 0x1000 0 (demo_world 8 1 []) = (Ok (), (demo_world 8 1 [])\<lparr>gmem := m'\<rparr>) \<and>
     read_guest m' 0x7000 1 = Ok [1]"
  using unsupported_request [of "demo_world 8 1 []" "0x1000" 0
      "\<lparr>ch_type = 8, ch_sector = 0, ch_addr = 0x6000, ch_len = 4, ch_flags = 1, ch_status = 0x7000\<rparr>" 0 ram_libc]
  by (auto simp: demo_simps completed_def)

theorem queue_notify_never_panics_witness:
  "fst (vb_write ram_libc 0x50 0 (demo_world 0 3 [1, 2, 3, 4])) \<noteq> Panic"
  using queue_notify_never_panics [of ram_libc "demo_world 0 3 [1, 2, 3, 4]" "\<lambda>os. os" "0x50" 0]
  by (simp add: demo_fields ram_libc_posix)

lemma demo_avail:
  "guest_u16 (gmem ((demo_world t f img)\<lparr>gmem := (gmem (demo_world t f img))
     \<lparr>ram := (demo_ram t f)(0x1002 := 1)\<rparr>\<rparr>)) 0x1002 = Ok 1"
  by (simp add: guest_u16_def read_guest_eq demo_world_def demo_ram_def upt_rec)

theorem zero_queue_size_panics_witness:
  "fst (andthen (vb_write ram_libc 0x38 0) (\<lambda>_. vb_write ram_libc 0x50 0)
     ((demo_world 0 3 [])\<lparr>gmem := (gmem (demo_world 0 3 []))\<lparr>ram := (demo_ram 0 3)(0x1002 := 1)\<rparr>\<rparr>)) = Panic"
  by (rule zero_queue_size_panics [where avail_idx = 1])
    (simp_all add: demo_fields demo_avail [simplified])


theorem available_ring_not_consulted_witness:
  "process_queue ram_libc (demo_world 0 3 [1, 2, 3, 4]) = (Ok (), demo_world 0 3 [1, 2, 3, 4])"
proof (rule available_ring_not_consulted)
  show "guest_u64 (gmem (demo_world 0 3 [1, 2, 3, 4]))
      (push_bit 12 (ucast (queue_pfn (vblk (demo_world 0 3 [1, 2, 3, 4]))))) = Ok 0x5000"
    by (simp add: demo_fields guest_u64_def read_guest_eq demo_world_def demo_ram_def upt_rec)
qed (simp_all add: demo_fields)

theorem register_read_fits_witness:
  "unat (vb_read (vblk (demo_world 0 3 [])) 0x100 4) < 2 ^ 32"
  using register_read_fits [of 4 "vblk (demo_world 0 3 [])" "0x100"] by simp

theorem queue_size_bounded_witness:
  "blk_reachable ram_libc ''system.img''
     \<lparr>vblk = \<lparr>vb_disk = \<lparr>disk_fd = 3, disk_size = 0\<rparr>, queue_num = 128, queue_pfn = 0, vb_status = 0, last_avail = 0\<rparr>,
      gmem = \<lparr>gm_ptr = 1, gm_size = 0, ram = (\<lambda>_. 0)\<rparr>, host = []\<rparr>
   \<and> unat (128 :: u16) \<le> 128"
proof -
  let ?b = "\<lparr>vb_disk = \<lparr>disk_fd = 3, disk_size = 0\<rparr>, queue_num = 128, queue_pfn = 0, vb_status = 0, last_avail = 0\<rparr>"
  have "disk_cstring ''system.img'' = Ok ''system.img''"
    by code_simp
  then have "virtio_block_new ram_libc ''system.img'' [] = (Ok ?b, [])"
    by (simp add: virtio_block_new_def disk_open_def andthen_def ram_libc_calls)
  then have r: "blk_reachable ram_libc ''system.img'' \<lparr>vblk = ?b, gmem = \<lparr>gm_ptr = 1, gm_size = 0, ram = (\<lambda>_. 0)\<rparr>, host = []\<rparr>"
    by (rule blk_reachable.fresh)
  from queue_size_bounded [OF r] r show ?thesis by simp
qed

end
