(* ===== verification/LD_Run.thy ===== *)
theory LD_Run
  imports LD_BootSpec LD_BlockSpec
begin

text \<open>
  The run loop of \<^verbatim>\<open>crates/vmm\<close>: one iteration runs virtual CPU 0 and handles its exit; the loop ends when
  the shared flag \<open>running\<close> is cleared, by the loop itself or by \<open>stop\<close> on another thread.  The loop
  is given twice: as the partial function \<open>virtual_machine_run\<close>, and as the step relation \<open>vm_step\<close> in which
  \<open>stop\<close> may come at any moment.
\<close>

section \<open>Exits\<close>

text \<open>The messages of the guest's serial console, which the loop sends to the log.\<close>

record ('k, 'os) run_world = "('k, 'os) machine" +
  guest_log :: "string list"

definition in_window :: "u64 \<Rightarrow> bool" where
  "in_window addr \<longleftrightarrow> VIRTIO_MMIO_START \<le> addr \<and> addr < VIRTIO_MMIO_START + VIRTIO_MMIO_SIZE"

definition hex_digit2 :: "u8 \<Rightarrow> string" where
  "hex_digit2 b = [digit_char (unat b div 16), digit_char (unat b mod 16)]"

definition serial_message :: "u8 \<Rightarrow> string" where
  "serial_message b = ''[GUEST SERIAL] '' @
     (if b \<ge> 32 \<and> b < 127 then [char_of (unat b)]
      else if b = 10 then ''<LF>''
      else if b = 13 then ''<CR>''
      else ''<0x'' @ hex_digit2 b @ ''>'')"

text \<open>The closure passed to \<open>run_with_mmio\<close>; a buffer of more than eight bytes panics.\<close>

definition mmio_closure :: "VirtioBlock \<Rightarrow> u64 \<Rightarrow> nat \<Rightarrow> bytes option ld_result" where
  "mmio_closure b addr n =
     (if in_window addr
      then bind_outcome (idx_range (to_le 8 (vb_read b (addr - VIRTIO_MMIO_START) n)) 0 n) (\<lambda>d. Ok (Some d))
      else Ok None)"

definition on_cpu ::
  "(ram_contents \<times> 'k kvm_world, LiteDroidError, 'a) action \<Rightarrow> (('k, 'os) run_world, LiteDroidError, 'a) action" where
  "on_cpu m = (\<lambda>w. case m (ram (guest_memory (vm w)), kvm w) of (r, c, k) \<Rightarrow>
     (r, w\<lparr>kvm := k, vm := (vm w)\<lparr>guest_memory := (guest_memory (vm w))\<lparr>ram := c\<rparr>\<rparr>\<rparr>))"

definition on_blk ::
  "('os blk_world, LiteDroidError, 'a) action \<Rightarrow> (('k, 'os) run_world, LiteDroidError, 'a) action" where
  "on_blk m = (\<lambda>w.
     case m \<lparr>vblk = block_device (vm w), gmem = guest_memory (vm w), host = host_os w\<rparr> of (r, b) \<Rightarrow>
       (r, w\<lparr>host_os := host b, vm := (vm w)\<lparr>block_device := vblk b, guest_memory := gmem b\<rparr>\<rparr>))"

text \<open>\<open>vcpu.get_regs().unwrap_or_default()\<close> and \<open>.ok()\<close>: the registers are only logged.\<close>

definition ignoring :: "('s, 'e, 'a) action \<Rightarrow> ('s, 'e, unit) action" where
  "ignoring m = (\<lambda>w. case m w of (Panic, w') \<Rightarrow> (Panic, w') | (_, w') \<Rightarrow> (Ok (), w'))"

definition clear_running :: "(('k, 'os) run_world, LiteDroidError, unit) action" where
  "clear_running = modify (\<lambda>w. w\<lparr>vm := (vm w)\<lparr>running := False\<rparr>\<rparr>)"

definition peek_regs :: "'k kvm_api \<Rightarrow> Vcpu \<Rightarrow> (('k, 'os) run_world, LiteDroidError, unit) action" where
  "peek_regs K v = ignoring (on_kvm (get_regs K v))"

definition mmio_write_exit ::
  "'os libc \<Rightarrow> u64 \<Rightarrow> bytes \<Rightarrow> (('k, 'os) run_world, LiteDroidError, unit) action" where
  "mmio_write_exit C addr data =
     (if in_window addr
      then andthen (lift_outcome (\<lambda>_. copy_into (replicate 8 0) 0 data)) (\<lambda>v.
           on_blk (vb_write C (addr - VIRTIO_MMIO_START) (from_le v)))
      else ret ())"

fun handle_exit ::
  "'k kvm_api \<Rightarrow> 'os libc \<Rightarrow> Vcpu \<Rightarrow> VcpuExitInfo \<Rightarrow> (('k, 'os) run_world, LiteDroidError, unit) action" where
  "handle_exit K C v Hlt = andthen (peek_regs K v) (\<lambda>_. clear_running)"
| "handle_exit K C v Shutdown = andthen (peek_regs K v) (\<lambda>_. clear_running)"
| "handle_exit K C v (IoOut port data) =
     (if port = SERIAL_IO_BASE
      then modify (\<lambda>w. w\<lparr>guest_log := guest_log w @ map serial_message data\<rparr>)
      else ret ())"
| "handle_exit K C v (IoIn port) = ret ()"
| "handle_exit K C v (MmioRead addr n) = ret ()"
| "handle_exit K C v (MmioWrite addr n data) = mmio_write_exit C addr data"
| "handle_exit K C v Exception =
     andthen (peek_regs K v) (\<lambda>_. andthen (ignoring (on_kvm (get_sregs K v))) (\<lambda>_. clear_running))"
| "handle_exit K C v (FailEntry reason) = andthen (peek_regs K v) (\<lambda>_. clear_running)"
| "handle_exit K C v InternalError = andthen (peek_regs K v) (\<lambda>_. clear_running)"
| "handle_exit K C v Unknown = peek_regs K v"

text \<open>One turn of the loop; an error of \<open>run_with_mmio\<close> is logged and ends the loop.\<close>

definition run_body :: "'k kvm_api \<Rightarrow> 'os libc \<Rightarrow> Vcpu \<Rightarrow> (('k, 'os) run_world, LiteDroidError, unit) action" where
  "run_body K C v = (\<lambda>w.
     case on_cpu (run_with_mmio K v (mmio_closure (block_device (vm w)))) w of
       (Ok exit, w1) \<Rightarrow> handle_exit K C v exit w1
     | (Err e, w1) \<Rightarrow> clear_running w1
     | (Panic, w1) \<Rightarrow> (Panic, w1))"

partial_function (option) run_loop ::
  "'k kvm_api \<Rightarrow> 'os libc \<Rightarrow> Vcpu \<Rightarrow> ('k, 'os) run_world \<Rightarrow> (unit ld_result \<times> ('k, 'os) run_world) option" where
  "run_loop K C v w =
     (if running (vm w)
      then (case run_body K C v w of
              (Ok x, w1) \<Rightarrow> run_loop K C v w1
            | (Err e, w1) \<Rightarrow> Some (Err e, w1)
            | (Panic, w1) \<Rightarrow> Some (Panic, w1))
      else Some (Ok (), w))"

definition virtual_machine_run ::
  "'k kvm_api \<Rightarrow> 'os libc \<Rightarrow> ('k, 'os) run_world \<Rightarrow> (unit ld_result \<times> ('k, 'os) run_world) option" where
  "virtual_machine_run K C w =
     (let w1 = w\<lparr>vm := (vm w)\<lparr>running := True\<rparr>\<rparr> in
      case vcpus (vm w1) of [] \<Rightarrow> Some (Panic, w1) | v # _ \<Rightarrow> run_loop K C v w1)"

definition stop :: "('k, 'os) run_world \<Rightarrow> ('k, 'os) run_world" where
  "stop w = w\<lparr>vm := (vm w)\<lparr>running := False\<rparr>\<rparr>"

definition is_running :: "('k, 'os) run_world \<Rightarrow> bool" where
  "is_running w = running (vm w)"

section \<open>The loop with a concurrent stop\<close>

text \<open>
  An iteration only ever clears the flag, so a \<open>stop\<close> that comes in its middle has the effect of one
  that comes at its end.
\<close>

datatype phase = Idle | Looping | Returned | Crashed

inductive vm_step ::
  "'k kvm_api \<Rightarrow> 'os libc \<Rightarrow> phase \<times> ('k, 'os) run_world \<Rightarrow> phase \<times> ('k, 'os) run_world \<Rightarrow> bool"
  for K :: "'k kvm_api" and C :: "'os libc" where
  enter: "vcpus (vm w) \<noteq> [] \<Longrightarrow> vm_step K C (Idle, w) (Looping, w\<lparr>vm := (vm w)\<lparr>running := True\<rparr>\<rparr>)"
| turn: "running (vm w) \<Longrightarrow> vcpus (vm w) = v # vs \<Longrightarrow> run_body K C v w = (r, w') \<Longrightarrow> r \<noteq> Panic \<Longrightarrow>
     vm_step K C (Looping, w) (Looping, w')"
| crash: "running (vm w) \<Longrightarrow> vcpus (vm w) = v # vs \<Longrightarrow> run_body K C v w = (Panic, w') \<Longrightarrow>
     vm_step K C (Looping, w) (Crashed, w')"
| leave: "\<not> running (vm w) \<Longrightarrow> vm_step K C (Looping, w) (Returned, w)"
| stopped: "vm_step K C (p, w) (p, stop w)"

inductive vm_steps ::
  "'k kvm_api \<Rightarrow> 'os libc \<Rightarrow> phase \<times> ('k, 'os) run_world \<Rightarrow> phase \<times> ('k, 'os) run_world \<Rightarrow> bool"
  for K :: "'k kvm_api" and C :: "'os libc" where
  none: "vm_steps K C s s"
| more: "vm_steps K C s t \<Longrightarrow> vm_step K C t u \<Longrightarrow> vm_steps K C s u"

inductive_cases vm_stepE: "vm_step K C s t"

section \<open>What an iteration keeps\<close>

definition mem_size_is :: "u64 \<Rightarrow> 'os blk_world \<Rightarrow> bool" where
  "mem_size_is n w \<longleftrightarrow> gm_size (gmem w) = n"

lemma keeps_wr_mem_size: "keeps (mem_size_is n) (wr_mem a d)"
  by (auto simp: keeps_def mem_size_is_def wr_mem_def split: outcome.splits dest: write_guest_fields)

lemma keeps_on_host_size: "keeps (mem_size_is n) (on_host m)"
  by (auto simp: keeps_def mem_size_is_def on_host_def split: prod.splits)

lemma keeps_request_size: "keeps (mem_size_is n) (process_request C queue head)"
  unfolding process_request_def Let_def
  by (intro keeps_wr_mem_size keeps_on_host_size keeps_rules)

lemma keeps_next_size: "keeps (mem_size_is n) (process_next C queue)"
  unfolding process_next_def
  by (intro keeps_request_size keeps_rules) (simp add: mem_size_is_def)

lemma process_loop_size:
  "mem_size_is n w \<Longrightarrow> process_loop C queue a w = (r, w') \<Longrightarrow> mem_size_is n w'"
proof (induction C queue a w arbitrary: w' rule: process_loop.induct)
  case (1 C queue a w)
  show ?case
  proof (cases "last_avail (vblk w) = a")
    case True
    with 1 show ?thesis by (auto simp: process_loop.simps [of C queue a w])
  next
    case False
    obtain q w1 where n: "process_next C queue w = (q, w1)" by fastforce
    then have "mem_size_is n w1"
      using "1.prems" keepsD [OF keeps_next_size] by blast
    with n False 1 show ?thesis
      by (cases q) (auto simp: process_loop.simps [of C queue a w])
  qed
qed

lemma vb_write_size: "vb_write C off x w = (r, w') \<Longrightarrow> gm_size (gmem w') = gm_size (gmem w)"
  using process_loop_size [of "gm_size (gmem w)" w]
  by (auto simp: vb_write_def Let_def process_queue_def mem_size_is_def
      split: if_splits prod.splits outcome.splits)

lemma vb_write_not_Err: "fst (vb_write C off x w) \<noteq> Err e"
  by (auto simp: vb_write_def Let_def split: prod.splits outcome.splits)

text \<open>The exits after which the loop does not go on.\<close>

fun terminal :: "kerr + VcpuExit \<Rightarrow> bool" where
  "terminal (Inl e) = True"
| "terminal (Inr x) = (x \<in> {ExitHlt, ExitShutdown, ExitException, ExitInternalError} \<or> (\<exists>r c. x = ExitFailEntry r c))"

text \<open>The part of the machine that no iteration touches.\<close>

definition same_machine :: "('k, 'os) run_world \<Rightarrow> ('k, 'os) run_world \<Rightarrow> bool" where
  "same_machine w w' \<longleftrightarrow> vcpus (vm w') = vcpus (vm w) \<and> vm_config (vm w') = vm_config (vm w) \<and>
     gm_size (guest_memory (vm w')) = gm_size (guest_memory (vm w))"

definition runs :: "('k, 'os) run_world \<Rightarrow> nat" where
  "runs w = length (filter (\<lambda>c. \<exists>i. c = RunVcpu i) (ktrace (kvm w)))"

lemma ignoring_ioctl: "ignoring (on_kvm (issue c io g)) w = (Ok (), w\<lparr>kvm := snd (issue c io g (kvm w))\<rparr>)"
  by (auto simp: ignoring_def on_kvm_def issue_def split: prod.splits sum.splits)

lemma peek_regs_run: "peek_regs K v w = (Ok (), w\<lparr>kvm := snd (get_regs K v (kvm w))\<rparr>)"
  by (simp add: peek_regs_def get_regs_def ignoring_ioctl)

lemma trace_get: "ktrace (snd (get_regs K v k)) = ktrace k @ [GetRegs (vcpu_index v)]"
    "ktrace (snd (get_sregs K v k)) = ktrace k @ [GetSregs (vcpu_index v)]"
  by (simp_all add: get_regs_def get_sregs_def)

lemma peek_sregs_run: "ignoring (on_kvm (get_sregs K v)) w = (Ok (), w\<lparr>kvm := snd (get_sregs K v (kvm w))\<rparr>)"
  by (simp add: get_sregs_def ignoring_ioctl)

lemma mmio_write_exit_spec:
  assumes "mmio_write_exit C addr data w = (r, w')" and "r \<noteq> Panic"
  shows "r = Ok () \<and> same_machine w w' \<and> kvm w' = kvm w \<and> running (vm w') = running (vm w)"
proof (cases "in_window addr \<and> length data \<le> 8")
  case True
  let ?bw = "\<lparr>vblk = block_device (vm w), gmem = guest_memory (vm w), host = host_os w\<rparr>"
  let ?x = "from_le (splice (replicate 8 0) 0 data)"
  obtain q b where q: "vb_write C (addr - VIRTIO_MMIO_START) ?x ?bw = (q, b)" by fastforce
  then have "q \<noteq> Err e" for e
    using vb_write_not_Err [of C "addr - VIRTIO_MMIO_START" ?x ?bw] by simp
  with vb_write_size [OF q] q True assms show ?thesis
    by (cases q) (auto simp: mmio_write_exit_def copy_into_def on_blk_def same_machine_def lift_outcome_Ok)
next
  case False
  then show ?thesis
    using assms by (auto simp: mmio_write_exit_def copy_into_def same_machine_def andthen_lift_outcome split: if_splits)
qed

fun ends_loop :: "VcpuExitInfo \<Rightarrow> bool" where
  "ends_loop x = (x \<in> {Hlt, Shutdown, Exception, InternalError} \<or> (\<exists>r. x = FailEntry r))"

lemma handle_exit_spec:
  assumes "handle_exit K C v x w = (r, w')" and "r \<noteq> Panic"
  shows "r = Ok () \<and> same_machine w w' \<and> runs w' = runs w \<and> running (vm w') = (running (vm w) \<and> \<not> ends_loop x)"
proof (cases x)
  case (MmioWrite addr n data)
  with assms mmio_write_exit_spec [of C addr data w r w'] show ?thesis
    by (auto simp: runs_def)
qed (use assms in \<open>auto simp: clear_running_def peek_regs_run peek_sregs_run trace_get same_machine_def runs_def
      split: if_splits\<close>)

lemma run_with_mmio_spec:
  assumes "api_run K (vcpu_index v) m (kstate k) = (x, m', k')"
    and "run_with_mmio K v f (m, k) = (r, m1, k1)"
  shows "m1 = m' \<and> ktrace k1 = ktrace k @ [RunVcpu (vcpu_index v)]"
  using assms
  by (cases x; auto simp: run_with_mmio_def Let_def
      split: prod.splits sum.splits VcpuExit.splits outcome.splits option.splits)

lemma run_with_mmio_ends:
  assumes "api_run K (vcpu_index v) m (kstate k) = (x, m', k')"
    and "run_with_mmio K v (mmio_closure b) (m, k) = (r, t)"
  shows "case r of Ok e \<Rightarrow> ends_loop e = terminal x | Err e \<Rightarrow> terminal x | Panic \<Rightarrow> True"
  using assms
  by (cases x; auto simp: run_with_mmio_def Let_def mmio_closure_def idx_range_def bind_outcome_case
      split: prod.splits sum.splits VcpuExit.splits outcome.splits option.splits if_splits)

text \<open>
  An iteration that does not panic returns, issues exactly one \<open>KVM_RUN\<close>, keeps the configuration, and
  leaves the flag set exactly when it was set and the exit is not terminal.
\<close>

lemma run_turn:
  assumes "run_body K C v w = (r, w')" and "r \<noteq> Panic"
    and "api_run K (vcpu_index v) (ram (guest_memory (vm w))) (kstate (kvm w)) = (x, m, k)"
  shows "r = Ok () \<and> same_machine w w' \<and> runs w' = runs w + 1 \<and>
     running (vm w') = (running (vm w) \<and> \<not> terminal x)"
proof -
  let ?m = "ram (guest_memory (vm w))"
  let ?b = "block_device (vm w)"
  obtain q m1 k1 where q: "run_with_mmio K v (mmio_closure ?b) (?m, kvm w) = (q, m1, k1)"
    using prod_cases3 by blast
  define w1 where "w1 = w\<lparr>kvm := k1, vm := (vm w)\<lparr>guest_memory := (guest_memory (vm w))\<lparr>ram := m1\<rparr>\<rparr>\<rparr>"
  have cpu: "on_cpu (run_with_mmio K v (mmio_closure ?b)) w = (q, w1)"
    using q by (simp add: on_cpu_def w1_def)
  have w1: "same_machine w w1" "running (vm w1) = running (vm w)" "runs w1 = runs w + 1"
    using run_with_mmio_spec [OF assms(3) q] by (simp_all add: w1_def same_machine_def runs_def)
  note ends = run_with_mmio_ends [OF assms(3) q]
  show ?thesis
  proof (cases q)
    case (Ok e)
    then have "handle_exit K C v e w1 = (r, w')"
      using assms(1) cpu by (simp add: run_body_def)
    from handle_exit_spec [OF this assms(2)] w1 Ok ends show ?thesis
      by (auto simp: same_machine_def)
  next
    case (Err e)
    then show ?thesis
      using assms(1) cpu w1 ends by (auto simp: run_body_def clear_running_def same_machine_def runs_def)
  next
    case Panic
    then show ?thesis
      using assms(1,2) cpu by (simp add: run_body_def)
  qed
qed

text \<open>
  C13. An iteration of the run loop that does not panic succeeds, runs the virtual CPU
  exactly once, keeps processors, configuration and memory size, and leaves the running
  flag set exactly when it was set and the exit was not a halt, shutdown, exception, entry
  failure, internal error or KVM error.
\<close>

theorem run_turn_correct:
  assumes "run_body K C v w = (r, w')" and "r \<noteq> Panic"
    and "api_run K (vcpu_index v) (ram (guest_memory (vm w))) (kstate (kvm w)) = (x, m, k)"
  shows "r = Ok () \<and> same_machine w w' \<and> runs w' = runs w + 1 \<and>
     running (vm w') = (running (vm w) \<and> \<not> terminal x)"
  using run_turn [OF assms] .

section \<open>Termination\<close>

text \<open>
  A guest that comes to a terminal exit: every other exit brings the kernel closer to one, and the
  register ioctls do not lead away from it.
\<close>

definition guest_ends :: "'k kvm_api \<Rightarrow> ('k \<Rightarrow> nat) \<Rightarrow> bool" where
  "guest_ends K remaining \<longleftrightarrow>
     (\<forall>i m k x m' k'. api_run K i m k = (x, m', k') \<longrightarrow> terminal x \<or> remaining k' < remaining k) \<and>
     (\<forall>i k. remaining (snd (api_get_regs K i k)) \<le> remaining k) \<and>
     (\<forall>i k. remaining (snd (api_get_sregs K i k)) \<le> remaining k) \<and>
     (\<forall>i d k. remaining (api_mmio_reply K i d k) \<le> remaining k)"

lemma kstate_issue: "kstate (snd (issue c io g k)) = snd (io (kstate k))"
  by (simp add: issue_def split: prod.splits)

lemma handle_exit_remaining:
  assumes "guest_ends K remaining" and "handle_exit K C v x w = (r, w')" and "r \<noteq> Panic"
  shows "remaining (kstate (kvm w')) \<le> remaining (kstate (kvm w))"
proof -
  have "remaining (kstate (snd (get_regs K v k))) \<le> remaining (kstate k)"
    and "remaining (kstate (snd (get_sregs K v k))) \<le> remaining (kstate k)" for k
    using assms(1) by (simp_all add: guest_ends_def get_regs_def get_sregs_def kstate_issue)
  then show ?thesis
    using assms(2,3) mmio_write_exit_spec [of C _ _ w r w'] le_trans
    by (cases x) (fastforce simp: clear_running_def peek_regs_run peek_sregs_run split: if_splits)+
qed

lemma run_with_mmio_remaining:
  assumes "guest_ends K remaining" and "api_run K (vcpu_index v) m (kstate k) = (x, m', k')"
    and "run_with_mmio K v f (m, k) = (r, m1, k1)"
  shows "remaining (kstate k1) \<le> remaining k'"
proof -
  have "kstate k1 = k' \<or> (\<exists>d. kstate k1 = api_mmio_reply K (vcpu_index v) d k')"
    using assms(2,3)
    by (cases x; auto simp: run_with_mmio_def Let_def
        split: prod.splits sum.splits VcpuExit.splits outcome.splits option.splits)
  then show ?thesis
    using assms(1) by (auto simp: guest_ends_def)
qed

lemma run_body_remaining:
  assumes "guest_ends K remaining" and "run_body K C v w = (Ok (), w')" and "running (vm w')"
  shows "remaining (kstate (kvm w')) < remaining (kstate (kvm w))"
proof -
  let ?m = "ram (guest_memory (vm w))"
  obtain x m k where x: "api_run K (vcpu_index v) ?m (kstate (kvm w)) = (x, m, k)"
    using prod_cases3 by blast
  obtain q m1 k1 where q: "run_with_mmio K v (mmio_closure (block_device (vm w))) (?m, kvm w) = (q, m1, k1)"
    using prod_cases3 by blast
  have "\<not> terminal x"
    using run_turn [OF assms(2) _ x] assms(3) by simp
  with assms(1) x have "remaining k < remaining (kstate (kvm w))"
    unfolding guest_ends_def by blast
  moreover have k1: "remaining (kstate k1) \<le> remaining k"
    by (rule run_with_mmio_remaining [OF assms(1) x q])
  moreover have "remaining (kstate (kvm w')) \<le> remaining (kstate k1)"
    using assms(2,3) q handle_exit_remaining [OF assms(1)]
    by (cases q) (fastforce simp: run_body_def on_cpu_def clear_running_def)+
  ultimately show ?thesis by linarith
qed

lemma run_loop_returns:
  assumes "guest_ends K remaining"
  shows "\<exists>r w'. run_loop K C v w = Some (r, w') \<and> (r = Ok () \<and> \<not> running (vm w') \<or> r = Panic)"
proof (induction "remaining (kstate (kvm w))" arbitrary: w rule: less_induct)
  case less
  obtain q w1 where q: "run_body K C v w = (q, w1)" by fastforce
  obtain x m k where x: "api_run K (vcpu_index v) (ram (guest_memory (vm w))) (kstate (kvm w)) = (x, m, k)"
    using prod_cases3 by blast
  consider "\<not> running (vm w)" | "running (vm w)" "q = Panic" | "running (vm w)" "q = Ok ()"
    using run_turn [OF q _ x] by (cases "q = Panic") auto
  then show ?case
  proof cases
    case 3
    show ?thesis
    proof (cases "running (vm w1)")
      case True
      with q 3 have "run_body K C v w = (Ok (), w1)" by simp
      from less [OF run_body_remaining [OF assms this True]] q 3 show ?thesis
        by (subst run_loop.simps) simp
    next
      case False
      with q 3 show ?thesis
        by (subst run_loop.simps) (simp add: run_loop.simps [of K C v w1])
    qed
  qed (use q in \<open>simp_all add: run_loop.simps [of K C v w]\<close>)
qed


section \<open>Stopping\<close>

text \<open>
  A \<open>stop\<close> that arrives before the loop starts is lost: \<open>run\<close> sets the flag first.
\<close>

theorem early_stop_is_lost: "virtual_machine_run K C (stop w) = virtual_machine_run K C w"
  by (simp add: virtual_machine_run_def stop_def)

lemma stopped_step:
  assumes "vm_step K C (p, w) (q, w')" and "p = Looping \<or> p = Returned" and "\<not> running (vm w)"
  shows "(q = Looping \<or> q = Returned) \<and> \<not> running (vm w') \<and> runs w' = runs w"
  using assms by (auto elim!: vm_stepE simp: stop_def runs_def)

text \<open>Once the flag is cleared during the loop, the guest never runs again before \<open>run\<close> returns.\<close>


section \<open>Invariants of the whole run\<close>

lemma same_machine_refl: "same_machine w w"
  by (simp add: same_machine_def)

lemma same_machine_trans: "same_machine a b \<Longrightarrow> same_machine b c \<Longrightarrow> same_machine a c"
  by (simp add: same_machine_def)

definition queue_ok :: "('k, 'os) run_world \<Rightarrow> bool" where
  "queue_ok w \<longleftrightarrow> unat (queue_num (block_device (vm w))) \<le> 128"

lemma on_blk_queue_ok: "keeps queue_ok (on_blk (vb_write C off x))"
  by (auto simp: keeps_def on_blk_def queue_ok_def split: prod.splits dest: vb_write_queue_num [rotated])

lemma queue_ok_fields [simp]:
  "queue_ok (w\<lparr>kvm := k\<rparr>) = queue_ok w" "queue_ok (w\<lparr>guest_log := l\<rparr>) = queue_ok w"
  "queue_ok (w\<lparr>vm := (vm w)\<lparr>running := b\<rparr>\<rparr>) = queue_ok w"
  by (simp_all add: queue_ok_def)

lemma keeps_ignoring: "keeps I (ignoring (on_kvm m :: (('k, 'os) run_world, LiteDroidError, 'a) action))"
  if "\<And>w k. I w \<Longrightarrow> I (w\<lparr>kvm := k\<rparr>)"
  using that by (auto simp: keeps_def ignoring_def on_kvm_def split: prod.splits outcome.splits)

lemma handle_exit_queue_ok: "keeps queue_ok (handle_exit K C v x)"
  by (cases x)
    (auto simp: clear_running_def mmio_write_exit_def peek_regs_def
      intro!: keeps_rules keeps_ignoring on_blk_queue_ok)

lemma run_body_queue_ok:
  assumes "run_body K C v w = (r, w')" and "queue_ok w"
  shows "queue_ok w'"
proof -
  obtain q w1 where q: "on_cpu (run_with_mmio K v (mmio_closure (block_device (vm w)))) w = (q, w1)" by fastforce
  then have w1: "queue_ok w1"
    using assms(2) by (auto simp: on_cpu_def queue_ok_def split: prod.splits)
  show ?thesis
  proof (cases q)
    case (Ok e)
    with q assms(1) have "handle_exit K C v e w1 = (r, w')" by (simp add: run_body_def)
    with w1 keepsD [OF handle_exit_queue_ok] show ?thesis by blast
  qed (use q assms(1) w1 in \<open>auto simp: run_body_def clear_running_def\<close>)
qed

lemma vm_step_keeps:
  assumes "vm_step K C (p, w) (q, w')" and "q \<noteq> Crashed"
  shows "p \<noteq> Crashed \<and> same_machine w w' \<and> (queue_ok w \<longrightarrow> queue_ok w')"
  using assms
proof (cases rule: vm_step.cases)
  case (turn v vs r)
  obtain x m k where "api_run K (vcpu_index v) (ram (guest_memory (vm w))) (kstate (kvm w)) = (x, m, k)"
    using prod_cases3 by blast
  with run_turn [OF turn(5,6)] turn run_body_queue_ok [OF turn(5)] show ?thesis by blast
qed (auto simp: same_machine_def stop_def)

text \<open>
  As long as the loop has not crashed, the machine keeps its processors, its configuration and the
  size of its memory, and the size of its request queue stays within the bound of the device.
\<close>

text \<open>
  C18. In every state the run loop reaches without crashing, under stop requests at any
  moment, the machine keeps its processors, configuration and memory size and the request
  queue has at most 128 entries.
\<close>

theorem run_invariant:
  assumes "vm_steps K C (Idle, w) (p, w')" and "p \<noteq> Crashed" and "queue_ok w"
  shows "same_machine w w' \<and> queue_ok w'"
proof -
  have "vm_steps K C s t \<Longrightarrow> fst t \<noteq> Crashed \<Longrightarrow> queue_ok (snd s) \<Longrightarrow>
      same_machine (snd s) (snd t) \<and> queue_ok (snd t)" for s t
  proof (induction rule: vm_steps.induct)
    case (more s t u)
    then show ?case
      using vm_step_keeps [of K C "fst t" "snd t" "fst u" "snd u"] same_machine_trans by auto
  qed (simp add: same_machine_refl)
  from this [OF assms(1)] assms(2,3) show ?thesis by simp
qed

section \<open>Crashes\<close>

text \<open>The buffers of MMIO exits hold at most eight bytes, as the KVM interface defines them.\<close>

fun small_buffers :: "kerr + VcpuExit \<Rightarrow> bool" where
  "small_buffers (Inr (ExitMmioRead a n)) = (n \<le> 8)"
| "small_buffers (Inr (ExitMmioWrite a d)) = (length d \<le> 8)"
| "small_buffers x = True"

text \<open>Only a queue of size zero can crash the loop.\<close>

text \<open>
  C14. With buffers of at most eight bytes, a POSIX disk and a queue size other than zero,
  an iteration of the run loop never panics, whatever the guest has put in memory and
  whichever exit it takes.
\<close>

theorem run_turn_never_panics:
  assumes "api_run K (vcpu_index v) (ram (guest_memory (vm w))) (kstate (kvm w)) = (x, m, k)" and "small_buffers x"
    and "posix_disk C (disk_fd (vb_disk (block_device (vm w)))) view" and "queue_num (block_device (vm w)) \<noteq> 0"
  shows "fst (run_body K C v w) \<noteq> Panic"
proof -
  let ?m = "ram (guest_memory (vm w))"
  obtain q m1 k1 where q: "run_with_mmio K v (mmio_closure (block_device (vm w))) (?m, kvm w) = (q, m1, k1)"
    using prod_cases3 by blast
  have "q \<noteq> Panic" and wr_len: "\<And>a n d. q = Ok (MmioWrite a n d) \<Longrightarrow> length d \<le> 8"
    using q assms(1,2)
    by (cases x; auto simp: run_with_mmio_def Let_def mmio_closure_def bind_outcome_case simp del: to_le_numeral
        split: prod.splits sum.splits VcpuExit.splits outcome.splits option.splits if_splits)+
  define w1 where "w1 = w\<lparr>kvm := k1, vm := (vm w)\<lparr>guest_memory := (guest_memory (vm w))\<lparr>ram := m1\<rparr>\<rparr>\<rparr>"
  have cpu: "on_cpu (run_with_mmio K v (mmio_closure (block_device (vm w)))) w = (q, w1)"
    using q by (simp add: on_cpu_def w1_def)
  have "fst (handle_exit K C v e w1) \<noteq> Panic" if "q = Ok e" for e
  proof (cases e)
    case (MmioWrite a n d)
    have "fst (on_blk (vb_write C off y) w1) \<noteq> Panic" for off y
      using vb_write_not_Panic [of C "\<lparr>vblk = block_device (vm w), gmem = guest_memory (vm w1), host = host_os w\<rparr>" view off y]
        assms(3,4) by (auto simp: on_blk_def w1_def split: prod.splits) 
    with MmioWrite that wr_len show ?thesis
      by (simp add: mmio_write_exit_def copy_into_def lift_outcome_Ok)
  qed (simp_all add: clear_running_def peek_regs_run peek_sregs_run)
  with \<open>q \<noteq> Panic\<close> cpu show ?thesis
    by (cases q) (simp_all add: run_body_def clear_running_def)
qed

section \<open>MMIO reads\<close>

text \<open>A read inside the window is answered with the bytes of the addressed register.\<close>


section \<open>Concrete runs\<close>

definition demo_run :: "VcpuExit list \<Rightarrow> (VcpuExit list, unit) run_world" where
  "demo_run exits = \<lparr>kvm = \<lparr>kstate = exits, ktrace = []\<rparr>, host_os = (), vm = demo_vm, guest_log = []\<rparr>"

lemma demo_guest_ends: "guest_ends demo_kvm length"
  unfolding guest_ends_def by (auto simp: demo_kvm_def split: list.splits)

lemma demo_vcpus: "vcpus (vm (demo_run exits)) = [\<lparr>vcpu_index = 0\<rparr>]"
  by (simp add: demo_run_def demo_vm_def)


lemma demo_turn:
  "api_run demo_kvm 0 m (kstate (kvm (demo_run (e # rest)))) = (Inr e, m, rest)"
  by (simp add: demo_kvm_def demo_run_def)

theorem run_turn_correct_witness:
  "running (vm (snd (run_body demo_kvm demo_libc \<lparr>vcpu_index = 0\<rparr> (demo_run [ExitHlt])))) = False \<and>
   runs (snd (run_body demo_kvm demo_libc \<lparr>vcpu_index = 0\<rparr> (demo_run [ExitHlt]))) = 1"
proof -
  let ?w = "demo_run [ExitHlt]"
  obtain r w' where b: "run_body demo_kvm demo_libc \<lparr>vcpu_index = 0\<rparr> ?w = (r, w')" by fastforce
  moreover have "r \<noteq> Panic"
    using b by (auto simp: run_body_def on_cpu_def run_with_mmio_def demo_turn peek_regs_run clear_running_def)
  moreover have "runs ?w = 0" by (simp add: runs_def demo_run_def)
  ultimately show ?thesis
    using run_turn_correct [of demo_kvm demo_libc "\<lparr>vcpu_index = 0\<rparr>" ?w r w'] demo_turn by fastforce
qed

theorem run_turn_never_panics_witness:
  "fst (run_body demo_kvm ram_libc \<lparr>vcpu_index = 0\<rparr>
     \<lparr>kvm = \<lparr>kstate = [ExitMmioWrite 0xfea00050 [0, 0, 0, 0]], ktrace = []\<rparr>, host_os = [], vm = demo_vm, guest_log = []\<rparr>) \<noteq> Panic"
  by (rule run_turn_never_panics [where view = "\<lambda>os. os" and x = "Inr (ExitMmioWrite 0xfea00050 [0, 0, 0, 0])" and k = "[]"])
    (simp_all add: demo_kvm_def demo_vm_def ram_libc_posix)



theorem run_invariant_witness:
  "\<exists>w'. vm_steps demo_kvm demo_libc (Idle, demo_run [ExitHlt]) (Looping, w') \<and>
     same_machine (demo_run [ExitHlt]) w' \<and> queue_ok w'"
proof -
  let ?w = "demo_run [ExitHlt]"
  have "vm_step demo_kvm demo_libc (Idle, ?w) (Looping, ?w\<lparr>vm := (vm ?w)\<lparr>running := True\<rparr>\<rparr>)"
    by (rule vm_step.enter) (simp add: demo_vcpus)
  then have s: "vm_steps demo_kvm demo_libc (Idle, ?w) (Looping, ?w\<lparr>vm := (vm ?w)\<lparr>running := True\<rparr>\<rparr>)"
    using vm_steps.intros by blast
  moreover have "queue_ok ?w" by (simp add: queue_ok_def demo_run_def demo_vm_def)
  ultimately show ?thesis
    using run_invariant [OF s] by blast
qed

end
