(* ===== verification/LD_GuestIo.thy ===== *)
theory LD_GuestIo
  imports LD_Run
begin

text \<open>
  Guest I/O as a whole: a notification of the guest, from the exit of the virtual CPU to the disk image.  Serving a batch of requests
  refines an abstract disk, a file of bytes with reads and writes at sector offsets: the image afterwards is the one the abstract disk
  has after the same operations, every read buffer holds what the abstract disk returned, and every request is reported as done.
\<close>

section \<open>Regions of guest memory\<close>

definition span :: "u64 \<Rightarrow> nat \<Rightarrow> nat set" where
  "span a n = {unat a..<unat a + n}"

text \<open>Two memories of the same size with the same bytes at the addresses of a set.\<close>

definition same_bytes :: "nat set \<Rightarrow> GuestMemory \<Rightarrow> GuestMemory \<Rightarrow> bool" where
  "same_bytes S m m' \<longleftrightarrow> gm_size m' = gm_size m \<and> (\<forall>i \<in> S. i < unat (gm_size m) \<longrightarrow> ram m' i = ram m i)"

definition bytes_at :: "GuestMemory \<Rightarrow> u64 \<Rightarrow> nat \<Rightarrow> bytes" where
  "bytes_at m a n = map (ram m) [unat a..<unat a + n]"

lemma span_mono: "k \<le> n \<Longrightarrow> span a k \<subseteq> span a n"
  by (auto simp: span_def)

lemma same_bytes_mono: "same_bytes S m m' \<Longrightarrow> T \<subseteq> S \<Longrightarrow> same_bytes T m m'"
  by (auto simp: same_bytes_def)

lemma same_bytes_trans: "same_bytes S m m1 \<Longrightarrow> same_bytes S m1 m2 \<Longrightarrow> same_bytes S m m2"
  by (simp add: same_bytes_def)

lemma read_same:
  assumes "same_bytes S m m'" and "span a n \<subseteq> S"
  shows "read_guest m' a n = read_guest m a n"
  using assms by (auto simp: read_guest_eq same_bytes_def span_def subset_iff)

lemma words_same:
  assumes "same_bytes S m m'"
  shows "span a 2 \<subseteq> S \<Longrightarrow> guest_u16 m' a = guest_u16 m a" and "span a 4 \<subseteq> S \<Longrightarrow> guest_u32 m' a = guest_u32 m a"
    and "span a 8 \<subseteq> S \<Longrightarrow> guest_u64 m' a = guest_u64 m a"
  using read_same [OF assms] by (simp_all add: guest_u16_def guest_u32_def guest_u64_def)

text \<open>Reads that agree on every byte outside a region are the same bytes there.\<close>

lemma same_bytesI:
  assumes "gm_size m' = gm_size m" and "\<And>a. unat a \<in> S \<Longrightarrow> read_guest m' a 1 = read_guest m a 1"
  shows "same_bytes S m m'"
  unfolding same_bytes_def
proof (intro conjI ballI impI assms(1))
  fix i
  assume i: "i \<in> S" "i < unat (gm_size m)"
  then have u: "unat (of_nat i :: u64) = i"
    using unat_u64_less [of "gm_size m"] by (simp add: unat_of_nat_u64)
  with assms(2) [of "of_nat i"] i assms(1) show "ram m' i = ram m i"
    by (simp add: read_guest_eq)
qed

section \<open>What a request reads and writes\<close>

definition u16_at :: "GuestMemory \<Rightarrow> u64 \<Rightarrow> u16" where
  "u16_at m a = (case guest_u16 m a of Ok x \<Rightarrow> x | _ \<Rightarrow> 0)"

definition u64_at :: "GuestMemory \<Rightarrow> u64 \<Rightarrow> u64" where
  "u64_at m a = (case guest_u64 m a of Ok x \<Rightarrow> x | _ \<Rightarrow> 0)"

text \<open>The three descriptors of a chain and its header.\<close>

definition consulted :: "GuestMemory \<Rightarrow> u64 \<Rightarrow> u16 \<Rightarrow> nat set" where
  "consulted m queue head =
     (let desc = queue + ucast head * 16; header = u64_at m desc;
          payload_desc = queue + ucast (u16_at m (desc + 14)) * 16;
          status_desc = queue + ucast (u16_at m (payload_desc + 14)) * 16
      in span desc 8 \<union> span (desc + 12) 2 \<union> span (desc + 14) 2 \<union> span header 4 \<union> span (header + 8) 8
       \<union> span payload_desc 8 \<union> span (payload_desc + 8) 4 \<union> span (payload_desc + 12) 2 \<union> span (payload_desc + 14) 2
       \<union> span status_desc 8)"

definition own :: "chain \<Rightarrow> nat set" where
  "own ch = (if ch_type ch = 0 then span (ch_addr ch) (ch_len ch) else {}) \<union> span (ch_status ch) 1"

definition written :: "u64 \<Rightarrow> u16 \<Rightarrow> chain \<Rightarrow> nat set" where
  "written used qn ch = own ch \<union> span used (4 + 8 * unat qn)"

definition results :: "chain \<Rightarrow> nat set" where
  "results ch = span (ch_addr ch) (ch_len ch) \<union> span (ch_status ch) 1"

lemma at_same:
  assumes "same_bytes S m m'"
  shows "span a 2 \<subseteq> S \<Longrightarrow> u16_at m' a = u16_at m a" and "span a 8 \<subseteq> S \<Longrightarrow> u64_at m' a = u64_at m a"
  using words_same [OF assms] by (simp_all add: u16_at_def u64_at_def)

lemma consulted_same:
  assumes "same_bytes S m m'" and "consulted m queue head \<subseteq> S"
  shows "consulted m' queue head = consulted m queue head"
  using assms at_same [OF assms(1)] by (simp add: consulted_def Let_def)

lemma at_Ok: "guest_u16 m a = Ok x \<Longrightarrow> u16_at m a = x" "guest_u64 m a = Ok y \<Longrightarrow> u64_at m a = y"
  by (simp_all add: u16_at_def u64_at_def)

lemma parse_same:
  assumes "same_bytes S m m'" and "consulted m queue head \<subseteq> S" and "parse_chain m queue qn head = Ok ch"
  shows "parse_chain m' queue qn head = Ok ch"
proof -
  let ?d = "queue + ucast head * 16"
  let ?p = "queue + ucast (u16_at m (?d + 14)) * 16"
  let ?s = "queue + ucast (u16_at m (?p + 14)) * 16"
  let ?h = "u64_at m ?d"
  note same = words_same [OF assms(1)]
  have eq: "guest_u64 m' ?d = guest_u64 m ?d" "guest_u16 m' (?d + 12) = guest_u16 m (?d + 12)"
    "guest_u16 m' (?d + 14) = guest_u16 m (?d + 14)" "guest_u32 m' ?h = guest_u32 m ?h" "guest_u64 m' (?h + 8) = guest_u64 m (?h + 8)"
    "guest_u64 m' ?p = guest_u64 m ?p" "guest_u32 m' (?p + 8) = guest_u32 m (?p + 8)" "guest_u16 m' (?p + 12) = guest_u16 m (?p + 12)"
    "guest_u16 m' (?p + 14) = guest_u16 m (?p + 14)" "guest_u64 m' ?s = guest_u64 m ?s"
    using assms(2) by (simp_all add: consulted_def Let_def same)
  show ?thesis
    using assms(3) eq unfolding parse_chain_def Let_def
    by (auto simp: bind_outcome_eq_Ok at_Ok split: if_splits) blast
qed

section \<open>The abstract disk\<close>

text \<open>
  One operation of the abstract disk on an image, with the payload the guest supplied: what the payload holds afterwards, and the
  image.  \<open>abs_serve\<close> performs a list of them in order.
\<close>

definition abs_request :: "chain \<Rightarrow> bytes \<Rightarrow> bytes \<Rightarrow> bytes \<times> bytes" where
  "abs_request ch data img =
     (if ch_type ch = 0 then (image_range ch img, img) else (data, file_write img (unat (ch_sector ch * 512)) data))"

fun abs_serve :: "(chain \<times> bytes) list \<Rightarrow> bytes \<Rightarrow> bytes list \<times> bytes" where
  "abs_serve [] img = ([], img)"
| "abs_serve ((ch, data) # rs) img =
     (let (r, img1) = abs_request ch data img; (outs, img2) = abs_serve rs img1 in (r # outs, img2))"

text \<open>A disk on which the calls succeed and write everything they are given.\<close>

definition reliable_disk :: "'os libc \<Rightarrow> int \<Rightarrow> ('os \<Rightarrow> bytes) \<Rightarrow> bool" where
  "reliable_disk C fd view \<longleftrightarrow>
     posix_disk C fd view \<and> (\<forall>len off os. 0 \<le> fst (c_pread C fd len off os))
     \<and> (\<forall>data off os. fst (c_pwrite C fd data off os) = int (length data))"

definition kind_ok :: "chain \<Rightarrow> bool" where
  "kind_ok ch \<longleftrightarrow>
     ch_type ch = 0 \<and> ch_flags ch AND DESC_WRITE \<noteq> 0 \<or> ch_type ch = 1 \<and> ch_flags ch AND DESC_WRITE = 0"

section \<open>One request\<close>

lemma write_same:
  assumes "write_guest m a d = Ok m'" and "length d \<le> n"
  shows "same_bytes (- span a n) m m'"
  using assms by (auto simp: write_guest_eq same_bytes_def span_def split: if_splits)

lemma transfer_effect:
  assumes "reliable_disk C (disk_fd (vb_disk (vblk w))) view" and "kind_ok ch"
    and "unat (ch_addr ch) + ch_len ch \<le> unat (gm_size (gmem w))"
    and "abs_request ch (bytes_at (gmem w) (ch_addr ch) (ch_len ch)) (view (host w)) = (r, img)"
  shows "\<exists>w1. transfer C ch w = (Ok 0, w1) \<and> vblk w1 = vblk w \<and> view (host w1) = img \<and> length r \<le> ch_len ch
    \<and> same_bytes (- (if ch_type ch = 0 then span (ch_addr ch) (ch_len ch) else {})) (gmem w) (gmem w1)
    \<and> read_guest (gmem w1) (ch_addr ch) (length r) = Ok r"
proof (cases "ch_type ch = 0")
  case True
  then have r: "r = image_range ch (view (host w))" "img = view (host w)"
    using assms(4) by (auto simp: abs_request_def)
  obtain m1 where m1: "write_guest (gmem w) (ch_addr ch) r = Ok m1" and t: "transfer C ch w = (Ok 0, w\<lparr>gmem := m1\<rparr>)"
    using transfer_read [of C w view ch] True assms(1-3) by (auto simp: reliable_disk_def kind_ok_def r)
  have "length r \<le> ch_len ch" by (simp add: r image_range_def)
  with t m1 True r write_same [OF m1] gm.rd_wr_same [OF m1] show ?thesis by auto
next
  case False
  let ?d = "bytes_at (gmem w) (ch_addr ch) (ch_len ch)"
  have rd: "read_guest (gmem w) (ch_addr ch) (ch_len ch) = Ok ?d"
    using assms(3) by (simp add: read_guest_eq bytes_at_def)
  obtain os' where p: "c_pwrite C (disk_fd (vb_disk (vblk w))) ?d (ch_sector ch * 512) (host w) = (int (length ?d), os')"
    using assms(1) unfolding reliable_disk_def by (metis prod.collapse)
  then have "view os' = file_write (view (host w)) (unat (ch_sector ch * 512)) ?d"
    using assms(1) unfolding reliable_disk_def posix_disk_def by (metis nat_int of_nat_0_le_iff order_refl take_all)
  moreover have "transfer C ch w = (Ok 0, w\<lparr>host := os'\<rparr>)"
    using False assms(2) rd p
    by (simp add: transfer_def kind_ok_def andthen_gets andthen_lift_outcome on_host_def andthen_def disk_write_def)
  moreover have "length ?d = ch_len ch" by (simp add: bytes_at_def)
  ultimately show ?thesis
    using False assms(4) rd by (auto simp: abs_request_def same_bytes_def)
qed

lemma complete_effect:
  assumes "layout_ok (gmem w) used qn ch" and "guest_u16 (gmem w) (used + 2) = Ok idx"
  shows "\<exists>m'. complete used qn head ch status w = (Ok (), w\<lparr>gmem := m'\<rparr>) \<and> completed m' used qn head ch status idx
    \<and> same_bytes (- (span (ch_status ch) 1 \<union> span used (4 + 8 * unat qn))) (gmem w) m'"
proof -
  obtain m' where c: "complete used qn head ch status w = (Ok (), w\<lparr>gmem := m'\<rparr>)" and d: "completed m' used qn head ch status idx"
    and f: "\<And>b n. disjoint (unat b) n (unat (ch_status ch)) 1 \<and> disjoint (unat b) n (unat used) (4 + 8 * unat qn)
        \<Longrightarrow> read_guest m' b n = read_guest (gmem w) b n"
    using complete_correct [OF assms, of head status] by (auto simp: completed_def)
  have "keeps (mem_size_is (gm_size (gmem w))) (complete used qn head ch status)"
    unfolding complete_def by (intro keeps_wr_mem_size keeps_rules)
  then have "gm_size m' = gm_size (gmem w)"
    using c by (auto simp: keeps_def mem_size_is_def dest: spec [of _ w])
  then have "same_bytes (- (span (ch_status ch) 1 \<union> span used (4 + 8 * unat qn))) (gmem w) m'"
    by (rule same_bytesI) (intro f, auto simp: span_def disjoint_def)
  with c d show ?thesis by blast
qed

lemma used_idx_span:
  assumes "layout_ok m used qn ch"
  shows "span (used + 2) 2 \<subseteq> span used (4 + 8 * unat qn)"
proof -
  have "unat (used + 2) = unat used + 2"
    using assms unat_u64_less [of "gm_size m"] unat_add_of_nat [of used 2] by (simp add: layout_ok_def)
  then show ?thesis by (auto simp: span_def)
qed

lemma layout_ok_spans:
  assumes "layout_ok m used qn ch"
  shows "span (ch_addr ch) (ch_len ch) \<inter> (span (ch_status ch) 1 \<union> span used (4 + 8 * unat qn)) = {}"
    and "span (ch_status ch) 1 \<inter> span used (4 + 8 * unat qn) = {}"
  using assms by (auto simp: layout_ok_def disjoint_def span_def)

lemma request_effect:
  assumes q: "qn = queue_num (vblk w)" "used = used_ring queue qn"
    and d: "reliable_disk C (disk_fd (vb_disk (vblk w))) view" "kind_ok ch"
    and ch: "parse_chain (gmem w) queue qn head = Ok ch" "layout_ok (gmem w) used qn ch" "guest_u16 (gmem w) (used + 2) = Ok idx"
    and a: "abs_request ch (bytes_at (gmem w) (ch_addr ch) (ch_len ch)) (view (host w)) = (r, img)"
  shows "\<exists>w1. process_request C queue head w = (Ok (), w1) \<and> vblk w1 = vblk w \<and> view (host w1) = img
    \<and> same_bytes (- written used qn ch) (gmem w) (gmem w1) \<and> completed (gmem w1) used qn head ch 0 idx
    \<and> length r \<le> ch_len ch \<and> read_guest (gmem w1) (ch_addr ch) (length r) = Ok r"
proof -
  let ?p = "span (ch_addr ch) (ch_len ch)" and ?c = "span (ch_status ch) 1 \<union> span used (4 + 8 * unat qn)"
  note sp = layout_ok_spans [OF ch(2)]
  obtain w1 where t: "transfer C ch w = (Ok 0, w1)" "vblk w1 = vblk w" "view (host w1) = img" and l: "length r \<le> ch_len ch"
    and s1: "same_bytes (- (if ch_type ch = 0 then ?p else {})) (gmem w) (gmem w1)"
    and r1: "read_guest (gmem w1) (ch_addr ch) (length r) = Ok r"
    using transfer_effect [OF d _ a] ch(2) by (auto simp: layout_ok_def)
  have lay: "layout_ok (gmem w1) used qn ch"
    using s1 ch(2) layout_ok_size [of "gmem w1" "gmem w"] by (simp add: same_bytes_def)
  have "span (used + 2) 2 \<subseteq> - (if ch_type ch = 0 then ?p else {})"
    using used_idx_span [OF ch(2)] sp by auto
  then have "guest_u16 (gmem w1) (used + 2) = Ok idx"
    using words_same(1) [OF s1] ch(3) by simp
  then obtain m' where c: "complete used qn head ch 0 w1 = (Ok (), w1\<lparr>gmem := m'\<rparr>)" "completed m' used qn head ch 0 idx"
    and s2: "same_bytes (- ?c) (gmem w1) m'"
    using complete_effect [OF lay] by blast
  have "same_bytes (- written used qn ch) (gmem w) m'"
    by (rule same_bytes_trans [OF same_bytes_mono [OF s1] same_bytes_mono [OF s2]]) (auto simp: written_def own_def)
  moreover have "span (ch_addr ch) (length r) \<subseteq> - ?c"
    using span_mono [OF l] sp(1) by blast
  then have "read_guest m' (ch_addr ch) (length r) = Ok r"
    using read_same [OF s2] r1 by simp
  moreover have "process_request C queue head w = (Ok (), w1\<lparr>gmem := m'\<rparr>)"
    using ch(1) t(1) c(1) q by (simp add: process_request_split)
  ultimately show ?thesis
    using t c(2) l by auto
qed

section \<open>A batch of requests\<close>

definition slot_addr :: "u64 \<Rightarrow> u16 \<Rightarrow> u16 \<Rightarrow> u64" where
  "slot_addr queue qn i = queue + 4 + ucast (i mod qn) * 2"

text \<open>Everything the device still has to read for the requests from index \<open>i\<close> on, and everything it reports in.\<close>

fun regions :: "GuestMemory \<Rightarrow> u64 \<Rightarrow> u16 \<Rightarrow> u16 \<Rightarrow> (u16 \<times> chain) list \<Rightarrow> nat set" where
  "regions m queue qn i [] = {}"
| "regions m queue qn i ((head, ch) # rs) =
     span (slot_addr queue qn i) 2 \<union> consulted m queue head \<union> results ch \<union> regions m queue qn (i + 1) rs"

text \<open>
  The requests from index \<open>i\<close> on: each is found in its slot, is a well-formed read or write inside memory, and writes neither what a
  later request needs nor the result of another one.
\<close>

fun batch_ok :: "GuestMemory \<Rightarrow> u64 \<Rightarrow> u16 \<Rightarrow> u16 \<Rightarrow> (u16 \<times> chain) list \<Rightarrow> bool" where
  "batch_ok m queue qn i [] = True"
| "batch_ok m queue qn i ((head, ch) # rs) =
     (guest_u16 m (slot_addr queue qn i) = Ok head \<and> parse_chain m queue qn head = Ok ch
      \<and> layout_ok m (used_ring queue qn) qn ch \<and> kind_ok ch
      \<and> written (used_ring queue qn) qn ch \<inter> regions m queue qn (i + 1) rs = {}
      \<and> (\<forall>(h, c) \<in> set rs. own c \<inter> results ch = {})
      \<and> batch_ok m queue qn (i + 1) rs)"

definition payloads :: "GuestMemory \<Rightarrow> (u16 \<times> chain) list \<Rightarrow> (chain \<times> bytes) list" where
  "payloads m = map (\<lambda>(h, c). (c, bytes_at m (ch_addr c) (ch_len c)))"

lemma payloads_simps [simp]:
  "payloads m [] = []" "payloads m ((h, c) # rs) = (c, bytes_at m (ch_addr c) (ch_len c)) # payloads m rs"
  by (simp_all add: payloads_def)

lemma bytes_at_same:
  assumes "same_bytes S m m'" and "span a n \<subseteq> S" and "unat a + n \<le> unat (gm_size m)"
  shows "bytes_at m' a n = bytes_at m a n"
  using read_same [OF assms(1,2)] assms(1,3) by (simp add: read_guest_eq bytes_at_def same_bytes_def)

lemma batch_same:
  assumes "same_bytes S m m'" and "regions m queue qn i rs \<subseteq> S"
  shows "regions m' queue qn i rs = regions m queue qn i rs"
    and "batch_ok m queue qn i rs \<Longrightarrow> batch_ok m' queue qn i rs"
    and "batch_ok m queue qn i rs \<Longrightarrow> payloads m' rs = payloads m rs"
proof -
  have r: "regions m' queue qn j qs = regions m queue qn j qs" if "regions m queue qn j qs \<subseteq> S" for j qs
    using that by (induction qs arbitrary: j) (auto simp: consulted_same [OF assms(1)])
  then show "regions m' queue qn i rs = regions m queue qn i rs"
    using assms(2) by blast
  have size: "gm_size m' = gm_size m"
    using assms(1) by (simp add: same_bytes_def)
  show "batch_ok m' queue qn i rs" if "batch_ok m queue qn i rs"
    using that assms(2)
    by (induction rs arbitrary: i)
      (auto simp: r words_same(1) [OF assms(1)] parse_same [OF assms(1)] layout_ok_size [OF size])
  show "payloads m' rs = payloads m rs" if "batch_ok m queue qn i rs"
    using that assms(2)
    by (induction rs arbitrary: i) (auto simp: results_def layout_ok_def bytes_at_same [OF assms(1)])
qed

text \<open>What a batch leaves: the image, the results, and memory that is otherwise as it was.\<close>

definition batch_written :: "u64 \<Rightarrow> u16 \<Rightarrow> (u16 \<times> chain) list \<Rightarrow> nat set" where
  "batch_written used qn rs = (\<Union>(h, c) \<in> set rs. own c) \<union> span used (4 + 8 * unat qn)"

definition reported :: "GuestMemory \<Rightarrow> u16 \<times> chain \<Rightarrow> bytes \<Rightarrow> bool" where
  "reported m = (\<lambda>(h, c) out. read_guest m (ch_addr c) (length out) = Ok out \<and> length out \<le> ch_len c
     \<and> read_guest m (ch_status c) 1 = Ok [0])"

lemma reported_same:
  assumes "same_bytes S m m'" and "results c \<subseteq> S" and "reported m (h, c) out"
  shows "reported m' (h, c) out"
proof -
  have "span (ch_addr c) (length out) \<subseteq> S" and "span (ch_status c) 1 \<subseteq> S"
    using assms(2,3) by (auto simp: results_def reported_def span_def)
  then show ?thesis
    using read_same [OF assms(1)] assms(3) by (simp add: reported_def)
qed

lemma process_next_run:
  assumes "queue_num (vblk w) \<noteq> 0" and "guest_u16 (gmem w) (slot_addr queue (queue_num (vblk w)) (last_avail (vblk w))) = Ok head"
    and "process_request C queue head w = (Ok (), w1)"
  shows "process_next C queue w = (Ok (), w1\<lparr>vblk := (vblk w1)\<lparr>last_avail := last_avail (vblk w1) + 1\<rparr>\<rparr>)"
  using assms by (simp add: process_next_def slot_addr_def rd16_def rem_u16_def andthen_lift_outcome andthen_def)


lemma of_nat_u16_nonzero:
  assumes "0 < n" and "n < 2 ^ 16"
  shows "(of_nat n :: u16) \<noteq> 0"
proof -
  have "unat (of_nat n :: u16) = n"
    using assms(2) by (simp add: unsigned_of_nat take_bit_nat_eq_self)
  with assms(1) show ?thesis by auto
qed

lemma batch_served:
  assumes "reliable_disk C (disk_fd (vb_disk (vblk w))) view" and "qn = queue_num (vblk w)" and "used = used_ring queue qn"
    and "batch_ok (gmem w) queue qn (last_avail (vblk w)) rs" and "length rs < 2 ^ 16"
    and "guest_u16 (gmem w) (used + 2) = Ok idx"
    and "abs_serve (payloads (gmem w) rs) (view (host w)) = (outs, img)"
  shows "\<exists>w'. process_loop C queue (last_avail (vblk w) + of_nat (length rs)) w = (Ok (), w') \<and> view (host w') = img
    \<and> same_bytes (- batch_written used qn rs) (gmem w) (gmem w') \<and> list_all2 (reported (gmem w')) rs outs
    \<and> guest_u16 (gmem w') (used + 2) = Ok (idx + of_nat (length rs))"
  using assms
proof (induction rs arbitrary: w idx outs)
  case Nil
  then show ?case
    by (auto simp: process_loop.simps [of C queue _ w] same_bytes_def)
next
  case (Cons hc rs)
  obtain head ch where hc: "hc = (head, ch)" by fastforce
  let ?i = "last_avail (vblk w)" and ?m = "gmem w"
  from Cons.prems(4) have b: "guest_u16 ?m (slot_addr queue qn ?i) = Ok head" "parse_chain ?m queue qn head = Ok ch"
      "layout_ok ?m used qn ch" "kind_ok ch" "written used qn ch \<inter> regions ?m queue qn (?i + 1) rs = {}"
      "\<forall>(h, c) \<in> set rs. own c \<inter> results ch = {}" "batch_ok ?m queue qn (?i + 1) rs"
    by (simp_all add: hc Cons.prems(3))
  obtain r img1 outs' where a: "abs_request ch (bytes_at ?m (ch_addr ch) (ch_len ch)) (view (host w)) = (r, img1)"
      and outs: "outs = r # outs'" and rest: "abs_serve (payloads ?m rs) img1 = (outs', img)"
    using Cons.prems(7) by (auto simp: hc Let_def split: prod.splits)
  obtain w1 where p: "process_request C queue head w = (Ok (), w1)" "vblk w1 = vblk w" "view (host w1) = img1"
      and s1: "same_bytes (- written used qn ch) ?m (gmem w1)" and c1: "completed (gmem w1) used qn head ch 0 idx"
      and r1: "length r \<le> ch_len ch" "read_guest (gmem w1) (ch_addr ch) (length r) = Ok r"
    using request_effect [OF Cons.prems(2,3,1) b(4,2,3) Cons.prems(6) a] by blast
  define w2 where "w2 = w1\<lparr>vblk := (vblk w1)\<lparr>last_avail := ?i + 1\<rparr>\<rparr>"
  have sub: "regions ?m queue qn (?i + 1) rs \<subseteq> - written used qn ch"
    using b(5) by blast
  note same = batch_same [OF s1 sub]
  obtain w' where l: "process_loop C queue (?i + 1 + of_nat (length rs)) w2 = (Ok (), w')" "view (host w') = img"
      and s2: "same_bytes (- batch_written used qn rs) (gmem w1) (gmem w')" and o: "list_all2 (reported (gmem w')) rs outs'"
      and u: "guest_u16 (gmem w') (used + 2) = Ok (idx + 1 + of_nat (length rs))"
    using Cons.IH [of w2 "idx + 1" outs'] Cons.prems(1-3,5) same(2,3) b(7) p rest c1
    by (auto simp: w2_def completed_def)
  have "(of_nat (length (hc # rs)) :: u16) \<noteq> 0"
    using Cons.prems(5) by (intro of_nat_u16_nonzero) simp_all
  then have ne: "?i \<noteq> ?i + of_nat (length (hc # rs))"
    by simp
  have "queue_num (vblk w) \<noteq> 0"
    using b(3) Cons.prems(2) by (simp add: layout_ok_def)
  then have n: "process_next C queue w = (Ok (), w2)"
    using process_next_run [OF _ _ p(1)] b(1) Cons.prems(2) p(2) by (simp add: w2_def)
  have "process_loop C queue (?i + of_nat (length (hc # rs))) w = (Ok (), w')"
    using l(1) by (subst process_loop.simps) (simp only: ne n if_False prod.case outcome.case, simp add: algebra_simps)
  moreover have "same_bytes (- batch_written used qn (hc # rs)) ?m (gmem w')"
    by (rule same_bytes_trans [OF same_bytes_mono [OF s1] same_bytes_mono [OF s2]])
      (auto simp: batch_written_def written_def hc)
  moreover have "results ch \<subseteq> - batch_written used qn rs"
    using b(6) layout_ok_spans [OF b(3)] by (auto simp: results_def batch_written_def)
  then have "reported (gmem w') (head, ch) r"
    by (rule reported_same [OF s2]) (use r1 c1 in \<open>simp add: reported_def completed_def\<close>)
  ultimately show ?case
    using l(2) o u outs by (auto simp: hc algebra_simps)
qed

section \<open>From the exit to the image\<close>

lemma process_queue_batch:
  assumes "guest_u16 (gmem w) (push_bit 12 (ucast (queue_pfn (vblk w))) + 2) = Ok a"
    and "process_loop C (push_bit 12 (ucast (queue_pfn (vblk w)))) a w = (Ok (), w')" and "queue_pfn (vblk w) \<noteq> 0"
  shows "vb_write C 0x50 0 w = (Ok (), w')"
  using assms by (simp add: vb_write_def process_queue_def)

lemma notify_exit:
  assumes "api_run K (vcpu_index v) (ram (guest_memory (vm w))) (kstate (kvm w)) =
      (Inr (ExitMmioWrite (VIRTIO_MMIO_START + 0x50) (replicate n 0)), m, k)"
    and "n \<le> 8"
    and "vb_write C 0x50 0 \<lparr>vblk = block_device (vm w), gmem = (guest_memory (vm w))\<lparr>ram := m\<rparr>, host = host_os w\<rparr> = (Ok (), b)"
  shows "\<exists>w'. run_body K C v w = (Ok (), w') \<and> block_device (vm w') = vblk b \<and> guest_memory (vm w') = gmem b \<and> host_os w' = host b
    \<and> running (vm w') = running (vm w)"
proof -
  have "from_le (splice (replicate 8 0) 0 (replicate n (0 :: u8))) = (0 :: u64)"
  proof -
    have "splice (replicate 8 0) 0 (replicate n (0 :: u8)) = replicate 8 0"
      using assms(2) by (simp add: splice_def flip: replicate_add)
    then show ?thesis by (simp add: numeral_eq_Suc)
  qed
  then show ?thesis
    using assms
    by (simp add: run_body_def on_cpu_def run_with_mmio_def mmio_write_exit_def in_window_def core_consts copy_into_def on_blk_def
        lift_outcome_Ok)
qed


section \<open>An instance\<close>

text \<open>A guest that writes four bytes to the first sector and reads them back, in one notification.\<close>

definition io_ram :: "nat \<Rightarrow> u8" where
  "io_ram = (\<lambda>_. 0)(0x1002 := 2, 0x1004 := 1, 0x1006 := 4,
     0x1011 := 0x50, 0x101C := 1, 0x101E := 2, 0x1021 := 0x60, 0x1028 := 4, 0x102C := 1, 0x102E := 3, 0x1031 := 0x70, 0x5000 := 1,
     0x1041 := 0x51, 0x104C := 1, 0x104E := 5, 0x1051 := 0x61, 0x1058 := 4, 0x105C := 3, 0x105E := 6, 0x1061 := 0x71,
     0x6000 := 0xAA, 0x6001 := 0xBB)"

definition io_memory :: GuestMemory where
  "io_memory = \<lparr>gm_ptr = 0x7f0000000000, gm_size = 0x10000, ram = io_ram\<rparr>"

definition io_requests :: "(u16 \<times> chain) list" where
  "io_requests =
     [(1, \<lparr>ch_type = 1, ch_sector = 0, ch_addr = 0x6000, ch_len = 4, ch_flags = 1, ch_status = 0x7000\<rparr>),
      (4, \<lparr>ch_type = 0, ch_sector = 0, ch_addr = 0x6100, ch_len = 4, ch_flags = 3, ch_status = 0x7100\<rparr>)]"

definition io_world :: "(VcpuExit list, bytes) run_world" where
  "io_world = \<lparr>kvm = \<lparr>kstate = [ExitMmioWrite (VIRTIO_MMIO_START + 0x50) (replicate 4 0)], ktrace = []\<rparr>, host_os = [1, 2, 3, 4, 5],
     vm = demo_vm\<lparr>guest_memory := io_memory, block_device := \<lparr>vb_disk = \<lparr>disk_fd = 3, disk_size = 5\<rparr>, queue_num = 8, queue_pfn = 1,
       vb_status = 0, last_avail = 0\<rparr>, running := True\<rparr>, guest_log = []\<rparr>"

lemmas io_reads = guest_u64_def guest_u32_def guest_u16_def read_guest_eq upt_rec io_memory_def io_ram_def

lemma io_words:
  "guest_u16 io_memory 0x1002 = Ok 2" "guest_u16 io_memory 0x2002 = Ok 0" "guest_u16 io_memory 0x1004 = Ok 1" "guest_u16 io_memory 0x1006 = Ok 4"
  by (simp_all add: io_reads)

lemma io_used: "used_ring 0x1000 8 = 0x2000"
  by (simp add: used_ring_def align_up_def)

lemma io_parse:
  "parse_chain io_memory 0x1000 8 1 = Ok \<lparr>ch_type = 1, ch_sector = 0, ch_addr = 0x6000, ch_len = 4, ch_flags = 1, ch_status = 0x7000\<rparr>"
  "parse_chain io_memory 0x1000 8 4 = Ok \<lparr>ch_type = 0, ch_sector = 0, ch_addr = 0x6100, ch_len = 4, ch_flags = 3, ch_status = 0x7100\<rparr>"
  by (simp_all add: parse_chain_def Let_def io_reads core_consts)

lemma io_consulted: "consulted io_memory 0x1000 4 \<subseteq> {0x1000..<0x1100} \<union> {0x5000..<0x5200}"
  by (auto simp: consulted_def Let_def span_def u16_at_def u64_at_def io_reads)

lemma io_size: "gm_size io_memory = 0x10000"
  by (simp add: io_memory_def)

lemma io_batch: "batch_ok io_memory 0x1000 8 0 io_requests"
  using io_consulted
  by (auto simp: io_requests_def slot_addr_def io_words io_parse io_used layout_ok_def disjoint_def kind_ok_def written_def own_def
      results_def span_def io_size core_consts)

lemma io_disk: "reliable_disk ram_libc 3 (\<lambda>os. os)"
  by (simp add: reliable_disk_def ram_libc_posix ram_libc_calls)


end
