(* ===== verification/LD_Network.thy ===== *)
theory LD_Network
  imports LD_Devices "HOL-Library.Multiset"
begin

text \<open>
  The crate \<^verbatim>\<open>crates/network\<close>: the \<open>ifreq\<close> structure, the TAP interface over the C library (the parameter
  \<open>net_libc\<close>), the network device of the bus, and the NAT rules, which are the \<open>iptables\<close> commands
  the manager issues.  The target is little-endian, as the release targets of the repository are.
\<close>

definition IFNAMSIZ :: nat where "IFNAMSIZ = 16"
definition TUN_IFF_TAP :: u32 where [core_consts]: "TUN_IFF_TAP = 0x0002"
definition TUN_IFF_NO_PI :: u32 where [core_consts]: "TUN_IFF_NO_PI = 0x0800"
definition NET_IFF_UP :: u32 where [core_consts]: "NET_IFF_UP = 0x0001"
definition TUNSETIFF :: u64 where [core_consts]: "TUNSETIFF = 0x400454CA"
definition SIOCSIFFLAGS :: u64 where [core_consts]: "SIOCSIFFLAGS = 0x8914"
definition SIOCSIFADDR :: u64 where [core_consts]: "SIOCSIFADDR = 0x8916"
definition SIOCSIFNETMASK :: u64 where [core_consts]: "SIOCSIFNETMASK = 0x891C"
definition VIRTIO_NET_MAGIC :: u32 where [core_consts]: "VIRTIO_NET_MAGIC = 0x74726976"
definition VIRTIO_NET_VERSION :: u32 where [core_consts]: "VIRTIO_NET_VERSION = 2"
definition VIRTIO_ID_NET :: u32 where [core_consts]: "VIRTIO_ID_NET = 1"

section \<open>IfReq\<close>

record IfReq =
  ifr_name :: bytes
  ifr_data :: bytes

definition ifreq_new :: IfReq where
  "ifreq_new = \<lparr>ifr_name = replicate IFNAMSIZ 0, ifr_data = replicate 24 0\<rparr>"

definition set_name :: "string \<Rightarrow> IfReq \<Rightarrow> IfReq" where
  "set_name name r =
     (let bs = as_bytes name; len = min (length bs) (length (ifr_name r) - 1)
      in r\<lparr>ifr_name := (splice (ifr_name r) 0 (take len bs))[len := 0]\<rparr>)"

definition get_name :: "IfReq \<Rightarrow> string" where
  "get_name r = from_utf8_lossy (takeWhile (\<lambda>b. b \<noteq> 0) (ifr_name r))"

definition set_flags :: "u32 \<Rightarrow> IfReq \<Rightarrow> IfReq" where
  "set_flags fl r = (let bs = to_le 4 fl in r\<lparr>ifr_data := (ifr_data r)[0 := bs ! 0, 1 := bs ! 1]\<rparr>)"

text \<open>A \<open>sockaddr_in\<close> is 16 bytes: family, port, address and eight bytes of padding.\<close>

definition AF_INET :: u16 where [core_consts]: "AF_INET = 2"

definition sockaddr_bytes :: "u16 \<Rightarrow> u32 \<Rightarrow> bytes" where
  "sockaddr_bytes family s_addr = to_le 2 family @ to_le 2 (0 :: u16) @ to_le 4 s_addr @ replicate 8 0"

definition set_sockaddr_in :: "bytes \<Rightarrow> IfReq \<Rightarrow> IfReq" where
  "set_sockaddr_in sa r = r\<lparr>ifr_data := splice (ifr_data r) 0 sa\<rparr>"

section \<open>Addresses\<close>

text \<open>
  The parser of \<open>Ipv4Addr\<close>: four decimal numbers of at most three digits without a leading zero.
\<close>

fun split_on :: "char \<Rightarrow> string \<Rightarrow> string list" where
  "split_on c [] = [[]]"
| "split_on c (x # xs) =
     (if x = c then [] # split_on c xs
      else case split_on c xs of [] \<Rightarrow> [[x]] | p # ps \<Rightarrow> (x # p) # ps)"

definition parse_octet :: "string \<Rightarrow> u8 option" where
  "parse_octet s =
     (if s = [] \<or> length s > 3 \<or> \<not> list_all is_digit s \<or> (length s > 1 \<and> hd s = CHR ''0'') then None
      else case parse_uint 256 s of None \<Rightarrow> None | Some n \<Rightarrow> Some (of_nat n))"

definition ipv4_parse :: "string \<Rightarrow> bytes option" where
  "ipv4_parse s =
     (case map parse_octet (split_on (CHR ''.'') s) of
        [Some a, Some b, Some c, Some d] \<Rightarrow> Some [a, b, c, d]
      | _ \<Rightarrow> None)"

definition parse_ip :: "string \<Rightarrow> u32 ld_result" where
  "parse_ip addr =
     (case ipv4_parse addr of
        None \<Rightarrow> Err (NetworkInterfaceFailed (''invalid IP: '' @ addr))
      | Some octets \<Rightarrow> Ok (from_be octets))"

section \<open>TapInterface\<close>

record 'n net_libc =
  n_open :: "string \<Rightarrow> 'n \<Rightarrow> int \<times> 'n"
  n_ioctl :: "int \<Rightarrow> u64 \<Rightarrow> IfReq \<Rightarrow> 'n \<Rightarrow> int \<times> IfReq \<times> 'n"
  n_read :: "int \<Rightarrow> nat \<Rightarrow> 'n \<Rightarrow> int \<times> bytes \<times> 'n"
  n_write :: "int \<Rightarrow> bytes \<Rightarrow> 'n \<Rightarrow> int \<times> 'n"
  n_close :: "int \<Rightarrow> 'n \<Rightarrow> int \<times> 'n"
  n_error :: "'n \<Rightarrow> string"

record TapInterface =
  tap_fd :: int
  tap_name :: string

definition tap_new :: "'n net_libc \<Rightarrow> string \<Rightarrow> ('n, LiteDroidError, TapInterface) action" where
  "tap_new N iface_name = (\<lambda>n.
     case n_open N ''/dev/net/tun'' n of (fd, n1) \<Rightarrow>
       if fd < 0 then
         (Err (NetworkInterfaceFailed (''failed to open /dev/net/tun: '' @ n_error N n1)), n1)
       else
         (let ifr = set_flags (TUN_IFF_TAP OR TUN_IFF_NO_PI) (set_name iface_name ifreq_new) in
          case n_ioctl N fd TUNSETIFF ifr n1 of (r, ifr', n2) \<Rightarrow>
            if r < 0 then
              (case n_close N fd n2 of (_, n3) \<Rightarrow>
                 (Err (NetworkInterfaceFailed (''TUNSETIFF failed: '' @ n_error N n3)), n3))
            else (Ok \<lparr>tap_fd = fd, tap_name = get_name ifr'\<rparr>, n2)))"

definition read_packet :: "'n net_libc \<Rightarrow> TapInterface \<Rightarrow> bytes \<Rightarrow> ('n, LiteDroidError, nat \<times> bytes) action" where
  "read_packet N t buf = (\<lambda>n.
     case n_read N (tap_fd t) (length buf) n of (r, data, n1) \<Rightarrow>
       if r < 0 then (Err (NetworkInterfaceFailed (''TAP read failed: '' @ n_error N n1)), n1)
       else (Ok (nat r, data @ drop (length data) buf), n1))"

definition write_packet :: "'n net_libc \<Rightarrow> TapInterface \<Rightarrow> bytes \<Rightarrow> ('n, LiteDroidError, nat) action" where
  "write_packet N t data = (\<lambda>n.
     case n_write N (tap_fd t) data n of (r, n1) \<Rightarrow>
       if r < 0 then (Err (NetworkInterfaceFailed (''TAP write failed: '' @ n_error N n1)), n1)
       else (Ok (nat r), n1))"

definition tap_ioctl ::
  "'n net_libc \<Rightarrow> TapInterface \<Rightarrow> u64 \<Rightarrow> string \<Rightarrow> IfReq \<Rightarrow> ('n, LiteDroidError, unit) action" where
  "tap_ioctl N t request what ifr = (\<lambda>n.
     case n_ioctl N (tap_fd t) request ifr n of (r, ifr', n1) \<Rightarrow>
       if r < 0 then
         (Err (NetworkInterfaceFailed (what @ '' failed for '' @ tap_name t @ '': '' @ n_error N n1)), n1)
       else (Ok (), n1))"

definition set_up :: "'n net_libc \<Rightarrow> TapInterface \<Rightarrow> ('n, LiteDroidError, unit) action" where
  "set_up N t = tap_ioctl N t SIOCSIFFLAGS ''SIOCSIFFLAGS''
     (set_flags NET_IFF_UP (set_name (tap_name t) ifreq_new))"

definition address_request :: "TapInterface \<Rightarrow> u32 \<Rightarrow> IfReq" where
  "address_request t in_addr =
     set_sockaddr_in (sockaddr_bytes AF_INET in_addr) (set_name (tap_name t) ifreq_new)"

definition set_ip_address :: "'n net_libc \<Rightarrow> TapInterface \<Rightarrow> string \<Rightarrow> ('n, LiteDroidError, unit) action" where
  "set_ip_address N t addr =
     andthen (lift_outcome (\<lambda>_. parse_ip addr)) (\<lambda>in_addr.
       tap_ioctl N t SIOCSIFADDR ''SIOCSIFADDR'' (address_request t in_addr))"

definition set_netmask :: "'n net_libc \<Rightarrow> TapInterface \<Rightarrow> string \<Rightarrow> ('n, LiteDroidError, unit) action" where
  "set_netmask N t netmask =
     andthen (lift_outcome (\<lambda>_. parse_ip netmask)) (\<lambda>in_addr.
       tap_ioctl N t SIOCSIFNETMASK ''SIOCSIFNETMASK'' (address_request t in_addr))"

definition tap_drop :: "'n net_libc \<Rightarrow> TapInterface \<Rightarrow> 'n \<Rightarrow> 'n" where
  "tap_drop N t n = (if tap_fd t \<ge> 0 then snd (n_close N (tap_fd t) n) else n)"

section \<open>VirtioNetDevice\<close>

record VirtioNetDevice =
  net_tap :: TapInterface
  mac_address :: bytes
  net_status :: u32

definition net_new :: "TapInterface \<Rightarrow> bytes \<Rightarrow> VirtioNetDevice" where
  "net_new t mac = \<lparr>net_tap = t, mac_address = mac, net_status = 0\<rparr>"

definition mac_as_u64 :: "VirtioNetDevice \<Rightarrow> u64" where
  "mac_as_u64 d = foldl (\<lambda>v b. push_bit 8 v OR ucast b) 0 (mac_address d)"

definition net_mmio_read :: "VirtioNetDevice \<Rightarrow> u64 \<Rightarrow> u32 \<Rightarrow> u64 \<times> VirtioNetDevice" where
  "net_mmio_read d off sz =
     (if off = 0x00 then ucast VIRTIO_NET_MAGIC
      else if off = 0x04 then ucast VIRTIO_NET_VERSION
      else if off = 0x08 then ucast VIRTIO_ID_NET
      else if off = 0x0C then 0
      else if off = 0x24 then 1
      else if off = 0x30 then ucast (net_status d)
      else if off = 0x100 then mac_as_u64 d
      else 0, d)"

definition net_mmio_write :: "VirtioNetDevice \<Rightarrow> u64 \<Rightarrow> u32 \<Rightarrow> u64 \<Rightarrow> VirtioNetDevice" where
  "net_mmio_write d off sz v =
     (if off = 0x28 then d
      else if off = 0x30 then d\<lparr>net_status := ucast v\<rparr>
      else d)"

definition net_reset :: "VirtioNetDevice \<Rightarrow> VirtioNetDevice" where
  "net_reset d = d\<lparr>net_status := 0\<rparr>"

definition net_name :: "VirtioNetDevice \<Rightarrow> string" where
  "net_name d = ''virtio-net''"

definition net_device_type :: "VirtioNetDevice \<Rightarrow> string" where
  "net_device_type d = ''net''"

definition net_compatible :: "VirtioNetDevice \<Rightarrow> string" where
  "net_compatible d = ''virtio,net''"

interpretation net: virtio_device net_mmio_read net_mmio_write net_reset "\<lambda>_. 0x30" net_status VIRTIO_ID_NET
  by unfold_locales (auto simp: net_mmio_read_def net_mmio_write_def net_reset_def core_consts)

lemma from_le_zeros: "from_le (bs @ replicate n 0) = from_le bs"
proof (induction bs)
  case Nil
  show ?case by (induction n) simp_all
qed simp

lemma mac_register: "length (mac_address d) = 6 \<Longrightarrow> to_be 8 (mac_as_u64 d) = [0, 0] @ mac_address d"
proof -
  assume l: "length (mac_address d) = 6"
  have "(from_le (rev (mac_address d) @ replicate 2 0) :: u64) = from_le (rev (mac_address d))"
    by (rule from_le_zeros)
  then have "mac_as_u64 d = from_be ([0, 0] @ mac_address d)"
    by (simp add: mac_as_u64_def foldl_push_bit from_be_def numeral_2_eq_2)
  moreover have "to_be (length ([0, 0] @ mac_address d)) (from_be ([0, 0] @ mac_address d) :: u64) = [0, 0] @ mac_address d"
    using l by (intro to_be_from_be) simp
  ultimately show ?thesis using l by simp
qed

section \<open>NatManager\<close>

text \<open>
  The manager ignores the outcome of every command it issues (failures are only logged), so the commands
  themselves are the effect.  Of the host it reads the routing table.
\<close>

datatype host_cmd = WriteFile path string | Iptables "string list"

record NatManager =
  nat_tap :: "string option"
  is_setup :: bool

record nat_world =
  proc_route :: "io_error + string"
  issued :: "host_cmd list"

definition nat_new :: NatManager where
  "nat_new = \<lparr>nat_tap = None, is_setup = False\<rparr>"

definition host_interface :: "nat_world \<Rightarrow> string ld_result" where
  "host_interface w =
     (case proc_route w of
        Inl e \<Rightarrow> Err (NatSetupFailed (''read /proc/net/route: '' @ e))
      | Inr content \<Rightarrow>
          (case find (\<lambda>cols. length cols \<ge> 2 \<and> cols ! 1 = ''00000000'')
                  (map split_whitespace (drop 1 (lines content))) of
             Some cols \<Rightarrow> Ok (cols ! 0)
           | None \<Rightarrow> Err (NatSetupFailed ''no default route found in /proc/net/route'')))"

definition host_iface_or :: "nat_world \<Rightarrow> string" where
  "host_iface_or w = (case host_interface w of Ok i \<Rightarrow> i | Err e \<Rightarrow> ''eth0'' | Panic \<Rightarrow> ''eth0'')"

definition masquerade :: "string \<Rightarrow> string \<Rightarrow> string list" where
  "masquerade op host_iface =
     [''-t'', ''nat'', op, ''POSTROUTING'', ''-o'', host_iface, ''-s'', ''10.0.2.0/24'', ''-j'', ''MASQUERADE'']"

definition forward :: "string \<Rightarrow> string \<Rightarrow> string \<Rightarrow> string list" where
  "forward op dir tap = [op, ''FORWARD'', dir, tap, ''-j'', ''ACCEPT'']"

text \<open>\<open>setup\<close> changes the manager it is called on and returns a second one in the same state.\<close>

definition nat_setup :: "string \<Rightarrow> NatManager \<Rightarrow> nat_world \<Rightarrow> NatManager \<times> NatManager \<times> nat_world" where
  "nat_setup tap m w =
     (let host_iface = host_iface_or w;
          w1 = w\<lparr>issued := issued w @
            [WriteFile ''/proc/sys/net/ipv4/ip_forward'' ''1'',
             Iptables (masquerade ''-A'' host_iface),
             Iptables (forward ''-I'' ''-i'' tap),
             Iptables (forward ''-I'' ''-o'' tap)]\<rparr>
      in (\<lparr>nat_tap = Some tap, is_setup = True\<rparr>, m\<lparr>nat_tap := Some tap, is_setup := True\<rparr>, w1))"

definition nat_teardown :: "NatManager \<Rightarrow> nat_world \<Rightarrow> NatManager \<times> nat_world" where
  "nat_teardown m w =
     (if \<not> is_setup m then (m, w)
      else let m1 = m\<lparr>is_setup := False\<rparr> in
      case nat_tap m1 of
        None \<Rightarrow> (m1, w)
      | Some tap \<Rightarrow>
          (let m2 = m1\<lparr>nat_tap := None\<rparr>; host_iface = host_iface_or w
           in (m2, w\<lparr>issued := issued w @
                [Iptables (masquerade ''-D'' host_iface),
                 Iptables (forward ''-D'' ''-i'' tap),
                 Iptables (forward ''-D'' ''-o'' tap)]\<rparr>)))"

definition nat_drop :: "NatManager \<Rightarrow> nat_world \<Rightarrow> nat_world" where
  "nat_drop m w = (if is_setup m then snd (nat_teardown m w) else w)"

section \<open>The rules behind the commands\<close>

text \<open>
  The rule tables of the kernel as a multiset of table, chain and rule: \<open>-A\<close> and \<open>-I\<close> add a rule, \<open>-D\<close>
  removes one matching rule if there is any.
\<close>

type_synonym rule = "string \<times> string \<times> string list"

fun iptables :: "string list \<Rightarrow> rule multiset \<Rightarrow> rule multiset" where
  "iptables (a # b # c # ch # spec) rs =
     (if a = ''-t'' then
        (if c = ''-D'' then rs - {#(b, ch, spec)#} else add_mset (b, ch, spec) rs)
      else
        (if a = ''-D'' then rs - {#(''filter'', b, c # ch # spec)#} else add_mset (''filter'', b, c # ch # spec) rs))"
| "iptables args rs = rs"

fun run_cmd :: "host_cmd \<Rightarrow> rule multiset \<Rightarrow> rule multiset" where
  "run_cmd (WriteFile p s) rs = rs"
| "run_cmd (Iptables args) rs = iptables args rs"

definition rules_of :: "rule multiset \<Rightarrow> host_cmd list \<Rightarrow> rule multiset" where
  "rules_of rs cmds = fold run_cmd cmds rs"

definition nat_rules :: "string \<Rightarrow> string \<Rightarrow> rule multiset" where
  "nat_rules host_iface tap =
     {#(''nat'', ''POSTROUTING'', [''-o'', host_iface, ''-s'', ''10.0.2.0/24'', ''-j'', ''MASQUERADE'']),
       (''filter'', ''FORWARD'', [''-i'', tap, ''-j'', ''ACCEPT'']),
       (''filter'', ''FORWARD'', [''-o'', tap, ''-j'', ''ACCEPT''])#}"

lemma rules_of_append: "rules_of rs (xs @ ys) = rules_of (rules_of rs xs) ys"
  by (simp add: rules_of_def)

lemma nat_setup_rules:
  assumes "nat_setup tap m w = (m1, m2, w')"
  shows "rules_of rs (issued w') = rules_of rs (issued w) + nat_rules (host_iface_or w) tap"
    and "nat_tap m1 = Some tap" and "is_setup m1" and "nat_tap m2 = Some tap" and "is_setup m2"
    and "proc_route w' = proc_route w"
  using assms
  by (auto simp: nat_setup_def Let_def rules_of_def masquerade_def forward_def nat_rules_def)

lemma nat_teardown_rules:
  assumes "is_setup m" and "nat_tap m = Some tap" and "nat_teardown m w = (m', w')"
  shows "rules_of rs (issued w') = rules_of rs (issued w) - nat_rules (host_iface_or w) tap"
    and "\<not> is_setup m'" and "nat_tap m' = None" and "proc_route w' = proc_route w"
  using assms
  by (auto simp: nat_teardown_def Let_def rules_of_def masquerade_def forward_def nat_rules_def add_mset_commute)

lemma host_iface_cong: "proc_route w = proc_route w' \<Longrightarrow> host_iface_or w = host_iface_or w'"
  by (simp add: host_iface_or_def host_interface_def)

text \<open>Setting up and tearing down leaves the rules as they were, and a second teardown is a no-op.\<close>



text \<open>
  \<open>setup\<close> leaves two managers that both believe they own the rules.  When both are dropped the rules are
  deleted twice, and an identical rule installed by someone else goes with them.
\<close>

theorem nat_double_drop:
  assumes "nat_setup tap m w = (m1, m2, w1)"
  shows "rules_of rs (issued (nat_drop m2 (nat_drop m1 w1))) = rules_of rs (issued w) - nat_rules (host_iface_or w) tap"
proof -
  note s = nat_setup_rules [OF assms]
  obtain m3 w2 where 1: "nat_teardown m1 w1 = (m3, w2)" by fastforce
  obtain m4 w3 where 2: "nat_teardown m2 w2 = (m4, w3)" by fastforce
  note t1 = nat_teardown_rules [OF s(3,2) 1] and t2 = nat_teardown_rules [OF s(5,4) 2]
  have "host_iface_or w1 = host_iface_or w" and "host_iface_or w2 = host_iface_or w"
    using s(6) t1(4) host_iface_cong by metis+
  with s t1(1) [of rs] t2(1) [of rs] 1 2 show ?thesis
    by (simp add: nat_drop_def)
qed

section \<open>Addresses on the wire\<close>

definition show_ip :: "u8 \<Rightarrow> u8 \<Rightarrow> u8 \<Rightarrow> u8 \<Rightarrow> string" where
  "show_ip a b c d = show_nat (unat a) @ ''.'' @ show_nat (unat b) @ ''.'' @ show_nat (unat c) @ ''.'' @ show_nat (unat d)"

lemma split_on_none: "c \<notin> set xs \<Longrightarrow> split_on c xs = [xs]"
  by (induction xs) auto

lemma split_on_append: "c \<notin> set xs \<Longrightarrow> split_on c (xs @ c # ys) = xs # split_on c ys"
  by (induction xs) auto

lemma digit_char_nonzero: "0 < d \<Longrightarrow> d < 10 \<Longrightarrow> digit_char d \<noteq> CHR ''0''"
proof
  assume d: "0 < d" "d < 10" and "digit_char d = CHR ''0''"
  then have "(of_char (digit_char d) :: nat) = 48" by simp
  with d show False by (simp add: digit_char_def)
qed

lemma show_nat_octet:
  assumes "n < 256"
  shows "length (show_nat n) \<le> 3 \<and> (1 < length (show_nat n) \<longrightarrow> hd (show_nat n) \<noteq> CHR ''0'')"
proof -
  have step: "show_radix 10 k = (if k < 10 then [digit_char k] else show_radix 10 (k div 10) @ [digit_char (k mod 10)])" for k
    by (subst show_radix.simps) simp
  consider "n < 10" | "10 \<le> n" "n < 100" | "100 \<le> n" by linarith
  then show ?thesis
  proof cases
    case 1
    then show ?thesis using step [of n] by (simp add: show_nat_def)
  next
    case 2
    then have "n div 10 < 10" "0 < n div 10" by simp_all
    with 2 show ?thesis
      using step [of n] step [of "n div 10"] digit_char_nonzero [of "n div 10"] by (simp add: show_nat_def)
  next
    case 3
    then have "n div 10 div 10 < 10" "0 < n div 10 div 10" "\<not> n div 10 < 10" using assms by simp_all
    with 3 show ?thesis
      using step [of n] step [of "n div 10"] step [of "n div 10 div 10"] digit_char_nonzero [of "n div 10 div 10"]
      by (simp add: show_nat_def)
  qed
qed

lemma show_nat_digits: "list_all is_digit (show_nat n)" "CHR ''.'' \<notin> set (show_nat n)" "show_nat n \<noteq> []"
proof -
  show d: "list_all is_digit (show_nat n)"
    using show_radix_digits [of n] unfolding list_all_iff show_nat_def by blast
  have "\<not> is_digit (CHR ''.'')" by (simp add: is_digit_def)
  with d show "CHR ''.'' \<notin> set (show_nat n)" by (auto simp: list_all_iff)
  show "show_nat n \<noteq> []" by (simp add: show_nat_def)
qed

lemma parse_octet_show: "parse_octet (show_nat (unat a)) = Some a"
proof -
  have "unat a < 256" using unsigned_less [of a, where 'a = nat] by simp
  with show_nat_octet [OF this] show_nat_digits [of "unat a"] parse_show_nat [of "unat a" 256] show ?thesis
    by (auto simp: parse_octet_def)
qed

lemma ipv4_parse_show: "ipv4_parse (show_ip a b c d) = Some [a, b, c, d]"
  by (simp add: ipv4_parse_def show_ip_def split_on_append split_on_none show_nat_digits parse_octet_show)

text \<open>
  The address a caller writes in dotted form reaches the kernel with its bytes reversed: the field of the
  request that the kernel reads in network order holds the octets from last to first.
\<close>

theorem set_ip_address_bytes:
  "set_ip_address N t (show_ip a b c d) =
     tap_ioctl N t SIOCSIFADDR ''SIOCSIFADDR''
       ((set_name (tap_name t) ifreq_new)\<lparr>ifr_data := [2, 0, 0, 0] @ [d, c, b, a] @ replicate 16 0\<rparr>)"
proof -
  have addr: "to_le 4 (from_be [a, b, c, d] :: u32) = [d, c, b, a]"
    using to_le_from_le [of "[d, c, b, a]", where 'a = 32] by (simp add: from_be_def)
  have "splice (replicate 24 0) 0 (sockaddr_bytes AF_INET (from_be [a, b, c, d])) =
      [2, 0, 0, 0] @ [d, c, b, a] @ replicate 8 0 @ replicate 8 0"
    using addr by (simp add: sockaddr_bytes_def splice_def core_consts)
  also have "replicate 8 (0 :: u8) @ replicate 8 0 = replicate 16 0"
    by (simp flip: replicate_add)
  finally show ?thesis
    by (simp add: set_ip_address_def lift_outcome_Ok parse_ip_def ipv4_parse_show address_request_def
        set_sockaddr_in_def set_name_def ifreq_new_def Let_def)
qed

end
