(* ===== verification/LD_Audio.thy ===== *)
theory LD_Audio
  imports LD_Devices
begin

text \<open>The crate \<^verbatim>\<open>crates/audio\<close>: a device whose data register fills a buffer that is discarded when half full.\<close>

definition AUDIO_BUF_SIZE :: nat where "AUDIO_BUF_SIZE = 4096"
definition FLUSH_THRESHOLD :: nat where "FLUSH_THRESHOLD = 2048"
definition REG_CTRL :: u64 where [core_consts]: "REG_CTRL = 0x00"
definition REG_DATA :: u64 where [core_consts]: "REG_DATA = 0x04"
definition REG_SAMPLE_RATE :: u64 where [core_consts]: "REG_SAMPLE_RATE = 0x08"
definition REG_CHANNELS :: u64 where [core_consts]: "REG_CHANNELS = 0x0C"
definition REG_STATUS :: u64 where [core_consts]: "REG_STATUS = 0x10"

datatype AudioBackend = PulseAudio string | Disabled

record AudioDevice =
  audio_buffer :: bytes
  sample_rate :: u32
  channels :: u32
  audio_status :: u32

definition audio_new :: AudioDevice where
  "audio_new = \<lparr>audio_buffer = [], sample_rate = 48000, channels = 2, audio_status = 0\<rparr>"

definition flush_buffer :: "AudioDevice \<Rightarrow> AudioDevice" where
  "flush_buffer d = (if length (audio_buffer d) \<ge> FLUSH_THRESHOLD then d\<lparr>audio_buffer := []\<rparr> else d)"

definition audio_mmio_read :: "AudioDevice \<Rightarrow> u64 \<Rightarrow> u32 \<Rightarrow> u64 \<times> AudioDevice" where
  "audio_mmio_read d off sz =
     (if off = REG_CTRL then 0
      else if off = REG_DATA then 0
      else if off = REG_SAMPLE_RATE then ucast (sample_rate d)
      else if off = REG_CHANNELS then ucast (channels d)
      else if off = REG_STATUS then ucast (audio_status d)
      else 0, d)"

definition audio_mmio_write :: "AudioDevice \<Rightarrow> u64 \<Rightarrow> u32 \<Rightarrow> u64 \<Rightarrow> AudioDevice" where
  "audio_mmio_write d off sz v =
     (if off = REG_CTRL then d
      else if off = REG_DATA then
        flush_buffer (if length (audio_buffer d) < AUDIO_BUF_SIZE
          then d\<lparr>audio_buffer := audio_buffer d @ [ucast v]\<rparr> else d)
      else if off = REG_SAMPLE_RATE then d\<lparr>sample_rate := ucast v\<rparr>
      else if off = REG_CHANNELS then d\<lparr>channels := ucast v\<rparr>
      else if off = REG_STATUS then d\<lparr>audio_status := ucast v\<rparr>
      else d)"

definition audio_reset :: "AudioDevice \<Rightarrow> AudioDevice" where
  "audio_reset d = d\<lparr>audio_buffer := [], sample_rate := 48000, channels := 2, audio_status := 0\<rparr>"

definition audio_name :: "AudioDevice \<Rightarrow> string" where
  "audio_name d = ''virtio-audio''"

definition audio_device_type :: "AudioDevice \<Rightarrow> string" where
  "audio_device_type d = ''audio''"

definition audio_compatible :: "AudioDevice \<Rightarrow> string" where
  "audio_compatible d = ''virtio,audio''"

interpretation audio: virt_device audio_mmio_read audio_mmio_write audio_reset "\<lambda>_. REG_STATUS" audio_status
  by unfold_locales
    (auto simp: audio_mmio_read_def audio_mmio_write_def audio_reset_def flush_buffer_def core_consts)

section \<open>The buffer\<close>

definition audio_ok :: "AudioDevice \<Rightarrow> bool" where
  "audio_ok d \<longleftrightarrow> length (audio_buffer d) < FLUSH_THRESHOLD"

lemma audio_ok_ops:
  "audio_ok audio_new" "audio_ok d \<Longrightarrow> audio_ok (audio_mmio_write d off n v)" "audio_ok (audio_reset d)"
  by (auto simp: audio_ok_def audio_new_def audio_reset_def audio_mmio_write_def flush_buffer_def
      FLUSH_THRESHOLD_def AUDIO_BUF_SIZE_def)

definition play :: "AudioDevice \<Rightarrow> u8 list \<Rightarrow> AudioDevice" where
  "play d samples = foldl (\<lambda>d s. audio_mmio_write d REG_DATA 1 (ucast s)) d samples"

lemma ucast_sample [simp]: "ucast (ucast (s :: u8) :: u64) = s"
  by (intro bit_word_eqI) (simp add: bit_simps)

lemma play_step:
  assumes "audio_ok d"
  shows "audio_buffer (audio_mmio_write d REG_DATA 1 (ucast s)) =
     (if length (audio_buffer d) + 1 = FLUSH_THRESHOLD then [] else audio_buffer d @ [s])"
  using assms
  by (auto simp: audio_ok_def audio_mmio_write_def flush_buffer_def FLUSH_THRESHOLD_def AUDIO_BUF_SIZE_def core_consts)

text \<open>
  The device behaves as an unbounded stream cut into blocks of the flush threshold: after any samples the
  buffer holds what has come since the last complete block, and nothing is ever dropped by the capacity check.
\<close>

theorem audio_buffer_blocks:
  "audio_buffer (play audio_new samples) = drop (length samples div FLUSH_THRESHOLD * FLUSH_THRESHOLD) samples"
proof -
  have "audio_ok (play audio_new samples) \<and>
      audio_buffer (play audio_new samples) = drop (length samples div FLUSH_THRESHOLD * FLUSH_THRESHOLD) samples"
  proof (induction samples rule: rev_induct)
    case Nil
    then show ?case by (simp add: play_def audio_ok_ops) (simp add: audio_new_def)
  next
    case (snoc s samples)
    let ?d = "play audio_new samples"
    have play: "play audio_new (samples @ [s]) = audio_mmio_write ?d REG_DATA 1 (ucast s)"
      by (simp add: play_def)
    have len: "length (audio_buffer ?d) = length samples mod FLUSH_THRESHOLD"
      using snoc by (simp add: minus_div_mult_eq_mod)
    have pos: "0 < FLUSH_THRESHOLD" by (simp add: FLUSH_THRESHOLD_def)
    show ?case
    proof (cases "Suc (length samples mod FLUSH_THRESHOLD) = FLUSH_THRESHOLD")
      case True
      then have "Suc (length samples) mod FLUSH_THRESHOLD = 0"
        by (simp add: mod_Suc)
      then have "Suc (length samples) div FLUSH_THRESHOLD * FLUSH_THRESHOLD = Suc (length samples)"
        using div_mult_mod_eq [of "Suc (length samples)" FLUSH_THRESHOLD] by simp
      with True len snoc show ?thesis
        by (simp add: play play_step audio_ok_ops)
    next
      case False
      then have "Suc (length samples) div FLUSH_THRESHOLD = length samples div FLUSH_THRESHOLD"
        by (simp add: div_Suc mod_Suc)
      with False len snoc show ?thesis
        by (simp add: play play_step audio_ok_ops)
    qed
  qed
  then show ?thesis by simp
qed

end
