(* ===== verification/LD_Bus.thy ===== *)
theory LD_Bus
  imports LD_Storage LD_Network LD_Audio
begin

text \<open>
  The bus with the devices of the program behind it.  A boxed \<open>dyn VirtDevice\<close> is a tagged union of the five devices, and
  a call through it goes to the operations of the tag.  What every device promises (the locale \<open>virt_device\<close>)
  holds of the union, and the laws of the bus follow from it.
\<close>

section \<open>A bus of devices that keep the contract\<close>

context virt_device
begin

text \<open>
  A value written to the status register of slot \<open>i\<close> is read back from it, the status of every other slot is unaffected, and
  a reset of the bus clears them all.
\<close>

lemma bus_status:
  assumes "vt_mmio_read vt = mmio_read" and "vt_mmio_write vt = mmio_write" and "vt_reset vt = reset"
    and "bus_ok b" and "i < device_count b" and "status_reg (devices b ! i) < VIRTIO_MMIO_SIZE"
  shows "let b' = bus_write vt (slot_address i (status_reg (devices b ! i))) n v b in
     fst (bus_read vt (slot_address i (status_reg (devices b ! i))) k b') = ucast (ucast v :: u32)
     \<and> map status_of (devices b') = (map status_of (devices b))[i := ucast v]
     \<and> map status_of (devices (reset_all vt b')) = replicate (device_count b) 0"
proof -
  let ?r = "status_reg (devices b ! i)"
  let ?b = "bus_write vt (slot_address i ?r) n v b"
  have i: "i < length (devices b)" using assms(5) by (simp add: device_count_def)
  have b: "?b = b\<lparr>devices := (devices b)[i := mmio_write (devices b ! i) ?r n v]\<rparr>"
    using assms(2,4-6) by (simp add: bus_write_slot)
  have "bus_ok ?b" and "i < device_count ?b" using assms(4,5) i by (simp_all add: b bus_ok_def device_count_def)
  then have "fst (bus_read vt (slot_address i ?r) k ?b) = fst (mmio_read (devices ?b ! i) ?r k)"
    using assms(1,6) by (simp add: bus_read_slot)
  also have "\<dots> = ucast (ucast v :: u32)"
    using i status_round_trip [of "devices b ! i" n v k] by (simp add: b)
  finally have "fst (bus_read vt (slot_address i ?r) k ?b) = ucast (ucast v :: u32)" .
  moreover have "map status_of (devices ?b) = (map status_of (devices b))[i := ucast v]"
    by (simp add: b map_update write_status)
  moreover have "map status_of (devices (reset_all vt ?b)) = replicate (device_count b) 0"
    using assms(3) by (simp add: b reset_all_def device_count_def reset_status comp_def map_replicate_const)
  ultimately show ?thesis by (simp only: Let_def)
qed

end

section \<open>The union of the devices\<close>

datatype 'f any_device =
    SerialDevice VirtioSerialDevice
  | RngDevice "'f VirtioRngDevice"
  | BlkDevice VirtioBlkDevice
  | NetDevice VirtioNetDevice
  | SoundDevice AudioDevice

fun any_mmio_read :: "('f \<Rightarrow> nat \<Rightarrow> bytes option \<times> 'f) \<Rightarrow> 'f any_device \<Rightarrow> u64 \<Rightarrow> u32 \<Rightarrow> u64 \<times> 'f any_device" where
  "any_mmio_read rd (SerialDevice d) off sz = map_prod id SerialDevice (serial_mmio_read d off sz)"
| "any_mmio_read rd (RngDevice d) off sz = map_prod id RngDevice (rng_mmio_read rd d off sz)"
| "any_mmio_read rd (BlkDevice d) off sz = map_prod id BlkDevice (blk_mmio_read d off sz)"
| "any_mmio_read rd (NetDevice d) off sz = map_prod id NetDevice (net_mmio_read d off sz)"
| "any_mmio_read rd (SoundDevice d) off sz = map_prod id SoundDevice (audio_mmio_read d off sz)"

fun any_mmio_write :: "'f any_device \<Rightarrow> u64 \<Rightarrow> u32 \<Rightarrow> u64 \<Rightarrow> 'f any_device" where
  "any_mmio_write (SerialDevice d) off sz v = SerialDevice (serial_mmio_write d off sz v)"
| "any_mmio_write (RngDevice d) off sz v = RngDevice (rng_mmio_write d off sz v)"
| "any_mmio_write (BlkDevice d) off sz v = BlkDevice (blk_mmio_write d off sz v)"
| "any_mmio_write (NetDevice d) off sz v = NetDevice (net_mmio_write d off sz v)"
| "any_mmio_write (SoundDevice d) off sz v = SoundDevice (audio_mmio_write d off sz v)"

fun any_reset :: "'f any_device \<Rightarrow> 'f any_device" where
  "any_reset (SerialDevice d) = SerialDevice (serial_reset d)"
| "any_reset (RngDevice d) = RngDevice (rng_reset d)"
| "any_reset (BlkDevice d) = BlkDevice (blk_reset d)"
| "any_reset (NetDevice d) = NetDevice (net_reset d)"
| "any_reset (SoundDevice d) = SoundDevice (audio_reset d)"

fun any_status_reg :: "'f any_device \<Rightarrow> u64" where
  "any_status_reg (SerialDevice d) = 0x40"
| "any_status_reg (RngDevice d) = 0x40"
| "any_status_reg (BlkDevice d) = 0x30"
| "any_status_reg (NetDevice d) = 0x30"
| "any_status_reg (SoundDevice d) = REG_STATUS"

fun any_status :: "'f any_device \<Rightarrow> u32" where
  "any_status (SerialDevice d) = serial_status d"
| "any_status (RngDevice d) = rng_status d"
| "any_status (BlkDevice d) = blk_status d"
| "any_status (NetDevice d) = net_status d"
| "any_status (SoundDevice d) = audio_status d"

fun any_name :: "'f any_device \<Rightarrow> string" where
  "any_name (SerialDevice d) = serial_name d"
| "any_name (RngDevice d) = rng_name d"
| "any_name (BlkDevice d) = blk_name d"
| "any_name (NetDevice d) = net_name d"
| "any_name (SoundDevice d) = audio_name d"

fun any_device_type :: "'f any_device \<Rightarrow> string" where
  "any_device_type (SerialDevice d) = serial_device_type d"
| "any_device_type (RngDevice d) = rng_device_type d"
| "any_device_type (BlkDevice d) = blk_device_type d"
| "any_device_type (NetDevice d) = net_device_type d"
| "any_device_type (SoundDevice d) = audio_device_type d"

fun any_compatible :: "'f any_device \<Rightarrow> string" where
  "any_compatible (SerialDevice d) = serial_compatible d"
| "any_compatible (RngDevice d) = rng_compatible d"
| "any_compatible (BlkDevice d) = blk_compatible d"
| "any_compatible (NetDevice d) = net_compatible d"
| "any_compatible (SoundDevice d) = audio_compatible d"

definition any_table :: "('f \<Rightarrow> nat \<Rightarrow> bytes option \<times> 'f) \<Rightarrow> 'f any_device vtable" where
  "any_table rd = \<lparr>vt_name = any_name, vt_device_type = any_device_type, vt_mmio_read = any_mmio_read rd,
     vt_mmio_write = any_mmio_write, vt_reset = any_reset, vt_device_tree_compatible = any_compatible\<rparr>"

text \<open>
  How a device is identified: each of the three strings determines its kind, the compatible string is made from the type, and no access
  changes any of them.
\<close>

lemmas device_identity = serial_name_def serial_device_type_def serial_compatible_def rng_name_def rng_device_type_def rng_compatible_def
  blk_name_def blk_device_type_def blk_compatible_def net_name_def net_device_type_def net_compatible_def
  audio_name_def audio_device_type_def audio_compatible_def

lemma any_identity:
  "any_compatible d = ''virtio,'' @ any_device_type d"
  "any_name d = any_name d' \<longleftrightarrow> any_device_type d = any_device_type d'"
  by (cases d; simp add: device_identity) (cases d; cases d'; simp add: device_identity)

lemma any_identity_kept:
  "any_device_type (snd (any_mmio_read rd d off n)) = any_device_type d" "any_device_type (any_mmio_write d off n v) = any_device_type d"
  "any_device_type (any_reset d) = any_device_type d"
  by (cases d; simp add: device_identity)+

interpretation any: virt_device "any_mmio_read rd" any_mmio_write any_reset any_status_reg any_status for rd
proof unfold_locales
  fix d :: "'a any_device" and n off v
  show "fst (any_mmio_read rd d (any_status_reg d) n) = ucast (any_status d)"
    by (cases d) (simp_all add: serial.read_status rng.read_status blk.read_status net.read_status audio.read_status)
  show "any_status (snd (any_mmio_read rd d off n)) = any_status d"
    by (cases d) (simp_all add: serial.read_keeps rng.read_keeps blk.read_keeps net.read_keeps audio.read_keeps)
  show "any_status_reg (snd (any_mmio_read rd d off n)) = any_status_reg d"
    by (cases d) simp_all
  show "any_status (any_mmio_write d (any_status_reg d) n v) = ucast v"
    by (cases d) (simp_all add: serial.write_status rng.write_status blk.write_status net.write_status audio.write_status)
  show "off \<noteq> any_status_reg d \<Longrightarrow> any_status (any_mmio_write d off n v) = any_status d"
    by (cases d) (simp_all add: serial.write_keeps rng.write_keeps blk.write_keeps net.write_keeps audio.write_keeps)
  show "any_status_reg (any_mmio_write d off n v) = any_status_reg d"
    by (cases d) simp_all
  show "any_status (any_reset d) = 0"
    by (cases d) (simp_all add: serial.reset_status rng.reset_status blk.reset_status net.reset_status audio.reset_status)
  show "any_status_reg (any_reset d) = any_status_reg d"
    by (cases d) simp_all
  show "any_reset (any_reset d) = any_reset d"
    by (cases d) (simp_all add: serial.reset_idem rng.reset_idem blk.reset_idem net.reset_idem audio.reset_idem)
qed

text \<open>
  C29. On a bus of any mixture of the five devices, a write to the status register of one
  device is read back there (cut to 32 bits) and changes the status of no other device, and
  resetting the bus clears the status of all.
\<close>

theorem bus_status_registers:
  fixes b :: "'f any_device VirtioBus"
  assumes "bus_ok b" and "i < device_count b"
  shows "let vt = any_table rd; a = slot_address i (any_status_reg (devices b ! i)); b' = bus_write vt a n v b in
     fst (bus_read vt a k b') = ucast (ucast v :: u32)
     \<and> map any_status (devices b') = (map any_status (devices b))[i := ucast v]
     \<and> map any_status (devices (reset_all vt b')) = replicate (device_count b) 0"
proof -
  have "any_status_reg d < VIRTIO_MMIO_SIZE" for d :: "'f any_device"
    by (cases d) (simp_all add: core_consts)
  then show ?thesis
    using any.bus_status [of "any_table rd" rd b i n v k] assms by (simp add: any_table_def Let_def)
qed

definition demo_bus :: "bytes any_device VirtioBus" where
  "demo_bus = \<lparr>devices = [SerialDevice serial_new, RngDevice (rng_new []), SoundDevice audio_new]\<rparr>"

theorem bus_status_registers_witness:
  "let vt = any_table (\<lambda>f n. (Some (take n f), drop n f)); a = slot_address 1 0x40; b' = bus_write vt a 4 0xF demo_bus in
     fst (bus_read vt a 4 b') = 0xF \<and> map any_status (devices b') = [0, 0xF, 0]
     \<and> map any_status (devices (reset_all vt b')) = [0, 0, 0]"
proof -
  have "bus_ok demo_bus" and "1 < device_count demo_bus"
    by (simp_all add: demo_bus_def bus_ok_def device_count_def core_consts)
  from bus_status_registers [OF this, of "\<lambda>f n. (Some (take n f), drop n f)" 4 "0xF" 4] show ?thesis
    by (simp add: demo_bus_def Let_def serial_new_def rng_new_def audio_new_def device_count_def numeral_3_eq_3)
qed

end
