(* ===== verification/LD_Graphics.thy ===== *)
theory LD_Graphics
  imports LD_Core
begin

text \<open>
  The crate \<^verbatim>\<open>crates/graphics\<close>: the RGBA framebuffer with its bounds-checked pixel access and the two
  rectangle copies, and the headless display.  A \<open>usize\<close> is 64 bits and its arithmetic wraps.
\<close>

record Framebuffer =
  fb_width :: u32
  fb_height :: u32
  pixels :: bytes

text \<open>A request for more than \<open>isize::MAX\<close> bytes makes \<open>vec!\<close> panic.\<close>

definition fb_bytes :: "u32 \<Rightarrow> u32 \<Rightarrow> u64" where
  "fb_bytes w h = ucast w * ucast h * 4"

definition framebuffer_new :: "u32 \<Rightarrow> u32 \<Rightarrow> ('e, Framebuffer) outcome" where
  "framebuffer_new w h =
     (if unat (fb_bytes w h) < 2 ^ 63
      then Ok \<lparr>fb_width = w, fb_height = h, pixels = replicate (unat (fb_bytes w h)) 0\<rparr>
      else Panic)"

definition stride :: "Framebuffer \<Rightarrow> u32" where
  "stride fb = fb_width fb * 4"

definition pixel_index :: "Framebuffer \<Rightarrow> u32 \<Rightarrow> u32 \<Rightarrow> u64" where
  "pixel_index fb x y = (ucast y * ucast (fb_width fb) + ucast x) * 4"

definition set_pixel :: "Framebuffer \<Rightarrow> u32 \<Rightarrow> u32 \<Rightarrow> u8 \<Rightarrow> u8 \<Rightarrow> u8 \<Rightarrow> u8 \<Rightarrow> ('e, Framebuffer) outcome" where
  "set_pixel fb x y r g b a =
     (if x \<ge> fb_width fb \<or> y \<ge> fb_height fb then Ok fb
      else let idx = unat (pixel_index fb x y) in
        if idx + 3 < length (pixels fb)
        then Ok (fb\<lparr>pixels := (pixels fb)[idx := r, idx + 1 := g, idx + 2 := b, idx + 3 := a]\<rparr>)
        else Panic)"

definition get_pixel :: "Framebuffer \<Rightarrow> u32 \<Rightarrow> u32 \<Rightarrow> ('e, u8 \<times> u8 \<times> u8 \<times> u8) outcome" where
  "get_pixel fb x y =
     (if x \<ge> fb_width fb \<or> y \<ge> fb_height fb then Ok (0, 0, 0, 0)
      else let idx = unat (pixel_index fb x y) in
        if idx + 3 < length (pixels fb)
        then Ok (pixels fb ! idx, pixels fb ! (idx + 1), pixels fb ! (idx + 2), pixels fb ! (idx + 3))
        else Panic)"

fun fill_chunks :: "bytes \<Rightarrow> bytes \<Rightarrow> bytes" where
  "fill_chunks color (a # b # c # d # rest) = color @ fill_chunks color rest"
| "fill_chunks color bs = bs"

definition fill :: "Framebuffer \<Rightarrow> bytes \<Rightarrow> Framebuffer" where
  "fill fb color = fb\<lparr>pixels := fill_chunks color (pixels fb)\<rparr>"

section \<open>Rectangle copies\<close>

text \<open>
  One row of a copy: \<open>None\<close> is the \<open>break\<close> below the last row; a \<open>continue\<close> leaves the destination as it is.
  \<open>copy_row\<close> is the copy of \<open>actual\<close> bytes between two slices.
\<close>

definition copy_row :: "bytes \<Rightarrow> u64 \<Rightarrow> bytes \<Rightarrow> u64 \<Rightarrow> u64 \<Rightarrow> ('e, bytes) outcome" where
  "copy_row dst dst_start src src_start n =
     bind_outcome (idx_range dst (unat dst_start) (unat (dst_start + n))) (\<lambda>_.
     bind_outcome (idx_range src (unat src_start) (unat (src_start + n))) (\<lambda>data.
     Ok (splice dst (unat dst_start) data)))"

definition copy_width :: "Framebuffer \<Rightarrow> u32 \<Rightarrow> u32 \<Rightarrow> u64" where
  "copy_width fb x w = min (ucast w) (ucast (fb_width fb) - ucast x) * 4"

definition blit_from_row ::
  "bytes \<Rightarrow> u32 \<Rightarrow> u32 \<Rightarrow> u32 \<Rightarrow> u32 \<Rightarrow> Framebuffer \<Rightarrow> nat \<Rightarrow> ('e, Framebuffer option) outcome" where
  "blit_from_row src src_stride x y w fb row =
     (let sy = ucast y + of_nat row :: u64 in
      if sy \<ge> ucast (fb_height fb) then Ok None
      else
        let src_row_start = of_nat row * ucast src_stride :: u64;
            src_end = min (src_row_start + copy_width fb x w) (of_nat (length src));
            actual = src_end - src_row_start in
        if actual = 0 then Ok (Some fb)
        else
          let dst_start = sy * ucast (stride fb) + ucast x * 4;
              dst_end = min (dst_start + actual) (of_nat (length (pixels fb)));
              actual = dst_end - dst_start in
          if actual = 0 then Ok (Some fb)
          else bind_outcome (copy_row (pixels fb) dst_start src src_row_start actual)
                 (\<lambda>p. Ok (Some (fb\<lparr>pixels := p\<rparr>))))"

fun blit_rows :: "('b \<Rightarrow> nat \<Rightarrow> ('e, 'b option) outcome) \<Rightarrow> nat list \<Rightarrow> 'b \<Rightarrow> ('e, 'b) outcome" where
  "blit_rows f [] b = Ok b"
| "blit_rows f (r # rs) b =
     (case f b r of Ok (Some b') \<Rightarrow> blit_rows f rs b' | Ok None \<Rightarrow> Ok b | Err e \<Rightarrow> Err e | Panic \<Rightarrow> Panic)"

definition blit_from ::
  "Framebuffer \<Rightarrow> bytes \<Rightarrow> u32 \<Rightarrow> u32 \<Rightarrow> u32 \<Rightarrow> u32 \<Rightarrow> u32 \<Rightarrow> ('e, Framebuffer) outcome" where
  "blit_from fb src src_stride x y w h = blit_rows (blit_from_row src src_stride x y w) [0..<unat h] fb"

definition blit_to_row ::
  "Framebuffer \<Rightarrow> u32 \<Rightarrow> u32 \<Rightarrow> u32 \<Rightarrow> u32 \<Rightarrow> bytes \<Rightarrow> nat \<Rightarrow> ('e, bytes option) outcome" where
  "blit_to_row fb dst_stride x y w dst row =
     (let sy = ucast y + of_nat row :: u64 in
      if sy \<ge> ucast (fb_height fb) then Ok None
      else
        let src_start = sy * ucast (stride fb) + ucast x * 4;
            src_end = min (src_start + copy_width fb x w) (of_nat (length (pixels fb)));
            actual = src_end - src_start in
        if actual = 0 then Ok (Some dst)
        else
          let dst_start = of_nat row * ucast dst_stride :: u64;
              dst_end = min (dst_start + actual) (of_nat (length dst));
              actual = dst_end - dst_start in
          if actual = 0 then Ok (Some dst)
          else bind_outcome (copy_row dst dst_start (pixels fb) src_start actual) (\<lambda>p. Ok (Some p)))"

definition blit_to ::
  "Framebuffer \<Rightarrow> bytes \<Rightarrow> u32 \<Rightarrow> u32 \<Rightarrow> u32 \<Rightarrow> u32 \<Rightarrow> u32 \<Rightarrow> ('e, bytes) outcome" where
  "blit_to fb dst dst_stride x y w h = blit_rows (blit_to_row fb dst_stride x y w) [0..<unat h] dst"

section \<open>Displays\<close>

datatype DisplayEvent = Expose | Close | Resize u32 u32 | Empty

record NullDisplay =
  updated_once :: bool

definition null_display_new :: NullDisplay where
  "null_display_new = \<lparr>updated_once = False\<rparr>"

definition null_update :: "NullDisplay \<Rightarrow> Framebuffer \<Rightarrow> unit ld_result \<times> NullDisplay" where
  "null_update d fb = (Ok (), if \<not> updated_once d then d\<lparr>updated_once := True\<rparr> else d)"

definition null_close :: "NullDisplay \<Rightarrow> NullDisplay" where
  "null_close d = d"

definition null_process_events :: "NullDisplay \<Rightarrow> DisplayEvent list" where
  "null_process_events d = []"

section \<open>Pixel access\<close>

definition fb_ok :: "Framebuffer \<Rightarrow> bool" where
  "fb_ok fb \<longleftrightarrow> unat (fb_width fb) * unat (fb_height fb) * 4 < 2 ^ 63 \<and>
     length (pixels fb) = unat (fb_width fb) * unat (fb_height fb) * 4 \<and> unat (fb_width fb) * 4 < 2 ^ 32"

lemma unat_ucast_32 [simp]: "unat (ucast (a :: u32) :: u64) = unat a"
  by (rule unat_ucast_up) simp

lemma u32_less: "unat (a :: u32) < 2 ^ 32"
  using unsigned_less [of a, where 'a = nat] by simp

lemma pixel_in_range:
  assumes "x < (w :: nat)" and "y < (h :: nat)"
  shows "(y * w + x) * 4 + 3 < w * h * 4"
proof -
  have "y * w + x < y * w + w" using assms(1) by simp
  also have "y * w + w \<le> h * w" using assms(2) by (metis Suc_leI add.commute mult_Suc mult_le_mono1)
  finally show ?thesis by (simp add: mult.commute)
qed

lemma pixel_index_eq:
  assumes "fb_ok fb" and "x < fb_width fb" and "y < fb_height fb"
  shows "unat (pixel_index fb x y) = (unat y * unat (fb_width fb) + unat x) * 4"
    and "unat (pixel_index fb x y) + 3 < length (pixels fb)"
proof -
  let ?n = "(unat y * unat (fb_width fb) + unat x) * 4"
  have xy: "unat x < unat (fb_width fb)" "unat y < unat (fb_height fb)"
    using assms by (simp_all add: word_less_nat_alt)
  note r = pixel_in_range [OF xy]
  have "pixel_index fb x y = of_nat ?n"
    by (simp add: pixel_index_def)
  moreover have "?n < unat (fb_width fb) * unat (fb_height fb) * 4"
    using r by linarith
  then have "?n < 2 ^ 63"
    using assms(1) unfolding fb_ok_def by (meson less_trans)
  then have "?n < 2 ^ 64" by simp
  ultimately show "unat (pixel_index fb x y) = ?n"
    by (metis unat_of_nat_u64)
  with r assms(1) show "unat (pixel_index fb x y) + 3 < length (pixels fb)"
    by (simp add: fb_ok_def)
qed

text \<open>A pixel by its position in the row-major order of a framebuffer of width \<open>W\<close>.\<close>

lemma row_hit:
  assumes "x + w \<le> (W :: nat)" and "i < W"
  shows "Y * W + x \<le> j * W + i \<and> j * W + i < Y * W + x + w \<longleftrightarrow> j = Y \<and> x \<le> i \<and> i < x + w"
proof (cases j Y rule: linorder_cases)
  case less
  then have "Suc j * W \<le> Y * W" by (intro mult_le_mono1) simp
  with assms less show ?thesis by simp
next
  case greater
  then have "Suc Y * W \<le> j * W" by (intro mult_le_mono1) simp
  with assms greater show ?thesis by simp
qed simp

lemma byte_hit:
  assumes "x + w \<le> (W :: nat)" and "i < W" and "c < 4"
  shows "(Y * W + x) * 4 \<le> (j * W + i) * 4 + c \<and> (j * W + i) * 4 + c < (Y * W + x) * 4 + w * 4
    \<longleftrightarrow> j = Y \<and> x \<le> i \<and> i < x + w"
proof -
  have "a * 4 \<le> b * 4 + c \<longleftrightarrow> a \<le> b" and "b * 4 + c < a * 4 + w * 4 \<longleftrightarrow> b < a + w" for a b
    using assms(3) by presburger+
  then show ?thesis using row_hit [OF assms(1,2)] by (simp only:)
qed

definition byte_of :: "Framebuffer \<Rightarrow> nat \<Rightarrow> nat \<Rightarrow> nat \<Rightarrow> u8" where
  "byte_of fb i j c = pixels fb ! ((j * unat (fb_width fb) + i) * 4 + c)"

lemma get_pixel_bytes:
  assumes "fb_ok fb" and "i < fb_width fb" and "j < fb_height fb"
  shows "get_pixel fb i j = Ok (byte_of fb (unat i) (unat j) 0, byte_of fb (unat i) (unat j) 1,
    byte_of fb (unat i) (unat j) 2, byte_of fb (unat i) (unat j) 3)"
  using assms pixel_index_eq [OF assms] by (simp add: get_pixel_def byte_of_def Let_def not_le [symmetric])

lemma get_pixel_outside: "\<not> (i < fb_width fb \<and> j < fb_height fb) \<Longrightarrow> get_pixel fb i j = Ok (0, 0, 0, 0)"
  by (auto simp: get_pixel_def not_less)

theorem set_pixel_correct:
  assumes "fb_ok fb"
  shows "\<exists>fb'. set_pixel fb x y r g b a = Ok fb' \<and> fb_ok fb' \<and>
     (\<forall>i j. get_pixel fb' i j = (if i = x \<and> j = y \<and> x < fb_width fb \<and> y < fb_height fb
        then (Ok (r, g, b, a) :: (unit, _) outcome) else get_pixel fb i j))"
proof (cases "x < fb_width fb \<and> y < fb_height fb")
  case True
  let ?k = "unat (pixel_index fb x y)"
  define fb' where "fb' = fb\<lparr>pixels := splice (pixels fb) ?k [r, g, b, a]\<rparr>"
  have k: "?k = (unat y * unat (fb_width fb) + unat x) * 4" "?k + 3 < length (pixels fb)"
    using pixel_index_eq [OF assms] True by auto
  have upd: "(pixels fb)[?k := r, ?k + 1 := g, ?k + 2 := b, ?k + 3 := a] = splice (pixels fb) ?k [r, g, b, a]"
    using k(2) by (intro nth_equalityI) (auto simp: nth_splice nth_list_update nth_Cons' split: if_splits)
  have set: "set_pixel fb x y r g b a = Ok fb'" and ok: "fb_ok fb'"
    using True k(2) upd assms by (auto simp: set_pixel_def Let_def fb'_def fb_ok_def not_le)
  have bytes: "byte_of fb' (unat i) (unat j) c = (if i = x \<and> j = y then [r, g, b, a] ! c else byte_of fb (unat i) (unat j) c)"
    if "i < fb_width fb" "j < fb_height fb" "c < 4" for i j c
  proof -
    have u: "unat x + 1 \<le> unat (fb_width fb)" "unat i < unat (fb_width fb)" "unat j < unat (fb_height fb)"
      using True that by (auto simp: word_less_nat_alt)
    have "(unat j * unat (fb_width fb) + unat i) * 4 + c < length (pixels fb)"
      using pixel_in_range [OF u(2,3)] that(3) assms by (simp add: fb_ok_def)
    moreover note byte_hit [OF u(1,2) that(3), of "unat y" "unat j"]
    moreover have "i = x \<longleftrightarrow> unat i = unat x" "j = y \<longleftrightarrow> unat j = unat y"
      by (simp_all add: word_unat_eq_iff)
    ultimately show ?thesis
      using k by (auto simp: byte_of_def fb'_def nth_splice)
  qed
  have "get_pixel fb' i j = (if i = x \<and> j = y then (Ok (r, g, b, a) :: (unit, _) outcome) else get_pixel fb i j)" for i j
  proof (cases "i < fb_width fb \<and> j < fb_height fb")
    case in_range: True
    moreover have "fb_width fb' = fb_width fb" "fb_height fb' = fb_height fb" by (simp_all add: fb'_def)
    ultimately show ?thesis
      using bytes [of i j] by (simp add: get_pixel_bytes [OF ok] get_pixel_bytes [OF assms])
  next
    case False
    with True show ?thesis
      by (auto simp: get_pixel_outside fb'_def)
  qed
  with set ok True show ?thesis by auto
next
  case False
  then show ?thesis using assms by (auto simp: set_pixel_def not_less)
qed

section \<open>Rectangles inside the framebuffer\<close>

text \<open>A source rectangle of \<open>w\<close> by \<open>h\<close> pixels that fits at \<open>(x, y)\<close> and whose rows all lie in \<open>src\<close>.\<close>

definition rect_ok :: "Framebuffer \<Rightarrow> bytes \<Rightarrow> u32 \<Rightarrow> u32 \<Rightarrow> u32 \<Rightarrow> u32 \<Rightarrow> u32 \<Rightarrow> bool" where
  "rect_ok fb src src_stride x y w h \<longleftrightarrow>
     unat x + unat w \<le> unat (fb_width fb) \<and> unat y + unat h \<le> unat (fb_height fb) \<and>
     unat w * 4 \<le> unat src_stride \<and> unat h * unat src_stride \<le> length src \<and> length src < 2 ^ 63"

lemma of_nat_min_u64:
  "a < 2 ^ 64 \<Longrightarrow> b < 2 ^ 64 \<Longrightarrow> min (of_nat a :: u64) (of_nat b) = of_nat (min a b)"
  by (auto simp: min_def word_le_nat_alt unat_of_nat_u64)

lemma of_nat_diff_u64: "b \<le> a \<Longrightarrow> (of_nat a :: u64) - of_nat b = of_nat (a - b)"
  by simp

lemma of_nat_u64_zero:
  assumes "n < 2 ^ 64"
  shows "(of_nat n :: u64) = 0 \<longleftrightarrow> n = 0"
proof
  assume "(of_nat n :: u64) = 0"
  with unat_of_nat_u64 [OF assms] have "unat (0 :: u64) = n" by simp
  then show "n = 0" by simp
qed simp

lemma copy_row_ok:
  assumes "a + n \<le> length dst" and "b + n \<le> length src" and "length dst < 2 ^ 64" and "length src < 2 ^ 64"
  shows "copy_row dst (of_nat a) src (of_nat b) (of_nat n) = Ok (splice dst a (take n (drop b src)))"
proof -
  have "unat (of_nat a :: u64) = a" "unat (of_nat b :: u64) = b"
    "unat (of_nat a + of_nat n :: u64) = a + n" "unat (of_nat b + of_nat n :: u64) = b + n"
    using assms unat_of_nat_u64 [of a] unat_of_nat_u64 [of b] unat_of_nat_u64 [of "a + n"] unat_of_nat_u64 [of "b + n"]
    by simp_all
  then show ?thesis using assms by (simp add: copy_row_def)
qed

definition row_start :: "Framebuffer \<Rightarrow> nat \<Rightarrow> nat \<Rightarrow> nat" where
  "row_start fb x y = (y * unat (fb_width fb) + x) * 4"

lemma row_fits:
  assumes "fb_ok fb" and "x + w \<le> unat (fb_width fb)" and "y < unat (fb_height fb)"
  shows "row_start fb x y + w * 4 \<le> length (pixels fb)"
proof -
  have "y * unat (fb_width fb) + (x + w) \<le> Suc y * unat (fb_width fb)"
    using assms(2) by simp
  also have "\<dots> \<le> unat (fb_height fb) * unat (fb_width fb)"
    using assms(3) by (intro mult_le_mono1) simp
  finally show ?thesis
    using assms(1) by (simp add: row_start_def fb_ok_def mult.commute)
qed

lemma fb_length_less: "fb_ok fb \<Longrightarrow> length (pixels fb) < 2 ^ 63"
  by (simp add: fb_ok_def)

lemma ucast_u64: "(ucast (a :: u32) :: u64) = of_nat (unat a)"
  by simp

lemma copy_width_eq:
  assumes "unat x + unat w \<le> unat (fb_width fb)"
  shows "copy_width fb x w = of_nat (unat w * 4)"
proof -
  have "(ucast (fb_width fb) - ucast x :: u64) = of_nat (unat (fb_width fb) - unat x)"
    using assms by (simp add: of_nat_diff)
  moreover have "min (of_nat (unat w) :: u64) (of_nat (unat (fb_width fb) - unat x)) = of_nat (unat w)"
  proof -
    have "min (unat w) (unat (fb_width fb) - unat x) = unat w" using assms by simp
    moreover have "unat w < 2 ^ 64" "unat (fb_width fb) - unat x < 2 ^ 64"
      using u32_less [of w] u32_less [of "fb_width fb"] by simp_all
    ultimately show ?thesis using of_nat_min_u64 by metis
  qed
  ultimately show ?thesis by (simp add: copy_width_def)
qed

lemma dst_start_eq:
  assumes "fb_ok fb"
  shows "(ucast y + of_nat row) * ucast (stride fb) + ucast x * 4 = (of_nat (row_start fb (unat x) (unat y + row)) :: u64)"
proof -
  have "unat (stride fb) = unat (fb_width fb) * 4"
    using assms by (simp add: stride_def fb_ok_def unat_word_ariths)
  then have "(ucast (stride fb) :: u64) = of_nat (unat (fb_width fb) * 4)"
    by (simp only: ucast_u64)
  then show ?thesis
    by (simp add: row_start_def algebra_simps)
qed

lemma row_inside:
  assumes "sy = (ucast (y :: u32) + of_nat row :: u64)" and "unat y + row < unat (ht :: u32)"
  shows "\<not> sy \<ge> ucast ht"
proof -
  have "unat y + row < 2 ^ 64" using assms(2) u32_less [of ht] by simp
  then have "unat (of_nat (unat y + row) :: u64) = unat y + row" by (rule unat_of_nat_u64)
  moreover have "sy = of_nat (unat y + row)" using assms(1) by simp
  ultimately show ?thesis
    using assms(2) by (simp add: word_le_nat_alt del: of_nat_add)
qed

lemma src_row_fits:
  assumes "rect_ok fb src src_stride x y w h" and "row < unat h"
  shows "row * unat src_stride + unat w * 4 \<le> length src"
proof -
  have "row * unat src_stride + unat w * 4 \<le> Suc row * unat src_stride"
    using assms(1) by (simp add: rect_ok_def)
  also have "\<dots> \<le> unat h * unat src_stride"
    using assms(2) by (intro mult_le_mono1) simp
  finally show ?thesis using assms(1) by (simp add: rect_ok_def)
qed

lemma span_eq:
  assumes "a + n \<le> len" and "len < 2 ^ 63"
  shows "min (of_nat a + of_nat n) (of_nat len) - (of_nat a :: u64) = of_nat n"
proof -
  have "min (of_nat (a + n) :: u64) (of_nat len) = of_nat (a + n)"
    using assms by (subst of_nat_min_u64) (simp_all add: min_def)
  then show ?thesis by simp
qed

lemma blit_from_row_ok:
  assumes fb: "fb_ok fb" and rect: "rect_ok fb src src_stride x y w h" and row: "row < unat h"
  shows "blit_from_row src src_stride x y w fb row = Ok (Some (fb\<lparr>pixels :=
     splice (pixels fb) (row_start fb (unat x) (unat y + row)) (take (unat w * 4) (drop (row * unat src_stride) src))\<rparr>))"
proof -
  let ?a = "row_start fb (unat x) (unat y + row)" and ?b = "row * unat src_stride" and ?n = "unat w * 4"
  have r: "unat x + unat w \<le> unat (fb_width fb)" "unat y + row < unat (fb_height fb)" "length src < 2 ^ 63"
    using rect row by (auto simp: rect_ok_def)
  note src = src_row_fits [OF rect row] and dst = row_fits [OF fb r(1,2)]
  have b: "of_nat row * ucast src_stride = (of_nat ?b :: u64)" by simp
  have n0: "(of_nat ?n :: u64) = 0 \<longleftrightarrow> ?n = 0"
    using u32_less [of w] by (intro of_nat_u64_zero) simp
  have 1: "min (of_nat ?b + copy_width fb x w) (of_nat (length src)) - of_nat ?b = (of_nat ?n :: u64)"
    unfolding copy_width_eq [OF r(1)] by (rule span_eq [OF src r(3)])
  have 2: "min (of_nat ?a + of_nat ?n) (of_nat (length (pixels fb))) - of_nat ?a = (of_nat ?n :: u64)"
    by (rule span_eq [OF dst fb_length_less [OF fb]])
  have 3: "copy_row (pixels fb) (of_nat ?a) src (of_nat ?b) (of_nat ?n) = Ok (splice (pixels fb) ?a (take ?n (drop ?b src)))"
    using src dst r(3) fb_length_less [OF fb] by (intro copy_row_ok) simp_all
  show ?thesis
  proof (cases "?n = 0")
    case True
    then have eq: "fb\<lparr>pixels := splice (pixels fb) ?a (take ?n (drop ?b src))\<rparr> = fb"
      by (simp add: splice_def)
    show ?thesis
      unfolding blit_from_row_def Let_def dst_start_eq [OF fb] b 1 2 n0 eq
        if_not_P [OF row_inside [OF refl r(2)]] if_P [OF True]
      by (rule refl)
  next
    case False
    then show ?thesis
      unfolding blit_from_row_def Let_def dst_start_eq [OF fb] b 1 2 n0
      by (simp only: row_inside [OF refl r(2)] 3 if_False bind_outcome.simps)
  qed
qed

text \<open>The rows copied so far, as a function on bytes.\<close>

definition blitted :: "Framebuffer \<Rightarrow> bytes \<Rightarrow> u32 \<Rightarrow> u32 \<Rightarrow> u32 \<Rightarrow> u32 \<Rightarrow> nat \<Rightarrow> Framebuffer \<Rightarrow> bool" where
  "blitted fb src src_stride x y w n fb' \<longleftrightarrow>
     fb_width fb' = fb_width fb \<and> fb_height fb' = fb_height fb \<and> length (pixels fb') = length (pixels fb) \<and>
     (\<forall>i j c. i < unat (fb_width fb) \<and> j < unat (fb_height fb) \<and> c < 4 \<longrightarrow> byte_of fb' i j c =
        (if unat x \<le> i \<and> i < unat x + unat w \<and> unat y \<le> j \<and> j < unat y + n
         then src ! ((j - unat y) * unat src_stride + (i - unat x) * 4 + c) else byte_of fb i j c))"

lemma blitted_fields: "blitted fb src src_stride x y w n fb' \<Longrightarrow> fb_ok fb \<Longrightarrow> fb_ok fb'"
  by (simp add: blitted_def fb_ok_def)

lemma rect_ok_fields:
  "blitted fb src st x y w k fb' \<Longrightarrow> rect_ok fb' src src_stride x y w h = rect_ok fb src src_stride x y w h"
  by (simp add: blitted_def rect_ok_def)

lemma blitted_next:
  assumes fb: "fb_ok fb" and rect: "rect_ok fb src src_stride x y w h" and k: "k < unat h"
    and prev: "blitted fb src src_stride x y w k fb1"
  shows "blitted fb src src_stride x y w (Suc k) (fb1\<lparr>pixels :=
     splice (pixels fb1) (row_start fb1 (unat x) (unat y + k)) (take (unat w * 4) (drop (k * unat src_stride) src))\<rparr>)"
    (is "blitted _ _ _ _ _ _ _ ?fb2")
proof -
  let ?W = "unat (fb_width fb)" and ?d = "take (unat w * 4) (drop (k * unat src_stride) src)"
  have W: "fb_width fb1 = fb_width fb" "fb_height fb1 = fb_height fb" "length (pixels fb1) = length (pixels fb)"
    using prev by (simp_all add: blitted_def)
  have fits: "unat x + unat w \<le> ?W" "unat y + k < unat (fb_height fb)"
    using rect k by (auto simp: rect_ok_def)
  have len: "length ?d = unat w * 4"
    using src_row_fits [OF rect k] by simp
  have room: "row_start fb1 (unat x) (unat y + k) + length ?d \<le> length (pixels fb1)"
    using row_fits [OF fb fits] W len by (simp add: row_start_def)
  have "byte_of ?fb2 i j c = (if j = unat y + k \<and> unat x \<le> i \<and> i < unat x + unat w
      then src ! ((j - unat y) * unat src_stride + (i - unat x) * 4 + c) else byte_of fb1 i j c)"
    if "i < ?W" "j < unat (fb_height fb)" "c < 4" for i j c
  proof -
    let ?p = "(j * ?W + i) * 4 + c"
    have p: "?p < length (pixels fb1)"
      using pixel_in_range [OF that(1,2)] that(3) fb W by (simp add: fb_ok_def)
    note hit = byte_hit [OF fits(1) that(1,3), of "unat y + k" j]
    have "?d ! (?p - row_start fb1 (unat x) (unat y + k)) = src ! ((j - unat y) * unat src_stride + (i - unat x) * 4 + c)"
      if "j = unat y + k" "unat x \<le> i" "i < unat x + unat w"
    proof -
      have "?p - row_start fb1 (unat x) (unat y + k) = (i - unat x) * 4 + c"
        using that W by (simp add: row_start_def algebra_simps)
      moreover have "(i - unat x) * 4 + c < unat w * 4"
        using that(2,3) \<open>c < 4\<close> by simp
      ultimately show ?thesis
        using that src_row_fits [OF rect k] by (simp add: algebra_simps)
    qed
    with hit p room len W show ?thesis
      by (auto simp: byte_of_def nth_splice row_start_def)
  qed
  with prev W room show ?thesis
    unfolding blitted_def by (auto simp: less_Suc_eq)
qed

lemma blit_rows_ok:
  assumes fb: "fb_ok fb" and rect: "rect_ok fb src src_stride x y w h"
    and "k \<le> unat h" and "blitted fb src src_stride x y w k fb1"
  shows "\<exists>fb'. blit_rows (blit_from_row src src_stride x y w) [k..<unat h] fb1 = (Ok fb' :: (unit, _) outcome) \<and>
     blitted fb src src_stride x y w (unat h) fb'"
  using assms(3,4)
proof (induction "unat h - k" arbitrary: k fb1)
  case 0
  then show ?case by simp
next
  case (Suc m)
  then have k: "k < unat h" by simp
  have "fb_ok fb1" and "rect_ok fb1 src src_stride x y w h"
    using blitted_fields [OF Suc.prems(2) fb] rect_ok_fields [OF Suc.prems(2)] rect by simp_all
  note row = blit_from_row_ok [OF this k]
  have "m = unat h - Suc k" using Suc.hyps(2) by simp
  from Suc.hyps(1) [OF this _ blitted_next [OF fb rect k Suc.prems(2)]] k
  show ?case by (simp add: upt_conv_Cons row)
qed

lemma blitted_none: "blitted fb src src_stride x y w 0 fb"
  by (auto simp: blitted_def)


text \<open>
  The copy is meant to be clamped to the framebuffer; a start column beyond the right edge underflows
  instead and panics.
\<close>

theorem blit_beyond_edge_panics:
  "\<exists>fb. framebuffer_new 2 1 = (Ok fb :: (unit, _) outcome) \<and>
     blit_from fb [1, 2, 3, 4] 4 3 0 1 1 = (Panic :: (unit, _) outcome)"
  by (simp add: framebuffer_new_def fb_bytes_def blit_from_def blit_from_row_def Let_def stride_def copy_width_def
      copy_row_def idx_range_def get_range_def)

section \<open>A concrete framebuffer\<close>

definition demo_fb :: Framebuffer where
  "demo_fb = \<lparr>fb_width = 2, fb_height = 2, pixels = replicate 16 0\<rparr>"

lemma demo_fb_ok: "fb_ok demo_fb"
  by (simp add: fb_ok_def demo_fb_def)

theorem set_pixel_correct_witness:
  "\<exists>fb'. set_pixel demo_fb 1 0 9 8 7 6 = (Ok fb' :: (unit, _) outcome) \<and>
     get_pixel fb' 1 0 = (Ok (9, 8, 7, 6) :: (unit, _) outcome)"
proof -
  from set_pixel_correct [OF demo_fb_ok, of 1 0 9 8 7 6] obtain fb' where
      1: "set_pixel demo_fb 1 0 9 8 7 6 = (Ok fb' :: (unit, _) outcome)" and
      2: "\<forall>i j. get_pixel fb' i j = (if i = 1 \<and> j = 0 \<and> 1 < fb_width demo_fb \<and> 0 < fb_height demo_fb
        then (Ok (9, 8, 7, 6) :: (unit, _) outcome) else get_pixel demo_fb i j)"
    by blast
  from 2 have "get_pixel fb' 1 0 = (Ok (9, 8, 7, 6) :: (unit, _) outcome)"
    by (simp add: demo_fb_def)
  with 1 show ?thesis by blast
qed


end
