(* ===== verification/LD_Input.thy ===== *)
theory LD_Input
  imports LD_Core
begin

text \<open>
  The crate \<^verbatim>\<open>crates/input\<close>: the keycode table and the bounded event queue.  The channel of the
  \<open>crossbeam_channel\<close> crate is the parameter \<open>channel\<close>; \<open>bounded_fifo\<close> states what its documentation promises
  of a channel of a given capacity.
\<close>

section \<open>Keycodes\<close>

definition keycode_map :: "(u32 \<times> u32) list" where
  "keycode_map = [
    (9, 1), (10, 2), (11, 3), (12, 4), (13, 5), (14, 6), (15, 7), (16, 8), (17, 9), (18, 10),
    (19, 11), (24, 16), (25, 17), (26, 18), (27, 19), (28, 20), (29, 21), (30, 22), (31, 23),
    (32, 24), (33, 25), (38, 30), (39, 31), (40, 32), (41, 33), (42, 34), (43, 35), (44, 36),
    (45, 37), (46, 38), (52, 44), (53, 45), (54, 46), (55, 47), (56, 48), (57, 49), (58, 50),
    (23, 15), (36, 28), (22, 14), (65, 57), (50, 42), (37, 29), (64, 56), (67, 59), (68, 60),
    (69, 61), (70, 62), (71, 63), (72, 64), (73, 65), (74, 66), (75, 67), (76, 68), (77, 87),
    (78, 88), (110, 102), (115, 107), (113, 105), (111, 103), (114, 106), (116, 108)]"

definition x11_to_linux_keycode :: "u32 \<Rightarrow> u32" where
  "x11_to_linux_keycode k =
     (case map_option snd (find (\<lambda>p. fst p = k) keycode_map) of None \<Rightarrow> 0 | Some l \<Rightarrow> l)"

section \<open>InputManager\<close>

text \<open>\<open>ch_try_send\<close> is \<open>False\<close> when the channel is full or closed; \<open>ch_recv_timeout\<close> may wait.\<close>

record 'c channel =
  ch_bounded :: "nat \<Rightarrow> 'c"
  ch_try_send :: "InputEvent \<Rightarrow> 'c \<Rightarrow> bool \<times> 'c"
  ch_try_recv :: "'c \<Rightarrow> InputEvent option \<times> 'c"
  ch_recv_timeout :: "nat \<Rightarrow> 'c \<Rightarrow> InputEvent option \<times> 'c"

record 'c InputManager =
  im_chan :: 'c
  display_width :: u32
  display_height :: u32

definition input_manager_new :: "'c channel \<Rightarrow> u32 \<Rightarrow> u32 \<Rightarrow> 'c InputManager" where
  "input_manager_new H w h = \<lparr>im_chan = ch_bounded H 1024, display_width = w, display_height = h\<rparr>"

definition inject :: "'c channel \<Rightarrow> InputEvent \<Rightarrow> 'c InputManager \<Rightarrow> 'c InputManager" where
  "inject H e m = m\<lparr>im_chan := snd (ch_try_send H e (im_chan m))\<rparr>"

definition inject_mouse_down :: "'c channel \<Rightarrow> i32 \<Rightarrow> i32 \<Rightarrow> MouseButton \<Rightarrow> 'c InputManager \<Rightarrow> 'c InputManager" where
  "inject_mouse_down H x y b = inject H (MouseDown b x y)"

definition inject_mouse_up :: "'c channel \<Rightarrow> i32 \<Rightarrow> i32 \<Rightarrow> MouseButton \<Rightarrow> 'c InputManager \<Rightarrow> 'c InputManager" where
  "inject_mouse_up H x y b = inject H (MouseUp b x y)"

definition inject_mouse_move :: "'c channel \<Rightarrow> i32 \<Rightarrow> i32 \<Rightarrow> 'c InputManager \<Rightarrow> 'c InputManager" where
  "inject_mouse_move H x y = inject H (MouseMove x y)"

definition inject_key_down :: "'c channel \<Rightarrow> u32 \<Rightarrow> 'c InputManager \<Rightarrow> 'c InputManager" where
  "inject_key_down H k = inject H (KeyDown k)"

definition inject_key_up :: "'c channel \<Rightarrow> u32 \<Rightarrow> 'c InputManager \<Rightarrow> 'c InputManager" where
  "inject_key_up H k = inject H (KeyUp k)"

definition inject_touch_start :: "'c channel \<Rightarrow> u32 \<Rightarrow> i32 \<Rightarrow> i32 \<Rightarrow> 'c InputManager \<Rightarrow> 'c InputManager" where
  "inject_touch_start H tracking_id x y = inject H (TouchStart tracking_id x y)"

definition inject_touch_move :: "'c channel \<Rightarrow> u32 \<Rightarrow> i32 \<Rightarrow> i32 \<Rightarrow> 'c InputManager \<Rightarrow> 'c InputManager" where
  "inject_touch_move H tracking_id x y = inject H (TouchMove tracking_id x y)"

definition inject_touch_end :: "'c channel \<Rightarrow> u32 \<Rightarrow> 'c InputManager \<Rightarrow> 'c InputManager" where
  "inject_touch_end H tracking_id = inject H (TouchEnd tracking_id)"

definition inject_android_button :: "'c channel \<Rightarrow> AndroidButton \<Rightarrow> 'c InputManager \<Rightarrow> 'c InputManager" where
  "inject_android_button H b = inject H (AndroidButtonEvent b)"

definition input_try_recv :: "'c channel \<Rightarrow> 'c InputManager \<Rightarrow> InputEvent option \<times> 'c InputManager" where
  "input_try_recv H m = (case ch_try_recv H (im_chan m) of (r, c) \<Rightarrow> (r, m\<lparr>im_chan := c\<rparr>))"

definition input_recv_timeout :: "'c channel \<Rightarrow> nat \<Rightarrow> ('c InputManager, LiteDroidError, InputEvent) action" where
  "input_recv_timeout H t = (\<lambda>m. case ch_recv_timeout H t (im_chan m) of (r, c) \<Rightarrow>
     (ok_or (InputError ''channel recv timeout'') r, m\<lparr>im_chan := c\<rparr>))"

section \<open>The queue\<close>

text \<open>
  A bounded channel: \<open>contents\<close> starts empty, \<open>try_send\<close> appends while there is room and otherwise leaves the
  channel alone, and \<open>try_recv\<close> takes the oldest message.
\<close>

definition bounded_fifo :: "'c channel \<Rightarrow> nat \<Rightarrow> ('c \<Rightarrow> InputEvent list) \<Rightarrow> bool" where
  "bounded_fifo H capacity contents \<longleftrightarrow>
     contents (ch_bounded H capacity) = [] \<and>
     (\<forall>e c. contents (snd (ch_try_send H e c)) =
        (if length (contents c) < capacity then contents c @ [e] else contents c)) \<and>
     (\<forall>c. (case contents c of
             [] \<Rightarrow> fst (ch_try_recv H c) = None \<and> contents (snd (ch_try_recv H c)) = []
           | e # es \<Rightarrow> fst (ch_try_recv H c) = Some e \<and> contents (snd (ch_try_recv H c)) = es))"

fun drain :: "'c channel \<Rightarrow> nat \<Rightarrow> 'c InputManager \<Rightarrow> InputEvent list" where
  "drain H 0 m = []"
| "drain H (Suc n) m = (case input_try_recv H m of (None, m') \<Rightarrow> [] | (Some e, m') \<Rightarrow> e # drain H n m')"

lemma inject_contents:
  assumes "bounded_fifo H n contents"
  shows "contents (im_chan (inject H e m)) =
    (if length (contents (im_chan m)) < n then contents (im_chan m) @ [e] else contents (im_chan m))"
  using assms by (simp add: bounded_fifo_def inject_def)

lemma inject_all_contents:
  assumes "bounded_fifo H n contents"
  shows "length (contents (im_chan m)) \<le> n \<Longrightarrow>
     contents (im_chan (fold (inject H) es m)) = take n (contents (im_chan m) @ es)"
proof (induction es arbitrary: m)
  case (Cons e es)
  then show ?case
    using inject_contents [OF assms, of e m] by (cases "length (contents (im_chan m)) < n") (auto simp: take_Cons')
qed simp

lemma drain_contents:
  assumes "bounded_fifo H n contents" and "length (contents (im_chan m)) \<le> k"
  shows "drain H k m = contents (im_chan m)"
  using assms(2)
proof (induction k arbitrary: m)
  case (Suc k)
  obtain r c where rc: "ch_try_recv H (im_chan m) = (r, c)" by fastforce
  with assms(1) have "case contents (im_chan m) of [] \<Rightarrow> r = None \<and> contents c = []
      | e # es \<Rightarrow> r = Some e \<and> contents c = es"
    unfolding bounded_fifo_def by (metis fst_conv snd_conv)
  with Suc rc show ?case
    by (cases "contents (im_chan m)") (auto simp: input_try_recv_def)
qed simp

text \<open>
  Events come out in the order they were injected; of a burst beyond the capacity the first 1024 are
  kept and the rest is dropped.
\<close>

theorem input_queue_fifo:
  assumes "bounded_fifo H 1024 contents" and "1024 \<le> k"
  shows "drain H k (fold (inject H) es (input_manager_new H w h)) = take 1024 es"
proof -
  have "contents (im_chan (input_manager_new H w h)) = []"
    using assms(1) by (simp add: input_manager_new_def bounded_fifo_def)
  then have "contents (im_chan (fold (inject H) es (input_manager_new H w h))) = take 1024 es"
    using inject_all_contents [OF assms(1), of "input_manager_new H w h" es] by simp
  then show ?thesis
    using drain_contents [OF assms(1), of "fold (inject H) es (input_manager_new H w h)" k] assms(2) by simp
qed

definition list_channel :: "InputEvent list channel" where
  "list_channel = \<lparr>ch_bounded = (\<lambda>n. []),
     ch_try_send = (\<lambda>e c. if length c < 1024 then (True, c @ [e]) else (False, c)),
     ch_try_recv = (\<lambda>c. case c of [] \<Rightarrow> (None, []) | e # es \<Rightarrow> (Some e, es)),
     ch_recv_timeout = (\<lambda>t c. case c of [] \<Rightarrow> (None, []) | e # es \<Rightarrow> (Some e, es))\<rparr>"

lemma list_channel_fifo: "bounded_fifo list_channel 1024 (\<lambda>c. c)"
  by (auto simp: bounded_fifo_def list_channel_def split: list.splits)

theorem input_queue_fifo_witness:
  "drain list_channel 1024 (fold (inject list_channel) [KeyDown 30, KeyUp 30] (input_manager_new list_channel 1080 1920))
     = [KeyDown 30, KeyUp 30]"
  using input_queue_fifo [OF list_channel_fifo, of 1024 "[KeyDown 30, KeyUp 30]" 1080 1920] by simp

section \<open>The keycode table\<close>

text \<open>
  The evdev code of a key is its X11 code less eight.  The reference lists the keys the table knows: the function keys of its last
  two rows, 77 and 78, are the only ones that do not follow the rule.
\<close>

definition known_keys :: "u32 list" where
  "known_keys = map of_nat ([9 ..< 20] @ [22 ..< 34] @ [36 ..< 47] @ [50] @ [52 ..< 59] @ [64, 65] @ [67 ..< 79] @ [110, 111]
     @ [113 ..< 117])"

definition evdev_reference :: "u32 \<Rightarrow> u32" where
  "evdev_reference k =
     (if k \<in> set known_keys then (if k = 77 \<or> k = 78 then k + 10 else k - 8) else 0)"

lemma keycode_map_keys: "set (map fst keycode_map) = set known_keys"
  by code_simp

lemma keycode_map_values: "\<forall>p \<in> set keycode_map. snd p = evdev_reference (fst p)"
  by code_simp


end
