(* ===== verification/LD_Socket.thy ===== *)
theory LD_Socket
  imports LD_Core
begin

text \<open>
  A connected stream socket as \<^verbatim>\<open>crates/adb\<close> and \<^verbatim>\<open>crates/ipc\<close> use one: the bytes the peer has sent and that have
  not been read yet, the bytes written so far, how many more the peer will take before writes fail
  (\<open>None\<close> for no limit), and the text of the error that ends each direction.
\<close>

record socket =
  incoming :: bytes
  sent :: bytes
  write_room :: "nat option"
  read_error :: io_error
  write_error :: io_error

text \<open>\<open>read_exact\<close>: all of the bytes, or an error after consuming what there was.\<close>

definition read_exact :: "nat \<Rightarrow> (socket, io_error, bytes) action" where
  "read_exact n = (\<lambda>s.
     if n \<le> length (incoming s) then (Ok (take n (incoming s)), s\<lparr>incoming := drop n (incoming s)\<rparr>)
     else (Err (read_error s), s\<lparr>incoming := []\<rparr>))"

definition write_all :: "bytes \<Rightarrow> (socket, io_error, unit) action" where
  "write_all data = (\<lambda>s.
     case write_room s of
       None \<Rightarrow> (Ok (), s\<lparr>sent := sent s @ data\<rparr>)
     | Some n \<Rightarrow>
         if length data \<le> n
         then (Ok (), s\<lparr>sent := sent s @ data, write_room := Some (n - length data)\<rparr>)
         else (Err (write_error s), s\<lparr>sent := sent s @ take n data, write_room := Some 0\<rparr>))"

lemma read_exact_ok:
  "incoming s = xs @ ys \<Longrightarrow> length xs = n \<Longrightarrow> read_exact n s = (Ok xs, s\<lparr>incoming := ys\<rparr>)"
  by (simp add: read_exact_def)

lemma read_exact_length:
  "read_exact n s = (Ok x, t) \<Longrightarrow> length (incoming t) + n = length (incoming s) \<and> length x = n"
  by (auto simp: read_exact_def split: if_splits)

lemma write_all_ok: "write_room s = None \<Longrightarrow> write_all data s = (Ok (), s\<lparr>sent := sent s @ data\<rparr>)"
  by (simp add: write_all_def)

lemma write_all_incoming [simp]: "incoming (snd (write_all d s)) = incoming s"
  by (simp add: write_all_def split: option.splits)

definition tape :: "bytes \<Rightarrow> socket" where
  "tape bs = \<lparr>incoming = bs, sent = [], write_room = None, read_error = ''failed to fill whole buffer'',
     write_error = ''Broken pipe''\<rparr>"

end
