(* ===== verification/LD_Adb.thy ===== *)
theory LD_Adb
  imports LD_Socket
begin

text \<open>
  The crate \<^verbatim>\<open>crates/adb\<close>: the messages of the Android debug bridge, their wire format, the handler of a
  client connection and the life cycle of the server.
\<close>

definition ADB_VERSION :: u32 where [core_consts]: "ADB_VERSION = 0x01000000"
definition ADB_MAX_PAYLOAD :: u32 where [core_consts]: "ADB_MAX_PAYLOAD = 4096"
definition ADB_HEADER_SIZE :: nat where [core_consts]: "ADB_HEADER_SIZE = 24"
definition CMD_CNXN :: bytes where "CMD_CNXN = as_bytes ''CNXN''"
definition CMD_OPEN :: bytes where "CMD_OPEN = as_bytes ''OPEN''"
definition CMD_OKAY :: bytes where "CMD_OKAY = as_bytes ''OKAY''"
definition CMD_CLSE :: bytes where "CMD_CLSE = as_bytes ''CLSE''"
definition CMD_WRTE :: bytes where "CMD_WRTE = as_bytes ''WRTE''"

definition checksum :: "bytes \<Rightarrow> u32" where
  "checksum data = foldl (\<lambda>acc b. acc + ucast b) 0 data"

section \<open>Messages\<close>

record AdbMessage =
  command :: bytes
  arg0 :: u32
  arg1 :: u32
  data_length :: u32
  data_check :: u32
  msg_data :: bytes

definition adb_connect :: "string \<Rightarrow> u32 \<Rightarrow> AdbMessage" where
  "adb_connect identity max_payload =
     (let data = as_bytes identity
      in \<lparr>command = CMD_CNXN, arg0 = ADB_VERSION, arg1 = max_payload, data_length = of_nat (length data),
          data_check = checksum data, msg_data = data\<rparr>)"

definition adb_open :: "u32 \<Rightarrow> string \<Rightarrow> AdbMessage" where
  "adb_open local_id dest =
     (let data = as_bytes dest
      in \<lparr>command = CMD_OPEN, arg0 = local_id, arg1 = 0, data_length = of_nat (length data),
          data_check = checksum data, msg_data = data\<rparr>)"

definition adb_okay :: "u32 \<Rightarrow> u32 \<Rightarrow> AdbMessage" where
  "adb_okay local_id remote_id =
     \<lparr>command = CMD_OKAY, arg0 = local_id, arg1 = remote_id, data_length = 0, data_check = 0, msg_data = []\<rparr>"

definition adb_close :: "u32 \<Rightarrow> u32 \<Rightarrow> AdbMessage" where
  "adb_close local_id remote_id =
     \<lparr>command = CMD_CLSE, arg0 = local_id, arg1 = remote_id, data_length = 0, data_check = 0, msg_data = []\<rparr>"

definition write_msg :: "u32 \<Rightarrow> u32 \<Rightarrow> bytes \<Rightarrow> AdbMessage" where
  "write_msg local_id remote_id payload =
     \<lparr>command = CMD_WRTE, arg0 = local_id, arg1 = remote_id, data_length = of_nat (length payload),
      data_check = checksum payload, msg_data = payload\<rparr>"

definition magic_of :: "bytes \<Rightarrow> u32" where
  "magic_of cmd = from_le cmd XOR 0xFFFFFFFF"

definition encode :: "AdbMessage \<Rightarrow> bytes" where
  "encode m = command m @ to_le 4 (arg0 m) @ to_le 4 (arg1 m) @ to_le 4 (data_length m) @ to_le 4 (data_check m)
     @ to_le 4 (magic_of (command m)) @ msg_data m"

definition field :: "bytes \<Rightarrow> nat \<Rightarrow> u32" where
  "field data off = from_le (take 4 (drop off data))"

definition decode :: "bytes \<Rightarrow> AdbMessage ld_result" where
  "decode data =
     (if length data < ADB_HEADER_SIZE then Err (AdbProtocolError ''message too short'')
      else
        let cmd = take 4 data; len = field data 12; check = field data 16; magic = field data 20;
            total = ADB_HEADER_SIZE + unat len in
        if magic \<noteq> magic_of cmd then Err (AdbProtocolError ''invalid magic'')
        else if length data < total then Err (AdbProtocolError ''incomplete payload'')
        else
          let payload = take (unat len) (drop ADB_HEADER_SIZE data) in
          if checksum payload \<noteq> check then Err (AdbProtocolError ''checksum mismatch'')
          else Ok \<lparr>command = cmd, arg0 = field data 4, arg1 = field data 8, data_length = len,
                   data_check = check, msg_data = payload\<rparr>)"

section \<open>The connection handler\<close>

text \<open>\<open>send_msg\<close> logs a failed write and goes on.\<close>

definition send_msg :: "AdbMessage \<Rightarrow> socket \<Rightarrow> socket" where
  "send_msg m s = snd (write_all (encode m) s)"

text \<open>What one message makes the handler send, and the next identifier, or \<open>None\<close> to end the loop.\<close>

definition dispatch_msg :: "AdbMessage \<Rightarrow> u32 \<Rightarrow> socket \<Rightarrow> u32 option \<times> socket" where
  "dispatch_msg m next_local_id s =
     (if command m = CMD_OPEN then
        (let dest = from_utf8_lossy (msg_data m); local_id = next_local_id; next = next_local_id + 1;
             remote_id = arg0 m in
         if dest = ''host:version'' then
           (Some next, send_msg (write_msg local_id remote_id (as_bytes ''00040024''))
              (send_msg (adb_okay local_id remote_id) s))
         else if dest = ''host:devices'' then
           (Some next, send_msg (write_msg local_id remote_id (as_bytes (''LITEDROID001'' @ [CHR 0x09] @ ''device'')))
              (send_msg (adb_okay local_id remote_id) s))
         else if dest = ''host:kill'' then (None, send_msg (adb_close local_id remote_id) s)
         else (Some next, send_msg (adb_okay local_id remote_id) s))
      else if command m = CMD_CNXN then
        (Some next_local_id, send_msg (adb_connect ''device::litedroid'' ADB_MAX_PAYLOAD) s)
      else if command m = CMD_OKAY \<or> command m = CMD_WRTE then (Some next_local_id, s)
      else if command m = CMD_CLSE then (None, s)
      else (Some next_local_id, s))"

text \<open>Steps 2 to 4 of the loop: read a header, its payload, and decode; \<open>None\<close> ends the loop.\<close>

definition recv_msg :: "socket \<Rightarrow> AdbMessage option \<times> socket" where
  "recv_msg s =
     (case read_exact ADB_HEADER_SIZE s of
        (Ok hdr, s1) \<Rightarrow>
          (let data_len = unat (field hdr 12) in
           case (if data_len > 0 then read_exact data_len s1 else (Ok [], s1)) of
             (Ok payload, s2) \<Rightarrow>
               (case decode (hdr @ payload) of Ok m \<Rightarrow> (Some m, s2) | Err e \<Rightarrow> (None, s2) | Panic \<Rightarrow> (None, s2))
           | (Err e, s2) \<Rightarrow> (None, s2)
           | (Panic, s2) \<Rightarrow> (None, s2))
      | (Err e, s1) \<Rightarrow> (None, s1)
      | (Panic, s1) \<Rightarrow> (None, s1))"

lemma recv_msg_consumes:
  assumes "recv_msg s = (Some m, s')"
  shows "length (incoming s') < length (incoming s)"
proof -
  obtain r s1 where 1: "read_exact ADB_HEADER_SIZE s = (r, s1)" by fastforce
  with assms obtain hdr where r: "r = Ok hdr"
    by (cases r) (auto simp: recv_msg_def)
  let ?n = "unat (field hdr 12)"
  obtain q s2 where 2: "(if ?n > 0 then read_exact ?n s1 else (Ok [], s1)) = (q, s2)" by fastforce
  with assms 1 r obtain payload where q: "q = Ok payload"
    by (cases q) (simp_all add: recv_msg_def)
  with assms 1 2 r have "s' = s2"
    by (cases "decode (hdr @ payload)") (simp_all add: recv_msg_def)
  moreover have "length (incoming s2) \<le> length (incoming s1)"
    using 2 q read_exact_length [of ?n s1 payload s2] by (cases "?n > 0") auto
  ultimately show ?thesis
    using read_exact_length [OF 1 [unfolded r]] by (simp add: core_consts)
qed

lemma dispatch_msg_incoming [simp]: "incoming (snd (dispatch_msg m i s)) = incoming s"
  by (simp add: dispatch_msg_def send_msg_def Let_def)

function message_loop :: "u32 \<Rightarrow> socket \<Rightarrow> socket" where
  "message_loop next_local_id s =
     (case recv_msg s of
        (None, s1) \<Rightarrow> s1
      | (Some m, s1) \<Rightarrow>
          (case dispatch_msg m next_local_id s1 of
             (None, s2) \<Rightarrow> s2
           | (Some next, s2) \<Rightarrow> message_loop next s2))"
  by pat_completeness auto
termination
proof (relation "measure (\<lambda>(i, s). length (incoming s))", goal_cases)
  case (2 i s r s1 m q s2 nxt)
  then have "recv_msg s = (Some m, s1)" and "dispatch_msg m i s1 = (Some nxt, s2)"
    by simp_all
  then show ?case
    using recv_msg_consumes [of s m s1] dispatch_msg_incoming [of m i s1] by simp
qed simp

declare message_loop.simps [simp del]

definition handle_client :: "(socket, LiteDroidError, unit) action" where
  "handle_client =
     andthen (os_error (write_all (encode (adb_connect ''device::litedroid'' ADB_MAX_PAYLOAD)))) (\<lambda>_.
     modify (message_loop 1))"

section \<open>AdbServer\<close>

record AdbServer =
  adb_port :: u16
  adb_running :: bool
  adb_listener :: bool

text \<open>\<open>bind\<close> is the outcome of \<open>TcpListener::bind\<close>.\<close>

definition adb_server_new :: "(u16 \<Rightarrow> io_error option) \<Rightarrow> u16 \<Rightarrow> AdbServer ld_result" where
  "adb_server_new bind port =
     (case bind port of
        Some e \<Rightarrow> Err (AdbConnectionFailed (''bind port '' @ show_nat (unat port) @ '': '' @ e))
      | None \<Rightarrow> Ok \<lparr>adb_port = port, adb_running = False, adb_listener = True\<rparr>)"

definition adb_start :: "(AdbServer, LiteDroidError, unit) action" where
  "adb_start = (\<lambda>a.
     if adb_listener a then (Ok (), a\<lparr>adb_listener := False, adb_running := True\<rparr>)
     else (Err (AdbConnectionFailed ''already started''), a))"

definition adb_stop :: "AdbServer \<Rightarrow> AdbServer" where
  "adb_stop a = a\<lparr>adb_running := False\<rparr>"

definition adb_is_running :: "AdbServer \<Rightarrow> bool" where
  "adb_is_running a = adb_running a"

text \<open>
  The accept loop of the spawned thread over the connections that arrive: each event carries the flag as it is at
  the top of the turn, the outcome of \<open>accept\<close>, and the flag as it is after a failed one.  The result is
  the sockets of the clients that were served.
\<close>

fun accept_loop :: "(bool \<times> (io_error + socket) \<times> bool) list \<Rightarrow> socket list" where
  "accept_loop [] = []"
| "accept_loop ((run, conn, run_after) # evs) =
     (if \<not> run then []
      else case conn of
        Inr s \<Rightarrow> snd (handle_client s) # accept_loop evs
      | Inl e \<Rightarrow> if \<not> run_after then [] else accept_loop evs)"


section \<open>The wire format\<close>

text \<open>The messages that have an encoding: what \<open>decode\<close> checks, and what every constructor establishes.\<close>

definition adb_ok :: "AdbMessage \<Rightarrow> bool" where
  "adb_ok m \<longleftrightarrow> length (command m) = 4 \<and> unat (data_length m) = length (msg_data m)
     \<and> data_check m = checksum (msg_data m)"

lemma length_cmd [simp]: "length CMD_CNXN = 4" "length CMD_OPEN = 4" "length CMD_OKAY = 4" "length CMD_CLSE = 4"
    "length CMD_WRTE = 4"
  by (simp_all add: CMD_CNXN_def CMD_OPEN_def CMD_OKAY_def CMD_CLSE_def CMD_WRTE_def)

lemma adb_ok_constructors:
  shows adb_ok_okay [simp]: "adb_ok (adb_okay i j)"
    and adb_ok_close [simp]: "adb_ok (adb_close i j)"
    and adb_ok_connect: "length identity < 2 ^ 32 \<Longrightarrow> adb_ok (adb_connect identity mx)"
    and adb_ok_open: "length dest < 2 ^ 32 \<Longrightarrow> adb_ok (adb_open i dest)"
    and adb_ok_write: "length payload < 2 ^ 32 \<Longrightarrow> adb_ok (write_msg i j payload)"
  by (simp_all add: adb_ok_def adb_okay_def adb_close_def adb_connect_def adb_open_def write_msg_def Let_def
      checksum_def unat_of_nat_u32)

lemma length_encode: "length (command m) = 4 \<Longrightarrow> length (encode m) = ADB_HEADER_SIZE + length (msg_data m)"
  by (simp add: encode_def core_consts)

lemma take_command_encode: "length (command m) = 4 \<Longrightarrow> take 4 (encode m @ r) = command m"
  by (simp add: encode_def)

lemma field_encode:
  assumes "length (command m) = 4"
  shows "field (encode m @ r) 4 = arg0 m" and "field (encode m @ r) 8 = arg1 m"
    and "field (encode m @ r) 12 = data_length m" and "field (encode m @ r) 16 = data_check m"
    and "field (encode m @ r) 20 = magic_of (command m)"
  using assms by (simp_all add: field_def encode_def drop_append take_append del: to_le_numeral)

lemma drop_encode: "length (command m) = 4 \<Longrightarrow> drop ADB_HEADER_SIZE (encode m @ r) = msg_data m @ r"
  by (simp add: encode_def core_consts drop_append)

lemma decode_encode:
  assumes "adb_ok m"
  shows "decode (encode m @ r) = Ok m"
  using assms
  by (simp add: adb_ok_def decode_def Let_def length_encode take_command_encode field_encode drop_encode
      take_length_append del: take_append drop_append)

lemma take_add_drop: "take n (drop k b) @ drop (k + n) b = drop k b"
  by (metis append_take_drop_id add.commute drop_drop)

lemma to_le_field: "off + 4 \<le> length b \<Longrightarrow> to_le 4 (field b off) = take 4 (drop off b)"
  using to_le_from_le [of "take 4 (drop off b)", where 'a = 32] by (simp add: field_def)

lemma encode_decode:
  assumes "decode b = Ok m"
  shows "adb_ok m \<and> encode m @ drop (length (encode m)) b = b"
proof -
  let ?n = "unat (field b 12)"
  from assms have len: "ADB_HEADER_SIZE + ?n \<le> length b" and magic: "field b 20 = magic_of (take 4 b)"
    and m: "m = \<lparr>command = take 4 b, arg0 = field b 4, arg1 = field b 8, data_length = field b 12,
      data_check = field b 16, msg_data = take ?n (drop ADB_HEADER_SIZE b)\<rparr>"
    and check: "checksum (take ?n (drop ADB_HEADER_SIZE b)) = field b 16"
    by (auto simp: decode_def Let_def split: if_splits)
  then have ok: "adb_ok m"
    by (simp add: adb_ok_def core_consts)
  have 24: "24 \<le> length b"
    using len by (simp add: core_consts)
  have "encode m = take 4 b @ take 4 (drop 4 b) @ take 4 (drop 8 b) @ take 4 (drop 12 b) @ take 4 (drop 16 b)
      @ take 4 (drop 20 b) @ take ?n (drop 24 b)"
    using 24 by (simp add: m encode_def to_le_field core_consts del: to_le_numeral flip: magic)
  moreover have "length (encode m) = 24 + ?n"
    using ok by (simp add: length_encode adb_ok_def core_consts) (simp add: m)
  ultimately have "encode m @ drop (length (encode m)) b = b"
    using take_add_drop [of 4 0 b] take_add_drop [of 4 4 b] take_add_drop [of 4 8 b] take_add_drop [of 4 12 b]
      take_add_drop [of 4 16 b] take_add_drop [of 4 20 b] take_add_drop [of ?n 24 b]
    by simp
  with ok show ?thesis by simp
qed

text \<open>
  C16. Decoding accepts exactly the byte strings that start with the encoding of a
  well-formed message, and returns that message: decoding inverts encoding, and nothing
  else is accepted.
\<close>

theorem adb_wire_format: "decode b = Ok m \<longleftrightarrow> adb_ok m \<and> (\<exists>rest. b = encode m @ rest)"
  using encode_decode [of b m] decode_encode [of m] by (metis)

section \<open>Damaged payloads\<close>

lemma checksum_sum: "checksum data = sum_list (map ucast data)"
proof -
  have "foldl (\<lambda>acc b. acc + ucast b) a data = a + sum_list (map ucast data)" for a :: u32
    by (induction data arbitrary: a) (simp_all add: add.assoc)
  then show ?thesis by (simp add: checksum_def)
qed

lemma checksum_update:
  assumes "i < length data"
  shows "checksum (data[i := b]) + ucast (data ! i) = checksum data + ucast b"
  unfolding checksum_sum using assms
proof (induction data arbitrary: i)
  case (Cons x xs)
  then show ?case by (cases i) (simp_all add: algebra_simps)
qed simp

text \<open>The additive checksum notices every payload in which exactly one byte has changed.\<close>

lemma unat_ucast_u32: "unat (ucast (b :: u8) :: u32) = unat b"
  by (rule unat_ucast_up) simp

theorem adb_single_byte_detected:
  assumes "adb_ok m" and "i < length (msg_data m)" and "b \<noteq> msg_data m ! i"
  shows "decode ((encode m)[ADB_HEADER_SIZE + i := b]) = Err (AdbProtocolError ''checksum mismatch'')"
proof -
  let ?m = "m\<lparr>msg_data := (msg_data m)[i := b]\<rparr>"
  have e: "(encode m)[ADB_HEADER_SIZE + i := b] = encode ?m @ []"
    using assms(1) by (simp add: encode_def adb_ok_def core_consts list_update_append)
  have "ucast b \<noteq> (ucast (msg_data m ! i) :: u32)"
    using assms(3) by (metis unat_ucast_u32 word_unat_eq_iff)
  then have "checksum ((msg_data m)[i := b]) \<noteq> checksum (msg_data m)"
    using checksum_update [OF assms(2), of b] by auto
  then show ?thesis
    using assms(1) unfolding e adb_ok_def decode_def
    by (simp add: Let_def length_encode take_command_encode field_encode drop_encode
        take_length_append del: append_Nil2 take_append drop_append) simp
qed

theorem adb_single_byte_detected_witness:
  "decode ((encode (adb_open 1 ''host:version''))[ADB_HEADER_SIZE + 5 := 0])
     = Err (AdbProtocolError ''checksum mismatch'')"
  using adb_single_byte_detected [of "adb_open 1 ''host:version''" 5 0]
  by (simp add: adb_ok_open) (simp add: adb_open_def Let_def as_bytes_def)

section \<open>A session as a conversation\<close>

text \<open>
  What a client connection promises, without sockets: the messages that answer each message, the identifier given
  to the next stream, and whether the conversation is over.
\<close>

definition opens :: "string \<Rightarrow> AdbMessage \<Rightarrow> bool" where
  "opens dest m \<longleftrightarrow> command m = CMD_OPEN \<and> from_utf8_lossy (msg_data m) = dest"

definition reply :: "u32 \<Rightarrow> AdbMessage \<Rightarrow> AdbMessage list" where
  "reply i m =
     (if opens ''host:version'' m then [adb_okay i (arg0 m), write_msg i (arg0 m) (as_bytes ''00040024'')]
      else if opens ''host:devices'' m
        then [adb_okay i (arg0 m), write_msg i (arg0 m) (as_bytes (''LITEDROID001'' @ [CHR 0x09] @ ''device''))]
      else if opens ''host:kill'' m then [adb_close i (arg0 m)]
      else if command m = CMD_OPEN then [adb_okay i (arg0 m)]
      else if command m = CMD_CNXN then [adb_connect ''device::litedroid'' ADB_MAX_PAYLOAD]
      else [])"

definition hangs_up :: "AdbMessage \<Rightarrow> bool" where
  "hangs_up m \<longleftrightarrow> command m = CMD_CLSE \<or> opens ''host:kill'' m"

fun conversation :: "u32 \<Rightarrow> AdbMessage list \<Rightarrow> AdbMessage list" where
  "conversation i [] = []"
| "conversation i (m # ms) =
     reply i m @ (if hangs_up m then [] else conversation (if command m = CMD_OPEN then i + 1 else i) ms)"

lemma cmd_distinct [simp]:
  "CMD_CLSE \<noteq> CMD_OPEN" "CMD_CLSE \<noteq> CMD_CNXN" "CMD_CLSE \<noteq> CMD_OKAY" "CMD_CLSE \<noteq> CMD_WRTE" "CMD_OPEN \<noteq> CMD_CLSE"
  "CMD_CNXN \<noteq> CMD_CLSE" "CMD_CNXN \<noteq> CMD_OPEN" "CMD_OPEN \<noteq> CMD_CNXN" "CMD_OKAY \<noteq> CMD_OPEN" "CMD_WRTE \<noteq> CMD_OPEN"
  "CMD_OKAY \<noteq> CMD_CNXN" "CMD_WRTE \<noteq> CMD_CNXN" "CMD_OKAY \<noteq> CMD_CLSE" "CMD_WRTE \<noteq> CMD_CLSE"
  by (simp_all add: CMD_CNXN_def CMD_OPEN_def CMD_OKAY_def CMD_CLSE_def CMD_WRTE_def as_bytes_def)

lemma send_msg_ok [simp]: "write_room s = None \<Longrightarrow> send_msg m s = s\<lparr>sent := sent s @ encode m\<rparr>"
  by (simp add: send_msg_def write_all_ok)

lemma dispatch_msg_reply:
  assumes "write_room s = None"
  shows "dispatch_msg m i s =
    (if hangs_up m then None else Some (if command m = CMD_OPEN then i + 1 else i),
     s\<lparr>sent := sent s @ concat (map encode (reply i m))\<rparr>)"
  using assms by (auto simp: dispatch_msg_def reply_def hangs_up_def opens_def Let_def)

lemma recv_msg_encode:
  assumes "adb_ok m" and "incoming s = encode m @ r"
  shows "recv_msg s = (Some m, s\<lparr>incoming := r\<rparr>)"
proof -
  let ?hdr = "take ADB_HEADER_SIZE (encode m)"
  have len: "length ?hdr = ADB_HEADER_SIZE" and split: "encode m = ?hdr @ msg_data m"
    using assms(1) drop_encode [of m "[]"] append_take_drop_id [of ADB_HEADER_SIZE "encode m"]
    by (simp_all add: adb_ok_def length_encode)
  have f: "field ?hdr 12 = data_length m"
    using field_encode(3) [of m "[]"] assms(1) by (simp add: adb_ok_def field_def core_consts drop_take)
  have "read_exact ADB_HEADER_SIZE s = (Ok ?hdr, s\<lparr>incoming := msg_data m @ r\<rparr>)"
    using len split assms(2) by (intro read_exact_ok) (metis append.assoc, simp)
  moreover have "read_exact (length (msg_data m)) (s\<lparr>incoming := msg_data m @ r\<rparr>) = (Ok (msg_data m), s\<lparr>incoming := r\<rparr>)"
    by (simp add: read_exact_def)
  moreover have "decode (?hdr @ msg_data m) = Ok m"
    using decode_encode [OF assms(1), of "[]"] split by simp
  ultimately show ?thesis
    using f assms(1) by (auto simp: recv_msg_def adb_ok_def Let_def)
qed

lemma recv_msg_short: "length (incoming s) < ADB_HEADER_SIZE \<Longrightarrow> recv_msg s = (None, s\<lparr>incoming := []\<rparr>)"
  by (simp add: recv_msg_def read_exact_def)

lemma message_loop_conversation:
  assumes "list_all adb_ok ms" and "incoming s = concat (map encode ms) @ r" and "length r < ADB_HEADER_SIZE"
    and "write_room s = None"
  shows "sent (message_loop i s) = sent s @ concat (map encode (conversation i ms))"
  using assms
proof (induction ms arbitrary: i s)
  case Nil
  then show ?case by (subst message_loop.simps) (simp add: recv_msg_short)
next
  case (Cons m ms)
  let ?t = "s\<lparr>incoming := concat (map encode ms) @ r\<rparr>"
  have m: "recv_msg s = (Some m, ?t)"
    using Cons.prems by (intro recv_msg_encode) simp_all
  let ?u = "?t\<lparr>sent := sent s @ concat (map encode (reply i m))\<rparr>"
  have "sent (message_loop j ?u) = sent ?u @ concat (map encode (conversation j ms))" for j
    using Cons.prems by (intro Cons.IH) simp_all
  with m Cons.prems(4) show ?case
    by (subst message_loop.simps) (simp add: dispatch_msg_reply)
qed

text \<open>
  C11. Serving one client refines the abstract conversation of the ADB protocol: for every
  sequence of well-formed messages followed by less than a header, the handler sends the
  banner and then exactly the replies of the conversation, numbering the streams it opens,
  and returns normally when the client is done.
\<close>

theorem adb_session:
  assumes "list_all adb_ok ms" and "incoming s = concat (map encode ms) @ r" and "length r < ADB_HEADER_SIZE"
    and "write_room s = None"
  shows "\<exists>t. handle_client s = (Ok (), t)
    \<and> sent t = sent s @ concat (map encode (adb_connect ''device::litedroid'' ADB_MAX_PAYLOAD # conversation 1 ms))"
  using assms by (simp add: handle_client_def write_all_ok message_loop_conversation [of ms _ r])

theorem adb_session_witness:
  "\<exists>t. handle_client (tape (concat (map encode [adb_open 7 ''host:version'', adb_close 7 1])))
     = (Ok (), t)
   \<and> sent t = concat (map encode [adb_connect ''device::litedroid'' ADB_MAX_PAYLOAD, adb_okay 1 7,
        write_msg 1 7 (as_bytes ''00040024'')])"
proof -
  let ?ms = "[adb_open 7 ''host:version'', adb_close 7 1]"
  have o: "opens ''host:version'' (adb_open 7 ''host:version'')"
    by (simp add: opens_def adb_open_def Let_def from_utf8_lossy_ascii ascii_def)
  then have "\<not> opens ''host:kill'' (adb_open 7 ''host:version'')" "arg0 (adb_open 7 ''host:version'') = 7"
    "command (adb_open 7 ''host:version'') = CMD_OPEN"
    by (simp_all add: opens_def adb_open_def Let_def)
  with o have "conversation 1 ?ms = [adb_okay 1 7, write_msg 1 7 (as_bytes ''00040024'')]"
    by (simp add: reply_def hangs_up_def opens_def adb_close_def)
  then show ?thesis
    using adb_session [of ?ms "tape (concat (map encode ?ms))" "[]"]
    by (simp add: tape_def adb_ok_open core_consts del: conversation.simps)
qed

section \<open>The server\<close>

text \<open>A server can be started once: the listener moves into the thread, and stopping does not bring it back.\<close>

theorem adb_server_life_cycle:
  "bind port = None \<Longrightarrow> \<exists>a b.
     adb_server_new bind port = Ok a \<and> \<not> adb_is_running a \<and> adb_start a = (Ok (), b) \<and> adb_is_running b
     \<and> \<not> adb_is_running (adb_stop b)
     \<and> (\<forall>c \<in> {b, adb_stop b}. adb_start c = (Err (AdbConnectionFailed ''already started''), c))"
  by (simp add: adb_server_new_def adb_start_def adb_stop_def adb_is_running_def)

text \<open>No client is served after the flag has been seen cleared.\<close>

lemma accept_loop_stops: "accept_loop (evs @ (False, c, a) # rest) = accept_loop evs"
  by (induction evs rule: accept_loop.induct) (auto split: sum.splits)

end
