(* ===== verification/LD_Host.thy ===== *)
theory LD_Host
  imports LD_Core "HOL-Library.AList"
begin

text \<open>
  What the host-side programs (\<^verbatim>\<open>crates/config\<close>, \<^verbatim>\<open>apps/daemon\<close>, \<^verbatim>\<open>apps/cli\<close>, \<^verbatim>\<open>apps/gui\<close>,
  \<^verbatim>\<open>crates/diagnostics\<close>) use of the standard library: paths, the file system, the environment and child processes.
  A path is its text; two paths name the same file when their texts agree, which holds for the paths the program
  builds with \<open>join\<close> from a common root.  Programs the code starts are parameters.
\<close>

section \<open>Paths\<close>

definition slash :: char where "slash = CHR ''/''"

definition is_absolute :: "path \<Rightarrow> bool" where
  "is_absolute p \<longleftrightarrow> p \<noteq> [] \<and> hd p = slash"

definition path_join :: "path \<Rightarrow> path \<Rightarrow> path" where
  "path_join base p =
     (if is_absolute p then p
      else if base = [] then p
      else if last base = slash then base @ p
      else base @ [slash] @ p)"

text \<open>\<open>Path::parent\<close>, on the reversed text: separators and \<open>.\<close> components at the end do not count.\<close>

fun trim_path_rev :: "string \<Rightarrow> string" where
  "trim_path_rev [] = []"
| "trim_path_rev (c # cs) =
     (if c = slash \<or> (c = CHR ''.'' \<and> cs \<noteq> [] \<and> hd cs = slash) then trim_path_rev cs else c # cs)"

definition parent :: "path \<Rightarrow> path option" where
  "parent p =
     (let q = trim_path_rev (rev p) in
      if q = [] then None
      else
        let d = rev (trim_path_rev (dropWhile (\<lambda>c. c \<noteq> slash) q)) in
        Some (if d = [] \<and> is_absolute p then [slash] else d))"

lemma length_trim_path_rev: "length (trim_path_rev s) \<le> length s"
  by (induction s) auto

lemma hd_trim_path_rev: "trim_path_rev s \<noteq> [] \<Longrightarrow> hd (trim_path_rev s) \<noteq> slash"
  by (induction s) (auto split: if_splits)

lemma length_parent:
  assumes "parent p = Some q"
  shows "length q < length p"
proof -
  let ?t = "trim_path_rev (rev p)"
  let ?w = "dropWhile (\<lambda>c. c \<noteq> slash) ?t"
  from assms have t: "?t \<noteq> []"
    and q: "q = (if trim_path_rev ?w = [] \<and> is_absolute p then [slash] else rev (trim_path_rev ?w))"
    by (auto simp: parent_def Let_def split: if_splits)
  obtain c cs where c: "?t = c # cs" "c \<noteq> slash"
    using t hd_trim_path_rev [of "rev p"] by (cases ?t) auto
  then have "length ?w < length ?t"
    by (simp add: length_dropWhile_le le_imp_less_Suc)
  then have less: "length (trim_path_rev ?w) < length p"
    using length_trim_path_rev [of ?w] length_trim_path_rev [of "rev p"] by simp
  have "p \<noteq> [slash]"
    using t by auto
  then have "1 < length p" if "is_absolute p"
    using that by (cases p) (auto simp: is_absolute_def neq_Nil_conv)
  with less q show ?thesis by auto
qed

section \<open>Files and directories\<close>

datatype fs_op = ReadFile | WriteFile | CreateDir | ReadDir | RemoveDir | RemoveFile

datatype child_status = Alive | Exited bool | Reaped io_error

text \<open>
  The host: its regular files and directories (in the order a directory lists them), the operations it refuses (for
  lack of permission or of space), the environment, the home directory, whether a file handle can be duplicated, and the children the process has
  started: alive, ended with or without success, or collected by someone else.
\<close>

record host =
  files :: "(path \<times> bytes) list"
  dirs :: "path list"
  refuses :: "fs_op \<Rightarrow> path \<Rightarrow> io_error option"
  env_vars :: "string \<Rightarrow> string option"
  home_dir :: "path option"
  dup_refused :: "io_error option"
  children :: "(nat \<times> child_status) list"
  next_child :: nat

definition not_found :: io_error where "not_found = ''No such file or directory (os error 2)''"

definition is_file :: "host \<Rightarrow> path \<Rightarrow> bool" where
  "is_file h p \<longleftrightarrow> map_of (files h) p \<noteq> None"

definition is_dir :: "host \<Rightarrow> path \<Rightarrow> bool" where
  "is_dir h p \<longleftrightarrow> p = [slash] \<or> p \<in> set (dirs h)"

definition exists :: "host \<Rightarrow> path \<Rightarrow> bool" where
  "exists h p \<longleftrightarrow> is_file h p \<or> is_dir h p"

definition read_file :: "path \<Rightarrow> host \<Rightarrow> (io_error, bytes) outcome" where
  "read_file p h =
     (case refuses h ReadFile p of
        Some e \<Rightarrow> Err e
      | None \<Rightarrow>
          (case map_of (files h) p of
             Some bs \<Rightarrow> Ok bs
           | None \<Rightarrow> Err (if is_dir h p then ''Is a directory (os error 21)'' else not_found)))"

definition read_to_string :: "path \<Rightarrow> host \<Rightarrow> (io_error, string) outcome" where
  "read_to_string p h =
     bind_outcome (read_file p h) (\<lambda>bs. ok_or ''stream did not contain valid UTF-8'' (from_utf8 bs))"

text \<open>The directory a new entry goes into: the current one for a path without separator.\<close>

definition parent_exists :: "host \<Rightarrow> path \<Rightarrow> bool" where
  "parent_exists h p = (case parent p of None \<Rightarrow> False | Some q \<Rightarrow> q = [] \<or> is_dir h q)"

text \<open>\<open>fs::write\<close>, and \<open>File::create\<close> followed by \<open>write_all\<close>.\<close>

definition write_file :: "path \<Rightarrow> bytes \<Rightarrow> (host, io_error, unit) action" where
  "write_file p bs = (\<lambda>h.
     case refuses h WriteFile p of
       Some e \<Rightarrow> (Err e, h)
     | None \<Rightarrow>
         if is_dir h p then (Err ''Is a directory (os error 21)'', h)
         else if parent_exists h p then (Ok (), h\<lparr>files := AList.update p bs (files h)\<rparr>)
         else (Err not_found, h))"

definition mkdir :: "path \<Rightarrow> (host, io_error, unit) action" where
  "mkdir p = (\<lambda>h.
     case refuses h CreateDir p of
       Some e \<Rightarrow> (Err e, h)
     | None \<Rightarrow>
         if exists h p then (Err ''File exists (os error 17)'', h)
         else if parent_exists h p then (Ok (), h\<lparr>dirs := dirs h @ [p]\<rparr>)
         else (Err not_found, h))"

text \<open>\<open>fs::create_dir_all\<close>: nothing to do for a directory that exists, else the ancestors first.\<close>

function create_dir_all :: "path \<Rightarrow> (host, io_error, unit) action" where
  "create_dir_all p h =
     (if p = [] \<or> is_dir h p then (Ok (), h)
      else case parent p of
        None \<Rightarrow> (Err ''failed to create whole tree'', h)
      | Some q \<Rightarrow> andthen (create_dir_all q) (\<lambda>_. mkdir p) h)"
  by pat_completeness auto
termination
  by (relation "measure (\<lambda>(p, h). length p)") (auto dest: length_parent)

declare create_dir_all.simps [simp del]

text \<open>\<open>fs::read_dir\<close>, as the paths of the entries.\<close>

definition read_dir :: "path \<Rightarrow> host \<Rightarrow> (io_error, path list) outcome" where
  "read_dir p h =
     (case refuses h ReadDir p of
        Some e \<Rightarrow> Err e
      | None \<Rightarrow>
          if is_dir h p then Ok (filter (\<lambda>x. parent x = Some p) (dirs h @ map fst (files h)))
          else Err (if is_file h p then ''Not a directory (os error 20)'' else not_found))"

definition beneath :: "path \<Rightarrow> path \<Rightarrow> bool" where
  "beneath p x \<longleftrightarrow> x = p \<or> starts_with x (p @ [slash])"

definition remove_dir_all :: "path \<Rightarrow> (host, io_error, unit) action" where
  "remove_dir_all p = (\<lambda>h.
     case refuses h RemoveDir p of
       Some e \<Rightarrow> (Err e, h)
     | None \<Rightarrow>
         if is_dir h p
         then (Ok (), h\<lparr>files := filter (\<lambda>(x, _). \<not> beneath p x) (files h), dirs := filter (\<lambda>x. \<not> beneath p x) (dirs h)\<rparr>)
         else (Err (if is_file h p then ''Not a directory (os error 20)'' else not_found), h))"

definition remove_file :: "path \<Rightarrow> (host, io_error, unit) action" where
  "remove_file p = (\<lambda>h.
     case refuses h RemoveFile p of
       Some e \<Rightarrow> (Err e, h)
     | None \<Rightarrow>
         if is_file h p then (Ok (), h\<lparr>files := filter (\<lambda>(x, _). x \<noteq> p) (files h)\<rparr>)
         else (Err (if is_dir h p then ''Is a directory (os error 21)'' else not_found), h))"

definition copy_file :: "path \<Rightarrow> path \<Rightarrow> (host, io_error, unit) action" where
  "copy_file src dst = andthen (lift_outcome (read_file src)) (write_file dst)"

text \<open>\<open>File::try_clone\<close> on an open file.\<close>

definition try_clone :: "(host, io_error, unit) action" where
  "try_clone = lift_outcome (\<lambda>h. case dup_refused h of Some e \<Rightarrow> Err e | None \<Rightarrow> Ok ())"

section \<open>Processes\<close>

text \<open>
  What running a program to its end yields: the status and both output streams, or the step that failed: starting
  it, feeding its standard input, or collecting it.
\<close>

record command_output =
  status_success :: bool
  stdout :: bytes
  stderr :: bytes

datatype command_error = SpawnError io_error | StdinError io_error | WaitError io_error

fun command_error_text :: "command_error \<Rightarrow> io_error" where
  "command_error_text (SpawnError e) = e"
| "command_error_text (StdinError e) = e"
| "command_error_text (WaitError e) = e"

text \<open>
  The programs of the host, as parameters.  \<open>run_program prog args input\<close> may change the files of the host, not the
  children of the calling process.  \<open>spawn_refused\<close> is the error of a spawn that fails.
\<close>

record programs =
  run_program :: "path \<Rightarrow> string list \<Rightarrow> bytes \<Rightarrow> host \<Rightarrow>
    (command_error, command_output) outcome \<times> (path \<times> bytes) list \<times> path list"
  spawn_refused :: "path \<Rightarrow> string list \<Rightarrow> host \<Rightarrow> io_error option"

definition command_output :: "programs \<Rightarrow> path \<Rightarrow> string list \<Rightarrow> bytes \<Rightarrow>
    (host, command_error, command_output) action" where
  "command_output ps prog args input = (\<lambda>h.
     case run_program ps prog args input h of (r, fs, ds) \<Rightarrow> (r, h\<lparr>files := fs, dirs := ds\<rparr>))"

definition spawn :: "programs \<Rightarrow> path \<Rightarrow> string list \<Rightarrow> (host, io_error, nat) action" where
  "spawn ps prog args = (\<lambda>h.
     case spawn_refused ps prog args h of
       Some e \<Rightarrow> (Err e, h)
     | None \<Rightarrow>
         (Ok (next_child h),
          h\<lparr>children := AList.update (next_child h) Alive (children h), next_child := Suc (next_child h)\<rparr>))"

text \<open>\<open>Child::try_wait\<close>: \<open>None\<close> while the child runs, else whether it succeeded.\<close>

definition try_wait :: "nat \<Rightarrow> host \<Rightarrow> (io_error, bool option) outcome" where
  "try_wait c h =
     (case map_of (children h) c of
        Some Alive \<Rightarrow> Ok None
      | Some (Exited ok) \<Rightarrow> Ok (Some ok)
      | Some (Reaped e) \<Rightarrow> Err e
      | None \<Rightarrow> Err ''No child processes (os error 10)'')"

text \<open>\<open>kill\<close> followed by \<open>wait\<close>, both results ignored: a child that runs is ended and collected.\<close>

definition kill_and_wait :: "nat \<Rightarrow> host \<Rightarrow> host" where
  "kill_and_wait c h =
     (if map_of (children h) c = Some Alive then h\<lparr>children := AList.update c (Exited False) (children h)\<rparr> else h)"

section \<open>Laws of the host\<close>

definition alive :: "host \<Rightarrow> nat set" where
  "alive h = {c. map_of (children h) c = Some Alive}"

lemma alive_kill [simp]: "alive (kill_and_wait c h) = alive h - {c}"
  by (auto simp: alive_def kill_and_wait_def update_conv)

lemma is_dir_root [simp]: "is_dir h [slash]"
  by (simp add: is_dir_def)

lemma read_write_file:
  "write_file p bs h = (Ok (), h') \<Longrightarrow>
     map_of (files h') = (map_of (files h))(p \<mapsto> bs) \<and> dirs h' = dirs h \<and> refuses h' = refuses h"
  by (auto simp: write_file_def update_conv split: option.splits if_splits)

lemma mkdir_ok:
  "mkdir p h = (Ok (), h') \<Longrightarrow> h' = h\<lparr>dirs := dirs h @ [p]\<rparr>"
  by (auto simp: mkdir_def split: option.splits if_splits)

text \<open>Everything but the set of directories stays, and that only grows.\<close>

definition only_dirs_grow :: "host \<Rightarrow> host \<Rightarrow> bool" where
  "only_dirs_grow h h' \<longleftrightarrow> (\<exists>ds. h' = h\<lparr>dirs := dirs h @ ds\<rparr>)"

lemma only_dirs_grow_refl [simp]: "only_dirs_grow h h"
  by (auto simp: only_dirs_grow_def intro: exI [of _ "[]"])

lemma only_dirs_grow_trans: "only_dirs_grow a b \<Longrightarrow> only_dirs_grow b c \<Longrightarrow> only_dirs_grow a c"
  by (auto simp: only_dirs_grow_def)

lemma mkdir_grows: "only_dirs_grow h (snd (mkdir p h))"
  by (auto simp: mkdir_def only_dirs_grow_def split: option.splits intro: exI [of _ "[]"])

lemma create_dir_all_grows: "only_dirs_grow h (snd (create_dir_all p h))"
proof (induction p h rule: create_dir_all.induct)
  case (1 p h)
  show ?case
  proof (cases "p = [] \<or> is_dir h p \<or> parent p = None")
    case True
    then show ?thesis by (subst create_dir_all.simps) (auto split: option.splits)
  next
    case False
    then obtain q where q: "parent p = Some q" by auto
    obtain r u where u: "create_dir_all q h = (r, u)" by fastforce
    have "only_dirs_grow h (snd (create_dir_all q h))"
      by (rule 1) (use False q in simp_all)
    with u have "only_dirs_grow h u" by simp
    with False q u show ?thesis
      by (subst create_dir_all.simps) (cases r; auto intro: only_dirs_grow_trans mkdir_grows)
  qed
qed

lemma create_dir_all_creates:
  assumes "create_dir_all p h = (Ok (), h')" and "p \<noteq> []"
  shows "is_dir h' p"
proof (cases "is_dir h p")
  case True
  with assms show ?thesis by (subst (asm) create_dir_all.simps) auto
next
  case False
  with assms obtain q u where "parent p = Some q" "mkdir p u = (Ok (), h')"
    by (subst (asm) create_dir_all.simps) (auto simp: andthen_eq_Ok split: option.splits)
  then show ?thesis by (auto dest!: mkdir_ok simp: is_dir_def)
qed

lemma only_dirs_growD:
  assumes "only_dirs_grow h h'"
  shows "files h' = files h" and "children h' = children h" and "refuses h' = refuses h" and "home_dir h' = home_dir h"
    and "env_vars h' = env_vars h" and "next_child h' = next_child h" and "is_dir h p \<Longrightarrow> is_dir h' p"
  using assms by (auto simp: only_dirs_grow_def is_dir_def)

text \<open>On a host that refuses nothing and has no file in the way, directories can always be created.\<close>

lemma create_dir_all_no_panic: "fst (create_dir_all p h) \<noteq> Panic"
proof (induction p h rule: create_dir_all.induct)
  case (1 p h)
  show ?case
  proof (cases "p = [] \<or> is_dir h p \<or> parent p = None")
    case True
    then show ?thesis by (subst create_dir_all.simps) (auto split: option.splits)
  next
    case False
    then obtain q where q: "parent p = Some q" by auto
    obtain r u where u: "create_dir_all q h = (r, u)" by fastforce
    have "fst (create_dir_all q h) \<noteq> Panic"
      by (rule 1) (use False q in simp_all)
    with u have "r \<noteq> Panic" by simp
    moreover have "fst (mkdir p u) \<noteq> Panic"
      by (simp add: mkdir_def split: option.splits)
    ultimately show ?thesis
      using False q u by (subst create_dir_all.simps) (cases r; auto)
  qed
qed

end
