(* ===== verification/LD_Json.thy ===== *)
theory LD_Json
  imports LD_Core
begin

text \<open>
  The JSON values that requests, responses and device profiles are made of, and the accessors the program calls on
  them.  Numbers keep the three forms they can have: a non-negative integer, a negative integer, or a fraction,
  which is kept as the literal that denotes it.  The text form of a value is not modelled here: reading and printing are
  parameters of the operations that use them.
\<close>

datatype json =
    JNull
  | JBool bool
  | JUInt u64
  | JNegInt int
  | JFloat string
  | JString string
  | JArray "json list"
  | JObject "(string \<times> json) list"

text \<open>\<open>Value::get\<close> with a string key, \<open>as_str\<close>, \<open>as_u64\<close> and the assignment \<open>v["key"] = x\<close> on an object.\<close>

fun json_get :: "string \<Rightarrow> json \<Rightarrow> json option" where
  "json_get k (JObject kvs) = map_of kvs k"
| "json_get k _ = None"

fun as_str :: "json \<Rightarrow> string option" where
  "as_str (JString s) = Some s"
| "as_str _ = None"

fun as_u64 :: "json \<Rightarrow> u64 option" where
  "as_u64 (JUInt n) = Some n"
| "as_u64 _ = None"

fun set_key :: "string \<Rightarrow> json \<Rightarrow> json \<Rightarrow> json" where
  "set_key k x (JObject kvs) = JObject (filter (\<lambda>(k', _). k' \<noteq> k) kvs @ [(k, x)])"
| "set_key k x v = v"

definition get_str :: "string \<Rightarrow> json \<Rightarrow> string option" where
  "get_str k v = Option.bind (json_get k v) as_str"

definition get_u64 :: "string \<Rightarrow> json \<Rightarrow> u64 option" where
  "get_u64 k v = Option.bind (json_get k v) as_u64"

definition json_u32 :: "u32 \<Rightarrow> json" where
  "json_u32 n = JUInt (ucast n)"

text \<open>A string or \<open>null\<close>, as \<open>json!\<close> renders an \<open>Option<String>\<close>.\<close>

definition json_opt :: "string option \<Rightarrow> json" where
  "json_opt s = (case s of None \<Rightarrow> JNull | Some t \<Rightarrow> JString t)"

lemma json_get_set_key: "json_get k (set_key j x (JObject kvs)) = (if k = j then Some x else map_of kvs k)"
proof -
  have "map_of (filter (\<lambda>(k', _). k' \<noteq> j) kvs) k = (if k = j then None else map_of kvs k)"
    by (induction kvs) auto
  then show ?thesis by (auto simp: map_add_def split: option.splits)
qed

lemma get_json_simps [simp]:
  "get_str k (JObject ((k', JString s) # kvs)) = (if k' = k then Some s else get_str k (JObject kvs))"
  "get_str k (JObject ((k', JUInt n) # kvs)) = (if k' = k then None else get_str k (JObject kvs))"
  "get_str k (JObject []) = None"
  "get_u64 k (JObject ((k', JString s) # kvs)) = (if k' = k then None else get_u64 k (JObject kvs))"
  "get_u64 k (JObject ((k', JUInt n) # kvs)) = (if k' = k then Some n else get_u64 k (JObject kvs))"
  "get_u64 k (JObject []) = None"
  by (simp_all add: get_str_def get_u64_def)

lemma ucast_json_u32: "ucast (ucast (n :: u32) :: u64) = n"
  by (simp add: ucast_up_ucast_id is_up)

end
