(* ===== verification/LD_Config.thy ===== *)
theory LD_Config
  imports LD_Host LD_Json
begin

text \<open>
  The crate \<^verbatim>\<open>crates/config\<close>: the global configuration and its file, the directory layout, the device profiles
  (\<^verbatim>\<open>metadata.json\<close>) and the installation of Android images.  Reading and printing TOML and JSON, the programs of
  the Android SDK and the generator of identifiers are parameters (\<open>libs\<close>).
\<close>

record GlobalConfig =
  socket_path :: string
  log_level :: string
  cfg_data_dir :: string
  cfg_config_dir :: string

definition global_config_default :: GlobalConfig where
  "global_config_default =
     \<lparr>socket_path = DAEMON_SOCKET_PATH, log_level = ''info'', cfg_data_dir = DEFAULT_DATA_DIR,
      cfg_config_dir = DEFAULT_CONFIG_DIR\<rparr>"

record LiteDroidConfig =
  global :: GlobalConfig

definition litedroid_config_default :: LiteDroidConfig where
  "litedroid_config_default = \<lparr>global = global_config_default\<rparr>"

record libs =
  json_from_str :: "string \<Rightarrow> (string, json) outcome"
  json_to_string_pretty :: "json \<Rightarrow> (string, string) outcome"
  toml_from_str :: "string \<Rightarrow> (string, LiteDroidConfig) outcome"
  toml_to_string_pretty :: "LiteDroidConfig \<Rightarrow> (string, string) outcome"
  toml_global_pretty :: "GlobalConfig \<Rightarrow> (string, string) outcome"
  progs :: programs
  new_v4 :: uuid

section \<open>Paths\<close>

definition expand_tilde :: "host \<Rightarrow> string \<Rightarrow> string" where
  "expand_tilde h p =
     (if starts_with p ''~/'' then
        (case home_dir h of Some home \<Rightarrow> home @ ''/'' @ drop 2 p | None \<Rightarrow> p)
      else p)"

definition data_dir :: "LiteDroidConfig \<Rightarrow> host \<Rightarrow> path" where
  "data_dir c h = expand_tilde h (cfg_data_dir (global c))"

definition devices_dir :: "LiteDroidConfig \<Rightarrow> host \<Rightarrow> path" where
  "devices_dir c h = path_join (data_dir c h) ''devices''"

definition images_dir :: "LiteDroidConfig \<Rightarrow> host \<Rightarrow> path" where
  "images_dir c h = path_join (data_dir c h) ''images''"

definition snapshots_dir :: "LiteDroidConfig \<Rightarrow> host \<Rightarrow> path" where
  "snapshots_dir c h = path_join (data_dir c h) ''snapshots''"

section \<open>The configuration file\<close>

text \<open>The paths depend on the home directory alone, which no operation changes.\<close>

definition layout :: "LiteDroidConfig \<Rightarrow> host \<Rightarrow> path list" where
  "layout c h =
     [expand_tilde h (cfg_config_dir (global c)), data_dir c h, devices_dir c h, images_dir c h, snapshots_dir c h,
      path_join (data_dir c h) ''logs'', path_join (data_dir c h) ''run'']"

definition ensure_layout :: "LiteDroidConfig \<Rightarrow> (host, LiteDroidError, unit) action" where
  "ensure_layout c =
     andthen (gets (layout c)) (\<lambda>ds. for_each ds (\<lambda>d. os_error (create_dir_all d)))"

definition config_load :: "libs \<Rightarrow> (host, LiteDroidError, LiteDroidConfig) action" where
  "config_load L = (\<lambda>h.
     let full_path = expand_tilde h DEFAULT_CONFIG_DIR @ ''/config.toml'' in
     if \<not> exists h full_path
     then andthen (ensure_layout litedroid_config_default) (\<lambda>_. ret litedroid_config_default) h
     else
       andthen (os_error (lift_outcome (read_to_string full_path))) (\<lambda>content.
       andthen (lift_outcome (\<lambda>_. map_err ConfigError (toml_from_str L content))) (\<lambda>config.
       andthen (ensure_layout config) (\<lambda>_. ret config))) h)"

definition config_save :: "libs \<Rightarrow> LiteDroidConfig \<Rightarrow> (host, LiteDroidError, unit) action" where
  "config_save L c =
     andthen (ensure_layout c) (\<lambda>_.
     andthen (gets (\<lambda>h. expand_tilde h (cfg_config_dir (global c)))) (\<lambda>dir.
     andthen (os_error (create_dir_all dir)) (\<lambda>_.
     andthen (lift_outcome (\<lambda>_. map_err ConfigError (toml_to_string_pretty L c))) (\<lambda>content.
     os_error (write_file (path_join dir ''config.toml'') (as_bytes content))))))"

section \<open>Device profiles\<close>

definition default_device_config :: "libs \<Rightarrow> LiteDroidConfig \<Rightarrow> host \<Rightarrow> DeviceConfig" where
  "default_device_config L c h =
     (let config = device_config_default (new_v4 L); images = images_dir c h in
      config\<lparr>storage := (storage config)
               \<lparr>userdata_path := path_join images ''userdata.img'', cache_path := path_join images ''cache.img''\<rparr>,
             kernel_path := path_join images ''kernel'',
             initramfs_path := path_join images ''ramdisk.img'',
             system_image_path := path_join images ''system.img''\<rparr>)"

definition metadata_path :: "LiteDroidConfig \<Rightarrow> string \<Rightarrow> host \<Rightarrow> path" where
  "metadata_path c name h = path_join (path_join (devices_dir c h) name) ''metadata.json''"

text \<open>The fields of the profile that override the defaults; integers are cut to the width of their field.\<close>

definition override :: "'a option \<Rightarrow> ('a \<Rightarrow> 'c \<Rightarrow> 'c) \<Rightarrow> 'c \<Rightarrow> 'c" where
  "override v f c = (case v of Some x \<Rightarrow> f x c | None \<Rightarrow> c)"

definition apply_metadata :: "json \<Rightarrow> string \<Rightarrow> DeviceConfig \<Rightarrow> DeviceConfig" where
  "apply_metadata md name config =
     (let c0 = config\<lparr>dev_name := (case get_str ''name'' md of Some n \<Rightarrow> n | None \<Rightarrow> name)\<rparr>;
          c1 = override (get_u64 ''vcpu_count'' md) (\<lambda>v c. c\<lparr>vcpu_count := ucast v\<rparr>) c0;
          c2 = override (get_u64 ''ram_mb'' md) (\<lambda>v c. c\<lparr>ram_mb := v\<rparr>) c1;
          c3 = override (get_str ''android_version'' md) (\<lambda>v c. c\<lparr>android_version := v\<rparr>) c2;
          c4 = override (get_u64 ''api_level'' md) (\<lambda>v c. c\<lparr>api_level := ucast v\<rparr>) c3;
          c5 = override (get_u64 ''width'' md) (\<lambda>v c. c\<lparr>display := (display c)\<lparr>width := ucast v\<rparr>\<rparr>) c4;
          c6 = override (get_u64 ''height'' md) (\<lambda>v c. c\<lparr>display := (display c)\<lparr>height := ucast v\<rparr>\<rparr>) c5
      in override (get_u64 ''dpi'' md) (\<lambda>v c. c\<lparr>display := (display c)\<lparr>dpi := ucast v\<rparr>\<rparr>) c6)"

definition device_config :: "libs \<Rightarrow> LiteDroidConfig \<Rightarrow> string \<Rightarrow> host \<Rightarrow> DeviceConfig ld_result" where
  "device_config L c name h =
     (case read_to_string (metadata_path c name h) h of
        Ok text \<Rightarrow>
          bind_outcome (map_err ConfigError (json_from_str L text)) (\<lambda>md.
          let config = apply_metadata md name (default_device_config L c h) in
          bind_outcome (validate config) (\<lambda>_. Ok config))
      | Err _ \<Rightarrow> Err (DeviceNotFound name)
      | Panic \<Rightarrow> Panic)"

definition profile_metadata :: "DeviceConfig \<Rightarrow> json" where
  "profile_metadata config =
     JObject [(''name'', JString (dev_name config)), (''id'', JString (dev_id config)),
       (''android_version'', JString (android_version config)), (''api_level'', json_u32 (api_level config)),
       (''ram_mb'', JUInt (ram_mb config)), (''vcpu_count'', json_u32 (vcpu_count config)),
       (''width'', json_u32 (width (display config))), (''height'', json_u32 (height (display config))),
       (''dpi'', json_u32 (dpi (display config)))]"

definition ensure_default_device :: "libs \<Rightarrow> LiteDroidConfig \<Rightarrow> (host, LiteDroidError, DeviceConfig) action" where
  "ensure_default_device L c = (\<lambda>h.
     let directory = path_join (devices_dir c h) ''default''; mp = path_join directory ''metadata.json'' in
     if is_file h mp then (device_config L c ''default'' h, h)
     else
       let config = (default_device_config L c h)\<lparr>dev_name := ''default''\<rparr> in
       andthen (os_error (create_dir_all directory)) (\<lambda>_.
       andthen (lift_outcome (\<lambda>_. map_err ConfigError (json_to_string_pretty L (profile_metadata config)))) (\<lambda>text.
       andthen (os_error (write_file mp (as_bytes text))) (\<lambda>_. ret config))) h)"

section \<open>Android images\<close>

definition is_non_empty :: "host \<Rightarrow> path \<Rightarrow> bool" where
  "is_non_empty h p \<longleftrightarrow> (case map_of (files h) p of Some bs \<Rightarrow> bs \<noteq> [] | None \<Rightarrow> False)"

text \<open>The magic numbers of a sparse image, a GPT disk and an ext4 file system; a short file fails the read.\<close>

definition system_image_header :: "bytes \<Rightarrow> bool" where
  "system_image_header bs \<longleftrightarrow>
     4 \<le> length bs \<and>
     (take 4 bs = [0x3a, 0xff, 0x26, 0xed] \<or>
      0x208 \<le> length bs \<and>
      (take 8 (drop 0x200 bs) = as_bytes ''EFI PART'' \<or>
       0x43a \<le> length bs \<and> take 2 (drop 0x438 bs) = [0x53, 0xef]))"

definition images_are_ready :: "path \<Rightarrow> host \<Rightarrow> bool" where
  "images_are_ready images h \<longleftrightarrow>
     (let kern = path_join images ''kernel''; ramdisk = path_join images ''ramdisk.img'';
          system = path_join images ''system.img'' in
      is_non_empty h kern
      \<and> (case read_file kern h of Ok bs \<Rightarrow> list_ex (\<lambda>b. b \<noteq> 0) bs | _ \<Rightarrow> False)
      \<and> is_non_empty h ramdisk
      \<and> is_non_empty h system
      \<and> (case read_file system h of Ok bs \<Rightarrow> system_image_header bs | _ \<Rightarrow> False))"

definition sdk_root :: "LiteDroidConfig \<Rightarrow> host \<Rightarrow> path option" where
  "sdk_root c h =
     (case env_vars h ''ANDROID_SDK_ROOT'' of
        Some p \<Rightarrow> Some p
      | None \<Rightarrow>
          (case env_vars h ''ANDROID_HOME'' of
             Some p \<Rightarrow> Some p
           | None \<Rightarrow>
               (let p = path_join (data_dir c h) ''android-sdk'' in if exists h p then Some p else None)))"

definition find_sdkmanager :: "libs \<Rightarrow> path \<Rightarrow> host \<Rightarrow> path option \<times> host" where
  "find_sdkmanager L root = (\<lambda>h.
     case find (is_file h) (map (path_join root)
        [''cmdline-tools/latest/bin/sdkmanager'', ''cmdline-tools/bin/sdkmanager'', ''tools/bin/sdkmanager'']) of
       Some p \<Rightarrow> (Some p, h)
     | None \<Rightarrow>
         (case command_output (progs L) ''sdkmanager'' [''--version''] [] h of
            (Ok out, h') \<Rightarrow> (if status_success out then Some ''sdkmanager'' else None, h')
          | (_, h') \<Rightarrow> (None, h')))"

definition copy_image :: "path \<Rightarrow> string list \<Rightarrow> path \<Rightarrow> (host, LiteDroidError, unit) action" where
  "copy_image package_dir names destination = (\<lambda>h.
     case find (is_non_empty h) (map (path_join package_dir) names) of
       None \<Rightarrow>
         (Err (ConfigError (''Android SDK package is missing '' @ join '' or '' names @ '' in '' @ package_dir)), h)
     | Some source \<Rightarrow> os_error (copy_file source destination) h)"

text \<open>Accepting the licences: the program gets sixty-four times \<open>y\<close> on its standard input.\<close>

definition accept_licenses :: "libs \<Rightarrow> path \<Rightarrow> path \<Rightarrow> (host, LiteDroidError, unit) action" where
  "accept_licenses L sdkmanager root = (\<lambda>h.
     case command_output (progs L) sdkmanager [''--sdk_root'', root, ''--licenses'']
         (concat (replicate 64 (as_bytes (''y'' @ nl)))) h of
       (Ok out, h') \<Rightarrow>
         (if status_success out then Ok () else Err (ConfigError ''Android SDK licenses were not accepted''), h')
     | (Err (SpawnError e), h') \<Rightarrow> (Err (ConfigError (''starting sdkmanager: '' @ e)), h')
     | (Err e, h') \<Rightarrow> (Err (OsError (command_error_text e)), h')
     | (Panic, h') \<Rightarrow> (Panic, h'))"

definition sdk_package :: "u32 \<Rightarrow> string" where
  "sdk_package api = ''system-images;android-'' @ show_nat (unat api) @ '';default;x86_64''"

definition install_package :: "libs \<Rightarrow> path \<Rightarrow> path \<Rightarrow> string \<Rightarrow> (host, LiteDroidError, unit) action" where
  "install_package L sdkmanager root package = (\<lambda>h.
     case command_output (progs L) sdkmanager [''--sdk_root'', root, package] [] h of
       (Ok out, h') \<Rightarrow>
         (if status_success out then Ok ()
          else Err (ConfigError (''sdkmanager could not install '' @ package @ '': ''
                 @ trim (from_utf8_lossy (stderr out)))), h')
     | (Err e, h') \<Rightarrow> (Err (OsError (command_error_text e)), h')
     | (Panic, h') \<Rightarrow> (Panic, h'))"

text \<open>The images that are not ready: licences, installation, and a copy of each file.\<close>

definition copy_images :: "u32 \<Rightarrow> path \<Rightarrow> path \<Rightarrow> (host, LiteDroidError, unit) action" where
  "copy_images api root images =
     (let package_dir = path_join (path_join (path_join (path_join root ''system-images'')
        (''android-'' @ show_nat (unat api))) ''default'') ''x86_64'' in
      andthen (copy_image package_dir [''kernel-ranchu'', ''kernel''] (path_join images ''kernel'')) (\<lambda>_.
      andthen (copy_image package_dir [''ramdisk.img''] (path_join images ''ramdisk.img'')) (\<lambda>_.
      copy_image package_dir [''system.img''] (path_join images ''system.img''))))"

definition ensure_android_images :: "libs \<Rightarrow> LiteDroidConfig \<Rightarrow> u32 \<Rightarrow> (host, LiteDroidError, unit) action" where
  "ensure_android_images L c api =
     andthen (gets (images_dir c)) (\<lambda>images.
     andthen (os_error (create_dir_all images)) (\<lambda>_.
     andthen (gets (images_are_ready images)) (\<lambda>ready.
     if ready then ret ()
     else
       andthen (lift_outcome (\<lambda>h. ok_or (ConfigError
         ''Android SDK not found. Set ANDROID_HOME/ANDROID_SDK_ROOT or install command-line tools.'')
         (sdk_root c h))) (\<lambda>root.
       andthen (\<lambda>h. case find_sdkmanager L root h of (p, h') \<Rightarrow>
         (ok_or (ConfigError (''sdkmanager not found under '' @ root
            @ ''. Install Android SDK command-line tools.'')) p, h')) (\<lambda>sdkmanager.
       andthen (accept_licenses L sdkmanager root) (\<lambda>_.
       andthen (install_package L sdkmanager root (sdk_package api)) (\<lambda>_.
       copy_images api root images)))))))"

section \<open>The layout\<close>

lemma create_dir_all_present: "is_dir h p \<Longrightarrow> create_dir_all p h = (Ok (), h)"
  by (subst create_dir_all.simps) simp

lemma make_dirs_ok:
  assumes "for_each ds (\<lambda>d. os_error (create_dir_all d)) h = (Ok (), h')"
  shows "only_dirs_grow h h' \<and> (\<forall>d \<in> set ds. d \<noteq> [] \<longrightarrow> is_dir h' d)"
  using assms
proof (induction ds arbitrary: h)
  case (Cons d ds)
  then obtain u where u: "create_dir_all d h = (Ok (), u)"
    and r: "for_each ds (\<lambda>d. os_error (create_dir_all d)) u = (Ok (), h')"
    by (auto simp: andthen_eq_Ok os_error_eq_Ok)
  have "only_dirs_grow h u"
    using create_dir_all_grows [of h d] u by simp
  with Cons.IH [OF r] u show ?case
    by (auto intro: only_dirs_grow_trans only_dirs_growD(7) dest: create_dir_all_creates)
qed simp

lemma make_dirs_present:
  "\<forall>d \<in> set ds. is_dir h d \<Longrightarrow> for_each ds (\<lambda>d. os_error (create_dir_all d)) h = (Ok (), h)"
  by (induction ds) (simp_all add: create_dir_all_present)

lemma ensure_layout_ok:
  assumes "ensure_layout c h = (Ok (), h')"
  shows "only_dirs_grow h h'" and "\<forall>d \<in> set (layout c h). d \<noteq> [] \<longrightarrow> is_dir h' d"
  using make_dirs_ok assms by (auto simp: ensure_layout_def andthen_gets)

lemma layout_home: "home_dir h' = home_dir h \<Longrightarrow> layout c h' = layout c h"
  by (simp add: layout_def data_dir_def devices_dir_def images_dir_def snapshots_dir_def expand_tilde_def)

lemma path_join_Nil_iff [simp]: "path_join base p = [] \<longleftrightarrow> base = [] \<and> p = []"
  "[] = path_join base p \<longleftrightarrow> base = [] \<and> p = []"
  by (auto simp: path_join_def is_absolute_def)

lemma ensure_layout_present:
  "\<forall>d \<in> set (layout c h). is_dir h d \<Longrightarrow> ensure_layout c h = (Ok (), h)"
  by (simp add: ensure_layout_def andthen_gets make_dirs_present)

text \<open>Whatever configuration is loaded, its directories exist afterwards and no file has changed.\<close>

theorem config_load_layout:
  assumes "config_load L h = (Ok c, h')"
  shows "files h' = files h \<and> children h' = children h \<and> (\<forall>d \<in> set (layout c h'). d \<noteq> [] \<longrightarrow> is_dir h' d)"
proof -
  have "ensure_layout c h = (Ok (), h')"
    using assms by (auto simp: config_load_def Let_def andthen_eq_Ok os_error_eq_Ok split: if_splits)
  then show ?thesis
    using ensure_layout_ok [of c h h'] layout_home [of h' h c] by (simp add: only_dirs_growD)
qed

section \<open>Saving and loading\<close>

lemma default_config_file: "path_join (expand_tilde h DEFAULT_CONFIG_DIR) ''config.toml'' = expand_tilde h DEFAULT_CONFIG_DIR @ ''/config.toml''"
  by (simp add: expand_tilde_def DEFAULT_CONFIG_DIR_def starts_with_def path_join_def is_absolute_def slash_def split: option.splits)

lemma read_to_string_written:
  "map_of (files h) p = Some (as_bytes t) \<Longrightarrow> refuses h ReadFile p = None \<Longrightarrow> from_utf8 (as_bytes t) = Some t
     \<Longrightarrow> read_to_string p h = Ok t"
  by (simp add: read_to_string_def read_file_def)

lemma config_save_ok:
  assumes "config_save L c h = (Ok (), h')"
  shows "\<exists>t. toml_to_string_pretty L c = Ok t \<and> home_dir h' = home_dir h \<and> refuses h' = refuses h
    \<and> map_of (files h') = (map_of (files h))(path_join (expand_tilde h (cfg_config_dir (global c))) ''config.toml'' \<mapsto> as_bytes t)
    \<and> (\<forall>d \<in> set (layout c h). d \<noteq> [] \<longrightarrow> is_dir h' d)"
proof -
  let ?dir = "expand_tilde h (cfg_config_dir (global c))"
  from assms obtain h1 h2 t where 1: "ensure_layout c h = (Ok (), h1)"
    and 2: "create_dir_all (expand_tilde h1 (cfg_config_dir (global c))) h1 = (Ok (), h2)"
    and t: "toml_to_string_pretty L c = Ok t"
    and 3: "write_file (path_join (expand_tilde h1 (cfg_config_dir (global c))) ''config.toml'') (as_bytes t) h2 = (Ok (), h')"
    by (auto simp: config_save_def andthen_eq_Ok os_error_eq_Ok andthen_gets)
  have g: "only_dirs_grow h h2"
    using ensure_layout_ok(1) [OF 1] create_dir_all_grows [of h1] 2 by (metis only_dirs_grow_trans snd_conv)
  have e: "expand_tilde h1 = expand_tilde h"
    using ensure_layout_ok(1) [OF 1] by (simp add: fun_eq_iff expand_tilde_def only_dirs_growD)
  have d: "is_dir h2 d" if "d \<in> set (layout c h)" "d \<noteq> []" for d
    using ensure_layout_ok(2) [OF 1] create_dir_all_grows [of h1] 2 that by (metis only_dirs_growD(7) snd_conv)
  from 3 have "home_dir h' = home_dir h2"
    by (auto simp: write_file_def split: option.splits if_splits)
  with t g e d read_write_file [OF 3] show ?thesis
    by (auto simp: only_dirs_growD is_dir_def)
qed

text \<open>
  C28. A configuration that was saved is the one that the next load returns, and that load
  changes nothing on disk, provided the configuration directory is the default one and the
  TOML text of the configuration reads back.
\<close>

theorem config_round_trip:
  assumes "config_save L c h = (Ok (), h')" and "toml_to_string_pretty L c = Ok t" and "toml_from_str L t = Ok c"
    and "from_utf8 (as_bytes t) = Some t" and "cfg_config_dir (global c) = DEFAULT_CONFIG_DIR"
    and "cfg_data_dir (global c) \<noteq> []"
    and "refuses h ReadFile (expand_tilde h DEFAULT_CONFIG_DIR @ ''/config.toml'') = None"
  shows "config_load L h' = (Ok c, h')"
proof -
  let ?p = "expand_tilde h DEFAULT_CONFIG_DIR @ ''/config.toml''"
  from config_save_ok [OF assms(1)] assms(2,5)
  have home: "home_dir h' = home_dir h" and ref: "refuses h' = refuses h"
    and f: "map_of (files h') ?p = Some (as_bytes t)" and d: "\<forall>d \<in> set (layout c h). d \<noteq> [] \<longrightarrow> is_dir h' d"
    by (auto simp: default_config_file)
  have e: "expand_tilde h' = expand_tilde h"
    by (simp add: fun_eq_iff expand_tilde_def home)
  have "[] \<notin> set (layout c h)"
    using assms(5,6) by (auto simp: layout_def data_dir_def devices_dir_def images_dir_def snapshots_dir_def expand_tilde_def
        DEFAULT_CONFIG_DIR_def starts_with_def split: option.splits)
  with d have l: "ensure_layout c h' = (Ok (), h')"
    by (intro ensure_layout_present) (metis home layout_home)
  have "read_to_string ?p h' = Ok t"
    using f assms(4,7) ref by (intro read_to_string_written) simp_all
  moreover have "exists h' ?p"
    using f by (simp add: exists_def is_file_def)
  ultimately show ?thesis
    using assms(3) l by (simp add: config_load_def e os_error_def)
qed

text \<open>A host with a home directory and nothing in it, and libraries that print every value the same way.\<close>

definition empty_host :: host where
  "empty_host = \<lparr>files = [], dirs = [''/home'', ''/home/u''], refuses = (\<lambda>_ _. None), env_vars = (\<lambda>_. None),
     home_dir = Some ''/home/u'', dup_refused = None, children = [], next_child = 0\<rparr>"

definition no_programs :: programs where
  "no_programs = \<lparr>run_program = (\<lambda>_ _ _ h. (Err (SpawnError not_found), files h, dirs h)),
     spawn_refused = (\<lambda>_ _ _. Some not_found)\<rparr>"

definition plain_libs :: "json \<Rightarrow> LiteDroidConfig \<Rightarrow> libs" where
  "plain_libs v c = \<lparr>json_from_str = (\<lambda>_. Ok v), json_to_string_pretty = (\<lambda>_. Ok ''{}''),
     toml_from_str = (\<lambda>_. Ok c), toml_to_string_pretty = (\<lambda>_. Ok ''[global]''), toml_global_pretty = (\<lambda>_. Ok ''[global]''),
     progs = no_programs, new_v4 = ''0''\<rparr>"

lemma config_save_plain:
  "config_save (plain_libs v litedroid_config_default) litedroid_config_default empty_host
     = (Ok (), snd (config_save (plain_libs v litedroid_config_default) litedroid_config_default empty_host))"
proof -
  have "fst (config_save (plain_libs JNull litedroid_config_default) litedroid_config_default empty_host) = Ok ()"
    by code_simp
  moreover have "config_save (plain_libs v c) d = config_save (plain_libs JNull c) d" for c d
    by (simp add: config_save_def plain_libs_def)
  ultimately show ?thesis
    by (simp add: prod_eq_iff)
qed

theorem config_round_trip_witness:
  "let h' = snd (config_save (plain_libs JNull litedroid_config_default) litedroid_config_default empty_host)
   in config_load (plain_libs JNull litedroid_config_default) h' = (Ok litedroid_config_default, h')"
  using config_round_trip [OF config_save_plain [of JNull], of "''[global]''"]
  by (simp add: plain_libs_def litedroid_config_default_def global_config_default_def empty_host_def from_utf8_ascii ascii_def
      DEFAULT_DATA_DIR_def)

theorem config_load_layout_witness:
  "let h' = snd (config_load (plain_libs JNull litedroid_config_default) empty_host)
   in files h' = [] \<and> (\<forall>d \<in> set (layout litedroid_config_default h'). d \<noteq> [] \<longrightarrow> is_dir h' d)"
proof -
  have "config_load (plain_libs JNull litedroid_config_default) empty_host =
    (Ok litedroid_config_default, snd (config_load (plain_libs JNull litedroid_config_default) empty_host))"
  proof -
    have "fst (ensure_layout litedroid_config_default empty_host) = Ok ()"
      and "\<not> exists empty_host (expand_tilde empty_host DEFAULT_CONFIG_DIR @ ''/config.toml'')"
      by code_simp+
    then show ?thesis
      by (cases "ensure_layout litedroid_config_default empty_host") (simp add: config_load_def)
  qed
  from config_load_layout [OF this] show ?thesis
    by (simp add: Let_def empty_host_def)
qed

section \<open>Profiles\<close>

lemma override_simps [simp]: "override None f c = c" "override (Some x) f c = f x c"
  by (simp_all add: override_def)

lemma default_device_config_home: "home_dir h' = home_dir h \<Longrightarrow> default_device_config L c h' = default_device_config L c h"
  by (simp add: default_device_config_def images_dir_def data_dir_def expand_tilde_def)

lemma metadata_path_home: "home_dir h' = home_dir h \<Longrightarrow> metadata_path c n h' = metadata_path c n h"
  by (simp add: metadata_path_def devices_dir_def data_dir_def expand_tilde_def)

text \<open>A profile written from a configuration overrides exactly the fields the profile has.\<close>

lemma apply_profile_metadata:
  "apply_metadata (profile_metadata a) n b =
     b\<lparr>dev_name := dev_name a, vcpu_count := vcpu_count a, ram_mb := ram_mb a, android_version := android_version a,
       api_level := api_level a,
       display := (display b)\<lparr>width := width (display a), height := height (display a), dpi := dpi (display a)\<rparr>\<rparr>"
  by (simp add: apply_metadata_def profile_metadata_def json_u32_def Let_def ucast_json_u32)

lemma device_config_written:
  assumes "map_of (files h) (metadata_path c n h) = Some (as_bytes t)" and "refuses h ReadFile (metadata_path c n h) = None"
    and "from_utf8 (as_bytes t) = Some t" and "json_from_str L t = Ok v"
  shows "device_config L c n h =
    (let config = apply_metadata v n (default_device_config L c h) in bind_outcome (validate config) (\<lambda>_. Ok config))"
  using read_to_string_written [OF assms(1-3)] assms(4) by (simp add: device_config_def)

lemma validate_default_device: "validate ((default_device_config L c h)\<lparr>dev_name := n\<rparr>) = Ok ()"
  by (simp add: validate_Ok_iff default_device_config_def device_config_default_def Let_def core_consts)

text \<open>
  The default profile survives its file: loading it again, with another identifier from the generator, gives the same
  configuration except for the identifier, which is written but never read.
\<close>

theorem default_profile_round_trip:
  assumes "ensure_default_device L c h = (Ok cfg, h')" and "\<not> is_file h (metadata_path c ''default'' h)"
    and "json_to_string_pretty L (profile_metadata cfg) = Ok t" and "json_from_str L t = Ok (profile_metadata cfg)"
    and "from_utf8 (as_bytes t) = Some t" and "refuses h ReadFile (metadata_path c ''default'' h) = None"
  shows "device_config (L\<lparr>new_v4 := u\<rparr>) c ''default'' h' = Ok (cfg\<lparr>dev_id := u\<rparr>)"
proof -
  let ?mp = "metadata_path c ''default'' h"
  let ?cfg = "(default_device_config L c h)\<lparr>dev_name := ''default''\<rparr>"
  from assms(1,2) obtain h1 t' where cfg: "cfg = ?cfg"
    and 1: "create_dir_all (path_join (devices_dir c h) ''default'') h = (Ok (), h1)"
    and t': "json_to_string_pretty L (profile_metadata ?cfg) = Ok t'" and 2: "write_file ?mp (as_bytes t') h1 = (Ok (), h')"
    by (auto simp: ensure_default_device_def metadata_path_def Let_def andthen_eq_Ok os_error_eq_Ok)
  have g: "only_dirs_grow h h1"
    using create_dir_all_grows [of h "path_join (devices_dir c h) ''default''"] 1 by simp
  have home: "home_dir h' = home_dir h" and ref: "refuses h' = refuses h"
    using 2 only_dirs_growD(3,4) [OF g] by (auto simp: write_file_def split: option.splits if_splits)
  have "t' = t"
    using t' cfg assms(3) by simp
  then have "map_of (files h') ?mp = Some (as_bytes t)"
    using read_write_file [OF 2] by simp
  then have "device_config (L\<lparr>new_v4 := u\<rparr>) c ''default'' h' =
     (let config = apply_metadata (profile_metadata cfg) ''default'' (default_device_config (L\<lparr>new_v4 := u\<rparr>) c h)
      in bind_outcome (validate config) (\<lambda>_. Ok config))"
    using assms(4-6) home ref
    by (subst device_config_written) (simp_all add: metadata_path_home [OF home] default_device_config_home [OF home])
  moreover have "apply_metadata (profile_metadata cfg) ''default'' (default_device_config (L\<lparr>new_v4 := u\<rparr>) c h) = cfg\<lparr>dev_id := u\<rparr>"
    unfolding apply_profile_metadata cfg by (simp add: default_device_config_def device_config_default_def Let_def)
  moreover have "validate (cfg\<lparr>dev_id := u\<rparr>) = Ok ()"
    using validate_default_device [of "''default''" L c h] by (simp add: cfg validate_Ok_iff)
  ultimately show ?thesis by simp
qed

theorem default_profile_round_trip_witness:
  "let cfg = (default_device_config (plain_libs JNull litedroid_config_default) litedroid_config_default empty_host)\<lparr>dev_name := ''default''\<rparr>;
       L = plain_libs (profile_metadata cfg) litedroid_config_default;
       h' = snd (ensure_default_device L litedroid_config_default empty_host)
   in device_config (L\<lparr>new_v4 := ''1''\<rparr>) litedroid_config_default ''default'' h' = Ok (cfg\<lparr>dev_id := ''1''\<rparr>)"
proof -
  let ?c = litedroid_config_default
  let ?cfg = "(default_device_config (plain_libs JNull ?c) ?c empty_host)\<lparr>dev_name := ''default''\<rparr>"
  let ?L = "plain_libs (profile_metadata ?cfg) ?c"
  have "fst (ensure_default_device (plain_libs JNull ?c) ?c empty_host) = Ok ?cfg"
    by code_simp
  moreover have n: "\<not> is_file empty_host p" for p
    by (simp add: is_file_def empty_host_def)
  have "ensure_default_device ?L ?c empty_host = ensure_default_device (plain_libs JNull ?c) ?c empty_host"
    by (simp add: ensure_default_device_def n Let_def plain_libs_def default_device_config_def)
  ultimately have "ensure_default_device ?L ?c empty_host = (Ok ?cfg, snd (ensure_default_device ?L ?c empty_host))"
    by (simp add: prod_eq_iff)
  from default_profile_round_trip [OF this n, of "''{}''" "''1''"] show ?thesis
    by (simp add: Let_def plain_libs_def from_utf8_ascii ascii_def empty_host_def)
qed

text \<open>A profile that loads is a valid configuration, whatever its file says.\<close>

lemma override_keeps: "(\<And>x c. g (f x c) = g c) \<Longrightarrow> g (override v f c) = g c"
  by (simp add: override_def split: option.splits)

lemma apply_metadata_paths [simp]:
  "kernel_path (apply_metadata md n b) = kernel_path b"
  "initramfs_path (apply_metadata md n b) = initramfs_path b"
  "system_image_path (apply_metadata md n b) = system_image_path b"
  "supported_abis (apply_metadata md n b) = supported_abis b"
  by (simp_all add: apply_metadata_def Let_def override_keeps [of kernel_path] override_keeps [of initramfs_path]
      override_keeps [of system_image_path] override_keeps [of supported_abis])

theorem device_config_valid:
  assumes "device_config L c n h = Ok cfg"
  shows "validate cfg = Ok () \<and> kernel_path cfg = path_join (images_dir c h) ''kernel''"
  using assms
  by (auto simp: device_config_def Let_def default_device_config_def device_config_default_def split: outcome.splits)

section \<open>Images\<close>

lemma is_non_empty_written:
  "write_file p bs h = (Ok (), h') \<Longrightarrow> is_non_empty h' q = (if q = p then bs \<noteq> [] else is_non_empty h q)"
  using read_write_file [of p bs h h'] by (simp add: is_non_empty_def)

lemma copy_image_ok:
  assumes "copy_image d names dst h = (Ok (), h')"
  shows "is_non_empty h' q = (q = dst \<or> is_non_empty h q)"
proof -
  from assms obtain src bs where "find (is_non_empty h) (map (path_join d) names) = Some src"
    and "read_file src h = Ok bs" and w: "write_file dst bs h = (Ok (), h')"
    by (auto simp: copy_image_def copy_file_def os_error_eq_Ok andthen_eq_Ok split: option.splits)
  moreover from this have "bs \<noteq> []"
    by (auto simp: find_Some_iff is_non_empty_def read_file_def split: option.splits)
  ultimately show ?thesis
    using is_non_empty_written [OF w, of q] by auto
qed

lemma copy_images_ok:
  assumes "copy_images api root images h = (Ok (), h')" and "n \<in> {''kernel'', ''ramdisk.img'', ''system.img''}"
  shows "is_non_empty h' (path_join images n)"
proof -
  obtain d u v where 1: "copy_image d [''kernel-ranchu'', ''kernel''] (path_join images ''kernel'') h = (Ok (), u)"
    and 2: "copy_image d [''ramdisk.img''] (path_join images ''ramdisk.img'') u = (Ok (), v)"
    and 3: "copy_image d [''system.img''] (path_join images ''system.img'') v = (Ok (), h')"
    using assms(1) by (auto simp: copy_images_def Let_def andthen_eq_Ok)
  show ?thesis
    using assms(2) by (auto simp: copy_image_ok [OF 1] copy_image_ok [OF 2] copy_image_ok [OF 3])
qed

text \<open>When the images have been ensured, all three are there and none is empty.\<close>

theorem ensure_android_images_ok:
  assumes "ensure_android_images L c api h = (Ok (), h')"
  shows "\<forall>n \<in> {''kernel'', ''ramdisk.img'', ''system.img''}. is_non_empty h' (path_join (images_dir c h) n)"
proof -
  let ?i = "images_dir c h"
  from assms consider "images_are_ready ?i h'" | root u where "copy_images api root ?i u = (Ok (), h')"
    unfolding ensure_android_images_def andthen_gets
    by (auto simp: andthen_eq_Ok split: if_splits)
  then show ?thesis
  proof cases
    case 1
    then show ?thesis by (simp add: images_are_ready_def Let_def)
  next
    case 2
    then show ?thesis by (blast intro: copy_images_ok)
  qed
qed

end
