(* ===== verification/LD_Ipc.thy ===== *)
theory LD_Ipc
  imports LD_Socket LD_Json
begin

text \<open>
  The crate \<^verbatim>\<open>crates/ipc\<close>: requests, responses and events, the framing of a Unix stream by four-byte
  big-endian lengths, and the server and client ends.  The conversion between messages and JSON text is done by
  \<open>serde_json\<close>, which is a parameter (\<open>ipc_codec\<close>) of the operations that call it.
\<close>

section \<open>Messages\<close>

record IpcRequest =
  req_version :: u32
  req_request_id :: string
  req_method :: string
  req_params :: json

record IpcResponse =
  resp_version :: u32
  resp_request_id :: string
  success :: bool
  resp_result :: "json option"
  resp_error :: "string option"

record IpcEvent =
  event_type :: string
  event_device_id :: string
  event_data :: json

text \<open>\<open>serde_json::to_vec\<close> and \<open>from_slice\<close> on the three types, with the text of the error.\<close>

record ipc_codec =
  request_to_vec :: "IpcRequest \<Rightarrow> (string, bytes) outcome"
  request_from_slice :: "bytes \<Rightarrow> (string, IpcRequest) outcome"
  response_to_vec :: "IpcResponse \<Rightarrow> (string, bytes) outcome"
  response_from_slice :: "bytes \<Rightarrow> (string, IpcResponse) outcome"
  event_to_vec :: "IpcEvent \<Rightarrow> (string, bytes) outcome"

section \<open>IpcStream\<close>

text \<open>\<open>flush\<close> on a socket does nothing.\<close>

definition frame :: "bytes \<Rightarrow> bytes" where
  "frame data = to_be 4 (of_nat (length data) :: u32) @ data"

definition write_frame :: "bytes \<Rightarrow> (socket, LiteDroidError, unit) action" where
  "write_frame data = os_error (write_all (frame data))"

definition read_frame :: "(socket, LiteDroidError, bytes) action" where
  "read_frame =
     andthen (os_error (read_exact 4)) (\<lambda>len_buf.
     let len = unat (from_be len_buf :: u32) in
     if len > 0 then os_error (read_exact len) else ret [])"

definition ipc_error :: "(string, 'a) outcome \<Rightarrow> 'a ld_result" where
  "ipc_error r = map_err IpcProtocolError r"

definition recv_request :: "ipc_codec \<Rightarrow> (socket, LiteDroidError, IpcRequest) action" where
  "recv_request cd = andthen read_frame (\<lambda>payload. lift_outcome (\<lambda>_. ipc_error (request_from_slice cd payload)))"

definition send_response :: "ipc_codec \<Rightarrow> IpcResponse \<Rightarrow> (socket, LiteDroidError, unit) action" where
  "send_response cd response = andthen (lift_outcome (\<lambda>_. ipc_error (response_to_vec cd response))) write_frame"

definition send_event :: "ipc_codec \<Rightarrow> IpcEvent \<Rightarrow> (socket, LiteDroidError, unit) action" where
  "send_event cd event = andthen (lift_outcome (\<lambda>_. ipc_error (event_to_vec cd event))) write_frame"

section \<open>IpcServer\<close>

text \<open>
  The socket names that exist and the ones a process listens on.  \<open>bind_refused\<close> is the error of a \<open>bind\<close> that
  fails for another reason than an existing name (\<open>EADDRINUSE\<close>).
\<close>

record sockets =
  socket_files :: "path list"
  listening :: "path list"

definition ipc_server_new :: "(path \<Rightarrow> io_error option) \<Rightarrow> path \<Rightarrow> (sockets, LiteDroidError, path) action" where
  "ipc_server_new bind_refused socket_path = (\<lambda>n.
     let n1 = n\<lparr>socket_files := removeAll socket_path (socket_files n)\<rparr> in
     case bind_refused socket_path of
       Some e \<Rightarrow> (Err (IpcConnectionFailed e), n1)
     | None \<Rightarrow>
         if socket_path \<in> set (socket_files n1)
         then (Err (IpcConnectionFailed ''Address already in use (os error 98)''), n1)
         else (Ok socket_path,
               n1\<lparr>socket_files := socket_path # socket_files n1, listening := socket_path # listening n1\<rparr>))"

text \<open>\<open>accept\<close>: the peer that connected, or the errors of \<open>accept\<close> and of the two time limits.\<close>

definition ipc_accept :: "(io_error, socket \<times> string) outcome \<Rightarrow> io_error option \<Rightarrow> io_error option \<Rightarrow>
    (socket \<times> string) ld_result" where
  "ipc_accept conn read_timeout write_timeout =
     bind_outcome (map_err IpcConnectionFailed conn) (\<lambda>(stream, addr).
       case read_timeout of Some e \<Rightarrow> Err (OsError e) | None \<Rightarrow>
       case write_timeout of Some e \<Rightarrow> Err (OsError e) | None \<Rightarrow> Ok (stream, addr))"

definition ipc_shutdown :: "unit ld_result" where
  "ipc_shutdown = Ok ()"

section \<open>IpcClient\<close>

definition ipc_connect :: "(io_error, socket) outcome \<Rightarrow> io_error option \<Rightarrow> io_error option \<Rightarrow> socket ld_result" where
  "ipc_connect conn read_timeout write_timeout =
     bind_outcome (map_err IpcConnectionFailed conn) (\<lambda>stream.
       case read_timeout of Some e \<Rightarrow> Err (OsError e) | None \<Rightarrow>
       case write_timeout of Some e \<Rightarrow> Err (OsError e) | None \<Rightarrow> Ok stream)"

definition make_request :: "uuid \<Rightarrow> string \<Rightarrow> json \<Rightarrow> IpcRequest" where
  "make_request new_v4 meth params =
     \<lparr>req_version = IPC_PROTOCOL_VERSION, req_request_id = new_v4, req_method = meth, req_params = params\<rparr>"

definition send_request :: "ipc_codec \<Rightarrow> uuid \<Rightarrow> string \<Rightarrow> json \<Rightarrow> (socket, LiteDroidError, IpcResponse) action" where
  "send_request cd new_v4 meth params =
     andthen (lift_outcome (\<lambda>_. ipc_error (request_to_vec cd (make_request new_v4 meth params)))) (\<lambda>bs.
     andthen (write_frame bs) (\<lambda>_.
     andthen read_frame (\<lambda>payload.
     lift_outcome (\<lambda>_. ipc_error (response_from_slice cd payload)))))"

definition ping :: "ipc_codec \<Rightarrow> uuid \<Rightarrow> socket \<Rightarrow> bool \<times> socket" where
  "ping cd new_v4 s =
     (case send_request cd new_v4 ''ping'' JNull s of
        (Ok response, t) \<Rightarrow> (success response, t)
      | (Err e, t) \<Rightarrow> (False, t)
      | (Panic, t) \<Rightarrow> (False, t))"

section \<open>Frames\<close>

lemma from_be_frame: "length data < 2 ^ 32 \<Longrightarrow> unat (from_be (take 4 (frame data)) :: u32) = length data"
  by (simp add: frame_def from_be_to_be unat_of_nat_u32)

lemma length_frame [simp]: "length (frame data) = 4 + length data"
  by (simp add: frame_def)

lemma read_frame_frame:
  assumes "incoming s = frame data @ rest" and "length data < 2 ^ 32"
  shows "read_frame s = (Ok data, s\<lparr>incoming := rest\<rparr>)"
proof -
  have "read_exact 4 s = (Ok (take 4 (frame data)), s\<lparr>incoming := data @ rest\<rparr>)"
    using assms(1) by (intro read_exact_ok) (simp_all add: frame_def)
  moreover have "read_exact (length data) (s\<lparr>incoming := data @ rest\<rparr>) = (Ok data, s\<lparr>incoming := rest\<rparr>)"
    by (simp add: read_exact_def)
  ultimately show ?thesis
    using from_be_frame [OF assms(2)] by (cases "data = []") (simp_all add: read_frame_def Let_def)
qed

lemma write_frame_ok: "write_room s = None \<Longrightarrow> write_frame data s = (Ok (), s\<lparr>sent := sent s @ frame data\<rparr>)"
  by (simp add: write_frame_def write_all_ok)

text \<open>A sequence of frames is read back one by one, in order: no boundary is lost.\<close>

fun read_frames :: "nat \<Rightarrow> (socket, LiteDroidError, bytes list) action" where
  "read_frames 0 = ret []"
| "read_frames (Suc n) = andthen read_frame (\<lambda>x. andthen (read_frames n) (\<lambda>xs. ret (x # xs)))"

text \<open>
  C17. Any list of messages shorter than four gibibytes each, written as frames on a
  connection, is read back as the same list by the other end, leaving what follows unread.
\<close>

theorem frames_round_trip:
  assumes "list_all (\<lambda>d. length d < 2 ^ 32) ds" and "write_room s = None"
  shows "\<exists>t. for_each ds write_frame s = (Ok (), t)
    \<and> (\<forall>u rest. incoming u = drop (length (sent s)) (sent t) @ rest \<longrightarrow>
         read_frames (length ds) u = (Ok ds, u\<lparr>incoming := rest\<rparr>))"
proof -
  have w: "for_each ds write_frame s = (Ok (), s\<lparr>sent := sent s @ concat (map frame ds)\<rparr>)"
    using assms(2) by (induction ds arbitrary: s) (simp_all add: write_frame_ok)
  have "read_frames (length ds) u = (Ok ds, u\<lparr>incoming := rest\<rparr>)"
    if "incoming u = concat (map frame ds) @ rest" for u rest
    using that assms(1)
  proof (induction ds arbitrary: u)
    case (Cons d ds)
    then show ?case by (simp add: read_frame_frame [of u d "concat (map frame ds) @ rest"])
  qed simp
  with w show ?thesis by simp
qed

theorem frames_round_trip_witness:
  "\<exists>t. for_each [[1, 2], [], [3]] write_frame (tape []) = (Ok (), t)
    \<and> (\<forall>u rest. incoming u = drop (length (sent (tape []))) (sent t) @ rest \<longrightarrow>
         read_frames (length [[1, 2], [], [3 :: u8]]) u = (Ok [[1, 2], [], [3]], u\<lparr>incoming := rest\<rparr>))"
  by (rule frames_round_trip) (simp_all add: tape_def)

lemma recv_request_frame:
  assumes "incoming s = frame bs @ rest" and "length bs < 2 ^ 32" and "request_from_slice cd bs = Ok r"
  shows "recv_request cd s = (Ok r, s\<lparr>incoming := rest\<rparr>)"
  using read_frame_frame [OF assms(1,2)] assms(3) by (simp add: recv_request_def ipc_error_def)

lemma send_response_frame:
  assumes "write_room s = None" and "response_to_vec cd r = Ok bs"
  shows "send_response cd r s = (Ok (), s\<lparr>sent := sent s @ frame bs\<rparr>)"
  using assms by (simp add: send_response_def ipc_error_def write_frame_ok)

lemma send_request_frames:
  assumes "write_room s = None" and "request_to_vec cd (make_request i meth p) = Ok bs"
    and "incoming s = frame bs' @ rest" and "length bs' < 2 ^ 32" and "response_from_slice cd bs' = Ok r"
  shows "send_request cd i meth p s = (Ok r, s\<lparr>incoming := rest, sent := sent s @ frame bs\<rparr>)"
  using assms read_frame_frame [of "s\<lparr>sent := sent s @ frame bs\<rparr>" bs' rest]
  by (simp add: send_request_def ipc_error_def write_frame_ok)

text \<open>A server that restarts finds its own stale socket name and replaces it.\<close>

lemma ipc_server_rebinds:
  "bind_refused p = None \<Longrightarrow>
     fst (ipc_server_new bind_refused p n) = Ok p \<and> p \<in> set (socket_files (snd (ipc_server_new bind_refused p n)))"
  by (simp add: ipc_server_new_def Let_def)

end
