(* ===== verification/LD_Daemon.thy ===== *)
theory LD_Daemon
  imports LD_Config LD_Ipc
begin

text \<open>
  The daemon, \<^verbatim>\<open>apps/daemon\<close>: its state, the operations that start, stop and query the Android emulator, the
  dispatch of a request, the handling of a connection, and the accept loop with its signals as a step function.
  Dispatch holds the lock of the state from beginning to end, so the requests of concurrent connections
  are served one after the other, in any order.
\<close>

section \<open>State\<close>

record DaemonState =
  active_device :: "string option"
  power_state :: string
  stop_handle :: "bool option"
  emulator :: "nat option"
  adb :: "path option"

text \<open>What the process sees: the state behind the lock, the host, and the static flag \<open>RUNNING\<close>.\<close>

record world =
  dstate :: DaemonState
  whost :: host
  RUNNING :: bool

definition daemon_state_new :: DaemonState where
  "daemon_state_new = \<lparr>active_device = None, power_state = ''off'', stop_handle = None, emulator = None, adb = None\<rparr>"

definition on_host :: "(host, 'e, 'a) action \<Rightarrow> (world, 'e, 'a) action" where
  "on_host m = (\<lambda>w. case m (whost w) of (r, h) \<Rightarrow> (r, w\<lparr>whost := h\<rparr>))"

definition on_state :: "(DaemonState \<Rightarrow> DaemonState) \<Rightarrow> world \<Rightarrow> world" where
  "on_state f w = w\<lparr>dstate := f (dstate w)\<rparr>"

text \<open>\<open>map_err\<close> on the result of a call.\<close>

definition with_err :: "('e \<Rightarrow> 'd) \<Rightarrow> ('s, 'e, 'a) action \<Rightarrow> ('s, 'd, 'a) action" where
  "with_err g m = (\<lambda>s. case m s of (r, s') \<Rightarrow> (map_err g r, s'))"

section \<open>The Android emulator\<close>

text \<open>Letters and digits of ASCII stay, every other character becomes one underscore.\<close>

definition ascii_alphanumeric :: "char \<Rightarrow> bool" where
  "ascii_alphanumeric c \<longleftrightarrow> (let n = (of_char c :: nat) in 48 \<le> n \<and> n \<le> 57 \<or> 65 \<le> n \<and> n \<le> 90 \<or> 97 \<le> n \<and> n \<le> 122)"

definition continuation :: "char \<Rightarrow> bool" where
  "continuation c \<longleftrightarrow> (let n = (of_char c :: nat) in 128 \<le> n \<and> n < 192)"

definition safe_name :: "string \<Rightarrow> string" where
  "safe_name s = map (\<lambda>c. if ascii_alphanumeric c then c else CHR ''_'') (filter (\<lambda>c. \<not> continuation c) s)"

definition avd_name :: "string \<Rightarrow> u32 \<Rightarrow> string" where
  "avd_name device_name api = ''LiteDroid-'' @ safe_name device_name @ ''-API'' @ show_nat (unat api)"

definition managed_keys :: "string list" where
  "managed_keys = [''hw.cpu.ncore='', ''hw.ramSize='', ''hw.lcd.width='', ''hw.lcd.height='', ''hw.lcd.density='']"

definition managed_lines :: "DeviceConfig \<Rightarrow> string list" where
  "managed_lines d =
     [''hw.cpu.ncore='' @ show_nat (unat (vcpu_count d)), ''hw.ramSize='' @ show_nat (unat (ram_mb d)),
      ''hw.lcd.width='' @ show_nat (unat (width (display d))), ''hw.lcd.height='' @ show_nat (unat (height (display d))),
      ''hw.lcd.density='' @ show_nat (unat (dpi (display d)))]"

definition avd_contents :: "string \<Rightarrow> DeviceConfig \<Rightarrow> string" where
  "avd_contents existing d =
     concat (map (\<lambda>line. line @ nl) (filter (\<lambda>line. \<not> list_ex (starts_with line) managed_keys) (lines existing)
       @ managed_lines d))"

definition configure_avd :: "path \<Rightarrow> DeviceConfig \<Rightarrow> (host, string, unit) action" where
  "configure_avd avd_dir d =
     (let config_path = path_join avd_dir ''config.ini'' in
      andthen (with_err (\<lambda>e. ''Cannot read AVD configuration: '' @ e) (lift_outcome (read_to_string config_path))) (\<lambda>existing.
      with_err (\<lambda>e. ''Cannot update AVD configuration: '' @ e) (write_file config_path (as_bytes (avd_contents existing d)))))"

record AndroidTools =
  tool_emulator :: path
  tool_adb :: path

fun avdmanager_error :: "command_error \<Rightarrow> string" where
  "avdmanager_error (SpawnError e) = ''Cannot start avdmanager: '' @ e"
| "avdmanager_error (StdinError e) = ''Cannot configure Android AVD: '' @ e"
| "avdmanager_error (WaitError e) = ''Cannot create Android AVD: '' @ e"

definition create_avd :: "libs \<Rightarrow> path \<Rightarrow> string \<Rightarrow> DeviceConfig \<Rightarrow> (host, string, unit) action" where
  "create_avd L avdmanager name d =
     andthen (with_err avdmanager_error (command_output (progs L) avdmanager
       [''create'', ''avd'', ''--force'', ''--name'', name, ''--package'', sdk_package (api_level d), ''--device'', ''pixel_5'']
       (as_bytes (''no'' @ nl)))) (\<lambda>out.
     if status_success out then ret ()
     else fail (''Cannot create Android AVD: '' @ trim (from_utf8_lossy (stderr out))))"

definition emulator_sdk_root :: "LiteDroidConfig \<Rightarrow> host \<Rightarrow> path" where
  "emulator_sdk_root c h =
     (case env_vars h ''ANDROID_SDK_ROOT'' of
        Some p \<Rightarrow> p
      | None \<Rightarrow>
          (case env_vars h ''ANDROID_HOME'' of Some p \<Rightarrow> p | None \<Rightarrow> path_join (data_dir c h) ''android-sdk''))"

definition avd_dir_of :: "string \<Rightarrow> host \<Rightarrow> path" where
  "avd_dir_of name h =
     path_join (path_join (path_join (case home_dir h of Some p \<Rightarrow> p | None \<Rightarrow> []) ''.android'') ''avd'') (name @ ''.avd'')"

definition android_emulator :: "libs \<Rightarrow> LiteDroidConfig \<Rightarrow> DeviceConfig \<Rightarrow> string \<Rightarrow> (host, string, AndroidTools) action" where
  "android_emulator L c d name = (\<lambda>h.
     let root = emulator_sdk_root c h;
         emu = path_join (path_join root ''emulator'') ''emulator'';
         adb_path = path_join (path_join root ''platform-tools'') ''adb'';
         avdmanager = path_join (path_join (path_join (path_join root ''cmdline-tools'') ''latest'') ''bin'') ''avdmanager'';
         avd_dir = avd_dir_of name h in
     if \<not> is_file h emu \<or> \<not> is_file h avdmanager \<or> \<not> is_file h adb_path
     then (Err (''Android Emulator tools are not installed under '' @ root @ ''. Run scripts/linux/setup.sh first.''), h)
     else
       andthen (if is_dir h avd_dir then ret () else create_avd L avdmanager name d) (\<lambda>_.
       andthen (configure_avd avd_dir d) (\<lambda>_.
       ret \<lparr>tool_emulator = emu, tool_adb = adb_path\<rparr>)) h)"

section \<open>Starting and stopping\<close>

text \<open>The profile of a device: the default one is created when it cannot be loaded.\<close>

definition find_device :: "libs \<Rightarrow> LiteDroidConfig \<Rightarrow> string \<Rightarrow> (host, string, DeviceConfig) action" where
  "find_device L c device_name = (\<lambda>h.
     case device_config L c device_name h of
       Ok d \<Rightarrow> (Ok d, h)
     | Err e \<Rightarrow>
         (if device_name = ''default''
          then with_err (\<lambda>e. ''Cannot create default device: '' @ error_text e) (ensure_default_device L c) h
          else (Err (''Cannot load device '' @ device_name @ '': '' @ error_text e), h))
     | Panic \<Rightarrow> (Panic, h))"

definition emulator_args :: "string \<Rightarrow> bool \<Rightarrow> string list" where
  "emulator_args name wipe_data =
     [''-avd'', name, ''-port'', ''5554'', ''-gpu'', ''swiftshader_indirect'', ''-no-snapshot'', ''-no-metrics'']
       @ (if wipe_data then [''-wipe-data''] else [])"

text \<open>Everything before the state changes: it touches the host only.\<close>

definition prepare_launch :: "libs \<Rightarrow> string \<Rightarrow> bool \<Rightarrow> (host, string, nat \<times> path \<times> string \<times> path) action" where
  "prepare_launch L device_name wipe_data =
     andthen (with_err (\<lambda>e. ''Cannot load configuration: '' @ error_text e) (config_load L)) (\<lambda>config.
     andthen (find_device L config device_name) (\<lambda>device.
     andthen (with_err (\<lambda>e. ''Android images are unavailable: '' @ error_text e)
       (ensure_android_images L config (api_level device))) (\<lambda>_.
     let name = avd_name device_name (api_level device) in
     andthen (android_emulator L config device name) (\<lambda>tools.
     andthen (gets (\<lambda>h. path_join (path_join (data_dir config h) ''logs'') ''android-emulator.log'')) (\<lambda>emulator_log.
     andthen (with_err (\<lambda>e. ''Cannot create emulator log: '' @ e) (write_file emulator_log [])) (\<lambda>_.
     andthen (with_err (\<lambda>e. ''Cannot prepare emulator log: '' @ e) try_clone) (\<lambda>_.
     andthen (with_err (\<lambda>e. ''Cannot start Android emulator: '' @ e)
       (spawn (progs L) (tool_emulator tools) (emulator_args name wipe_data))) (\<lambda>child.
     ret (child, tool_adb tools, name, emulator_log)))))))))"

definition launch_device :: "libs \<Rightarrow> string \<Rightarrow> bool \<Rightarrow> (world, string, json) action" where
  "launch_device L device_name wipe_data =
     andthen (on_host (prepare_launch L device_name wipe_data)) (\<lambda>(child, adb_path, name, emulator_log).
     andthen (modify (on_state (\<lambda>s. s\<lparr>active_device := Some device_name, power_state := ''booting'',
       emulator := Some child, adb := Some adb_path\<rparr>))) (\<lambda>_.
     ret (JObject [(''device'', JString device_name), (''status'', JString ''booting''), (''avd'', JString name),
       (''log'', JString emulator_log), (''wipe_data'', JBool wipe_data)])))"

text \<open>Taking the child out of the state, ending it and collecting it.\<close>

definition end_emulator :: "world \<Rightarrow> world" where
  "end_emulator w =
     (case emulator (dstate w) of
        None \<Rightarrow> w
      | Some c \<Rightarrow> on_state (\<lambda>s. s\<lparr>emulator := None\<rparr>) (w\<lparr>whost := kill_and_wait c (whost w)\<rparr>))"

definition stop_emulator :: "world \<Rightarrow> world" where
  "stop_emulator w =
     on_state (\<lambda>s. s\<lparr>adb := None, active_device := None, power_state := ''off''\<rparr>) (end_emulator w)"

definition emulator_state :: "libs \<Rightarrow> world \<Rightarrow> string \<times> world" where
  "emulator_state L w =
     (let w' =
        (case emulator (dstate w) of
           None \<Rightarrow> w
         | Some c \<Rightarrow>
             (case try_wait c (whost w) of
                Ok None \<Rightarrow>
                  (let (adb_state, w1) =
                     (case adb (dstate w) of
                        None \<Rightarrow> (None, w)
                      | Some p \<Rightarrow>
                          (case on_host (command_output (progs L) p [''-s'', ''emulator-5554'', ''get-state''] []) w of
                             (Ok out, w1) \<Rightarrow> (Some (trim (from_utf8_lossy (stdout out))), w1)
                           | (_, w1) \<Rightarrow> (None, w1)))
                   in on_state (\<lambda>s. s\<lparr>power_state := (if adb_state = Some ''device'' then ''running'' else ''booting'')\<rparr>) w1)
              | Ok (Some ok) \<Rightarrow>
                  on_state (\<lambda>s. s\<lparr>emulator := None, adb := None, active_device := None,
                    power_state := (if ok then ''off'' else ''error'')\<rparr>) w
              | _ \<Rightarrow> on_state (\<lambda>s. s\<lparr>power_state := ''error''\<rparr>) w))
      in (power_state (dstate w'), w'))"

definition adb_bytes :: "libs \<Rightarrow> string list \<Rightarrow> (world, string, bytes) action" where
  "adb_bytes L args = (\<lambda>w.
     case emulator_state L w of (state, w1) \<Rightarrow>
       if state \<noteq> ''running''
       then (Err ''Android is still booting; wait until device status is running'', w1)
       else
         (case adb (dstate w1) of
            None \<Rightarrow> (Err ''ADB is unavailable because no device is running'', w1)
          | Some p \<Rightarrow>
              andthen (with_err (\<lambda>e. ''Cannot run ADB: '' @ command_error_text e)
                (on_host (command_output (progs L) p ([''-s'', ''emulator-5554''] @ args) []))) (\<lambda>out.
              if status_success out then ret (stdout out)
              else fail (''ADB command failed: '' @ trim (from_utf8_lossy (stderr out)))) w1))"

definition adb_output :: "libs \<Rightarrow> string list \<Rightarrow> (world, string, string) action" where
  "adb_output L args = andthen (adb_bytes L args) (\<lambda>bs. ret (trim (from_utf8_lossy bs)))"

section \<open>Requests\<close>

definition make_ok :: "string \<Rightarrow> json \<Rightarrow> IpcResponse" where
  "make_ok rid v =
     \<lparr>resp_version = IPC_PROTOCOL_VERSION, resp_request_id = rid, success = True, resp_result = Some v, resp_error = None\<rparr>"

definition make_err :: "string \<Rightarrow> string \<Rightarrow> IpcResponse" where
  "make_err rid msg =
     \<lparr>resp_version = IPC_PROTOCOL_VERSION, resp_request_id = rid, success = False, resp_result = None, resp_error = Some msg\<rparr>"

text \<open>\<open>match r { Ok(x) => make_ok(f(x)), Err(e) => make_err(&e) }\<close>; a panic ends the thread without an answer.\<close>

definition answer :: "string \<Rightarrow> ('a \<Rightarrow> json) \<Rightarrow> (string, 'a) outcome \<times> world \<Rightarrow> IpcResponse option \<times> world" where
  "answer rid f = (\<lambda>(r, w).
     (case r of Ok x \<Rightarrow> Some (make_ok rid (f x)) | Err e \<Rightarrow> Some (make_err rid e) | Panic \<Rightarrow> None, w))"

definition device_start :: "libs \<Rightarrow> IpcRequest \<Rightarrow> world \<Rightarrow> IpcResponse option \<times> world" where
  "device_start L req w =
     (let rid = req_request_id req;
          device_name = (case get_str ''device'' (req_params req) of Some n \<Rightarrow> n | None \<Rightarrow> ''default'');
          launch = (\<lambda>w. answer rid id (launch_device L device_name False w)) in
      case emulator (dstate w) of
        None \<Rightarrow> launch w
      | Some c \<Rightarrow>
          (case try_wait c (whost w) of
             Ok (Some _) \<Rightarrow> launch (on_state (\<lambda>s. s\<lparr>emulator := None\<rparr>) w)
           | _ \<Rightarrow> (Some (make_err rid ''Android emulator is already running''), w)))"

definition device_stop :: "world \<Rightarrow> world" where
  "device_stop w =
     on_state (\<lambda>s. s\<lparr>adb := None, stop_handle := None, active_device := None, power_state := ''off''\<rparr>) (end_emulator w)"

definition daemon_shutdown :: "world \<Rightarrow> world" where
  "daemon_shutdown w =
     (on_state (\<lambda>s. s\<lparr>active_device := None, power_state := ''stopping''\<rparr>) (end_emulator w))\<lparr>RUNNING := False\<rparr>"

text \<open>\<open>device.restart\<close> and \<open>device.wipe\<close>: the device that is active, else the default one, is started again.\<close>

definition relaunch :: "libs \<Rightarrow> bool \<Rightarrow> IpcRequest \<Rightarrow> world \<Rightarrow> IpcResponse option \<times> world" where
  "relaunch L wipe_data req w =
     (let device_name = (case active_device (dstate w) of Some n \<Rightarrow> n | None \<Rightarrow> ''default'') in
      answer (req_request_id req) id (launch_device L device_name wipe_data (stop_emulator w)))"

definition screenshot_path :: "libs \<Rightarrow> json \<Rightarrow> world \<Rightarrow> path \<times> world" where
  "screenshot_path L params w =
     (case get_str ''path'' params of
        Some p \<Rightarrow> (p, w)
      | None \<Rightarrow>
          (case on_host (config_load L) w of
             (Ok config, w1) \<Rightarrow> (path_join (path_join (data_dir config (whost w1)) ''screenshots'') ''device.png'', w1)
           | (_, w1) \<Rightarrow> (''device.png'', w1)))"

definition device_screenshot :: "libs \<Rightarrow> IpcRequest \<Rightarrow> world \<Rightarrow> IpcResponse option \<times> world" where
  "device_screenshot L req w =
     (case screenshot_path L (req_params req) w of (p, w1) \<Rightarrow>
        answer (req_request_id req) (\<lambda>_. JObject [(''path'', JString p)])
          (andthen (case parent p of
                      None \<Rightarrow> ret ()
                    | Some d \<Rightarrow> with_err (\<lambda>e. ''Cannot create screenshot directory: '' @ e) (on_host (create_dir_all d))) (\<lambda>_.
           andthen (adb_bytes L [''exec-out'', ''screencap'', ''-p'']) (\<lambda>bs.
           with_err (\<lambda>e. ''Cannot save screenshot: '' @ e) (on_host (write_file p bs)))) w1))"

definition apk_install :: "libs \<Rightarrow> IpcRequest \<Rightarrow> world \<Rightarrow> IpcResponse option \<times> world" where
  "apk_install L req w =
     (let rid = req_request_id req in
      case get_str ''path'' (req_params req) of
        None \<Rightarrow> (Some (make_err rid ''An APK path is required''), w)
      | Some p \<Rightarrow>
          if is_file (whost w) p
          then answer rid (\<lambda>out. JObject [(''output'', JString out)]) (adb_output L [''install'', ''-r'', p] w)
          else (Some (make_err rid (''APK not found: '' @ p)), w))"

text \<open>A command that needs a package name.\<close>

definition with_package :: "IpcRequest \<Rightarrow> (string \<Rightarrow> world \<Rightarrow> IpcResponse option \<times> world) \<Rightarrow> world \<Rightarrow> IpcResponse option \<times> world" where
  "with_package req f w =
     (case get_str ''package'' (req_params req) of
        None \<Rightarrow> (Some (make_err (req_request_id req) ''A package name is required''), w)
      | Some p \<Rightarrow> f p w)"

definition device_launch :: "libs \<Rightarrow> IpcRequest \<Rightarrow> world \<Rightarrow> IpcResponse option \<times> world" where
  "device_launch L req = with_package req (\<lambda>package w.
     answer (req_request_id req) (\<lambda>out. JObject [(''package'', JString package), (''output'', JString out)])
       (adb_output L [''shell'', ''monkey'', ''-p'', package, ''-c'', ''android.intent.category.LAUNCHER'', ''1''] w))"

definition apk_uninstall :: "libs \<Rightarrow> IpcRequest \<Rightarrow> world \<Rightarrow> IpcResponse option \<times> world" where
  "apk_uninstall L req = with_package req (\<lambda>package w.
     answer (req_request_id req) (\<lambda>out. JObject [(''output'', JString out)]) (adb_output L [''uninstall'', package] w))"

definition vm_stats :: json where
  "vm_stats = JObject
     [(''cpu'', JObject [(''host_percent'', JFloat ''0.0''), (''vcpu_percent'', JArray []), (''guest_time_ms'', JUInt 0)]),
      (''memory'', JObject [(''allocated_mb'', JUInt 0), (''used_mb'', JUInt 0), (''host_rss_mb'', JUInt 0)]),
      (''gpu'', JObject [(''utilization_percent'', JFloat ''0.0''), (''fps'', JFloat ''0.0''), (''memory_mb'', JUInt 0),
         (''hw_accelerated'', JBool False)]),
      (''network'', JObject [(''rx_bytes_per_sec'', JUInt 0), (''tx_bytes_per_sec'', JUInt 0), (''guest_ip'', JNull)]),
      (''uptime_secs'', JUInt 0)]"

definition device_status :: "libs \<Rightarrow> world \<Rightarrow> json \<times> world" where
  "device_status L w =
     (case emulator_state L w of (state, w1) \<Rightarrow>
        (JObject [(''power_state'', JString state), (''device'', json_opt (active_device (dstate w1)))], w1))"

definition adb_command :: "libs \<Rightarrow> string \<Rightarrow> string list \<Rightarrow> world \<Rightarrow> IpcResponse option \<times> world" where
  "adb_command L rid args w = answer rid (\<lambda>out. JObject [(''output'', JString out)]) (adb_output L args w)"

text \<open>\<open>pid\<close> is the identifier of the daemon's own process.\<close>

definition dispatch :: "libs \<Rightarrow> u32 \<Rightarrow> IpcRequest \<Rightarrow> world \<Rightarrow> IpcResponse option \<times> world" where
  "dispatch L pid req w =
     (let meth = req_method req; rid = req_request_id req;
          ok = (\<lambda>v w. (Some (make_ok rid v), w)); err = (\<lambda>m. (Some (make_err rid m), w)) in
      if meth = ''daemon.ping'' then ok (JObject [(''pong'', JBool True), (''pid'', json_u32 pid)]) w
      else if meth = ''daemon.status'' then ok (JObject [(''running'', JBool True), (''pid'', json_u32 pid)]) w
      else if meth = ''daemon.shutdown'' then ok (JObject [(''shutting_down'', JBool True)]) (daemon_shutdown w)
      else if meth = ''device.start'' then device_start L req w
      else if meth = ''device.stop'' then ok (JObject [(''status'', JString ''stopped'')]) (device_stop w)
      else if meth = ''device.restart'' then relaunch L False req w
      else if meth = ''device.wipe'' then relaunch L True req w
      else if meth = ''device.pause'' then err ''Pause is not implemented for the active VM''
      else if meth = ''device.resume'' then err ''Resume is not implemented for the active VM''
      else if meth = ''device.status'' then (case device_status L w of (v, w1) \<Rightarrow> ok v w1)
      else if meth = ''device.launch'' then device_launch L req w
      else if meth = ''device.screenshot'' then device_screenshot L req w
      else if meth = ''vm.stats'' then ok vm_stats w
      else if meth = ''apk.install'' \<or> meth = ''adb.install'' then apk_install L req w
      else if meth = ''apk.uninstall'' then apk_uninstall L req w
      else if meth = ''apk.list'' then
        answer rid (\<lambda>out. JObject [(''packages'', JArray (map JString (lines out)))])
          (adb_output L [''shell'', ''pm'', ''list'', ''packages'', ''-3''] w)
      else if meth = ''adb.shell'' then adb_command L rid [''shell''] w
      else if meth = ''adb.logcat'' then adb_command L rid [''logcat'', ''-d'', ''-t'', ''200''] w
      else if meth \<in> set [''snapshot.create'', ''snapshot.restore'', ''snapshot.list'', ''snapshot.delete''] then err ''No active VM''
      else err (''Unknown method: '' @ meth))"

definition handle_request :: "ipc_codec \<Rightarrow> libs \<Rightarrow> u32 \<Rightarrow> socket \<times> world \<Rightarrow> socket \<times> world" where
  "handle_request cd L pid = (\<lambda>(s, w).
     case recv_request cd s of
       (Ok req, s1) \<Rightarrow>
         (case dispatch L pid req w of
            (Some resp, w1) \<Rightarrow> (snd (send_response cd resp s1), w1)
          | (None, w1) \<Rightarrow> (s1, w1))
     | (_, s1) \<Rightarrow> (s1, w))"

section \<open>The accept loop\<close>

text \<open>
  The main thread is about to test \<open>RUNNING\<close>, waits in \<open>accept\<close>, or has returned (which ends the process and every
  thread in it).  Each connection is served by a thread of its own.
\<close>

datatype pc = Testing | Accepting | Finished

record daemon =
  pc :: pc
  threads :: "socket list"
  served :: "socket list"
  dworld :: world

datatype daemon_event =
    Test
  | Connect socket
  | AcceptError
  | Serve nat
  | Signal
  | ChildExit nat bool

text \<open>One step of the process or of its environment; \<open>None\<close> when the event cannot happen.\<close>

fun daemon_step :: "ipc_codec \<Rightarrow> libs \<Rightarrow> u32 \<Rightarrow> daemon_event \<Rightarrow> daemon \<Rightarrow> daemon option" where
  "daemon_step cd L pid Test d =
     (if pc d = Testing then Some (d\<lparr>pc := (if RUNNING (dworld d) then Accepting else Finished)\<rparr>) else None)"
| "daemon_step cd L pid (Connect s) d =
     (if pc d = Accepting then Some (d\<lparr>pc := Testing, threads := threads d @ [s]\<rparr>) else None)"
| "daemon_step cd L pid AcceptError d = (if pc d = Accepting then Some (d\<lparr>pc := Testing\<rparr>) else None)"
| "daemon_step cd L pid (Serve i) d =
     (if pc d \<noteq> Finished \<and> i < length (threads d)
      then (case handle_request cd L pid (threads d ! i, dworld d) of (s, w) \<Rightarrow>
        Some (d\<lparr>threads := take i (threads d) @ drop (Suc i) (threads d), served := served d @ [s], dworld := w\<rparr>))
      else None)"
| "daemon_step cd L pid Signal d =
     (if pc d \<noteq> Finished then Some (d\<lparr>dworld := (dworld d)\<lparr>RUNNING := False\<rparr>\<rparr>) else None)"
| "daemon_step cd L pid (ChildExit c ok) d =
     (let w = dworld d; h = whost w in
      if map_of (children h) c = Some Alive
      then Some (d\<lparr>dworld := w\<lparr>whost := h\<lparr>children := AList.update c (Exited ok) (children h)\<rparr>\<rparr>\<rparr>)
      else None)"

text \<open>The process when the loop is entered, on a host where it has no children yet.\<close>

definition daemon_init :: "host \<Rightarrow> daemon" where
  "daemon_init h =
     \<lparr>pc = Testing, threads = [], served = [], dworld = \<lparr>dstate = daemon_state_new, whost = h\<lparr>children := []\<rparr>, RUNNING = True\<rparr>\<rparr>"

inductive daemon_reaches :: "ipc_codec \<Rightarrow> libs \<Rightarrow> u32 \<Rightarrow> host \<Rightarrow> daemon \<Rightarrow> bool" for cd L pid h where
  start: "daemon_reaches cd L pid h (daemon_init h)"
| step: "daemon_reaches cd L pid h d \<Longrightarrow> daemon_step cd L pid ev d = Some d' \<Longrightarrow> daemon_reaches cd L pid h d'"

fun daemon_run :: "ipc_codec \<Rightarrow> libs \<Rightarrow> u32 \<Rightarrow> daemon_event list \<Rightarrow> daemon \<Rightarrow> daemon option" where
  "daemon_run cd L pid [] d = Some d"
| "daemon_run cd L pid (ev # evs) d = Option.bind (daemon_step cd L pid ev d) (daemon_run cd L pid evs)"

end
