(* ===== verification/LD_DaemonSpec.thy ===== *)
theory LD_DaemonSpec
  imports LD_Daemon
begin

text \<open>
  What the daemon guarantees: every answer is well formed, at most one emulator is ever alive and it is the one the
  state holds, a failed launch changes nothing behind the lock, the two ends of the IPC channel agree, and the loop ends
  once it is asked to.
\<close>

section \<open>Operations that leave the children alone\<close>

definition quiet :: "(nat \<times> child_status) list \<Rightarrow> nat \<Rightarrow> host \<Rightarrow> bool" where
  "quiet cs n h \<longleftrightarrow> children h = cs \<and> next_child h = n"

lemma keeps_with_err [keeps_rules]: "keeps I m \<Longrightarrow> keeps I (with_err g m)"
  by (auto simp: keeps_def with_err_def split: prod.splits)

lemma keeps_os_error [keeps_rules]: "keeps I m \<Longrightarrow> keeps I (os_error m)"
  by (simp add: keeps_def)

lemma quiet_write_file [keeps_rules]: "keeps (quiet cs n) (write_file p bs)"
  by (auto simp: keeps_def quiet_def write_file_def split: option.splits)

lemma quiet_create_dir_all [keeps_rules]: "keeps (quiet cs n) (create_dir_all p)"
  by (auto simp: keeps_def quiet_def only_dirs_growD [OF create_dir_all_grows])

lemma quiet_command_output [keeps_rules]: "keeps (quiet cs n) (command_output ps prog args input)"
  by (auto simp: keeps_def quiet_def command_output_def split: prod.splits)

lemma quiet_try_clone [keeps_rules]: "keeps (quiet cs n) try_clone"
  by (simp add: try_clone_def keeps_rules)

lemma quiet_copy_file [keeps_rules]: "keeps (quiet cs n) (copy_file a b)"
  by (auto simp: copy_file_def intro!: keeps_rules)

lemma quiet_copy_image [keeps_rules]: "keeps (quiet cs n) (copy_image d ns dst)"
  using quiet_copy_file by (auto simp: keeps_def copy_image_def split: option.splits)

lemma quiet_ensure_layout [keeps_rules]: "keeps (quiet cs n) (ensure_layout c)"
  by (auto simp: ensure_layout_def intro!: keeps_rules)

lemma keepsI: "(\<And>s. I s \<Longrightarrow> I (snd (m s))) \<Longrightarrow> keeps I m"
  by (simp add: keeps_def)

lemma quiet_at:
  "keeps (quiet cs n) (andthen m f) \<Longrightarrow> quiet cs n s \<Longrightarrow> quiet cs n (snd (andthen m f s))"
  "keeps (quiet cs n) (with_err g k) \<Longrightarrow> quiet cs n s \<Longrightarrow> quiet cs n (snd (with_err g k s))"
  by (simp_all add: keeps_def)

lemma quiet_config_load [keeps_rules]: "keeps (quiet cs n) (config_load L)"
  by (rule keepsI) (auto simp: config_load_def Let_def intro!: quiet_at keeps_rules)

lemma quiet_ensure_default_device [keeps_rules]: "keeps (quiet cs n) (ensure_default_device L c)"
  by (rule keepsI) (auto simp: ensure_default_device_def Let_def intro!: quiet_at keeps_rules)

lemma quiet_find_device [keeps_rules]: "keeps (quiet cs n) (find_device L c name)"
  by (rule keepsI) (auto simp: find_device_def split: outcome.splits intro!: quiet_at keeps_rules)

lemma quiet_accept_licenses [keeps_rules]: "keeps (quiet cs n) (accept_licenses L m r)"
  by (rule keepsI) (auto simp: accept_licenses_def quiet_def command_output_def
      split: prod.splits outcome.splits command_error.splits)

lemma quiet_install_package [keeps_rules]: "keeps (quiet cs n) (install_package L m r p)"
  by (rule keepsI) (auto simp: install_package_def quiet_def command_output_def split: prod.splits outcome.splits)

lemma quiet_find_sdkmanager [keeps_rules]:
  "keeps (quiet cs n) (\<lambda>h. case find_sdkmanager L root h of (p, h') \<Rightarrow> (f p, h'))"
  by (rule keepsI) (auto simp: find_sdkmanager_def quiet_def command_output_def split: prod.splits outcome.splits option.splits)

lemma quiet_copy_images [keeps_rules]: "keeps (quiet cs n) (copy_images api root images)"
  by (auto simp: copy_images_def Let_def intro!: keeps_rules)

lemma quiet_ensure_android_images [keeps_rules]: "keeps (quiet cs n) (ensure_android_images L c api)"
  by (auto simp: ensure_android_images_def intro!: keeps_rules)

lemma quiet_configure_avd [keeps_rules]: "keeps (quiet cs n) (configure_avd p d)"
  by (auto simp: configure_avd_def Let_def intro!: keeps_rules)

lemma quiet_create_avd [keeps_rules]: "keeps (quiet cs n) (create_avd L m name d)"
  by (auto simp: create_avd_def intro!: keeps_rules)

lemma quiet_android_emulator [keeps_rules]: "keeps (quiet cs n) (android_emulator L c d name)"
  by (rule keepsI) (auto simp: android_emulator_def Let_def intro!: quiet_at keeps_rules)

section \<open>A launch starts one child, or none\<close>

definition spawns_one :: "(host, 'e, nat \<times> 'a) action \<Rightarrow> bool" where
  "spawns_one m \<longleftrightarrow> (\<forall>h. case m h of
     (Ok (c, _), h') \<Rightarrow> c = next_child h \<and> children h' = AList.update c Alive (children h) \<and> next_child h' = Suc (next_child h)
   | (_, h') \<Rightarrow> quiet (children h) (next_child h) h')"

lemma spawns_one_andthen:
  assumes "\<And>cs n. keeps (quiet cs n) m" and "\<And>x. spawns_one (f x)"
  shows "spawns_one (andthen m f)"
proof -
  have "case andthen m f h of
      (Ok (c, _), h') \<Rightarrow> c = next_child h \<and> children h' = AList.update c Alive (children h) \<and> next_child h' = Suc (next_child h)
    | (_, h') \<Rightarrow> quiet (children h) (next_child h) h'" for h
  proof (cases "m h")
    case (Pair r u)
    then have q: "children u = children h" "next_child u = next_child h"
      using keepsD [OF assms(1) [of "children h" "next_child h"] _ Pair] by (simp_all add: quiet_def)
    show ?thesis
    proof (cases r)
      case (Ok x)
      with Pair q show ?thesis
        using assms(2) [of x, unfolded spawns_one_def, rule_format, of u] by (simp split: prod.splits outcome.splits)
    qed (use Pair q in \<open>simp_all add: quiet_def\<close>)
  qed
  then show ?thesis by (simp add: spawns_one_def)
qed

lemma spawns_one_spawn: "spawns_one (andthen (with_err g (spawn ps prog args)) (\<lambda>c. ret (c, x)))"
  by (auto simp: spawns_one_def andthen_def with_err_def spawn_def quiet_def split: option.splits)

lemma prepare_launch_spawns_one: "spawns_one (prepare_launch L name wipe)"
  by (auto simp: prepare_launch_def Let_def intro!: spawns_one_andthen spawns_one_spawn keeps_rules)

section \<open>The invariant\<close>

definition power_states :: "string list" where
  "power_states = [''off'', ''booting'', ''running'', ''error'', ''stopping'']"

definition daemon_ok :: "world \<Rightarrow> bool" where
  "daemon_ok w \<longleftrightarrow>
     alive (whost w) \<subseteq> set_option (emulator (dstate w))
     \<and> (emulator (dstate w) \<noteq> None \<longrightarrow> active_device (dstate w) \<noteq> None \<and> adb (dstate w) \<noteq> None)
     \<and> stop_handle (dstate w) = None
     \<and> power_state (dstate w) \<in> set power_states"

lemma on_host_quiet:
  assumes "\<And>cs n. keeps (quiet cs n) m" and "on_host m w = (r, w')"
  shows "dstate w' = dstate w \<and> RUNNING w' = RUNNING w \<and> children (whost w') = children (whost w)
    \<and> next_child (whost w') = next_child (whost w)"
proof -
  obtain h where h: "m (whost w) = (r, h)" "w' = w\<lparr>whost := h\<rparr>"
    using assms(2) by (auto simp: on_host_def split: prod.splits)
  have "quiet (children (whost w)) (next_child (whost w)) h"
    using keepsD [OF assms(1) _ h(1)] by (simp add: quiet_def)
  with h show ?thesis by (simp add: quiet_def)
qed

lemma daemon_ok_cong:
  "dstate w' = dstate w \<Longrightarrow> children (whost w') = children (whost w) \<Longrightarrow> daemon_ok w' = daemon_ok w"
  by (simp add: daemon_ok_def alive_def)

lemma dstate_on_state [simp]: "dstate (on_state f w) = f (dstate w)" "whost (on_state f w) = whost w"
  "RUNNING (on_state f w) = RUNNING w"
  by (simp_all add: on_state_def)

lemma snd_answer [simp]: "snd (answer rid f p) = snd p"
  by (simp add: answer_def split: prod.splits)

text \<open>
  What a request that only looks at the emulator may do to the state: nothing but set the power state, or, when the emulator has
  exited, forget it.  A property that both keep is kept by every such request.
\<close>

locale poll_stable =
  fixes I :: "world \<Rightarrow> bool"
  assumes I_cong: "dstate w' = dstate w \<Longrightarrow> children (whost w') = children (whost w) \<Longrightarrow> RUNNING w' = RUNNING w \<Longrightarrow> I w' = I w"
    and I_powered: "I w \<Longrightarrow> emulator (dstate w) = Some c \<Longrightarrow> x \<in> set power_states \<Longrightarrow> I (on_state (\<lambda>s. s\<lparr>power_state := x\<rparr>) w)"
    and I_noticed: "I w \<Longrightarrow> emulator (dstate w) = Some c \<Longrightarrow> try_wait c (whost w) = Ok (Some ok) \<Longrightarrow>
      x = (if ok then ''off'' else ''error'') \<Longrightarrow>
      I (on_state (\<lambda>s. s\<lparr>emulator := None, adb := None, active_device := None, power_state := x\<rparr>) w)"
begin

lemma keeps_host:
  assumes "\<And>cs n. keeps (quiet cs n) m"
  shows "keeps I (on_host m)"
proof (rule keepsI)
  fix w assume "I w"
  then show "I (snd (on_host m w))"
    using on_host_quiet [OF assms, of w] I_cong [of "snd (on_host m w)" w] by (metis prod.collapse)
qed

lemma emulator_state_at:
  assumes "I w"
  shows "I (snd (emulator_state L w))"
proof (cases "emulator (dstate w)")
  case None
  with assms show ?thesis by (simp add: emulator_state_def)
next
  case (Some c)
  have host: "I w1" if "on_host (command_output ps p a i) w = (r, w1)" for ps p a i r w1
    using keeps_host [of "command_output ps p a i"] assms that by (metis keepsD quiet_command_output)
  have child: "emulator (dstate w1) = Some c" if "on_host (command_output ps p a i) w = (r, w1)" for ps p a i r w1
    using on_host_quiet [of "command_output ps p a i" w] that Some by (metis quiet_command_output)
  from Some assms show ?thesis
    by (auto simp: emulator_state_def Let_def power_states_def child intro!: I_powered [where c = c] I_noticed dest: host
        split: outcome.splits option.splits prod.splits)
qed

lemma keeps_adb_bytes: "keeps I (adb_bytes L args)"
proof (rule keepsI)
  fix w assume w: "I w"
  obtain st w1 where e: "emulator_state L w = (st, w1)" by fastforce
  with w have ok: "I w1"
    using emulator_state_at [of w L] by simp
  have "keeps I (andthen (with_err (\<lambda>e. ''Cannot run ADB: '' @ command_error_text e)
      (on_host (command_output (progs L) p ([''-s'', ''emulator-5554''] @ args) []))) (\<lambda>out.
      if status_success out then ret (stdout out)
      else fail (''ADB command failed: '' @ trim (from_utf8_lossy (stderr out)))))" for p
    by (intro keeps_host keeps_rules)
  with e ok show "I (snd (adb_bytes L args w))"
    by (auto simp: adb_bytes_def keeps_def split: option.splits)
qed

lemma adb_output_at: "I w \<Longrightarrow> I (snd (adb_output L args w))"
proof -
  have "keeps I (adb_output L args)"
    by (auto simp: adb_output_def intro!: keeps_adb_bytes keeps_rules)
  then show "I w \<Longrightarrow> I (snd (adb_output L args w))" by (simp add: keeps_def)
qed

lemma screenshot_at:
  assumes "I w"
  shows "I (snd (device_screenshot L req w))"
proof -
  obtain p w1 where p: "screenshot_path L (req_params req) w = (p, w1)" by fastforce
  have "I (snd (on_host (config_load L) w))"
    using assms keeps_host [OF quiet_config_load] by (simp add: keeps_def)
  then have "I w1"
    using p assms by (auto simp: screenshot_path_def split: option.splits prod.splits outcome.splits)
  moreover have "keeps I (andthen (case parent p of None \<Rightarrow> ret ()
      | Some d \<Rightarrow> with_err (\<lambda>e. ''Cannot create screenshot directory: '' @ e) (on_host (create_dir_all d))) (\<lambda>_.
      andthen (adb_bytes L [''exec-out'', ''screencap'', ''-p'']) (\<lambda>bs.
      with_err (\<lambda>e. ''Cannot save screenshot: '' @ e) (on_host (write_file p bs)))))"
    by (cases "parent p") (auto intro!: keeps_adb_bytes keeps_host keeps_rules)
  ultimately show ?thesis using p by (simp add: device_screenshot_def keeps_def)
qed

lemma polling_at:
  assumes "I w"
  shows "I (snd (device_status L w))" "I (snd (device_launch L req w))" "I (snd (apk_uninstall L req w))"
    "I (snd (apk_install L req w))" "I (snd (adb_command L rid args w))"
  using assms emulator_state_at [OF assms, of L] adb_output_at [OF assms]
  by (simp_all add: device_status_def device_launch_def apk_uninstall_def apk_install_def adb_command_def with_package_def Let_def
      case_prod_beta split: option.splits)

end

lemma launch_device_cases:
  assumes "launch_device L name wipe w = (r, w')"
  obtains (started) v where "r = Ok v" and "emulator (dstate w') = Some (next_child (whost w))"
      and "active_device (dstate w') = Some name" and "power_state (dstate w') = ''booting''" and "adb (dstate w') \<noteq> None"
      and "stop_handle (dstate w') = stop_handle (dstate w)" and "RUNNING w' = RUNNING w"
      and "alive (whost w') = insert (next_child (whost w)) (alive (whost w))"
  | (failed) "\<not> is_ok r" and "dstate w' = dstate w" and "RUNNING w' = RUNNING w"
      and "children (whost w') = children (whost w)" and "next_child (whost w') = next_child (whost w)"
proof -
  obtain q h where p: "prepare_launch L name wipe (whost w) = (q, h)" by fastforce
  note s = prepare_launch_spawns_one [of L name wipe, unfolded spawns_one_def, rule_format, of "whost w", unfolded p]
  show thesis
  proof (cases q)
    case (Ok x)
    obtain c a n e where x: "x = (c, a, n, e)" by (cases x) auto
    with Ok s have c: "c = next_child (whost w)" "children h = AList.update c Alive (children (whost w))"
      by auto
    show thesis
      using assms p Ok x c
      by (intro started) (auto simp: launch_device_def on_host_def alive_def update_conv)
  qed (use assms p s in \<open>auto simp: launch_device_def on_host_def quiet_def intro!: failed\<close>)
qed

lemma daemon_ok_launch:
  assumes "daemon_ok w" and "alive (whost w) = {}"
  shows "daemon_ok (snd (launch_device L name wipe w))"
proof -
  obtain r w' where l: "launch_device L name wipe w = (r, w')" by fastforce
  then show ?thesis
  proof (cases rule: launch_device_cases)
    case started
    with l assms show ?thesis by (auto simp: daemon_ok_def power_states_def)
  next
    case failed
    with l assms(1) daemon_ok_cong [of w' w] show ?thesis by simp
  qed
qed

lemma end_emulator_simps [simp]:
  "emulator (dstate (end_emulator w)) = None"
  "alive (whost (end_emulator w)) = alive (whost w) - set_option (emulator (dstate w))"
  "stop_handle (dstate (end_emulator w)) = stop_handle (dstate w)"
  "power_state (dstate (end_emulator w)) = power_state (dstate w)"
  by (auto simp: end_emulator_def split: option.splits)

lemma daemon_ok_stop [simp]:
  assumes "daemon_ok w"
  shows "daemon_ok (stop_emulator w)" and "daemon_ok (device_stop w)" and "daemon_ok (daemon_shutdown w)"
    and "alive (whost (stop_emulator w)) = {}" and "alive (whost (device_stop w)) = {}" and "alive (whost (daemon_shutdown w)) = {}"
  using assms by (auto simp: daemon_ok_def stop_emulator_def device_stop_def daemon_shutdown_def power_states_def)

lemma try_wait_exited: "try_wait c h = Ok (Some ok) \<Longrightarrow> c \<notin> alive h"
  by (auto simp: try_wait_def alive_def split: option.splits child_status.splits)

interpretation ok: poll_stable daemon_ok
proof
  show "daemon_ok w' = daemon_ok w"
    if "dstate w' = dstate w" "children (whost w') = children (whost w)" "RUNNING w' = RUNNING w" for w w'
    using that(1,2) by (rule daemon_ok_cong)
  show "daemon_ok (on_state (\<lambda>s. s\<lparr>power_state := x\<rparr>) w)" if "daemon_ok w" "emulator (dstate w) = Some c" "x \<in> set power_states" for w x c
    using that by (simp add: daemon_ok_def)
  show "daemon_ok (on_state (\<lambda>s. s\<lparr>emulator := None, adb := None, active_device := None, power_state := x\<rparr>) w)"
    if "daemon_ok w" "emulator (dstate w) = Some c" "try_wait c (whost w) = Ok (Some ok)"
      "x = (if ok then ''off'' else ''error'')" for w c ok x
    using that try_wait_exited [of c "whost w" ok] by (auto simp: daemon_ok_def power_states_def)
qed

lemma device_start_ok:
  assumes "daemon_ok w"
  shows "daemon_ok (snd (device_start L req w))"
proof (cases "emulator (dstate w)")
  case None
  with assms have "alive (whost w) = {}" by (simp add: daemon_ok_def)
  with None assms show ?thesis by (simp add: device_start_def Let_def daemon_ok_launch)
next
  case (Some c)
  show ?thesis
  proof (cases "\<exists>ok. try_wait c (whost w) = Ok (Some ok)")
    case True
    let ?w = "on_state (\<lambda>s. s\<lparr>emulator := None\<rparr>) w"
    have "c \<notin> alive (whost w)" using True by (auto dest: try_wait_exited)
    with Some assms have "daemon_ok ?w" and "alive (whost ?w) = {}" by (auto simp: daemon_ok_def)
    with True Some show ?thesis by (auto simp: device_start_def Let_def daemon_ok_launch)
  next
    case False
    with Some assms show ?thesis
      by (auto simp: device_start_def Let_def split: outcome.splits option.splits)
  qed
qed

lemma dispatch_ok:
  assumes "daemon_ok w"
  shows "daemon_ok (snd (dispatch L pid req w))"
proof -
  have "daemon_ok (snd (relaunch L wipe req w))" for wipe
    using assms by (simp add: relaunch_def daemon_ok_launch Let_def)
  then show ?thesis
    using assms device_start_ok [OF assms] ok.polling_at [OF assms] ok.screenshot_at [OF assms] ok.adb_output_at [OF assms]
    by (simp add: dispatch_def Let_def case_prod_beta)
qed

lemma handle_request_ok: "daemon_ok w \<Longrightarrow> daemon_ok (snd (handle_request cd L pid (s, w)))"
  using dispatch_ok [of w L pid]
  by (auto simp: handle_request_def case_prod_beta split: outcome.splits option.splits)

lemma daemon_step_ok:
  assumes "daemon_ok (dworld d)" and "daemon_step cd L pid ev d = Some d'"
  shows "daemon_ok (dworld d')"
proof (cases ev)
  case (Serve i)
  with assms show ?thesis
    using handle_request_ok [of "dworld d" cd L pid "threads d ! i"] by (auto simp: case_prod_beta split: if_splits)
next
  case (ChildExit c ok)
  with assms show ?thesis
    by (auto simp: daemon_ok_def alive_def update_conv Let_def split: if_splits)
qed (use assms in \<open>auto simp: daemon_ok_def split: if_splits\<close>)

text \<open>
  In every reachable state at most one emulator is alive, and it is the one behind the lock, which then has a device and
  an ADB path; the power state is one of the five the daemon uses.
\<close>

text \<open>
  C8. In every state the daemon reaches, under any interleaving of clients, signals and
  exits of the emulator, at most one emulator process is alive and it is the one the state
  records, together with a device and an ADB port; the power state is one of the five known
  ones.
\<close>

theorem daemon_single_emulator:
  assumes "daemon_reaches cd L pid h d"
  shows "alive (whost (dworld d)) \<subseteq> set_option (emulator (dstate (dworld d)))
    \<and> (emulator (dstate (dworld d)) \<noteq> None \<longrightarrow>
         active_device (dstate (dworld d)) \<noteq> None \<and> adb (dstate (dworld d)) \<noteq> None)
    \<and> power_state (dstate (dworld d)) \<in> {''off'', ''booting'', ''running'', ''error'', ''stopping''}"
proof -
  have "daemon_ok (dworld d)"
    using assms
  proof (induction rule: daemon_reaches.induct)
    case start
    show ?case by (simp add: daemon_init_def daemon_ok_def daemon_state_new_def alive_def power_states_def)
  next
    case step
    then show ?case by (blast intro: daemon_step_ok)
  qed
  then show ?thesis by (simp add: daemon_ok_def power_states_def)
qed

section \<open>Answers\<close>

definition answers_to :: "string \<Rightarrow> IpcResponse option \<times> world \<Rightarrow> bool" where
  "answers_to rid p \<longleftrightarrow> (\<forall>r. fst p = Some r \<longrightarrow> (\<exists>v. r = make_ok rid v) \<or> (\<exists>e. r = make_err rid e))"

lemma answers_to_simps [simp]:
  "answers_to rid (Some (make_ok rid v), w)" "answers_to rid (Some (make_err rid e), w)" "answers_to rid (answer rid f p)"
  by (auto simp: answers_to_def answer_def split: prod.splits outcome.splits)

lemma answers_to_handlers [simp]:
  "answers_to (req_request_id req) (device_start L req w)"
  "answers_to (req_request_id req) (apk_install L req w)"
  "answers_to (req_request_id req) (device_launch L req w)"
  "answers_to (req_request_id req) (apk_uninstall L req w)"
  "answers_to (req_request_id req) (relaunch L wipe req w)"
  "answers_to (req_request_id req) (device_screenshot L req w)"
  "answers_to rid (adb_command L rid args w)"
  by (simp_all add: device_start_def apk_install_def device_launch_def apk_uninstall_def with_package_def relaunch_def
      device_screenshot_def adb_command_def Let_def case_prod_beta split: option.splits outcome.splits)

lemma dispatch_shape: "answers_to (req_request_id req) (dispatch L pid req w)"
  by (simp add: dispatch_def Let_def case_prod_beta)

text \<open>An answer carries the identifier of its request, and either a result or an error, as its flag says.\<close>


section \<open>Every request is answered\<close>

text \<open>Libraries and programs that return, with a value or an error.\<close>

definition libs_total :: "libs \<Rightarrow> bool" where
  "libs_total L \<longleftrightarrow>
     (\<forall>t. json_from_str L t \<noteq> Panic) \<and> (\<forall>v. json_to_string_pretty L v \<noteq> Panic) \<and> (\<forall>t. toml_from_str L t \<noteq> Panic)
     \<and> (\<forall>p a i h. fst (run_program (progs L) p a i h) \<noteq> Panic)"

definition no_panic :: "('s, 'e, 'a) action \<Rightarrow> bool" where
  "no_panic m \<longleftrightarrow> safe (\<lambda>_. True) m"

lemma no_panic_iff: "no_panic m \<longleftrightarrow> (\<forall>s. fst (m s) \<noteq> Panic)"
  by (simp add: no_panic_def safe_def)

lemma no_panicI: "(\<And>s. fst (m s) \<noteq> Panic) \<Longrightarrow> no_panic m"
  by (simp add: no_panic_iff)

named_theorems total_rules \<open>calls that never panic\<close>

lemma total_basic [total_rules]:
  "no_panic (ret x)" "no_panic (fail e)" "no_panic (gets f)" "no_panic (modify g)"
  by (simp_all add: no_panic_iff)

lemma total_andthen [total_rules]: "no_panic m \<Longrightarrow> (\<And>x. no_panic (f x)) \<Longrightarrow> no_panic (andthen m f)"
  unfolding no_panic_def by (rule safe_andthen)

lemma total_if [total_rules]: "no_panic m \<Longrightarrow> no_panic n \<Longrightarrow> no_panic (if b then m else n)"
  by simp

lemma total_lift [total_rules]: "(\<And>s. f s \<noteq> Panic) \<Longrightarrow> no_panic (lift_outcome f)"
  by (simp add: no_panic_iff)

lemma total_for_each [total_rules]: "(\<And>x. no_panic (f x)) \<Longrightarrow> no_panic (for_each xs f)"
  unfolding no_panic_def by (rule safe_for_each)

lemma total_wrap [total_rules]: "no_panic m \<Longrightarrow> no_panic (with_err g m)" "no_panic k \<Longrightarrow> no_panic (os_error k)" "no_panic j \<Longrightarrow> no_panic (on_host j)"
  by (auto simp: no_panic_iff with_err_def on_host_def split: prod.splits) (metis fst_conv)+

lemma total_host [total_rules]: "no_panic (write_file p bs)" "no_panic (create_dir_all p)" "no_panic try_clone" "no_panic (spawn ps prog args)"
  by (auto simp: no_panic_iff write_file_def create_dir_all_no_panic try_clone_def spawn_def split: option.splits)

lemma read_file_no_panic [simp]: "read_file p h \<noteq> Panic" "read_to_string p h \<noteq> Panic"
  by (auto simp: read_to_string_def read_file_def bind_outcome_eq_Panic split: option.splits)

lemma total_command_output [total_rules]: "libs_total L \<Longrightarrow> no_panic (command_output (progs L) p a i)"
  by (simp add: no_panic_iff command_output_def libs_total_def split: prod.splits) (metis fst_conv)

lemma total_copy_image [total_rules]: "no_panic (copy_image d ns dst)"
proof -
  have "no_panic (os_error (copy_file a b))" for a b
    by (auto simp: copy_file_def intro!: total_rules)
  then show ?thesis by (auto simp: no_panic_iff copy_image_def split: option.splits)
qed

lemma total_ensure_layout [total_rules]: "no_panic (ensure_layout c)"
  by (auto simp: ensure_layout_def intro!: total_rules)

lemma total_at: "no_panic (andthen m f) \<Longrightarrow> fst (andthen m f s) \<noteq> Panic" "no_panic (with_err g k) \<Longrightarrow> fst (with_err g k s) \<noteq> Panic"
  by (simp_all add: no_panic_iff)

lemma total_config_load [total_rules]: "libs_total L \<Longrightarrow> no_panic (config_load L)"
  by (rule no_panicI) (auto simp: config_load_def Let_def libs_total_def intro!: total_at total_rules)

lemma device_config_no_panic: "libs_total L \<Longrightarrow> device_config L c n h \<noteq> Panic"
  by (auto simp: device_config_def libs_total_def bind_outcome_eq_Panic Let_def split: outcome.splits)

lemma total_ensure_default_device [total_rules]: "libs_total L \<Longrightarrow> no_panic (ensure_default_device L c)"
  by (rule no_panicI) (auto simp: ensure_default_device_def Let_def device_config_no_panic
      libs_total_def intro!: total_at total_rules)

lemma total_find_device [total_rules]: "libs_total L \<Longrightarrow> no_panic (find_device L c n)"
  by (rule no_panicI) (auto simp: find_device_def device_config_no_panic split: outcome.splits
      intro!: total_at total_rules)

lemma total_sdk [total_rules]:
  assumes "libs_total L"
  shows "no_panic (accept_licenses L m r)" and "no_panic (install_package L m r p)"
    and "no_panic (\<lambda>h. case find_sdkmanager L root h of (p, h') \<Rightarrow> (ok_or e p, h'))"
  using total_command_output [OF assms]
  by (auto simp: no_panic_iff accept_licenses_def install_package_def split: prod.splits outcome.splits command_error.splits)
    (metis fst_conv)+

lemma total_ensure_android_images [total_rules]: "libs_total L \<Longrightarrow> no_panic (ensure_android_images L c api)"
  by (auto simp: ensure_android_images_def copy_images_def Let_def intro!: total_rules)

lemma total_android_emulator [total_rules]: "libs_total L \<Longrightarrow> no_panic (android_emulator L c d n)"
  by (rule no_panicI) (auto simp: android_emulator_def Let_def create_avd_def configure_avd_def
      intro!: total_at total_rules)

lemma total_launch_device [total_rules]: "libs_total L \<Longrightarrow> no_panic (launch_device L n wipe)"
  by (auto simp: launch_device_def prepare_launch_def Let_def case_prod_beta intro!: total_rules)

lemma total_adb_bytes [total_rules]: "libs_total L \<Longrightarrow> no_panic (adb_bytes L args)"
  by (rule no_panicI) (auto simp: adb_bytes_def case_prod_beta split: option.splits
      intro!: total_at total_rules)

lemma total_adb_output [total_rules]: "libs_total L \<Longrightarrow> no_panic (adb_output L args)"
  by (auto simp: adb_output_def intro!: total_rules)

lemma answer_total: "no_panic m \<Longrightarrow> fst (answer rid f (m w)) \<noteq> None"
  by (auto simp: no_panic_iff answer_def split: prod.splits outcome.splits) (metis fst_conv)

text \<open>
  C20. When the libraries return values or errors, the dispatcher answers every request,
  whatever its method and parameters: no handler panics.
\<close>

theorem dispatch_answers:
  assumes "libs_total L"
  shows "\<exists>resp. fst (dispatch L pid req w) = Some resp"
proof -
  have launch: "fst (answer rid id (launch_device L n wipe w)) \<noteq> None" for rid n wipe w
    by (rule answer_total) (intro total_rules assms)
  have out: "fst (answer rid f (adb_output L args w)) \<noteq> None" for rid f args w
    by (rule answer_total) (intro total_rules assms)
  have "fst (device_screenshot L req w) \<noteq> None"
    unfolding device_screenshot_def case_prod_beta
    by (rule answer_total) (auto intro!: total_rules assms split: option.splits)
  with launch out have "fst (dispatch L pid req w) \<noteq> None"
    by (auto simp: dispatch_def Let_def case_prod_beta device_start_def relaunch_def device_launch_def apk_install_def
        apk_uninstall_def with_package_def adb_command_def split: option.splits outcome.splits)
  then show ?thesis by auto
qed

section \<open>Restarting\<close>

text \<open>
  \<open>device.restart\<close> and \<open>device.wipe\<close>: the old emulator is gone in any case; on success the same device is booting in a new
  one, on failure the daemon is off and holds nothing.
\<close>

text \<open>
  C15. Restarting (or wiping) the device ends the running emulator and either leaves
  exactly one new emulator process, booting the device that was active (the default one if
  none was), or, when the launch fails, leaves no emulator process and the state of a fresh
  daemon.
\<close>

theorem relaunch_correct:
  assumes "daemon_ok w" and "libs_total L" and "relaunch L wipe req w = (Some resp, w')"
  shows "if success resp
    then \<exists>c. alive (whost w') = {c} \<and> emulator (dstate w') = Some c
      \<and> power_state (dstate w') = ''booting''
      \<and> active_device (dstate w') = Some (case active_device (dstate w) of Some n \<Rightarrow> n | None \<Rightarrow> ''default'')
    else alive (whost w') = {} \<and> dstate w' = daemon_state_new"
proof -
  let ?n = "case active_device (dstate w) of Some n \<Rightarrow> n | None \<Rightarrow> ''default''"
  obtain r w1 where l: "launch_device L ?n wipe (stop_emulator w) = (r, w1)" by fastforce
  have none: "alive (whost (stop_emulator w)) = {}" and "alive (whost w) \<subseteq> set_option (emulator (dstate w))"
    using assms(1) by (simp_all add: daemon_ok_def)
  have new: "dstate (stop_emulator w) = daemon_state_new"
    using assms(1) by (auto simp: stop_emulator_def end_emulator_def daemon_state_new_def daemon_ok_def split: option.splits)
  from l assms(3) have w1: "w' = w1" and resp: "Some resp = fst (answer (req_request_id req) id (r, w1))"
    by (simp_all add: relaunch_def answer_def)
  from l show ?thesis
  proof (cases rule: launch_device_cases)
    case started
    with w1 resp none \<open>alive (whost w) \<subseteq> _\<close> show ?thesis
      by (auto simp: answer_def make_ok_def)
  next
    case failed
    then have "\<not> success resp"
      using resp by (cases r) (simp_all add: answer_def make_err_def)
    moreover have "alive (whost w1) = {}"
      using failed none by (simp add: alive_def)
    ultimately show ?thesis
      using failed new w1 by simp
  qed
qed

section \<open>A start that fails\<close>

text \<open>
  A start after the emulator has died forgets the child but nothing else: when the new launch fails, the next status
  request reports the old power state and the old device.
\<close>

text \<open>
  C39. When the recorded emulator has exited and the next start fails, the process is
  forgotten but the daemon still reports the power state and the device of the dead
  emulator.
\<close>

theorem failed_start_is_stale:
  assumes "emulator (dstate w) = Some c" and "try_wait c (whost w) = Ok (Some ok)"
    and "device_start L req w = (Some resp, w')" and "\<not> success resp"
  shows "emulator (dstate w') = None
    \<and> fst (device_status L w') = JObject [(''power_state'', JString (power_state (dstate w))),
        (''device'', json_opt (active_device (dstate w)))]"
proof -
  let ?n = "case get_str ''device'' (req_params req) of Some n \<Rightarrow> n | None \<Rightarrow> ''default''"
  let ?w = "on_state (\<lambda>s. s\<lparr>emulator := None\<rparr>) w"
  obtain r w1 where l: "launch_device L ?n False ?w = (r, w1)" by fastforce
  with assms(1-3) have w1: "w' = w1" and resp: "Some resp = fst (answer (req_request_id req) id (r, w1))"
    by (simp_all add: device_start_def Let_def answer_def)
  from l have "dstate w1 = dstate ?w"
  proof (cases rule: launch_device_cases)
    case started
    with resp assms(4) show ?thesis by (simp add: answer_def make_ok_def)
  qed
  with w1 show ?thesis
    by (simp add: device_status_def emulator_state_def)
qed

definition crashed_world :: world where
  "crashed_world = \<lparr>dstate = \<lparr>active_device = Some ''pixel'', power_state = ''running'', stop_handle = None,
       emulator = Some 0, adb = Some ''/sdk/adb''\<rparr>,
     whost = empty_host\<lparr>children := [(0, Exited False)], next_child := 1\<rparr>, RUNNING = True\<rparr>"

theorem failed_start_is_stale_witness:
  "let req = make_request ''1'' ''device.start'' (JObject []);
       w' = snd (device_start (plain_libs JNull litedroid_config_default) req crashed_world)
   in emulator (dstate w') = None
    \<and> fst (device_status (plain_libs JNull litedroid_config_default) w') =
        JObject [(''power_state'', JString ''running''), (''device'', JString ''pixel'')]"
proof -
  let ?L = "plain_libs JNull litedroid_config_default"
  let ?req = "make_request ''1'' ''device.start'' (JObject [])"
  have "map_option success (fst (device_start ?L ?req crashed_world)) = Some False"
    by code_simp
  then obtain resp w' where r: "device_start ?L ?req crashed_world = (Some resp, w')" "\<not> success resp"
    by (cases "device_start ?L ?req crashed_world") auto
  have "try_wait 0 (whost crashed_world) = Ok (Some False)"
    by (simp add: crashed_world_def try_wait_def)
  from failed_start_is_stale [OF _ this r] r(1) show ?thesis
    by (simp add: crashed_world_def json_opt_def)
qed

section \<open>Both ends of the channel\<close>

text \<open>
  A request sent by a client and the answer of the daemon, through frames and JSON text: the client gets exactly what
  \<open>dispatch\<close> answered, and each side consumes and produces one frame.  The hypotheses say that the JSON text of a message
  reads back as that message and is shorter than four gibibytes.
\<close>

theorem ipc_exchange:
  assumes "request_to_vec cd (make_request i meth p) = Ok bs" and "request_from_slice cd bs = Ok (make_request i meth p)"
    and "dispatch L pid (make_request i meth p) w = (Some resp, w')"
    and "response_to_vec cd resp = Ok bs'" and "response_from_slice cd bs' = Ok resp"
    and "length bs < 2 ^ 32" and "length bs' < 2 ^ 32"
    and "write_room client = None" and "write_room server = None"
    and "incoming server = frame bs" and "incoming client = frame bs'"
  shows "handle_request cd L pid (server, w) = (server\<lparr>incoming := [], sent := sent server @ frame bs'\<rparr>, w')
    \<and> send_request cd i meth p client = (Ok resp, client\<lparr>incoming := [], sent := sent client @ frame bs\<rparr>)"
proof
  have "recv_request cd server = (Ok (make_request i meth p), server\<lparr>incoming := []\<rparr>)"
    using assms by (intro recv_request_frame) simp_all
  then show "handle_request cd L pid (server, w) = (server\<lparr>incoming := [], sent := sent server @ frame bs'\<rparr>, w')"
    using assms by (simp add: handle_request_def send_response_frame)
  show "send_request cd i meth p client = (Ok resp, client\<lparr>incoming := [], sent := sent client @ frame bs\<rparr>)"
    using assms by (intro send_request_frames) simp_all
qed

text \<open>A codec that knows one request and one response.\<close>

definition pair_codec :: "IpcRequest \<Rightarrow> IpcResponse \<Rightarrow> ipc_codec" where
  "pair_codec req resp = \<lparr>request_to_vec = (\<lambda>_. Ok [1]), request_from_slice = (\<lambda>_. Ok req), response_to_vec = (\<lambda>_. Ok [2]),
     response_from_slice = (\<lambda>_. Ok resp), event_to_vec = (\<lambda>_. Ok [3])\<rparr>"

definition demo_codec :: ipc_codec where
  "demo_codec = pair_codec (make_request ''7'' ''daemon.ping'' JNull) (make_ok ''7'' JNull)"

definition demo_libs :: libs where
  "demo_libs = plain_libs JNull litedroid_config_default"

theorem ipc_exchange_witness:
  "let req = make_request ''7'' ''daemon.ping'' JNull;
       resp = make_ok ''7'' (JObject [(''pong'', JBool True), (''pid'', JUInt 42)]);
       cd = pair_codec req resp; L = plain_libs JNull litedroid_config_default
   in handle_request cd L 42 (tape (frame [1]), crashed_world) = ((tape [])\<lparr>sent := frame [2]\<rparr>, crashed_world)
    \<and> send_request cd ''7'' ''daemon.ping'' JNull (tape (frame [2])) = (Ok resp, (tape [])\<lparr>sent := frame [1]\<rparr>)"
proof -
  let ?req = "make_request ''7'' ''daemon.ping'' JNull"
  let ?resp = "make_ok ''7'' (JObject [(''pong'', JBool True), (''pid'', JUInt 42)])"
  let ?L = "plain_libs JNull litedroid_config_default"
  have d: "dispatch ?L 42 ?req crashed_world = (Some ?resp, crashed_world)"
    by (simp add: dispatch_def make_request_def json_u32_def)
  show ?thesis
    using ipc_exchange [of "pair_codec ?req ?resp" "''7''" "''daemon.ping''" JNull "[1]" ?L 42 crashed_world ?resp crashed_world
        "[2]" "tape (frame [2])" "tape (frame [1])", OF _ _ d]
    by (simp add: Let_def pair_codec_def tape_def)
qed

text \<open>The \<open>ping\<close> of the client library asks for a method the daemon does not have.\<close>

theorem ping_is_unknown:
  "dispatch L pid (make_request i ''ping'' JNull) w = (Some (make_err i ''Unknown method: ping''), w)"
  by (simp add: dispatch_def make_request_def)

section \<open>The end of the loop\<close>

interpretation stopped: poll_stable "\<lambda>w. \<not> RUNNING w"
  by unfold_locales simp_all

lemma stopped_launch: "\<not> RUNNING w \<Longrightarrow> \<not> RUNNING (snd (launch_device L n wipe w))"
proof -
  have "keeps (\<lambda>w. \<not> RUNNING w) (launch_device L n wipe)"
    by (auto simp: launch_device_def case_prod_beta keeps_def on_host_def andthen_def split: prod.splits outcome.splits)
  then show "\<not> RUNNING w \<Longrightarrow> \<not> RUNNING (snd (launch_device L n wipe w))" by (simp add: keeps_def)
qed

lemma stopped_end [simp]: "RUNNING (end_emulator w) = RUNNING w"
  by (simp add: end_emulator_def split: option.splits)

lemma stopped_dispatch:
  assumes "\<not> RUNNING w"
  shows "\<not> RUNNING (snd (dispatch L pid req w))"
  using assms stopped.polling_at [OF assms] stopped.screenshot_at [OF assms] stopped.adb_output_at [OF assms] stopped_launch
  by (auto simp: dispatch_def Let_def case_prod_beta device_start_def relaunch_def daemon_shutdown_def device_stop_def
      stop_emulator_def split: option.splits outcome.splits)

lemma daemon_stopped_step:
  assumes "\<not> RUNNING (dworld d)" and "daemon_step cd L pid ev d = Some d'"
  shows "\<not> RUNNING (dworld d')"
proof (cases ev)
  case (Serve i)
  have "\<not> RUNNING (snd (handle_request cd L pid (s, dworld d)))" for s
    using stopped_dispatch [OF assms(1)] assms(1)
    by (auto simp: handle_request_def case_prod_beta split: outcome.splits option.splits)
  with Serve assms show ?thesis by (auto simp: case_prod_beta split: if_splits)
qed (use assms in \<open>auto simp: Let_def split: if_splits\<close>)

fun is_connect :: "daemon_event \<Rightarrow> bool" where
  "is_connect (Connect s) = True"
| "is_connect _ = False"

lemma finished_step: "pc d = Finished \<Longrightarrow> daemon_step cd L pid ev d = Some d' \<Longrightarrow> pc d' = Finished \<and> ev \<noteq> Test \<and> \<not> is_connect ev"
  by (cases ev) (auto simp: Let_def split: if_splits)

lemma pc_step:
  assumes "daemon_step cd L pid ev d = Some d'" and "\<not> RUNNING (dworld d)"
  shows "pc d' = (case ev of Test \<Rightarrow> Finished | Connect _ \<Rightarrow> Testing | AcceptError \<Rightarrow> Testing | _ \<Rightarrow> pc d)"
    and "is_connect ev \<Longrightarrow> pc d = Accepting"
  using assms by (cases ev; auto simp: Let_def case_prod_beta split: if_splits)+

lemma stopped_run:
  assumes "daemon_run cd L pid evs d = Some d'" and "\<not> RUNNING (dworld d)"
  shows "length (filter is_connect evs) \<le> (if pc d = Accepting then 1 else 0)
    \<and> (pc d = Finished \<longrightarrow> pc d' = Finished) \<and> (Test \<in> set evs \<longrightarrow> pc d' = Finished)"
  using assms
proof (induction evs arbitrary: d)
  case (Cons ev evs)
  then obtain d1 where s: "daemon_step cd L pid ev d = Some d1" and r: "daemon_run cd L pid evs d1 = Some d'"
    by (auto simp: bind_eq_Some_conv)
  note IH = Cons.IH [OF r daemon_stopped_step [OF Cons.prems(2) s]]
  show ?case
    using IH pc_step [OF s Cons.prems(2)] finished_step [OF _ s]
    by (cases ev) (auto split: if_splits)
qed simp

text \<open>
  Once the flag is down, at most one more client is accepted, and the next test of the flag ends the process: however the
  threads, the signals and the children interleave.
\<close>

text \<open>
  C31. Once the running flag is cleared the daemon accepts at most one more connection, and
  the next test of the flag ends its loop.
\<close>

theorem daemon_stops:
  assumes "\<not> RUNNING (dworld d)" and "daemon_run cd L pid evs d = Some d'"
  shows "length (filter is_connect evs) \<le> 1 \<and> (Test \<in> set evs \<longrightarrow> pc d' = Finished)"
  using stopped_run [OF assms(2,1)] by (auto split: if_splits)

definition idle_daemon :: daemon where
  "idle_daemon = \<lparr>pc = Accepting, threads = [], served = [], dworld = crashed_world\<lparr>RUNNING := False\<rparr>\<rparr>"

theorem daemon_stops_witness:
  "length (filter is_connect [Connect (tape []), Test]) \<le> 1
   \<and> map_option pc (daemon_run demo_codec demo_libs 42 [Connect (tape []), Test] idle_daemon) = Some Finished"
proof -
  obtain d' where d: "daemon_run demo_codec demo_libs 42 [Connect (tape []), Test] idle_daemon = Some d'"
    by (simp add: idle_daemon_def)
  from daemon_stops [OF _ this] d show ?thesis
    by (simp add: idle_daemon_def)
qed

text \<open>
  A daemon that is ended by a signal leaves its emulator running: nothing between the loop and the end of the process touches
  the child.  The signal itself does not wake the main thread, which waits for one more client.
\<close>

theorem signal_orphans_emulator:
  assumes "pc d = Accepting"
  shows "\<exists>d1 d2. daemon_run cd L pid [Signal] d = Some d1 \<and> pc d1 = Accepting
    \<and> daemon_run cd L pid [Signal, Connect s, Test] d = Some d2 \<and> pc d2 = Finished
    \<and> alive (whost (dworld d2)) = alive (whost (dworld d))"
  using assms by simp

theorem signal_orphans_emulator_witness:
  "\<exists>d1 d2. daemon_run demo_codec demo_libs 42 [Signal] idle_daemon = Some d1 \<and> pc d1 = Accepting
    \<and> daemon_run demo_codec demo_libs 42 [Signal, Connect (tape []), Test] idle_daemon = Some d2 \<and> pc d2 = Finished
    \<and> alive (whost (dworld d2)) = alive (whost (dworld idle_daemon))"
  by (rule signal_orphans_emulator) (simp add: idle_daemon_def)

section \<open>A host on which the emulator starts\<close>

text \<open>
  The home directory is the root; it holds the images and the virtual device, and \<^verbatim>\<open>/s\<close> the tools of the SDK; every
  program that is run succeeds and prints the same line.
\<close>

definition android_host :: host where
  "android_host = (let data = ''/.local/share/litedroid''; avd = ''.android/avd/LiteDroid-default-API34.avd'' in
     empty_host\<lparr>
       files := [(data @ ''/images/kernel'', [1]), (data @ ''/images/ramdisk.img'', [1]),
         (data @ ''/images/system.img'', [0x3a, 0xff, 0x26, 0xed]),
         (''/s/emulator/emulator'', [1]), (''/s/platform-tools/adb'', [1]), (''/s/cmdline-tools/latest/bin/avdmanager'', [1]),
         (avd @ ''/config.ini'', [])],
       dirs := [avd],
       env_vars := [''ANDROID_HOME'' \<mapsto> ''/s''],
       home_dir := Some []\<rparr>)"

definition android_libs :: libs where
  "android_libs = (plain_libs (JObject []) litedroid_config_default)\<lparr>progs :=
     \<lparr>run_program = (\<lambda>_ _ _ h. (Ok \<lparr>status_success = True, stdout = as_bytes ''device'', stderr = []\<rparr>, files h, dirs h)),
      spawn_refused = (\<lambda>_ _ _. None)\<rparr>\<rparr>"

definition start_request :: IpcRequest where
  "start_request = make_request ''1'' ''device.start'' (JObject [])"

definition started_world :: world where
  "started_world = snd (dispatch android_libs 42 start_request (dworld (daemon_init android_host)))"

lemma start_succeeds:
  "map_option success (fst (dispatch android_libs 42 start_request (dworld (daemon_init android_host)))) = Some True"
  by code_simp

definition start_codec :: ipc_codec where
  "start_codec = pair_codec start_request (make_ok ''1'' JNull)"

definition started_daemon :: daemon where
  "started_daemon = the (daemon_run start_codec android_libs 42 [Test, Connect (tape (frame [1])), Serve 0] (daemon_init android_host))"

lemma started_world: "alive (whost started_world) = {0}"
proof -
  let ?w = "dworld (daemon_init android_host)"
  have d: "dispatch android_libs 42 start_request ?w = answer ''1'' id (launch_device android_libs ''default'' False ?w)"
    by (simp add: dispatch_def start_request_def make_request_def device_start_def daemon_init_def daemon_state_new_def)
  obtain r w' where l: "launch_device android_libs ''default'' False ?w = (r, w')" by fastforce
  have "is_ok r"
    using start_succeeds unfolding d l by (cases r) (simp_all add: answer_def make_err_def)
  from l show ?thesis
  proof (cases rule: launch_device_cases)
    case started
    moreover have "alive (whost ?w) = {}" and "next_child (whost ?w) = 0"
      by (simp_all add: daemon_init_def alive_def android_host_def empty_host_def Let_def)
    moreover have "started_world = w'"
      by (simp add: started_world_def d l)
    ultimately show ?thesis by simp
  qed (use \<open>is_ok r\<close> in simp)
qed

lemma handle_start:
  "snd (handle_request start_codec android_libs 42 (tape (frame [1]), dworld (daemon_init android_host))) = started_world"
proof -
  have "recv_request start_codec (tape (frame [1])) = (Ok start_request, (tape (frame [1]))\<lparr>incoming := []\<rparr>)"
    by (rule recv_request_frame [of _ "[1]"]) (simp_all add: tape_def start_codec_def pair_codec_def)
  then show ?thesis
    by (simp add: handle_request_def started_world_def case_prod_beta split: option.splits)
qed

lemma daemon_run_reaches:
  "daemon_reaches cd L pid h d \<Longrightarrow> daemon_run cd L pid evs d = Some d' \<Longrightarrow> daemon_reaches cd L pid h d'"
  by (induction evs arbitrary: d) (auto simp: bind_eq_Some_conv intro: daemon_reaches.step)

lemma started_daemon:
  "daemon_run start_codec android_libs 42 [Test, Connect (tape (frame [1])), Serve 0] (daemon_init android_host) = Some started_daemon"
  "dworld started_daemon = started_world"
proof -
  show "daemon_run start_codec android_libs 42 [Test, Connect (tape (frame [1])), Serve 0] (daemon_init android_host)
      = Some started_daemon"
    by (simp add: started_daemon_def daemon_init_def case_prod_beta)
  have "dworld started_daemon = snd (handle_request start_codec android_libs 42 (tape (frame [1]), dworld (daemon_init android_host)))"
    by (simp add: started_daemon_def daemon_init_def case_prod_beta)
  then show "dworld started_daemon = started_world"
    by (simp add: handle_start)
qed

theorem daemon_single_emulator_witness:
  "alive (whost (dworld started_daemon)) = {0}
    \<and> alive (whost (dworld started_daemon)) \<subseteq> set_option (emulator (dstate (dworld started_daemon)))"
  using daemon_single_emulator [OF daemon_run_reaches [OF daemon_reaches.start started_daemon(1)]]
  by (simp add: started_daemon(2) started_world)

lemma demo_libs_total: "libs_total demo_libs"
  by (simp add: libs_total_def demo_libs_def plain_libs_def no_programs_def)

theorem dispatch_answers_witness: "\<exists>resp. fst (dispatch demo_libs 42 start_request crashed_world) = Some resp"
  by (rule dispatch_answers) (rule demo_libs_total)


text \<open>A restart on a host without the SDK: the dead emulator is forgotten and the daemon is off.\<close>

theorem relaunch_correct_witness:
  "let w' = snd (relaunch demo_libs False start_request crashed_world)
   in alive (whost w') = {} \<and> dstate w' = daemon_state_new"
proof -
  have "map_option success (fst (relaunch demo_libs False start_request crashed_world)) = Some False"
    by code_simp
  then obtain resp w' where r: "relaunch demo_libs False start_request crashed_world = (Some resp, w')" "\<not> success resp"
    by (cases "relaunch demo_libs False start_request crashed_world") auto
  have "daemon_ok crashed_world"
    by (auto simp: daemon_ok_def crashed_world_def alive_def power_states_def)
  from relaunch_correct [OF this demo_libs_total r(1)] r show ?thesis by simp
qed

end
