(* ===== verification/LD_DaemonRefine.thy ===== *)
theory LD_DaemonRefine
  imports LD_DaemonSpec
begin

text \<open>
  An abstract specification of the daemon and the proof that the request handlers refine it.  Seen from outside, the daemon owns
  one emulator: there is none (\<open>Absent\<close>, with the device the daemon still names, if any), it runs a device (\<open>Up\<close>), or it has exited
  and the daemon has not noticed yet (\<open>Gone\<close>).
\<close>

datatype emu = Absent "string option" | Up string | Gone string

fun device_of :: "emu \<Rightarrow> string" where
  "device_of (Absent r) = (case r of Some d \<Rightarrow> d | None \<Rightarrow> ''default'')"
| "device_of (Up d) = d"
| "device_of (Gone d) = d"

fun notice :: "emu \<Rightarrow> emu" where
  "notice (Gone d) = Absent None"
| "notice e = e"

text \<open>The requests that run an ADB command, and the states a request may lead to, given whether it is answered with success.\<close>

definition adb_methods :: "string list" where
  "adb_methods = [''device.launch'', ''device.screenshot'', ''apk.install'', ''adb.install'', ''apk.uninstall'', ''apk.list'',
     ''adb.shell'', ''adb.logcat'']"

text \<open>An ADB command needs a device that the daemon names and has not seen exit.\<close>

fun usable :: "emu \<Rightarrow> bool" where
  "usable (Up d) = True"
| "usable (Absent r) = (r \<noteq> None)"
| "usable (Gone d) = False"

definition adb_next :: "bool \<Rightarrow> emu \<Rightarrow> emu list" where
  "adb_next ok e = (if ok then (if usable e then [e] else []) else [e, notice e])"

fun start_next :: "string \<Rightarrow> bool \<Rightarrow> emu \<Rightarrow> emu list" where
  "start_next dev ok (Up d) = (if ok then [] else [Up d])"
| "start_next dev ok (Gone d) = [if ok then Up dev else Absent (Some d)]"
| "start_next dev ok (Absent r) = [if ok then Up dev else Absent r]"

definition emu_next :: "string \<Rightarrow> string \<Rightarrow> bool \<Rightarrow> emu \<Rightarrow> emu list" where
  "emu_next meth dev ok e =
     (if meth = ''device.start'' then start_next dev ok e
      else if meth = ''device.stop'' \<or> meth = ''daemon.shutdown'' then (if ok then [Absent None] else [])
      else if meth = ''device.restart'' \<or> meth = ''device.wipe'' then [if ok then Up (device_of e) else Absent None]
      else if meth = ''device.status'' then (if ok then [notice e] else [])
      else if meth \<in> set adb_methods then adb_next ok e
      else [e])"

section \<open>The abstraction\<close>

definition emu_of :: "world \<Rightarrow> emu" where
  "emu_of w =
     (case emulator (dstate w) of
        None \<Rightarrow> Absent (active_device (dstate w))
      | Some c \<Rightarrow>
          (let d = (case active_device (dstate w) of Some d \<Rightarrow> d | None \<Rightarrow> ''default'') in
           if map_of (children (whost w)) c = Some Alive then Up d else Gone d))"

text \<open>
  The recorded child is one the daemon started and has not collected, and a daemon that names no device does not claim that one is
  running.
\<close>

definition tracked :: "world \<Rightarrow> bool" where
  "tracked w \<longleftrightarrow> daemon_ok w
     \<and> (\<forall>c. emulator (dstate w) = Some c \<longrightarrow>
          (case map_of (children (whost w)) c of Some Alive \<Rightarrow> True | Some (Exited ok) \<Rightarrow> True | _ \<Rightarrow> False))
     \<and> (emulator (dstate w) = None \<and> active_device (dstate w) = None \<longrightarrow> power_state (dstate w) \<noteq> ''running'')"

definition follows :: "emu \<Rightarrow> world \<Rightarrow> bool" where
  "follows e w \<longleftrightarrow> tracked w \<and> (emu_of w = e \<or> emu_of w = notice e)"

lemma tracked_cong:
  assumes d: "dstate w' = dstate w" and c: "children (whost w') = children (whost w)"
  shows "tracked w' = tracked w" and "emu_of w' = emu_of w"
proof -
  show "tracked w' = tracked w"
    by (simp only: tracked_def daemon_ok_cong [OF d c] d c)
  show "emu_of w' = emu_of w"
    by (simp only: emu_of_def d c)
qed

lemma notice_notice [simp]: "notice (notice e) = notice e"
  by (cases e) simp_all

lemma try_wait_not_alive: "try_wait c h = Ok (Some ok) \<Longrightarrow> map_of (children h) c = Some (Exited ok)"
  by (simp add: try_wait_def split: option.splits child_status.splits)

lemma tracked_noticed:
  assumes "tracked w" and "emulator (dstate w) = Some c" and "try_wait c (whost w) = Ok (Some ok)"
  defines "w' \<equiv> on_state (\<lambda>s. s\<lparr>emulator := None, adb := None, active_device := None, power_state := (if ok then ''off'' else ''error'')\<rparr>) w"
  shows "tracked w'" and "emu_of w' = notice (emu_of w)"
proof -
  have "daemon_ok w'"
    using ok.I_noticed [of w c ok] assms by (simp add: tracked_def)
  then show "tracked w'"
    by (simp add: tracked_def w'_def)
  show "emu_of w' = notice (emu_of w)"
    using assms(2) try_wait_not_alive [OF assms(3)] by (simp add: w'_def emu_of_def)
qed

interpretation follow: poll_stable "follows e" for e
proof
  show "follows e w' = follows e w"
    if "dstate w' = dstate w" "children (whost w') = children (whost w)" "RUNNING w' = RUNNING w" for w w'
    using tracked_cong [OF that(1,2)] by (simp add: follows_def)
  show "follows e (on_state (\<lambda>s. s\<lparr>power_state := x\<rparr>) w)"
    if "follows e w" "emulator (dstate w) = Some c" "x \<in> set power_states" for w x c
    using that by (simp add: follows_def tracked_def daemon_ok_def emu_of_def)
  show "follows e (on_state (\<lambda>s. s\<lparr>emulator := None, adb := None, active_device := None, power_state := x\<rparr>) w)"
    if "follows e w" "emulator (dstate w) = Some c" "try_wait c (whost w) = Ok (Some ok)" "x = (if ok then ''off'' else ''error'')"
    for w c ok x
    using that tracked_noticed [of w c ok] by (auto simp: follows_def)
qed

lemma follows_refl: "tracked w \<Longrightarrow> follows (emu_of w) w"
  by (simp add: follows_def)

section \<open>Polling\<close>

lemma try_wait_tracked:
  assumes "tracked w" and "emulator (dstate w) = Some c"
  obtains (alive) "try_wait c (whost w) = Ok None" and "map_of (children (whost w)) c = Some Alive"
  | (exited) ok where "try_wait c (whost w) = Ok (Some ok)" and "map_of (children (whost w)) c = Some (Exited ok)"
  using assms by (auto simp: tracked_def try_wait_def split: option.splits child_status.splits)

lemma follows_state:
  assumes "tracked w"
  shows "tracked (snd (emulator_state L w)) \<and> (emu_of (snd (emulator_state L w)) = emu_of w \<or> emu_of (snd (emulator_state L w)) = notice (emu_of w))"
  using follow.emulator_state_at [OF follows_refl [OF assms], of L] by (simp add: follows_def)

lemma emulator_state_emu:
  assumes "tracked w"
  shows "emu_of (snd (emulator_state L w)) = notice (emu_of w)" (is ?noticed)
    and "fst (emulator_state L w) = ''running'' \<Longrightarrow> emu_of (snd (emulator_state L w)) = emu_of w \<and> usable (emu_of w)"
      (is "?running \<Longrightarrow> ?same")
proof -
  have "?noticed \<and> (?running \<longrightarrow> ?same)"
  proof (cases "emulator (dstate w)")
    case None
    with assms show ?thesis by (auto simp: emulator_state_def emu_of_def tracked_def)
  next
    case (Some c)
    with assms show ?thesis
    proof (cases rule: try_wait_tracked)
      case alive
      with Some have "emu_of w = notice (emu_of w)" "usable (emu_of w)" by (simp_all add: emu_of_def)
      with follows_state [OF assms, of L] show ?thesis by auto
    next
      case (exited ok)
      with Some show ?thesis using tracked_noticed(2) [OF assms Some exited(1)]
        by (simp add: emulator_state_def)
    qed
  qed
  then show ?noticed and "?running \<Longrightarrow> ?same" by auto
qed

text \<open>
  What an ADB command does: it succeeds only on a usable emulator, which it leaves as it is; otherwise the exit may have been noticed.
\<close>

definition polled :: "emu \<Rightarrow> ('e, 'a) outcome \<times> world \<Rightarrow> bool" where
  "polled e p \<longleftrightarrow> tracked (snd p)
     \<and> (if is_ok (fst p) then emu_of (snd p) = e \<and> usable e else emu_of (snd p) = e \<or> emu_of (snd p) = notice e)"

definition polls :: "(world, 'e, 'a) action \<Rightarrow> bool" where
  "polls m \<longleftrightarrow> (\<forall>w. tracked w \<longrightarrow> polled (emu_of w) (m w))"

definition bystands :: "(world, 'e, 'a) action \<Rightarrow> bool" where
  "bystands m \<longleftrightarrow> (\<forall>w. tracked w \<longrightarrow> tracked (snd (m w)) \<and> emu_of (snd (m w)) = emu_of w)"

named_theorems bystands_rules

lemma bystands_host [bystands_rules]: "(\<And>cs n. keeps (quiet cs n) m) \<Longrightarrow> bystands (on_host m)"
  unfolding bystands_def using on_host_quiet [of m] tracked_cong by (metis prod.collapse)

lemma bystands_ret [bystands_rules]: "bystands (ret x)"
  by (simp add: bystands_def)

lemma bystands_fail [bystands_rules]: "bystands (fail x)"
  by (simp add: bystands_def)

lemma bystands_with_err [bystands_rules]: "bystands m \<Longrightarrow> bystands (with_err g m)"
  by (simp add: bystands_def with_err_def case_prod_beta)

lemma bystands_andthen [bystands_rules]: "bystands m \<Longrightarrow> (\<And>x. bystands (f x)) \<Longrightarrow> bystands (andthen m f)"
  by (auto simp: bystands_def andthen_def split: prod.splits outcome.splits)

lemma polls_before:
  assumes "bystands m" and "\<And>x. polls (f x)"
  shows "polls (andthen m f)"
proof -
  have "polled (emu_of w) (andthen m f w)" if "tracked w" for w
  proof (cases "m w")
    case (Pair r u)
    with assms(1) that have u: "tracked u" and e: "emu_of u = emu_of w"
      by (auto simp: bystands_def dest: spec [of _ w])
    show ?thesis
    proof (cases r)
      case (Ok x)
      with assms(2) [of x] Pair u e show ?thesis by (auto simp: polls_def dest: spec [of _ u])
    qed (use Pair u e in \<open>simp_all add: polled_def\<close>)
  qed
  then show ?thesis by (simp add: polls_def)
qed

lemma polls_after:
  assumes "polls m" and "\<And>x. bystands (f x)"
  shows "polls (andthen m f)"
proof -
  have "polled (emu_of w) (andthen m f w)" if "tracked w" for w
  proof (cases "m w")
    case (Pair r u)
    with assms(1) that have m: "polled (emu_of w) (r, u)" by (auto simp: polls_def dest: spec [of _ w])
    show ?thesis
    proof (cases r)
      case (Ok x)
      with m assms(2) [of x] Pair show ?thesis by (simp add: polled_def bystands_def)
    qed (use m Pair in \<open>simp_all add: polled_def\<close>)
  qed
  then show ?thesis by (simp add: polls_def)
qed

lemma polls_adb_bytes: "polls (adb_bytes L args)"
proof -
  have "polled (emu_of w) (adb_bytes L args w)" if w: "tracked w" for w
  proof -
    obtain st w1 where e: "emulator_state L w = (st, w1)" by fastforce
    note f = follows_state [OF w, of L, unfolded e]
    show ?thesis
    proof (cases "st = ''running''")
      case True
      then have "emu_of w1 = emu_of w" "usable (emu_of w)" "tracked w1"
        using emulator_state_emu(2) [OF w, of L] e f by simp_all
      moreover have "bystands (andthen (with_err (\<lambda>e. ''Cannot run ADB: '' @ command_error_text e)
          (on_host (command_output (progs L) p ([''-s'', ''emulator-5554''] @ args) []))) (\<lambda>out.
          if status_success out then ret (stdout out)
          else fail (''ADB command failed: '' @ trim (from_utf8_lossy (stderr out)))))" for p
        by (auto intro!: bystands_rules keeps_rules)
      ultimately show ?thesis
        using True e by (cases "adb (dstate w1)") (simp_all add: adb_bytes_def bystands_def polled_def)
    next
      case False
      with e f show ?thesis by (auto simp: adb_bytes_def polled_def)
    qed
  qed
  then show ?thesis by (simp add: polls_def)
qed

lemma polls_adb_output: "polls (adb_output L args)"
  by (auto simp: adb_output_def intro!: polls_after polls_adb_bytes bystands_rules)

section \<open>Requests\<close>

text \<open>A request whose thread panicked has no answer, and no success.\<close>

definition succeeded :: "IpcResponse option \<Rightarrow> bool" where
  "succeeded r \<longleftrightarrow> (case r of Some resp \<Rightarrow> success resp | None \<Rightarrow> False)"

lemma succeeded_simps [simp]: "succeeded None = False" "succeeded (Some resp) = success resp"
  by (simp_all add: succeeded_def)

definition handled :: "(bool \<Rightarrow> emu list) \<Rightarrow> IpcResponse option \<times> world \<Rightarrow> bool" where
  "handled E p \<longleftrightarrow> tracked (snd p) \<and> emu_of (snd p) \<in> set (E (succeeded (fst p)))"

lemma success_simps [simp]: "success (make_ok rid v)" "\<not> success (make_err rid e)"
  by (simp_all add: make_ok_def make_err_def)

lemma handled_refused [simp]: "tracked w \<Longrightarrow> handled (\<lambda>ok. adb_next ok (emu_of w)) (Some (make_err rid m), w)"
  by (simp add: handled_def adb_next_def)

lemma handled_answer: "polled e p \<Longrightarrow> handled (\<lambda>ok. adb_next ok e) (answer rid f p)"
  by (cases p; cases "fst p") (auto simp: handled_def polled_def adb_next_def answer_def)

lemma handled_polls: "polls m \<Longrightarrow> tracked w \<Longrightarrow> handled (\<lambda>ok. adb_next ok (emu_of w)) (answer rid f (m w))"
  by (simp add: polls_def handled_answer)

lemma handled_adb:
  assumes "tracked w"
  shows "handled (\<lambda>ok. adb_next ok (emu_of w)) (answer rid f (adb_output L args w))"
    and "handled (\<lambda>ok. adb_next ok (emu_of w)) (apk_install L req w)"
    and "handled (\<lambda>ok. adb_next ok (emu_of w)) (apk_uninstall L req w)"
    and "handled (\<lambda>ok. adb_next ok (emu_of w)) (device_launch L req w)"
    and "handled (\<lambda>ok. adb_next ok (emu_of w)) (adb_command L rid args w)"
  using assms handled_polls [OF polls_adb_output assms]
  by (simp_all add: apk_install_def apk_uninstall_def device_launch_def with_package_def adb_command_def Let_def
      split: option.splits)

lemma handled_screenshot:
  assumes "tracked w"
  shows "handled (\<lambda>ok. adb_next ok (emu_of w)) (device_screenshot L req w)"
proof -
  obtain p w1 where p: "screenshot_path L (req_params req) w = (p, w1)" by fastforce
  have "bystands (on_host (config_load L))" by (intro bystands_rules keeps_rules)
  then have w1: "tracked w1" "emu_of w1 = emu_of w"
    using p assms by (auto simp: screenshot_path_def bystands_def split: option.splits prod.splits outcome.splits dest!: spec [of _ w])
  have "polls (andthen (case parent p of None \<Rightarrow> ret ()
      | Some d \<Rightarrow> with_err (\<lambda>e. ''Cannot create screenshot directory: '' @ e) (on_host (create_dir_all d))) (\<lambda>_.
      andthen (adb_bytes L [''exec-out'', ''screencap'', ''-p'']) (\<lambda>bs.
      with_err (\<lambda>e. ''Cannot save screenshot: '' @ e) (on_host (write_file p bs)))))"
    by (rule polls_before, cases "parent p") (auto intro!: polls_after polls_adb_bytes bystands_rules keeps_rules)
  from handled_polls [OF this w1(1)] p w1(2) show ?thesis
    by (simp add: device_screenshot_def)
qed

lemma launch_emu:
  assumes "tracked w" and "emulator (dstate w) = None" and "launch_device L name wipe w = (r, w')"
  shows "tracked w' \<and> emu_of w' = (if is_ok r then Up name else emu_of w)"
  using assms(3)
proof (cases rule: launch_device_cases)
  case started
  have "alive (whost w) = {}" using assms(1,2) by (simp add: tracked_def daemon_ok_def)
  with assms have "daemon_ok w'"
    using daemon_ok_launch [of w L name wipe] by (simp add: tracked_def)
  moreover have "map_of (children (whost w')) (next_child (whost w)) = Some Alive"
    using started by (auto simp: alive_def)
  ultimately show ?thesis using started by (simp add: tracked_def emu_of_def)
next
  case failed
  with tracked_cong [of w' w] assms(1) show ?thesis by simp
qed

lemma handled_launch:
  assumes "tracked w" and "emulator (dstate w) = None" and "emu_of w = e"
  shows "handled (\<lambda>ok. [if ok then Up name else e]) (answer rid f (launch_device L name wipe w))"
proof -
  obtain r w' where l: "launch_device L name wipe w = (r, w')" by fastforce
  from launch_emu [OF assms(1,2) l] l assms(3) show ?thesis
    by (cases r) (simp_all add: handled_def answer_def)
qed

lemma handled_start:
  assumes "tracked w"
  shows "handled (\<lambda>ok. start_next (case get_str ''device'' (req_params req) of Some n \<Rightarrow> n | None \<Rightarrow> ''default'') ok (emu_of w))
    (device_start L req w)"
proof (cases "emulator (dstate w)")
  case None
  then have e: "emu_of w = Absent (active_device (dstate w))" by (simp add: emu_of_def)
  with None show ?thesis by (simp add: device_start_def Let_def handled_launch [OF assms None e])
next
  case (Some c)
  from assms Some show ?thesis
  proof (cases rule: try_wait_tracked)
    case alive
    with Some assms show ?thesis by (simp add: device_start_def Let_def handled_def emu_of_def)
  next
    case (exited ok)
    let ?w = "on_state (\<lambda>s. s\<lparr>emulator := None\<rparr>) w"
    obtain d where d: "active_device (dstate w) = Some d"
      using assms Some by (auto simp: tracked_def daemon_ok_def)
    have "tracked ?w" "emulator (dstate ?w) = None" "emu_of ?w = Absent (Some d)" and g: "emu_of w = Gone d"
      using assms Some exited try_wait_exited [OF exited(1)] d by (auto simp: tracked_def daemon_ok_def emu_of_def)
    note h = handled_launch [OF this(1-3)]
    from exited(1) Some show ?thesis by (simp add: device_start_def Let_def g h)
  qed
qed

lemma stopped_emu:
  assumes "tracked w"
  shows "tracked (stop_emulator w)" "emu_of (stop_emulator w) = Absent None" "emulator (dstate (stop_emulator w)) = None"
    and "tracked (device_stop w)" "emu_of (device_stop w) = Absent None"
    and "tracked (daemon_shutdown w)" "emu_of (daemon_shutdown w) = Absent None"
  using assms daemon_ok_stop [of w]
  by (simp_all add: tracked_def emu_of_def) (simp_all add: stop_emulator_def device_stop_def daemon_shutdown_def)

lemma device_of_emu: "(case active_device (dstate w) of Some n \<Rightarrow> n | None \<Rightarrow> ''default'') = device_of (emu_of w)"
  by (simp add: emu_of_def Let_def split: option.splits)

lemma handled_relaunch:
  assumes "tracked w"
  shows "handled (\<lambda>ok. [if ok then Up (device_of (emu_of w)) else Absent None]) (relaunch L wipe req w)"
  by (simp add: relaunch_def device_of_emu Let_def handled_launch [OF stopped_emu(1,3,2) [OF assms]])

definition asked_device :: "IpcRequest \<Rightarrow> string" where
  "asked_device req = (case get_str ''device'' (req_params req) of Some n \<Rightarrow> n | None \<Rightarrow> ''default'')"

lemma dispatch_handled:
  assumes "tracked w"
  shows "handled (\<lambda>ok. emu_next (req_method req) (asked_device req) ok (emu_of w)) (dispatch L pid req w)"
proof -
  have status: "handled (\<lambda>ok. if ok then [notice (emu_of w)] else []) (Some (make_ok rid v), snd (device_status L w))" for rid v
    using follows_state [OF assms, of L] emulator_state_emu(1) [OF assms, of L]
    by (simp add: handled_def device_status_def case_prod_beta)
  have same: "handled (\<lambda>ok. [emu_of w]) (Some resp, w)" for resp
    using assms by (simp add: handled_def)
  have gone: "handled (\<lambda>ok. if ok then [Absent None] else []) (Some (make_ok rid v), w')"
    if "w' = device_stop w \<or> w' = daemon_shutdown w" for rid v w'
    using that stopped_emu [OF assms] by (auto simp: handled_def)
  show ?thesis
    using handled_start [OF assms, of req L] handled_relaunch [OF assms] handled_adb [OF assms] handled_screenshot [OF assms]
    by (simp add: dispatch_def asked_device_def emu_next_def adb_methods_def Let_def case_prod_beta status same gone)
qed

section \<open>The process\<close>

text \<open>
  What a step of the process is to somebody who watches the emulator: a request of some method, for some device, that
  succeeded or not; the end of the emulator; or nothing.
\<close>

datatype emu_event = Request string string bool | Died | Nothing

fun emu_trans :: "emu_event \<Rightarrow> emu \<Rightarrow> emu list" where
  "emu_trans (Request meth dev ok) e = emu_next meth dev ok e"
| "emu_trans Died (Up d) = [Gone d]"
| "emu_trans Died e = []"
| "emu_trans Nothing e = [e]"

fun observed :: "ipc_codec \<Rightarrow> libs \<Rightarrow> u32 \<Rightarrow> daemon_event \<Rightarrow> daemon \<Rightarrow> emu_event" where
  "observed cd L pid (Serve i) d =
     (case recv_request cd (threads d ! i) of
        (Ok req, _) \<Rightarrow> Request (req_method req) (asked_device req) (succeeded (fst (dispatch L pid req (dworld d))))
      | _ \<Rightarrow> Nothing)"
| "observed cd L pid (ChildExit c ok) d = Died"
| "observed cd L pid _ d = Nothing"

lemma serve_refines:
  assumes "tracked (dworld d)"
  shows "tracked (snd (handle_request cd L pid (threads d ! i, dworld d)))
    \<and> emu_of (snd (handle_request cd L pid (threads d ! i, dworld d))) \<in> set (emu_trans (observed cd L pid (Serve i) d) (emu_of (dworld d)))"
proof (cases "recv_request cd (threads d ! i)")
  case (Pair r s)
  show ?thesis
  proof (cases r)
    case (Ok req)
    then have "snd (handle_request cd L pid (threads d ! i, dworld d)) = snd (dispatch L pid req (dworld d))"
      using Pair by (simp add: handle_request_def case_prod_beta split: option.splits)
    with dispatch_handled [OF assms, of req L pid] Pair Ok show ?thesis by (simp add: handled_def)
  qed (use assms Pair in \<open>simp_all add: handle_request_def\<close>)
qed

lemma child_exit_refines:
  assumes "tracked w" and "map_of (children (whost w)) c = Some Alive"
    and "w' = w\<lparr>whost := (whost w)\<lparr>children := AList.update c (Exited ok) (children (whost w))\<rparr>\<rparr>"
  shows "tracked w' \<and> emu_of w' \<in> set (emu_trans Died (emu_of w))"
proof -
  have "emulator (dstate w) = Some c"
    using assms by (auto simp: tracked_def daemon_ok_def alive_def)
  with assms show ?thesis
    by (auto simp: tracked_def daemon_ok_def alive_def emu_of_def update_conv Let_def)
qed

lemma daemon_step_refines:
  assumes "tracked (dworld d)" and "daemon_step cd L pid ev d = Some d'"
  shows "tracked (dworld d') \<and> emu_of (dworld d') \<in> set (emu_trans (observed cd L pid ev d) (emu_of (dworld d)))"
proof (cases ev)
  case (Serve i)
  with assms serve_refines [OF assms(1), of cd L pid i] show ?thesis
    by (auto simp: case_prod_beta simp del: observed.simps emu_trans.simps split: if_splits)
next
  case (ChildExit c ok)
  with assms child_exit_refines [OF assms(1), of c "dworld d'" ok] show ?thesis
    by (auto simp: Let_def simp del: emu_trans.simps split: if_splits)
next
  case Signal
  with assms tracked_cong [of "dworld d'" "dworld d"] show ?thesis by (auto split: if_splits)
qed (use assms in \<open>auto split: if_splits\<close>)

lemma tracked_init: "tracked (dworld (daemon_init h))" "emu_of (dworld (daemon_init h)) = Absent None"
  by (simp_all add: tracked_def daemon_init_def daemon_ok_def daemon_state_new_def alive_def power_states_def emu_of_def)

lemma daemon_reaches_tracked: "daemon_reaches cd L pid h d \<Longrightarrow> tracked (dworld d)"
  by (induction rule: daemon_reaches.induct) (use tracked_init daemon_step_refines in blast)+

text \<open>
  The daemon refines the one-emulator specification: it starts with no emulator, and every step of the process, however the
  connections, the signals and the exits interleave, is a step of the specification that the answer to the request determines.
\<close>

text \<open>
  C7. The daemon refines the specification of one emulator that is absent, up or gone: it
  starts with none, and every step it takes from a reachable state, under any interleaving
  of clients, signals and exits, is a step of the specification determined by the method,
  the device and the success of the request.
\<close>

theorem daemon_refines_emulator:
  assumes "daemon_reaches cd L pid h d" and "daemon_step cd L pid ev d = Some d'"
  shows "emu_of (dworld (daemon_init h)) = Absent None
    \<and> emu_of (dworld d') \<in> set (emu_trans (observed cd L pid ev d) (emu_of (dworld d)))"
  using daemon_step_refines [OF daemon_reaches_tracked [OF assms(1)] assms(2)] tracked_init by blast

theorem daemon_refines_emulator_witness:
  "\<exists>d1. daemon_run start_codec android_libs 42 [Test, Connect (tape (frame [1]))] (daemon_init android_host) = Some d1
    \<and> observed start_codec android_libs 42 (Serve 0) d1 = Request ''device.start'' ''default'' True
    \<and> emu_of (dworld d1) = Absent None \<and> emu_of (dworld started_daemon) = Up ''default''"
proof -
  obtain d1 where r: "daemon_run start_codec android_libs 42 [Test, Connect (tape (frame [1]))] (daemon_init android_host) = Some d1"
    and w: "dworld d1 = dworld (daemon_init android_host)" and t: "threads d1 = [tape (frame [1])]"
    by (simp add: daemon_init_def)
  have s: "daemon_step start_codec android_libs 42 (Serve 0) d1 = Some started_daemon"
    using started_daemon(1) r by (auto simp: daemon_init_def case_prod_beta)
  have "recv_request start_codec (tape (frame [1])) = (Ok start_request, (tape (frame [1]))\<lparr>incoming := []\<rparr>)"
    by (rule recv_request_frame [of _ "[1]"]) (simp_all add: tape_def start_codec_def pair_codec_def)
  moreover have "asked_device start_request = ''default''" and "req_method start_request = ''device.start''"
    by (simp_all add: asked_device_def start_request_def make_request_def get_str_def)
  moreover have "succeeded (fst (dispatch android_libs 42 start_request (dworld (daemon_init android_host))))"
    using start_succeeds by (auto simp: succeeded_def split: option.splits)
  ultimately have o: "observed start_codec android_libs 42 (Serve 0) d1 = Request ''device.start'' ''default'' True"
    by (simp add: w t)
  have "daemon_reaches start_codec android_libs 42 android_host d1"
    using r by (rule daemon_run_reaches [OF daemon_reaches.start])
  from daemon_refines_emulator [OF this s] o r w show ?thesis
    by (simp add: tracked_init emu_next_def)
qed

end
