(* ===== verification/LD_DaemonMain.thy ===== *)
theory LD_DaemonMain
  imports LD_Daemon
begin

text \<open>
  The process around the accept loop of \<^verbatim>\<open>apps/daemon\<close>: logging (\<^verbatim>\<open>crates/logging\<close>), the PID file, the
  listening socket and its permissions, and the removal of both files at the end.  The rolling log file, the filter syntax and the
  registry are those of the \<open>tracing\<close> crates and are parameters (\<open>log_libs\<close>), as are the refusals of \<open>bind\<close> and \<open>chmod\<close>.
\<close>

section \<open>Logging\<close>

text \<open>Opening the rolling file and installing the registry panic when they fail.\<close>

record log_libs =
  rolling_daily :: "path \<Rightarrow> string \<Rightarrow> (host, LiteDroidError, unit) action"
  env_filter :: "string \<Rightarrow> (string, unit) outcome"
  registry_init :: "(LiteDroidError, unit) outcome"

definition log_init :: "log_libs \<Rightarrow> string \<Rightarrow> path \<Rightarrow> (host, LiteDroidError, unit) action" where
  "log_init G level log_dir =
     andthen (rolling_daily G log_dir ''litedroid.log'') (\<lambda>_.
     andthen (lift_outcome (\<lambda>_. map_err ConfigError (env_filter G level))) (\<lambda>_.
     lift_outcome (\<lambda>_. registry_init G)))"

section \<open>Starting\<close>

text \<open>What the process shares with others: the file system, the socket names, and the modes set on them.\<close>

record daemon_os =
  os_host :: host
  os_socks :: sockets
  os_modes :: "path \<Rightarrow> nat option"

record os_calls =
  bind_refused :: "path \<Rightarrow> io_error option"
  chmod_refused :: "path \<Rightarrow> io_error option"

text \<open>
  \<open>let _ = remove_file(p)\<close>.  A name is a regular file or a socket and not both, so removing it from both tables removes the one
  it is in; an error is ignored.
\<close>

definition unlink :: "path \<Rightarrow> daemon_os \<Rightarrow> daemon_os" where
  "unlink p w =
     (if refuses (os_host w) RemoveFile p \<noteq> None then w
      else w\<lparr>os_host := snd (remove_file p (os_host w)),
             os_socks := (os_socks w)\<lparr>socket_files := removeAll p (socket_files (os_socks w))\<rparr>,
             os_modes := (os_modes w)(p := None)\<rparr>)"

definition bind_socket :: "os_calls \<Rightarrow> path \<Rightarrow> (daemon_os, LiteDroidError, path) action" where
  "bind_socket B p = (\<lambda>w.
     case ipc_server_new (\<lambda>q. case bind_refused B q of Some e \<Rightarrow> Some e
         | None \<Rightarrow> if exists (os_host w) q then Some ''Address already in use (os error 98)'' else None) p (os_socks w) of
       (r, n) \<Rightarrow> (r, w\<lparr>os_socks := n\<rparr>))"

definition set_mode :: "os_calls \<Rightarrow> path \<Rightarrow> nat \<Rightarrow> daemon_os \<Rightarrow> daemon_os" where
  "set_mode B p mode w =
     (if (p \<in> set (socket_files (os_socks w)) \<or> exists (os_host w) p) \<and> chmod_refused B p = None
      then w\<lparr>os_modes := (os_modes w)(p \<mapsto> mode)\<rparr> else w)"

definition log_dir_of :: "LiteDroidConfig ld_result \<Rightarrow> host \<Rightarrow> path" where
  "log_dir_of r h = path_join (case r of Ok c \<Rightarrow> data_dir c h | _ \<Rightarrow> []) ''logs''"

definition pid_text :: "u32 \<Rightarrow> string" where
  "pid_text pid = show_nat (unat pid)"

text \<open>The mode 384 is 0600.  The part after logging: PID file, signal handlers (installed without a check), socket.  An error has removed the PID file again.\<close>

definition daemon_listen :: "os_calls \<Rightarrow> u32 \<Rightarrow> path \<Rightarrow> (daemon_os, LiteDroidError, daemon) action" where
  "daemon_listen B pid sp = (\<lambda>w.
     let w1 = w\<lparr>os_host := snd (write_file DAEMON_PID_PATH (as_bytes (pid_text pid)) (os_host w))\<rparr>;
         w2 = unlink sp w1 in
     case bind_socket B sp w2 of
       (Ok _, w3) \<Rightarrow> let w4 = set_mode B sp 384 w3 in (Ok (daemon_init (os_host w4)), w4)
     | (Err e, w3) \<Rightarrow> (Err e, unlink DAEMON_PID_PATH w3)
     | (Panic, w3) \<Rightarrow> (Panic, w3))"

definition daemon_start :: "log_libs \<Rightarrow> os_calls \<Rightarrow> libs \<Rightarrow> u32 \<Rightarrow> path \<Rightarrow> (daemon_os, LiteDroidError, daemon) action" where
  "daemon_start G B L pid sp = (\<lambda>w.
     case config_load L (os_host w) of
       (Panic, h) \<Rightarrow> (Panic, w\<lparr>os_host := h\<rparr>)
     | (r, h) \<Rightarrow>
         (case log_init G ''info'' (log_dir_of r h) h of
            (Ok _, h1) \<Rightarrow> daemon_listen B pid sp (w\<lparr>os_host := h1\<rparr>)
          | (Err e, h1) \<Rightarrow> (Err e, w\<lparr>os_host := h1\<rparr>)
          | (Panic, h1) \<Rightarrow> (Panic, w\<lparr>os_host := h1\<rparr>)))"

section \<open>The whole process\<close>

definition daemon_cleanup :: "path \<Rightarrow> daemon_os \<Rightarrow> daemon_os" where
  "daemon_cleanup sp w = unlink DAEMON_PID_PATH (unlink sp w)"

text \<open>\<open>None\<close> while the process is still running.\<close>

definition daemon_main ::
    "log_libs \<Rightarrow> os_calls \<Rightarrow> ipc_codec \<Rightarrow> libs \<Rightarrow> u32 \<Rightarrow> path \<Rightarrow> daemon_event list \<Rightarrow> daemon_os \<Rightarrow> (unit ld_result \<times> daemon_os) option" where
  "daemon_main G B cd L pid sp evs w =
     (case daemon_start G B L pid sp w of
        (Ok d, w1) \<Rightarrow>
          (case daemon_run cd L pid evs d of
             None \<Rightarrow> None
           | Some d' \<Rightarrow> if pc d' = Finished
               then Some (Ok (), daemon_cleanup sp (w1\<lparr>os_host := whost (dworld d')\<rparr>)) else None)
      | (Err e, w1) \<Rightarrow> Some (Err e, w1)
      | (Panic, w1) \<Rightarrow> Some (Panic, w1))"

section \<open>The life of the process\<close>

lemma remove_file_keeps [simp]:
  "refuses (snd (remove_file p h)) = refuses h" "dirs (snd (remove_file p h)) = dirs h" "children (snd (remove_file p h)) = children h"
  by (simp_all add: remove_file_def split: option.splits)

lemma map_of_filter_key: "map_of (filter (\<lambda>(x, _). x \<noteq> p) fs) = (map_of fs)(p := None)"
  by (induction fs) (auto simp: fun_eq_iff)

lemma remove_file_files:
  "refuses h RemoveFile p = None \<Longrightarrow> map_of (files (snd (remove_file p h))) = (map_of (files h))(p := None)"
  by (auto simp: remove_file_def map_of_filter_key is_file_def fun_eq_iff)

lemma unlink_keeps [simp]:
  "refuses (os_host (unlink p w)) = refuses (os_host w)" "dirs (os_host (unlink p w)) = dirs (os_host w)"
  "children (os_host (unlink p w)) = children (os_host w)" "listening (os_socks (unlink p w)) = listening (os_socks w)"
  by (simp_all add: unlink_def)

lemma unlink_files:
  "refuses (os_host w) RemoveFile p = None \<Longrightarrow> map_of (files (os_host (unlink p w))) = (map_of (files (os_host w)))(p := None)"
  "refuses (os_host w) RemoveFile p = None \<Longrightarrow> set (socket_files (os_socks (unlink p w))) = set (socket_files (os_socks w)) - {p}"
  by (auto simp: unlink_def remove_file_files)

lemma cleanup_gone:
  assumes "refuses (os_host w) RemoveFile sp = None" and "refuses (os_host w) RemoveFile DAEMON_PID_PATH = None"
  shows "sp \<notin> set (socket_files (os_socks (daemon_cleanup sp w)))"
    and "\<not> is_file (os_host (daemon_cleanup sp w)) sp" and "\<not> is_file (os_host (daemon_cleanup sp w)) DAEMON_PID_PATH"
    and "children (os_host (daemon_cleanup sp w)) = children (os_host w)"
    and "listening (os_socks (daemon_cleanup sp w)) = listening (os_socks w)"
  using assms by (auto simp: daemon_cleanup_def is_file_def unlink_files)

lemma bind_socket_ok:
  assumes "bind_socket B sp w = (Ok p, w')"
  shows "os_host w' = os_host w" and "set (socket_files (os_socks w')) = insert sp (set (socket_files (os_socks w)))"
    and "listening (os_socks w') = sp # listening (os_socks w)"
  using assms by (auto simp: bind_socket_def ipc_server_new_def Let_def split: option.splits if_splits)

lemma daemon_listen_ok:
  assumes "daemon_listen B pid sp w = (Ok d, w')"
  shows "d = daemon_init (os_host w')" and "sp \<in> set (socket_files (os_socks w'))"
    and "listening (os_socks w') = sp # listening (os_socks w)"
    and "chmod_refused B sp = None \<Longrightarrow> os_modes w' sp = Some 384"
    and "os_host w' = os_host (unlink sp (w\<lparr>os_host := snd (write_file DAEMON_PID_PATH (as_bytes (pid_text pid)) (os_host w))\<rparr>))"
proof -
  let ?u = "unlink sp (w\<lparr>os_host := snd (write_file DAEMON_PID_PATH (as_bytes (pid_text pid)) (os_host w))\<rparr>)"
  from assms obtain p w3 where b: "bind_socket B sp ?u = (Ok p, w3)" and w': "w' = set_mode B sp 384 w3"
    and d: "d = daemon_init (os_host w')"
    by (auto simp: daemon_listen_def Let_def split: prod.splits outcome.splits)
  note bs = bind_socket_ok [OF b]
  show "d = daemon_init (os_host w')" by (rule d)
  show "sp \<in> set (socket_files (os_socks w'))" "listening (os_socks w') = sp # listening (os_socks w)"
    "chmod_refused B sp = None \<Longrightarrow> os_modes w' sp = Some 384" "os_host w' = os_host ?u"
    using bs by (simp_all add: w' set_mode_def)
qed

lemma daemon_start_listen:
  assumes "daemon_start G B L pid sp w = (Ok d, w')"
  obtains h where "daemon_listen B pid sp (w\<lparr>os_host := h\<rparr>) = (Ok d, w')"
  using assms by (auto simp: daemon_start_def split: prod.splits outcome.splits)

lemma pid_file_written:
  assumes "daemon_listen B pid sp w = (Ok d, w')" and "sp \<noteq> DAEMON_PID_PATH"
    and "fst (write_file DAEMON_PID_PATH (as_bytes (pid_text pid)) (os_host w)) = Ok ()"
  shows "map_of (files (os_host w')) DAEMON_PID_PATH = Some (as_bytes (show_nat (unat pid)))"
proof -
  let ?h = "snd (write_file DAEMON_PID_PATH (as_bytes (pid_text pid)) (os_host w))"
  have "map_of (files ?h) DAEMON_PID_PATH = Some (as_bytes (pid_text pid))"
    using assms(3) read_write_file [of DAEMON_PID_PATH "as_bytes (pid_text pid)" "os_host w" ?h] by (simp add: prod_eq_iff)
  with assms(2) show ?thesis
    by (cases "refuses ?h RemoveFile sp") (simp_all add: daemon_listen_ok(5) [OF assms(1)] unlink_files pid_text_def, simp add: unlink_def)
qed

text \<open>
  A daemon that starts listens on its socket, which only its owner may use, and enters its loop in the initial state; when its loop has
  ended the process leaves neither the socket nor the PID file behind, whatever it served.
\<close>

text \<open>
  C32. A daemon that starts enters its loop in the initial state, listening on its socket,
  which has mode 0600 unless chmod is refused; once its loop has ended, whatever it served,
  main returns and leaves neither the socket nor the PID file behind.
\<close>

theorem daemon_lifecycle:
  assumes "daemon_start G B L pid sp w = (Ok d, w1)" and "daemon_run cd L pid evs d = Some d'" and "pc d' = Finished"
    and "refuses (whost (dworld d')) RemoveFile sp = None" and "refuses (whost (dworld d')) RemoveFile DAEMON_PID_PATH = None"
  shows "d = daemon_init (os_host w1) \<and> sp \<in> set (socket_files (os_socks w1)) \<and> sp \<in> set (listening (os_socks w1))
    \<and> (chmod_refused B sp = None \<longrightarrow> os_modes w1 sp = Some 384)
    \<and> (\<exists>w2. daemon_main G B cd L pid sp evs w = Some (Ok (), w2) \<and> sp \<notin> set (socket_files (os_socks w2))
        \<and> \<not> is_file (os_host w2) sp \<and> \<not> is_file (os_host w2) DAEMON_PID_PATH
        \<and> children (os_host w2) = children (whost (dworld d')))"
proof -
  obtain h where l: "daemon_listen B pid sp (w\<lparr>os_host := h\<rparr>) = (Ok d, w1)"
    using assms(1) by (rule daemon_start_listen)
  let ?w = "w1\<lparr>os_host := whost (dworld d')\<rparr>"
  have "daemon_main G B cd L pid sp evs w = Some (Ok (), daemon_cleanup sp ?w)"
    using assms(1-3) by (simp add: daemon_main_def)
  with daemon_listen_ok [OF l] cleanup_gone [of ?w sp] assms(4,5) show ?thesis
    by simp
qed

text \<open>
  Starting removes whatever is at the socket path, so a second daemon takes the socket of a running one; when the first ends it removes
  the socket and the PID file of the second, which then listens on a socket that has no name.
\<close>

theorem second_daemon_takes_socket:
  assumes "daemon_listen B pid sp w = (Ok d, w1)" and "bind_refused B sp = None" and "\<not> is_dir (os_host w1) sp"
    and "refuses (os_host w1) RemoveFile sp = None" and "refuses (os_host w1) RemoveFile DAEMON_PID_PATH = None"
  shows "\<exists>d2 w2. daemon_listen B pid' sp w1 = (Ok d2, w2)
    \<and> sp \<in> set (listening (os_socks (daemon_cleanup sp w2))) \<and> sp \<notin> set (socket_files (os_socks (daemon_cleanup sp w2)))
    \<and> \<not> is_file (os_host (daemon_cleanup sp w2)) DAEMON_PID_PATH"
proof -
  let ?h = "snd (write_file DAEMON_PID_PATH (as_bytes (pid_text pid')) (os_host w1))"
  let ?u = "unlink sp (w1\<lparr>os_host := ?h\<rparr>)"
  have h: "refuses ?h = refuses (os_host w1)" "dirs ?h = dirs (os_host w1)"
    by (auto simp: write_file_def split: option.splits)
  then have "\<not> exists (os_host ?u) sp"
    using assms(3,4) by (simp add: exists_def is_file_def is_dir_def unlink_files)
  then obtain w3 where "bind_socket B sp ?u = (Ok sp, w3)"
    using assms(2) by (simp add: bind_socket_def ipc_server_new_def Let_def)
  then obtain d2 w2 where l: "daemon_listen B pid' sp w1 = (Ok d2, w2)"
    by (auto simp: daemon_listen_def Let_def)
  have "refuses (os_host w2) = refuses (os_host w1)"
    using h by (simp add: daemon_listen_ok(5) [OF l])
  with l daemon_listen_ok(3) [OF l] cleanup_gone [of w2 sp] assms(4,5) show ?thesis
    by auto
qed

section \<open>An instance\<close>

definition quiet_log :: log_libs where
  "quiet_log = \<lparr>rolling_daily = (\<lambda>_ _. ret ()), env_filter = (\<lambda>_. Ok ()), registry_init = Ok ()\<rparr>"

definition open_os :: os_calls where
  "open_os = \<lparr>bind_refused = (\<lambda>_. None), chmod_refused = (\<lambda>_. None)\<rparr>"

definition tmp_os :: daemon_os where
  "tmp_os = \<lparr>os_host = empty_host\<lparr>dirs := dirs empty_host @ [''/tmp'']\<rparr>,
     os_socks = \<lparr>socket_files = [DAEMON_SOCKET_PATH], listening = []\<rparr>, os_modes = (\<lambda>_. None)\<rparr>"

definition tmp_start :: "daemon ld_result \<times> daemon_os" where
  "tmp_start = daemon_start quiet_log open_os (plain_libs JNull litedroid_config_default) 42 DAEMON_SOCKET_PATH tmp_os"

definition closed_codec :: ipc_codec where
  "closed_codec = \<lparr>request_to_vec = (\<lambda>_. Err []), request_from_slice = (\<lambda>_. Err []), response_to_vec = (\<lambda>_. Err []),
     response_from_slice = (\<lambda>_. Err []), event_to_vec = (\<lambda>_. Err [])\<rparr>"

lemma tmp_start_ok:
  obtains d w1 where "tmp_start = (Ok d, w1)" and "refuses (os_host w1) RemoveFile DAEMON_SOCKET_PATH = None"
    and "refuses (os_host w1) RemoveFile DAEMON_PID_PATH = None"
    and "map_of (files (os_host w1)) DAEMON_PID_PATH = Some (as_bytes ''42'')"
proof -
  have "case tmp_start of
      (Ok d, w1) \<Rightarrow> refuses (os_host w1) RemoveFile DAEMON_SOCKET_PATH = None
        \<and> refuses (os_host w1) RemoveFile DAEMON_PID_PATH = None
        \<and> map_of (files (os_host w1)) DAEMON_PID_PATH = Some (as_bytes ''42'')
    | _ \<Rightarrow> False"
    by code_simp
  then show ?thesis
    using that by (auto split: prod.splits outcome.splits)
qed

theorem daemon_lifecycle_witness:
  "case daemon_main quiet_log open_os closed_codec (plain_libs JNull litedroid_config_default) 42 DAEMON_SOCKET_PATH
       [Signal, Test] tmp_os of
     Some (Ok _, w2) \<Rightarrow> DAEMON_SOCKET_PATH \<notin> set (socket_files (os_socks w2)) \<and> \<not> is_file (os_host w2) DAEMON_PID_PATH
   | _ \<Rightarrow> False"
proof -
  let ?L = "plain_libs JNull litedroid_config_default"
  obtain d w1 where s: "tmp_start = (Ok d, w1)" and r: "refuses (os_host w1) RemoveFile DAEMON_SOCKET_PATH = None"
      "refuses (os_host w1) RemoveFile DAEMON_PID_PATH = None"
    by (rule tmp_start_ok)
  note s = s [unfolded tmp_start_def]
  from s obtain h where "daemon_listen open_os 42 DAEMON_SOCKET_PATH (tmp_os\<lparr>os_host := h\<rparr>) = (Ok d, w1)"
    by (rule daemon_start_listen)
  then have "d = daemon_init (os_host w1)"
    by (rule daemon_listen_ok)
  then obtain d' where "daemon_run closed_codec ?L 42 [Signal, Test] d = Some d'" and "pc d' = Finished"
    and "refuses (whost (dworld d')) = refuses (os_host w1)"
    by (simp add: daemon_init_def)
  from daemon_lifecycle [OF s this(1,2)] this(3) r show ?thesis
    by auto
qed

end
