(* ===== verification/LD_Diagnostics.thy ===== *)
theory LD_Diagnostics
  imports LD_Host
begin

text \<open>
  The crate \<^verbatim>\<open>crates/diagnostics\<close>: ten checks of the host.  Files come from the host; the system calls that are not
  file operations (\<open>uname\<close>, the KVM version \<open>ioctl\<close>, \<open>statvfs\<close>, a netlink socket) are the parameter \<open>sys_calls\<close>.
\<close>

datatype DiagnosticStatus = DiagOk | DiagWarn | DiagError

text \<open>The signs U+2713, U+26A0 and U+2717 in UTF-8.\<close>

fun status_sign :: "DiagnosticStatus \<Rightarrow> string" where
  "status_sign DiagOk = map char_of [0xE2 :: nat, 0x9C, 0x93]"
| "status_sign DiagWarn = map char_of [0xE2 :: nat, 0x9A, 0xA0]"
| "status_sign DiagError = map char_of [0xE2 :: nat, 0x9C, 0x97]"

record DiagnosticResult =
  diag_name :: string
  diag_status :: DiagnosticStatus
  diag_message :: string
  diag_details :: "string option"

definition result_text :: "DiagnosticResult \<Rightarrow> string" where
  "result_text r =
     (case diag_details r of
        Some d \<Rightarrow> status_sign (diag_status r) @ '' '' @ diag_name r @ '': '' @ diag_message r @ '' ('' @ d @ '')''
      | None \<Rightarrow> status_sign (diag_status r) @ '' '' @ diag_name r @ '': '' @ diag_message r)"

definition diag :: "string \<Rightarrow> DiagnosticStatus \<Rightarrow> string \<Rightarrow> string option \<Rightarrow> DiagnosticResult" where
  "diag n s m d = \<lparr>diag_name = n, diag_status = s, diag_message = m, diag_details = d\<rparr>"

record fs_stat =
  f_bsize :: u64
  f_blocks :: u64
  f_bavail :: u64

record sys_calls =
  uname_machine :: "string option"
  kvm_api_version :: int
  statvfs :: "path \<Rightarrow> fs_stat option"
  netlink_fd :: int

section \<open>The checks\<close>

definition check_kernel_version :: "host \<Rightarrow> DiagnosticResult" where
  "check_kernel_version h =
     (case read_to_string ''/proc/version'' h of
        Ok content \<Rightarrow>
          (let version = trim content;
               parsed = (case split_whitespace version of w # _ \<Rightarrow> w | [] \<Rightarrow> ''unknown'')
           in diag ''Kernel Version'' DiagOk parsed (Some version))
      | Err e \<Rightarrow> diag ''Kernel Version'' DiagError ''failed to read /proc/version'' (Some e)
      | Panic \<Rightarrow> diag ''Kernel Version'' DiagError ''failed to read /proc/version'' None)"

definition check_cpu_arch :: "sys_calls \<Rightarrow> DiagnosticResult" where
  "check_cpu_arch C =
     (case uname_machine C of
        Some machine \<Rightarrow> diag ''CPU Architecture'' DiagOk machine (Some (''uname -m: '' @ machine))
      | None \<Rightarrow> diag ''CPU Architecture'' DiagError ''uname failed'' None)"

definition check_cpu_virtualization :: "host \<Rightarrow> DiagnosticResult" where
  "check_cpu_virtualization h =
     (case read_to_string ''/proc/cpuinfo'' h of
        Ok content \<Rightarrow>
          if contains content ''vmx'' then diag ''CPU Virtualization'' DiagOk ''Intel VT-x (vmx) supported'' None
          else if contains content ''svm'' then diag ''CPU Virtualization'' DiagOk ''AMD-V (svm) supported'' None
          else diag ''CPU Virtualization'' DiagError ''no CPU virtualization support detected'' None
      | Err e \<Rightarrow> diag ''CPU Virtualization'' DiagError ''failed to read /proc/cpuinfo'' (Some e)
      | Panic \<Rightarrow> diag ''CPU Virtualization'' DiagError ''failed to read /proc/cpuinfo'' None)"

text \<open>\<open>File::open\<close>: the error, if any.\<close>

definition open_error_of :: "path \<Rightarrow> host \<Rightarrow> io_error option" where
  "open_error_of p h =
     (case refuses h ReadFile p of Some e \<Rightarrow> Some e | None \<Rightarrow> if exists h p then None else Some not_found)"

definition check_kvm_availability :: "host \<Rightarrow> DiagnosticResult" where
  "check_kvm_availability h =
     (case open_error_of ''/dev/kvm'' h of
        None \<Rightarrow> diag ''KVM Availability'' DiagOk ''/dev/kvm is accessible'' None
      | Some e \<Rightarrow> diag ''KVM Availability'' DiagError ''/dev/kvm not accessible'' (Some e))"

definition show_int :: "int \<Rightarrow> string" where
  "show_int i = (if i < 0 then CHR ''-'' # show_nat (nat (- i)) else show_nat (nat i))"

definition check_kvm_api_version :: "sys_calls \<Rightarrow> host \<Rightarrow> DiagnosticResult" where
  "check_kvm_api_version C h =
     (case open_error_of ''/dev/kvm'' h of
        None \<Rightarrow>
          (let api_ver = kvm_api_version C in
           if api_ver \<ge> 0 then diag ''KVM API Version'' DiagOk (''KVM API version '' @ show_int api_ver) None
           else diag ''KVM API Version'' DiagError ''KVM_GET_API_VERSION ioctl failed''
             (Some (''ioctl returned '' @ show_int api_ver)))
      | Some e \<Rightarrow> diag ''KVM API Version'' DiagWarn ''skipped (KVM not available)'' (Some e))"

text \<open>The first \<open>MemAvailable\<close> line decides: its number, 0 when it is not one, nothing when the line is empty after the colon.\<close>

fun mem_available :: "string list \<Rightarrow> u64 option" where
  "mem_available [] = None"
| "mem_available (line # ls) =
     (case strip_prefix line ''MemAvailable:'' of
        None \<Rightarrow> mem_available ls
      | Some rest \<Rightarrow>
          (case split_whitespace rest of
             [] \<Rightarrow> None
           | kb_str # _ \<Rightarrow> Some (case parse_uint (2 ^ 64) kb_str of Some n \<Rightarrow> of_nat n | None \<Rightarrow> 0)))"

definition check_available_ram :: "host \<Rightarrow> DiagnosticResult" where
  "check_available_ram h =
     (case read_to_string ''/proc/meminfo'' h of
        Ok content \<Rightarrow>
          (case mem_available (lines content) of
             Some available_kb \<Rightarrow>
               (let available_mb = available_kb div 1024;
                    status = (if available_mb \<ge> 2048 then DiagOk else if available_mb \<ge> 512 then DiagWarn else DiagError)
                in diag ''Available RAM'' status (show_nat (unat available_mb) @ '' MB available'')
                     (Some (show_nat (unat available_kb) @ '' kB'')))
           | None \<Rightarrow> diag ''Available RAM'' DiagWarn ''MemAvailable not found in /proc/meminfo'' None)
      | Err e \<Rightarrow> diag ''Available RAM'' DiagError ''failed to read /proc/meminfo'' (Some e)
      | Panic \<Rightarrow> diag ''Available RAM'' DiagError ''failed to read /proc/meminfo'' None)"

definition diag_data_dir :: "host \<Rightarrow> path" where
  "diag_data_dir h =
     (if starts_with DEFAULT_DATA_DIR ''~/'' then
        (case home_dir h of Some p \<Rightarrow> p @ ''/'' @ drop 2 DEFAULT_DATA_DIR | None \<Rightarrow> ''/tmp'')
      else DEFAULT_DATA_DIR)"

definition check_disk_space :: "sys_calls \<Rightarrow> host \<Rightarrow> DiagnosticResult \<times> host" where
  "check_disk_space C h =
     (let data_dir = diag_data_dir h; h1 = snd (create_dir_all data_dir h) in
      if CHR 0x00 \<in> set data_dir then (diag ''Disk Space'' DiagError ''invalid data directory path'' None, h1)
      else
        case statvfs C data_dir of
          None \<Rightarrow> (diag ''Disk Space'' DiagError ''statvfs failed'' None, h1)
        | Some st \<Rightarrow>
            (let total_gb = (f_blocks st * f_bsize st) div (1024 * 1024 * 1024);
                 available_gb = (f_bavail st * f_bsize st) div (1024 * 1024 * 1024);
                 status = (if available_gb \<ge> 10 then DiagOk else if available_gb \<ge> 2 then DiagWarn else DiagError)
             in (diag ''Disk Space'' status
                   (show_nat (unat available_gb) @ '' GB available ('' @ show_nat (unat total_gb) @ '' GB total)'')
                   (Some (''data dir: '' @ data_dir)), h1)))"

definition check_gpu_info :: "host \<Rightarrow> DiagnosticResult" where
  "check_gpu_info h =
     (case read_to_string ''/sys/class/drm/card0/device/vendor'' h of
        Ok vendor_str \<Rightarrow>
          (let vendor = trim vendor_str;
               vendor_name = (if vendor = ''0x8086'' then ''Intel'' else if vendor = ''0x10de'' then ''NVIDIA''
                 else if vendor = ''0x1002'' then ''AMD'' else ''Unknown'')
           in diag ''GPU Info'' DiagOk (vendor_name @ '' ('' @ vendor @ '')'') None)
      | Err e \<Rightarrow> diag ''GPU Info'' DiagWarn ''GPU vendor not detected'' (Some e)
      | Panic \<Rightarrow> diag ''GPU Info'' DiagWarn ''GPU vendor not detected'' None)"

definition check_network_namespace :: "sys_calls \<Rightarrow> DiagnosticResult" where
  "check_network_namespace C =
     (if netlink_fd C \<ge> 0 then diag ''Network Namespace'' DiagOk ''NETLINK socket created successfully'' None
      else diag ''Network Namespace'' DiagWarn ''NETLINK socket creation failed (may need CAP_NET_ADMIN)'' None)"

definition check_adb_in_path :: "programs \<Rightarrow> host \<Rightarrow> DiagnosticResult \<times> host" where
  "check_adb_in_path ps h =
     (case command_output ps ''which'' [''adb''] [] h of
        (Ok out, h1) \<Rightarrow>
          (if status_success out
           then diag ''ADB in PATH'' DiagOk (''adb found: '' @ trim (from_utf8_lossy (stdout out))) None
           else diag ''ADB in PATH'' DiagError ''adb not found in PATH'' None, h1)
      | (Err e, h1) \<Rightarrow> (diag ''ADB in PATH'' DiagError ''failed to check for adb'' (Some (command_error_text e)), h1)
      | (Panic, h1) \<Rightarrow> (diag ''ADB in PATH'' DiagError ''failed to check for adb'' None, h1))"

definition run_diagnostics :: "sys_calls \<Rightarrow> programs \<Rightarrow> host \<Rightarrow> DiagnosticResult list \<times> host" where
  "run_diagnostics C ps h =
     (case check_disk_space C h of (disk, h1) \<Rightarrow>
      case check_adb_in_path ps h1 of (adb_result, h2) \<Rightarrow>
        ([check_kernel_version h, check_cpu_arch C, check_cpu_virtualization h, check_kvm_availability h,
          check_kvm_api_version C h, check_available_ram h, disk, check_gpu_info h1, check_network_namespace C, adb_result], h2))"

section \<open>Properties\<close>

text \<open>The ten results, in order, whatever the host is like.\<close>

lemma diag_sel [simp]: "diag_name (diag n s m d) = n" "diag_status (diag n s m d) = s" "diag_message (diag n s m d) = m"
  by (simp_all add: diag_def)

lemma check_names [simp]:
  "diag_name (check_kernel_version h) = ''Kernel Version''"
  "diag_name (check_cpu_arch C) = ''CPU Architecture''"
  "diag_name (check_cpu_virtualization h) = ''CPU Virtualization''"
  "diag_name (check_kvm_availability h) = ''KVM Availability''"
  "diag_name (check_kvm_api_version C h) = ''KVM API Version''"
  "diag_name (check_available_ram h) = ''Available RAM''"
  "diag_name (fst (check_disk_space C h)) = ''Disk Space''"
  "diag_name (check_gpu_info h) = ''GPU Info''"
  "diag_name (check_network_namespace C) = ''Network Namespace''"
  "diag_name (fst (check_adb_in_path ps h)) = ''ADB in PATH''"
           apply (simp add: check_kernel_version_def Let_def split: outcome.split)
          apply (simp add: check_cpu_arch_def split: option.split)
         apply (simp add: check_cpu_virtualization_def split: outcome.split)
        apply (simp add: check_kvm_availability_def split: option.split)
       apply (simp add: check_kvm_api_version_def Let_def split: option.split)
      apply (simp add: check_available_ram_def Let_def split: outcome.split option.split)
     apply (simp add: check_disk_space_def Let_def split: option.split)
    apply (simp add: check_gpu_info_def Let_def split: outcome.split)
   apply (simp add: check_network_namespace_def)
  apply (simp add: check_adb_in_path_def split: prod.split outcome.split)
  done

lemma run_diagnostics_names:
  "map diag_name (fst (run_diagnostics C ps h)) =
     [''Kernel Version'', ''CPU Architecture'', ''CPU Virtualization'', ''KVM Availability'', ''KVM API Version'', ''Available RAM'',
      ''Disk Space'', ''GPU Info'', ''Network Namespace'', ''ADB in PATH'']"
  by (simp add: run_diagnostics_def case_prod_beta)

text \<open>The memory check against the number in the file.\<close>

theorem available_ram_status:
  assumes "read_to_string ''/proc/meminfo'' h = Ok content" and "mem_available (lines content) = Some kb"
  shows "diag_status (check_available_ram h) =
    (if 2048 * 1024 \<le> unat kb then DiagOk else if 512 * 1024 \<le> unat kb then DiagWarn else DiagError)"
proof -
  have d: "unat (kb div 1024) = unat kb div 1024"
    by (simp add: unat_div)
  have "(2048 \<le> kb div 1024) = (2048 * 1024 \<le> unat kb)" and "(512 \<le> kb div 1024) = (512 * 1024 \<le> unat kb)"
    unfolding word_le_nat_alt d by (simp_all add: less_eq_div_iff_mult_less_eq)
  with assms show ?thesis
    by (simp add: check_available_ram_def Let_def diag_def)
qed

text \<open>The first word of \<^verbatim>\<open>/proc/version\<close> is the name of the system: the message never shows the version.\<close>

lemma kernel_version_shows_system_name:
  "diag_message (check_kernel_version (h\<lparr>files := [(''/proc/version'', as_bytes ''Linux version 6.1'')], refuses := (\<lambda>_ _. None)\<rparr>))
     = ''Linux''"
proof -
  have "read_to_string ''/proc/version'' (h\<lparr>files := [(''/proc/version'', as_bytes ''Linux version 6.1'')], refuses := (\<lambda>_ _. None)\<rparr>)
      = Ok ''Linux version 6.1''"
    by (simp add: read_to_string_def read_file_def from_utf8_ascii ascii_def)
  moreover have "trim ''Linux version 6.1'' = ''Linux version 6.1''" and "split_whitespace ''Linux version 6.1'' = [''Linux'', ''version'', ''6.1'']"
    by code_simp+
  ultimately show ?thesis
    by (simp add: check_kernel_version_def)
qed

end
