(* ===== verification/LD_Cli.thy ===== *)
theory LD_Cli
  imports LD_Config LD_Ipc LD_Diagnostics
begin

text \<open>
  The command line, \<^verbatim>\<open>apps/cli\<close>: one function per command, from the parsed arguments to the exit code and what is
  printed.  Parsing the arguments is done by \<open>clap\<close>; the value it yields is the datatype \<open>Cli\<close>.
\<close>

datatype DeviceAction = DeviceCreate string "string option" "u32 option" "u64 option" "u32 option" | DeviceDelete string

datatype ApkAction = ApkInstall string | ApkUninstall string | ApkList

datatype SnapshotAction = SnapCreate string | SnapRestore string | SnapList | SnapDelete string

datatype AdbAction = AdbShell | AdbInstall string

datatype DaemonAction = DaemonStart | DaemonStop | DaemonStatus

datatype Cli =
    Doctor
  | Version
  | Config
  | Devices
  | Device DeviceAction
  | Start string bool bool
  | Stop
  | Wipe
  | Restart
  | Pause
  | Resume
  | Status
  | Stats
  | Apk ApkAction
  | Launch string
  | Shell
  | Logcat
  | Screenshot "string option"
  | Snapshot SnapshotAction
  | Adb AdbAction
  | Logs bool
  | Daemon DaemonAction

text \<open>
  What a run of the command line depends on: the libraries, the JSON text of IPC messages, the system calls of the
  diagnostics, the connection to the daemon (with the bytes it will answer), and the version of the package.
\<close>

record cli_env =
  cli_libs :: libs
  cli_codec :: ipc_codec
  cli_calls :: sys_calls
  cli_conn :: "(io_error, socket) outcome"
  read_timeout :: "io_error option"
  write_timeout :: "io_error option"
  pkg_version :: string

text \<open>What it changes: the host, the lines printed on both streams, and the bytes sent to the daemon.\<close>

record console =
  con_host :: host
  out_lines :: "string list"
  err_lines :: "string list"
  to_daemon :: bytes

definition println :: "string \<Rightarrow> console \<Rightarrow> console" where
  "println s c = c\<lparr>out_lines := out_lines c @ [s]\<rparr>"

definition eprintln :: "string \<Rightarrow> console \<Rightarrow> console" where
  "eprintln s c = c\<lparr>err_lines := err_lines c @ [s]\<rparr>"

section \<open>Requests to the daemon\<close>

definition ipc :: "cli_env \<Rightarrow> string \<Rightarrow> json \<Rightarrow> console \<Rightarrow> IpcResponse option \<times> console" where
  "ipc E meth params c =
     (case ipc_connect (cli_conn E) (read_timeout E) (write_timeout E) of
        Ok s \<Rightarrow>
          (case send_request (cli_codec E) (new_v4 (cli_libs E)) meth params s of
             (Ok r, t) \<Rightarrow> (Some r, c\<lparr>to_daemon := to_daemon c @ sent t\<rparr>)
           | (_, t) \<Rightarrow> (None, c\<lparr>to_daemon := to_daemon c @ sent t\<rparr>))
      | _ \<Rightarrow> (None, c))"

definition print_resp :: "cli_env \<Rightarrow> IpcResponse \<Rightarrow> console \<Rightarrow> int \<times> console" where
  "print_resp E resp c =
     (if success resp then
        (case resp_result resp of
           Some r \<Rightarrow>
             (0, println (case json_to_string_pretty (cli_libs E) r of Ok t \<Rightarrow> t | _ \<Rightarrow> []) c)
         | None \<Rightarrow> (0, println ''OK'' c))
      else (1, eprintln (''Error: '' @ (case resp_error resp of Some e \<Rightarrow> e | None \<Rightarrow> ''unknown'')) c))"

definition request :: "cli_env \<Rightarrow> string \<Rightarrow> json \<Rightarrow> console \<Rightarrow> int \<times> console" where
  "request E meth params c =
     (case ipc E meth params c of
        (Some r, c1) \<Rightarrow> print_resp E r c1
      | (None, c1) \<Rightarrow> (1, c1))"

definition cmd_start :: "cli_env \<Rightarrow> string \<Rightarrow> bool \<Rightarrow> bool \<Rightarrow> console \<Rightarrow> int \<times> console" where
  "cmd_start E device cold fast =
     (let p0 = JObject [(''device'', JString device)];
          p1 = (if cold then set_key ''boot_mode'' (JString ''cold'') p0 else p0);
          p2 = (if fast then set_key ''boot_mode'' (JString ''fast'') p1 else p1)
      in request E ''device.start'' p2)"

definition cmd_stop :: "cli_env \<Rightarrow> console \<Rightarrow> int \<times> console" where
  "cmd_stop E = request E ''device.stop'' (JObject [])"

definition cmd_wipe :: "cli_env \<Rightarrow> console \<Rightarrow> int \<times> console" where
  "cmd_wipe E = request E ''device.wipe'' (JObject [])"

definition cmd_restart :: "cli_env \<Rightarrow> console \<Rightarrow> int \<times> console" where
  "cmd_restart E = request E ''device.restart'' (JObject [])"

definition cmd_pause :: "cli_env \<Rightarrow> console \<Rightarrow> int \<times> console" where
  "cmd_pause E = request E ''device.pause'' (JObject [])"

definition cmd_resume :: "cli_env \<Rightarrow> console \<Rightarrow> int \<times> console" where
  "cmd_resume E = request E ''device.resume'' (JObject [])"

definition cmd_status :: "cli_env \<Rightarrow> console \<Rightarrow> int \<times> console" where
  "cmd_status E = request E ''device.status'' (JObject [])"

definition cmd_stats :: "cli_env \<Rightarrow> console \<Rightarrow> int \<times> console" where
  "cmd_stats E = request E ''vm.stats'' (JObject [])"

fun cmd_apk :: "cli_env \<Rightarrow> ApkAction \<Rightarrow> console \<Rightarrow> int \<times> console" where
  "cmd_apk E (ApkInstall p) = request E ''apk.install'' (JObject [(''path'', JString p)])"
| "cmd_apk E (ApkUninstall package) = request E ''apk.uninstall'' (JObject [(''package'', JString package)])"
| "cmd_apk E ApkList = request E ''apk.list'' (JObject [])"

definition cmd_launch :: "cli_env \<Rightarrow> string \<Rightarrow> console \<Rightarrow> int \<times> console" where
  "cmd_launch E package = request E ''device.launch'' (JObject [(''package'', JString package)])"

definition cmd_shell :: "cli_env \<Rightarrow> console \<Rightarrow> int \<times> console" where
  "cmd_shell E = request E ''adb.shell'' (JObject [])"

definition cmd_logcat :: "cli_env \<Rightarrow> console \<Rightarrow> int \<times> console" where
  "cmd_logcat E = request E ''adb.logcat'' (JObject [])"

definition cmd_screenshot :: "cli_env \<Rightarrow> string option \<Rightarrow> console \<Rightarrow> int \<times> console" where
  "cmd_screenshot E p = request E ''device.screenshot'' (JObject [(''path'', json_opt p)])"

fun snapshot_method :: "SnapshotAction \<Rightarrow> string \<times> string option" where
  "snapshot_method (SnapCreate n) = (''snapshot.create'', Some n)"
| "snapshot_method (SnapRestore n) = (''snapshot.restore'', Some n)"
| "snapshot_method SnapList = (''snapshot.list'', None)"
| "snapshot_method (SnapDelete n) = (''snapshot.delete'', Some n)"

definition cmd_snapshot :: "cli_env \<Rightarrow> SnapshotAction \<Rightarrow> console \<Rightarrow> int \<times> console" where
  "cmd_snapshot E action =
     (case snapshot_method action of (meth, name) \<Rightarrow>
        request E meth (case name of Some n \<Rightarrow> set_key ''name'' (JString n) (JObject []) | None \<Rightarrow> JObject []))"

fun cmd_adb :: "cli_env \<Rightarrow> AdbAction \<Rightarrow> console \<Rightarrow> int \<times> console" where
  "cmd_adb E AdbShell = request E ''adb.shell'' (JObject [])"
| "cmd_adb E (AdbInstall p) = request E ''adb.install'' (JObject [(''path'', JString p)])"

fun cmd_daemon :: "cli_env \<Rightarrow> DaemonAction \<Rightarrow> console \<Rightarrow> int \<times> console" where
  "cmd_daemon E DaemonStart c =
     (case spawn (progs (cli_libs E)) ''litedroid-daemon'' [] (con_host c) of
        (Ok child, h) \<Rightarrow> (0, println (''Daemon started (PID: '' @ show_nat child @ '')'') (c\<lparr>con_host := h\<rparr>))
      | (Err e, h) \<Rightarrow> (1, eprintln (''Failed to start daemon: '' @ e) (c\<lparr>con_host := h\<rparr>))
      | (Panic, h) \<Rightarrow> (101, c\<lparr>con_host := h\<rparr>))"
| "cmd_daemon E DaemonStop c = request E ''daemon.shutdown'' (JObject []) c"
| "cmd_daemon E DaemonStatus c = request E ''daemon.ping'' (JObject []) c"

section \<open>Local commands\<close>

text \<open>Loading the configuration, or printing the error and ending with code 1.\<close>

definition with_config :: "cli_env \<Rightarrow> (LiteDroidConfig \<Rightarrow> console \<Rightarrow> int \<times> console) \<Rightarrow> console \<Rightarrow> int \<times> console" where
  "with_config E f c =
     (case config_load (cli_libs E) (con_host c) of
        (Ok cfg, h) \<Rightarrow> f cfg (c\<lparr>con_host := h\<rparr>)
      | (Err e, h) \<Rightarrow> (1, eprintln (error_text e) (c\<lparr>con_host := h\<rparr>))
      | (Panic, h) \<Rightarrow> (101, c\<lparr>con_host := h\<rparr>))"

definition count_status :: "DiagnosticStatus \<Rightarrow> DiagnosticResult list \<Rightarrow> nat" where
  "count_status s rs = length (filter (\<lambda>r. diag_status r = s) rs)"

definition cmd_doctor :: "cli_env \<Rightarrow> console \<Rightarrow> int \<times> console" where
  "cmd_doctor E c =
     (let c0 = println (''LiteDroid System Diagnostics'' @ nl @ ''==========================='' @ nl) c;
          (results, h) = run_diagnostics (cli_calls E) (progs (cli_libs E)) (con_host c0);
          c1 = foldl (\<lambda>c r. println (result_text r) c) (c0\<lparr>con_host := h\<rparr>) results;
          errs = count_status DiagError results; warns = count_status DiagWarn results;
          c2 = println [] c1
      in if errs > 0 then
           (1, println (''Result: '' @ show_nat errs @ '' error(s), '' @ show_nat warns @ '' warning(s)'') c2)
         else if warns > 0 then (0, println (''Result: '' @ show_nat warns @ '' warning(s)'') c2)
         else (0, println ''Result: all checks passed'' c2))"

definition cmd_version :: "cli_env \<Rightarrow> console \<Rightarrow> int \<times> console" where
  "cmd_version E c =
     (0, println (''Data dir: '' @ DEFAULT_DATA_DIR)
        (println (''Socket: '' @ DAEMON_SOCKET_PATH)
        (println (''IPC protocol version: '' @ show_nat (unat IPC_PROTOCOL_VERSION))
        (println (''litedroid '' @ pkg_version E) c))))"

definition cmd_config :: "cli_env \<Rightarrow> console \<Rightarrow> int \<times> console" where
  "cmd_config E = with_config E (\<lambda>cfg c.
     (0, println (case toml_global_pretty (cli_libs E) (global cfg) of Ok t \<Rightarrow> t | _ \<Rightarrow> []) c))"

definition no_devices :: string where
  "no_devices = ''No devices. Create one: litedroid device create <name>''"

text \<open>The entries of a directory; an error reads as an empty one.\<close>

definition entries :: "path \<Rightarrow> host \<Rightarrow> path list" where
  "entries p h = (case read_dir p h of Ok es \<Rightarrow> es | _ \<Rightarrow> [])"

text \<open>The profile behind a directory entry, if it has one that can be read.\<close>

definition entry_metadata :: "libs \<Rightarrow> host \<Rightarrow> path \<Rightarrow> json option" where
  "entry_metadata L h entry =
     (case read_to_string (path_join entry ''metadata.json'') h of
        Ok content \<Rightarrow> (case json_from_str L content of Ok md \<Rightarrow> Some md | _ \<Rightarrow> None)
      | _ \<Rightarrow> None)"

definition or_str :: "string option \<Rightarrow> string \<Rightarrow> string" where
  "or_str s d = (case s of Some t \<Rightarrow> t | None \<Rightarrow> d)"

definition or_u64 :: "u64 option \<Rightarrow> u64" where
  "or_u64 n = (case n of Some v \<Rightarrow> v | None \<Rightarrow> 0)"

definition print_device :: "json \<Rightarrow> console \<Rightarrow> console" where
  "print_device md c =
     println []
       (println (''    RAM: '' @ show_nat (unat (or_u64 (get_u64 ''ram_mb'' md))) @ '' MB, CPUs: ''
          @ show_nat (unat (or_u64 (get_u64 ''vcpu_count'' md))))
       (println (''    Android: '' @ or_str (get_str ''android_version'' md) ''?'')
       (println (''  '' @ or_str (get_str ''name'' md) ''?'') c)))"

definition cmd_devices :: "cli_env \<Rightarrow> console \<Rightarrow> int \<times> console" where
  "cmd_devices E = with_config E (\<lambda>cfg c.
     let dir = devices_dir cfg (con_host c) in
     if \<not> exists (con_host c) dir then (0, println no_devices c)
     else
       let mds = List.map_filter (entry_metadata (cli_libs E) (con_host c)) (entries dir (con_host c));
           c1 = foldl (\<lambda>c md. print_device md c) c mds
       in (0, if mds = [] then println no_devices c1 else c1))"

text \<open>\<open>--resolution\<close>: two 32-bit numbers around an \<open>x\<close>; anything else is ignored.\<close>

definition parse_resolution :: "string \<Rightarrow> (u32 \<times> u32) option" where
  "parse_resolution r =
     (case split_once (CHR ''x'') r of
        Some (w, h) \<Rightarrow>
          (case (parse_uint (2 ^ 32) w, parse_uint (2 ^ 32) h) of
             (Some a, Some b) \<Rightarrow> Some (of_nat a, of_nat b)
           | _ \<Rightarrow> None)
      | None \<Rightarrow> None)"

definition create_config ::
    "libs \<Rightarrow> string \<Rightarrow> string option \<Rightarrow> u32 option \<Rightarrow> u64 option \<Rightarrow> u32 option \<Rightarrow> DeviceConfig" where
  "create_config L name resolution dpi_arg ram cpu =
     (let c0 = (device_config_default (new_v4 L))\<lparr>dev_name := name\<rparr>;
          c1 = override (Option.bind resolution parse_resolution)
            (\<lambda>(w, h) c. c\<lparr>display := (display c)\<lparr>width := w, height := h\<rparr>\<rparr>) c0;
          c2 = override dpi_arg (\<lambda>d c. c\<lparr>display := (display c)\<lparr>dpi := d\<rparr>\<rparr>) c1;
          c3 = override ram (\<lambda>r c. c\<lparr>ram_mb := r\<rparr>) c2
      in override cpu (\<lambda>n c. c\<lparr>vcpu_count := n\<rparr>) c3)"

fun profile_text :: "DeviceProfile \<Rightarrow> string" where
  "profile_text Minimal = ''Minimal''"
| "profile_text Developer = ''Developer''"
| "profile_text Compatibility = ''Compatibility''"

definition create_metadata :: "DeviceConfig \<Rightarrow> path \<Rightarrow> json" where
  "create_metadata cfg images =
     JObject [(''name'', JString (dev_name cfg)), (''id'', JString (dev_id cfg)),
       (''android_version'', JString (android_version cfg)), (''api_level'', json_u32 (api_level cfg)),
       (''kernel_path'', JString (path_join images ''kernel'')),
       (''initramfs_path'', JString (path_join images ''ramdisk.img'')),
       (''system_image_path'', JString (path_join images ''system.img'')),
       (''profile'', JString (profile_text (profile cfg))), (''ram_mb'', JUInt (ram_mb cfg)),
       (''vcpu_count'', json_u32 (vcpu_count cfg)), (''width'', json_u32 (width (display cfg))),
       (''height'', json_u32 (height (display cfg))), (''dpi'', json_u32 (dpi (display cfg)))]"

text \<open>The result of creating the directory is dropped; \<open>unwrap\<close> on the printed profile panics on an error.\<close>

definition device_create :: "cli_env \<Rightarrow> DeviceConfig \<Rightarrow> LiteDroidConfig \<Rightarrow> console \<Rightarrow> int \<times> console" where
  "device_create E cfg lcfg c =
     (let name = dev_name cfg; dir = path_join (devices_dir lcfg (con_host c)) name;
          meta = create_metadata cfg (images_dir lcfg (con_host c));
          h1 = snd (create_dir_all dir (con_host c)) in
      case json_to_string_pretty (cli_libs E) meta of
        Ok text \<Rightarrow>
          (case write_file (path_join dir ''metadata.json'') (as_bytes text) h1 of
             (Ok _, h2) \<Rightarrow> (0, println (''Device '' @ dquote @ name @ dquote @ '' created'') (c\<lparr>con_host := h2\<rparr>))
           | (Err e, h2) \<Rightarrow> (1, eprintln e (c\<lparr>con_host := h2\<rparr>))
           | (Panic, h2) \<Rightarrow> (101, c\<lparr>con_host := h2\<rparr>))
      | _ \<Rightarrow> (101, c\<lparr>con_host := h1\<rparr>))"

definition device_delete :: "cli_env \<Rightarrow> string \<Rightarrow> LiteDroidConfig \<Rightarrow> console \<Rightarrow> int \<times> console" where
  "device_delete E name lcfg c =
     (case remove_dir_all (path_join (devices_dir lcfg (con_host c)) name) (con_host c) of
        (Ok _, h) \<Rightarrow> (0, println (''Deleted '' @ dquote @ name @ dquote) (c\<lparr>con_host := h\<rparr>))
      | (Err e, h) \<Rightarrow> (1, eprintln e (c\<lparr>con_host := h\<rparr>))
      | (Panic, h) \<Rightarrow> (101, c\<lparr>con_host := h\<rparr>))"

fun cmd_device :: "cli_env \<Rightarrow> DeviceAction \<Rightarrow> console \<Rightarrow> int \<times> console" where
  "cmd_device E (DeviceCreate name resolution dpi_arg ram cpu) =
     with_config E (device_create E (create_config (cli_libs E) name resolution dpi_arg ram cpu))"
| "cmd_device E (DeviceDelete name) = with_config E (device_delete E name)"

definition cmd_logs :: "cli_env \<Rightarrow> console \<Rightarrow> int \<times> console" where
  "cmd_logs E = with_config E (\<lambda>cfg c.
     let log_dir = path_join (data_dir cfg (con_host c)) ''logs'' in
     if \<not> exists (con_host c) log_dir then (0, println ''No logs found.'' c)
     else
       (0, foldl (\<lambda>c entry.
          case read_to_string entry (con_host c) of
            Ok content \<Rightarrow> foldl (\<lambda>c line. println line c) (println (''--- '' @ entry @ '' ---'') c) (take 50 (lines content))
          | _ \<Rightarrow> c) c (entries log_dir (con_host c))))"

fun cli_main :: "cli_env \<Rightarrow> Cli \<Rightarrow> console \<Rightarrow> int \<times> console" where
  "cli_main E Doctor = cmd_doctor E"
| "cli_main E Version = cmd_version E"
| "cli_main E Config = cmd_config E"
| "cli_main E Devices = cmd_devices E"
| "cli_main E (Device action) = cmd_device E action"
| "cli_main E (Start device cold fast) = cmd_start E device cold fast"
| "cli_main E Stop = cmd_stop E"
| "cli_main E Wipe = cmd_wipe E"
| "cli_main E Restart = cmd_restart E"
| "cli_main E Pause = cmd_pause E"
| "cli_main E Resume = cmd_resume E"
| "cli_main E Status = cmd_status E"
| "cli_main E Stats = cmd_stats E"
| "cli_main E (Apk action) = cmd_apk E action"
| "cli_main E (Launch package) = cmd_launch E package"
| "cli_main E Shell = cmd_shell E"
| "cli_main E Logcat = cmd_logcat E"
| "cli_main E (Screenshot p) = cmd_screenshot E p"
| "cli_main E (Snapshot action) = cmd_snapshot E action"
| "cli_main E (Adb action) = cmd_adb E action"
| "cli_main E (Logs follow) = cmd_logs E"
| "cli_main E (Daemon action) = cmd_daemon E action"

end
