(* ===== verification/LD_CliSpec.thy ===== *)
theory LD_CliSpec
  imports LD_Cli
begin

text \<open>
  What the command line guarantees: exit codes, and that a profile it creates is the one the daemon loads.
\<close>

section \<open>Exit codes\<close>

theorem request_exit_code:
  "fst (request E meth p c) = (if list_ex success (case fst (ipc E meth p c) of Some r \<Rightarrow> [r] | None \<Rightarrow> []) then 0 else 1)"
  by (simp add: request_def print_resp_def case_prod_beta split: option.splits)

lemma filter_empty_list_ex: "(filter P xs = []) = (\<not> list_ex P xs)"
  by (induction xs) auto

theorem doctor_exit_code:
  "fst (cmd_doctor E c) =
     (if list_ex (\<lambda>r. diag_status r = DiagError) (fst (run_diagnostics (cli_calls E) (progs (cli_libs E)) (con_host c)))
      then 1 else 0)"
  by (simp add: cmd_doctor_def Let_def case_prod_beta count_status_def println_def filter_empty_list_ex)

section \<open>Profiles\<close>

lemma apply_create_metadata:
  "apply_metadata (create_metadata a images) n b =
     b\<lparr>dev_name := dev_name a, vcpu_count := vcpu_count a, ram_mb := ram_mb a, android_version := android_version a,
       api_level := api_level a,
       display := (display b)\<lparr>width := width (display a), height := height (display a), dpi := dpi (display a)\<rparr>\<rparr>"
  by (simp add: apply_metadata_def create_metadata_def json_u32_def Let_def ucast_json_u32)

lemma device_create_ok:
  assumes "device_create E cfg lcfg c = (0, c')"
  shows "\<exists>t. json_to_string_pretty (cli_libs E) (create_metadata cfg (images_dir lcfg (con_host c))) = Ok t
    \<and> map_of (files (con_host c')) (metadata_path lcfg (dev_name cfg) (con_host c)) = Some (as_bytes t)
    \<and> home_dir (con_host c') = home_dir (con_host c) \<and> refuses (con_host c') = refuses (con_host c)"
proof -
  let ?dir = "path_join (devices_dir lcfg (con_host c)) (dev_name cfg)"
  let ?h1 = "snd (create_dir_all ?dir (con_host c))"
  from assms obtain t h2 where t: "json_to_string_pretty (cli_libs E) (create_metadata cfg (images_dir lcfg (con_host c))) = Ok t"
    and w: "write_file (path_join ?dir ''metadata.json'') (as_bytes t) ?h1 = (Ok (), h2)"
    and c': "c' = println (''Device '' @ dquote @ dev_name cfg @ dquote @ '' created'') (c\<lparr>con_host := h2\<rparr>)"
    by (auto simp: device_create_def Let_def split: outcome.splits prod.splits)
  have "home_dir h2 = home_dir ?h1" "refuses h2 = refuses ?h1"
    using w by (auto simp: write_file_def split: option.splits if_splits)
  then show ?thesis
    using t c' read_write_file [OF w] only_dirs_growD(3,4) [OF create_dir_all_grows [of "con_host c" ?dir]]
    by (simp add: println_def metadata_path_def)
qed

text \<open>
  A device created on the command line is the one the daemon loads, with the settings given; settings outside the limits
  are written all the same, and the error only shows when the device is loaded.
\<close>

text \<open>
  C27. A device created on the command line is the one the daemon loads, with the name,
  memory, processors, display and API level given; settings outside the limits are written
  all the same and show as the validation error when the device is loaded.
\<close>

theorem cli_profile_round_trip:
  assumes "device_create E cfg lcfg c = (0, c')"
    and "json_to_string_pretty (cli_libs E) (create_metadata cfg (images_dir lcfg (con_host c))) = Ok t"
    and "json_from_str (cli_libs E) t = Ok (create_metadata cfg (images_dir lcfg (con_host c)))"
    and "from_utf8 (as_bytes t) = Some t"
    and "refuses (con_host c) ReadFile (metadata_path lcfg (dev_name cfg) (con_host c)) = None"
    and "supported_abis cfg \<noteq> []"
  shows "case device_config (cli_libs E) lcfg (dev_name cfg) (con_host c') of
      Ok d \<Rightarrow> validate cfg = Ok () \<and> dev_name d = dev_name cfg \<and> ram_mb d = ram_mb cfg \<and> vcpu_count d = vcpu_count cfg
        \<and> width (display d) = width (display cfg) \<and> height (display d) = height (display cfg) \<and> dpi (display d) = dpi (display cfg)
        \<and> api_level d = api_level cfg \<and> kernel_path d = path_join (images_dir lcfg (con_host c)) ''kernel''
    | Err e \<Rightarrow> validate cfg = Err e
    | Panic \<Rightarrow> False"
proof -
  let ?h = "con_host c" and ?h' = "con_host c'"
  let ?d = "apply_metadata (create_metadata cfg (images_dir lcfg ?h)) (dev_name cfg) (default_device_config (cli_libs E) lcfg ?h)"
  from device_create_ok [OF assms(1)] assms(2)
  have f: "map_of (files ?h') (metadata_path lcfg (dev_name cfg) ?h) = Some (as_bytes t)"
    and home: "home_dir ?h' = home_dir ?h" and ref: "refuses ?h' = refuses ?h"
    by auto
  have "device_config (cli_libs E) lcfg (dev_name cfg) ?h' = bind_outcome (validate ?d) (\<lambda>_. Ok ?d)"
    using f assms(3-5) ref
    by (subst device_config_written [where t = t])
      (simp_all add: metadata_path_home [OF home] default_device_config_home [OF home] Let_def)
  moreover have "supported_abis ?d \<noteq> []"
    by (simp add: default_device_config_def device_config_default_def Let_def)
  then have "validate ?d = validate cfg"
    using assms(6) by (simp add: validate_def) (simp add: apply_create_metadata)
  moreover have "validate cfg \<noteq> Panic" by simp
  ultimately show ?thesis
    by (cases "validate cfg") (simp_all add: apply_create_metadata default_device_config_def device_config_default_def Let_def)
qed

text \<open>The resolution option accepts every pair of 32-bit numbers.\<close>

lemma split_once_append: "d \<notin> set a \<Longrightarrow> split_once d (a @ d # b) = Some (a, b)"
  by (induction a) auto

lemma parse_resolution_show:
  "parse_resolution (show_nat (unat w) @ ''x'' @ show_nat (unat h)) = Some (w, h)"
proof -
  have "CHR ''x'' \<notin> set (show_nat n)" for n
  proof -
    have "\<not> is_digit (CHR ''x'')" by (simp add: is_digit_def)
    then show ?thesis
      using show_radix_digits [of n] unfolding show_nat_def by blast
  qed
  then have "split_once (CHR ''x'') (show_nat (unat w) @ ''x'' @ show_nat (unat h)) = Some (show_nat (unat w), show_nat (unat h))"
    by (simp add: split_once_append)
  moreover have "unat v < 2 ^ 32" for v :: u32
    using unsigned_less [of v, where 'a = nat] by simp
  ultimately show ?thesis
    by (simp add: parse_resolution_def parse_show_nat)
qed

section \<open>Deleting\<close>

text \<open>
  The name given to \<open>device delete\<close> is joined to the directory of the devices as it is, so an absolute path replaces that
  directory: the command removes the whole tree it names, wherever it lies.
\<close>

theorem delete_absolute_path:
  assumes "is_absolute name" and "is_dir (con_host c) name" and "refuses (con_host c) RemoveDir name = None"
  shows "fst (device_delete E name lcfg c) = 0
    \<and> files (con_host (snd (device_delete E name lcfg c))) = filter (\<lambda>(p, _). \<not> beneath name p) (files (con_host c))"
  using assms by (simp add: device_delete_def path_join_def remove_dir_all_def println_def)

definition demo_env :: "json \<Rightarrow> cli_env" where
  "demo_env v = \<lparr>cli_libs = plain_libs v litedroid_config_default,
     cli_codec = \<lparr>request_to_vec = (\<lambda>_. Err ''no codec''), request_from_slice = (\<lambda>_. Err ''no codec''),
       response_to_vec = (\<lambda>_. Err ''no codec''), response_from_slice = (\<lambda>_. Err ''no codec''), event_to_vec = (\<lambda>_. Err ''no codec'')\<rparr>,
     cli_calls = \<lparr>uname_machine = Some ''x86_64'', kvm_api_version = 12, statvfs = (\<lambda>_. None), netlink_fd = 3\<rparr>,
     cli_conn = Err ''Connection refused (os error 111)'', read_timeout = None, write_timeout = None, pkg_version = ''0.1.0''\<rparr>"

definition demo_console :: console where
  "demo_console = \<lparr>con_host = empty_host, out_lines = [], err_lines = [], to_daemon = []\<rparr>"

definition demo_config :: DeviceConfig where
  "demo_config = create_config (plain_libs JNull litedroid_config_default) ''tablet'' None (Some 320) (Some 4096) (Some 2)"

theorem cli_profile_round_trip_witness:
  "let md = create_metadata demo_config (images_dir litedroid_config_default empty_host);
       c' = snd (device_create (demo_env md) demo_config litedroid_config_default demo_console)
   in case device_config (plain_libs md litedroid_config_default) litedroid_config_default ''tablet'' (con_host c') of
        Ok d \<Rightarrow> ram_mb d = 4096 \<and> vcpu_count d = 2 \<and> dpi (display d) = 320
      | Err e \<Rightarrow> False
      | Panic \<Rightarrow> False"
proof -
  let ?md = "create_metadata demo_config (images_dir litedroid_config_default empty_host)"
  let ?E = "demo_env ?md" and ?L = "litedroid_config_default"
  let ?c = "snd (device_create ?E demo_config ?L demo_console)"
  have "fst (device_create (demo_env JNull) demo_config ?L demo_console) = 0"
    by code_simp
  moreover have "device_create ?E = device_create (demo_env JNull)"
    by (simp add: fun_eq_iff device_create_def demo_env_def plain_libs_def)
  ultimately have c: "device_create ?E demo_config ?L demo_console = (0, ?c)"
    by (simp add: prod_eq_iff)
  have cfg: "dev_name demo_config = ''tablet''" "ram_mb demo_config = 4096" "vcpu_count demo_config = 2" "dpi (display demo_config) = 320"
    "supported_abis demo_config \<noteq> []" "validate demo_config = Ok ()"
    by code_simp+
  have L: "cli_libs ?E = plain_libs ?md ?L" and h: "con_host demo_console = empty_host"
    and t: "from_utf8 (as_bytes ''{}'') = Some ''{}''" and r: "refuses empty_host op p = None" for op p
    by (simp_all add: demo_env_def demo_console_def from_utf8_ascii ascii_def empty_host_def)
  have J: "json_to_string_pretty (plain_libs v ?L) x = Ok ''{}''" "json_from_str (plain_libs v ?L) y = Ok v" for v x y
    by (simp_all add: plain_libs_def)
  have "case device_config (plain_libs ?md ?L) ?L ''tablet'' (con_host ?c) of
      Ok d \<Rightarrow> ram_mb d = 4096 \<and> vcpu_count d = 2 \<and> dpi (display d) = 320
    | Err e \<Rightarrow> False
    | Panic \<Rightarrow> False"
    using cli_profile_round_trip [OF c, of "''{}''", unfolded L h J cfg, OF refl refl t r cfg(5) [unfolded cfg]]
    by (cases "device_config (plain_libs ?md ?L) ?L ''tablet'' (con_host ?c)") simp_all
  then show ?thesis by (simp only: Let_def)
qed

theorem delete_absolute_path_witness:
  "let c = demo_console\<lparr>con_host := empty_host\<lparr>files := [(''/home/u/notes'', [1]), (''/etc/hosts'', [2])]\<rparr>\<rparr>
   in fst (device_delete (demo_env JNull) ''/home/u'' litedroid_config_default c) = 0
    \<and> files (con_host (snd (device_delete (demo_env JNull) ''/home/u'' litedroid_config_default c))) = [(''/etc/hosts'', [2])]"
  using delete_absolute_path [of "''/home/u''"
      "demo_console\<lparr>con_host := empty_host\<lparr>files := [(''/home/u/notes'', [1]), (''/etc/hosts'', [2])]\<rparr>\<rparr>" "demo_env JNull" litedroid_config_default]
  by (simp add: Let_def demo_console_def empty_host_def is_absolute_def slash_def is_dir_def beneath_def starts_with_def)

end
