(* ===== verification/LD_Gui.thy ===== *)
theory LD_Gui
  imports LD_Cli
begin

text \<open>
  The control panel, \<^verbatim>\<open>apps/gui\<close>: its state, the operations behind its buttons and the periodic refresh.  The layout of
  the window is drawn by \<open>egui\<close> and has no effect on the state; a frame is the list of the widgets clicked in it.  Times are
  in milliseconds.
\<close>

record DeviceRow =
  row_name :: string
  row_android_version :: string
  row_ram_mb :: u64
  row_vcpu_count :: u64

record LiteDroidApp =
  app_devices :: "DeviceRow list"
  selected_device :: string
  daemon_online :: bool
  app_power_state :: string
  app_stats :: string
  app_diagnostics :: "string list"
  status_message :: string
  last_refresh :: int
  app_rendering_mode :: string
  auto_start_attempted :: bool

text \<open>The environment: as for the command line, with one connection per request and the path of the executable.\<close>

record gui_env =
  gui_libs :: libs
  gui_codec :: ipc_codec
  gui_calls :: sys_calls
  gui_conns :: "nat \<Rightarrow> (io_error, socket) outcome"
  gui_read_timeout :: "io_error option"
  gui_write_timeout :: "io_error option"
  current_exe :: "path option"

record gui_world =
  gw_host :: host
  gw_next_conn :: nat
  gw_sent :: "bytes list"

type_synonym gui = "LiteDroidApp \<times> gui_world"

section \<open>The daemon\<close>

definition gui_connect :: "gui_env \<Rightarrow> gui_world \<Rightarrow> socket ld_result \<times> gui_world" where
  "gui_connect E w =
     (ipc_connect (gui_conns E (gw_next_conn w)) (gui_read_timeout E) (gui_write_timeout E),
      w\<lparr>gw_next_conn := Suc (gw_next_conn w)\<rparr>)"

definition ensure_daemon :: "gui_env \<Rightarrow> gui_world \<Rightarrow> gui_world" where
  "ensure_daemon E w =
     (case gui_connect E w of
        (Ok _, w1) \<Rightarrow> w1
      | (_, w1) \<Rightarrow>
          (case Option.bind (current_exe E) parent of
             None \<Rightarrow> w1
           | Some directory \<Rightarrow>
               (let daemon_path = path_join directory ''litedroid-daemon'' in
                if is_file (gw_host w1) daemon_path
                then w1\<lparr>gw_host := snd (spawn (progs (gui_libs E)) daemon_path [] (gw_host w1))\<rparr>
                else w1)))"

definition ipc_call :: "gui_env \<Rightarrow> string \<Rightarrow> json \<Rightarrow> gui \<Rightarrow> json option \<times> gui" where
  "ipc_call E meth params = (\<lambda>(a, w).
     case gui_connect E w of
       (Ok s, w1) \<Rightarrow>
         (case send_request (gui_codec E) (new_v4 (gui_libs E)) meth params s of (r, t) \<Rightarrow>
            let w2 = w1\<lparr>gw_sent := gw_sent w1 @ [sent t]\<rparr>; a1 = a\<lparr>daemon_online := True\<rparr> in
            case r of
              Ok response \<Rightarrow>
                (if success response then (resp_result response, (a1, w2))
                 else (None, (a1\<lparr>status_message := or_str (resp_error response) ''Request failed''\<rparr>, w2)))
            | Err e \<Rightarrow> (None, (a1\<lparr>status_message := error_text e\<rparr>, w2))
            | Panic \<Rightarrow> (None, (a1, w2)))
     | (Err e, w1) \<Rightarrow>
         (None, (a\<lparr>daemon_online := False, status_message := ''Daemon unavailable: '' @ error_text e\<rparr>, w1))
     | (Panic, w1) \<Rightarrow> (None, (a, w1)))"

section \<open>Refreshing\<close>

text \<open>\<open>LiteDroidConfig::load().unwrap_or_default()\<close>.\<close>

definition load_or_default :: "gui_env \<Rightarrow> gui_world \<Rightarrow> LiteDroidConfig \<times> gui_world" where
  "load_or_default E w =
     (case config_load (gui_libs E) (gw_host w) of
        (Ok c, h) \<Rightarrow> (c, w\<lparr>gw_host := h\<rparr>)
      | (_, h) \<Rightarrow> (litedroid_config_default, w\<lparr>gw_host := h\<rparr>))"

definition device_row :: "json \<Rightarrow> DeviceRow" where
  "device_row md =
     \<lparr>row_name = or_str (get_str ''name'' md) ''Unknown'',
      row_android_version = or_str (get_str ''android_version'' md) ''?'',
      row_ram_mb = or_u64 (get_u64 ''ram_mb'' md),
      row_vcpu_count = or_u64 (get_u64 ''vcpu_count'' md)\<rparr>"

definition list_devices :: "gui_env \<Rightarrow> LiteDroidConfig \<Rightarrow> host \<Rightarrow> DeviceRow list" where
  "list_devices E c h =
     map device_row (List.map_filter (entry_metadata (gui_libs E) h) (entries (devices_dir c h) h))"

text \<open>A selection that is not in the list moves to the first device, if there is one.\<close>

definition reselect :: "LiteDroidApp \<Rightarrow> LiteDroidApp" where
  "reselect a =
     (if list_ex (\<lambda>d. row_name d = selected_device a) (app_devices a) then a
      else case app_devices a of d # _ \<Rightarrow> a\<lparr>selected_device := row_name d\<rparr> | [] \<Rightarrow> a)"

definition start_params :: "LiteDroidApp \<Rightarrow> json" where
  "start_params a = JObject [(''device'', JString (selected_device a))]"

definition poll_status :: "gui_env \<Rightarrow> gui \<Rightarrow> gui" where
  "poll_status E g =
     (case ipc_call E ''device.status'' (JObject []) g of
        (Some st, (a, w)) \<Rightarrow> (a\<lparr>app_power_state := or_str (get_str ''power_state'' st) ''unknown''\<rparr>, w)
      | (None, g1) \<Rightarrow> g1)"

definition auto_start :: "gui_env \<Rightarrow> gui \<Rightarrow> gui" where
  "auto_start E = (\<lambda>(a, w).
     if daemon_online a \<and> app_devices a \<noteq> [] \<and> \<not> auto_start_attempted a then
       (let a1 = a\<lparr>auto_start_attempted := True\<rparr> in
        case ipc_call E ''device.start'' (start_params a1) (a1, w) of
          (Some _, (a2, w2)) \<Rightarrow> (a2\<lparr>status_message := ''Starting Android emulator''\<rparr>, w2)
        | (None, g) \<Rightarrow> g)
     else (a, w))"

definition refresh :: "gui_env \<Rightarrow> int \<Rightarrow> gui \<Rightarrow> gui" where
  "refresh E now = (\<lambda>(a, w).
     case load_or_default E w of (config, w1) \<Rightarrow>
       let h = snd (ensure_default_device (gui_libs E) config (gw_host w1));
           w2 = w1\<lparr>gw_host := h\<rparr>;
           a1 = reselect (a\<lparr>app_devices := list_devices E config h\<rparr>);
           (a2, w3) = auto_start E (poll_status E (a1, w2))
       in (a2\<lparr>last_refresh := now\<rparr>, w3))"

definition gui_run_diagnostics :: "gui_env \<Rightarrow> gui \<Rightarrow> gui" where
  "gui_run_diagnostics E = (\<lambda>(a, w).
     case run_diagnostics (gui_calls E) (progs (gui_libs E)) (gw_host w) of (rs, h) \<Rightarrow>
       (a\<lparr>app_diagnostics := map result_text rs, status_message := ''Diagnostics complete''\<rparr>, w\<lparr>gw_host := h\<rparr>))"

section \<open>Creating a profile\<close>

definition pixel_name :: "LiteDroidApp \<Rightarrow> string" where
  "pixel_name a = ''PixelLite-'' @ show_nat (length (app_devices a) + 1)"

definition gui_metadata :: "string \<Rightarrow> DeviceConfig \<Rightarrow> json" where
  "gui_metadata name device =
     JObject [(''name'', JString name), (''id'', JString (dev_id device)), (''android_version'', JString (android_version device)),
       (''ram_mb'', JUInt (ram_mb device)), (''vcpu_count'', json_u32 (vcpu_count device)),
       (''width'', json_u32 (width (display device))), (''height'', json_u32 (height (display device))),
       (''dpi'', json_u32 (dpi (display device)))]"

text \<open>\<open>None\<close> is the panic of \<open>unwrap\<close> on a profile that cannot be printed.\<close>

definition gui_create_device :: "gui_env \<Rightarrow> int \<Rightarrow> gui \<Rightarrow> gui option" where
  "gui_create_device E now = (\<lambda>(a, w).
     case load_or_default E w of (config, w1) \<Rightarrow>
       let name = pixel_name a; directory = path_join (devices_dir config (gw_host w1)) name;
           md = gui_metadata name (device_config_default (new_v4 (gui_libs E))) in
       case create_dir_all directory (gw_host w1) of
         (Ok _, h) \<Rightarrow>
           (case json_to_string_pretty (gui_libs E) md of
              Ok text \<Rightarrow>
                (case write_file (path_join directory ''metadata.json'') (as_bytes text) h of
                   (Ok _, h2) \<Rightarrow> Some (refresh E now (a\<lparr>status_message := ''Created '' @ name\<rparr>, w1\<lparr>gw_host := h2\<rparr>))
                 | (Err e, h2) \<Rightarrow> Some (a\<lparr>status_message := ''Create failed: '' @ e\<rparr>, w1\<lparr>gw_host := h2\<rparr>)
                 | (Panic, h2) \<Rightarrow> None)
            | _ \<Rightarrow> None)
       | (Err e, h) \<Rightarrow> Some (a\<lparr>status_message := ''Create failed: '' @ e\<rparr>, w1\<lparr>gw_host := h\<rparr>)
       | (Panic, h) \<Rightarrow> None)"

section \<open>Frames\<close>

definition rendering_mode :: "host \<Rightarrow> string" where
  "rendering_mode h = (if env_vars h ''LIBGL_ALWAYS_SOFTWARE'' = Some ''1'' then ''CPU software'' else ''Hardware/automatic'')"

definition configure_rendering :: "host \<Rightarrow> host" where
  "configure_rendering h =
     (if env_vars h ''LIBGL_ALWAYS_SOFTWARE'' \<noteq> None then h
      else if \<not> exists h ''/dev/dri'' then h\<lparr>env_vars := (env_vars h)(''LIBGL_ALWAYS_SOFTWARE'' \<mapsto> ''1'')\<rparr>
      else h)"

definition app_default :: "gui_env \<Rightarrow> int \<Rightarrow> gui_world \<Rightarrow> gui" where
  "app_default E now w =
     (let w1 = ensure_daemon E w in
      refresh E now
        (\<lparr>app_devices = [], selected_device = ''default'', daemon_online = False, app_power_state = ''offline'',
          app_stats = ''No VM metrics available'', app_diagnostics = [], status_message = ''Ready'',
          last_refresh = now - 10000, app_rendering_mode = rendering_mode (gw_host w1), auto_start_attempted = False\<rparr>, w1))"

datatype widget =
    SelectDevice string
  | RefreshDevices
  | CreateProfile
  | StartDevice
  | StopDevice
  | RestartDevice
  | WipeData
  | RunDiagnostics
  | CaptureScreenshot
  | RefreshMetrics

text \<open>A request whose success is acknowledged in the status line.\<close>

definition acknowledged :: "gui_env \<Rightarrow> string \<Rightarrow> json \<Rightarrow> string \<Rightarrow> gui \<Rightarrow> gui" where
  "acknowledged E meth params msg g =
     (case ipc_call E meth params g of
        (Some _, (a, w)) \<Rightarrow> (a\<lparr>status_message := msg\<rparr>, w)
      | (None, g1) \<Rightarrow> g1)"

text \<open>What a click does; the buttons that need the daemon are disabled while it is offline.\<close>

fun click :: "gui_env \<Rightarrow> int \<Rightarrow> widget \<Rightarrow> gui \<Rightarrow> gui option" where
  "click E now (SelectDevice n) (a, w) =
     Some (if list_ex (\<lambda>d. row_name d = n) (app_devices a) then (a\<lparr>selected_device := n\<rparr>, w) else (a, w))"
| "click E now RefreshDevices g = Some (refresh E now g)"
| "click E now CreateProfile g = gui_create_device E now g"
| "click E now StartDevice g = Some (if daemon_online (fst g)
     then acknowledged E ''device.start'' (start_params (fst g)) ''Android VM start requested'' g else g)"
| "click E now StopDevice g = Some (if daemon_online (fst g)
     then acknowledged E ''device.stop'' (JObject []) ''Android VM stop requested'' g else g)"
| "click E now RestartDevice g = Some (if daemon_online (fst g)
     then acknowledged E ''device.restart'' (JObject []) ''Restarting Android emulator'' g else g)"
| "click E now WipeData g = Some (if daemon_online (fst g)
     then acknowledged E ''device.wipe'' (JObject []) ''Resetting Android device data'' g else g)"
| "click E now RunDiagnostics g = Some (gui_run_diagnostics E g)"
| "click E now CaptureScreenshot g = Some (if daemon_online (fst g) then
     (case ipc_call E ''device.screenshot'' (JObject []) g of
        (Some result, (a, w)) \<Rightarrow>
          (a\<lparr>status_message := (case get_str ''path'' result of Some p \<Rightarrow> ''Screenshot saved: '' @ p | None \<Rightarrow> ''Screenshot captured'')\<rparr>, w)
      | (None, g1) \<Rightarrow> g1) else g)"
| "click E now RefreshMetrics g = Some
     (case ipc_call E ''vm.stats'' (JObject []) g of
        (Some stats, (a, w)) \<Rightarrow> (a\<lparr>app_stats := (case json_to_string_pretty (gui_libs E) stats of Ok t \<Rightarrow> t | _ \<Rightarrow> [])\<rparr>, w)
      | (None, g1) \<Rightarrow> g1)"

fun clicks :: "gui_env \<Rightarrow> int \<Rightarrow> widget list \<Rightarrow> gui \<Rightarrow> gui option" where
  "clicks E now [] g = Some g"
| "clicks E now (b # bs) g = Option.bind (click E now b g) (clicks E now bs)"

definition update :: "gui_env \<Rightarrow> int \<Rightarrow> widget list \<Rightarrow> gui \<Rightarrow> gui option" where
  "update E now bs g =
     clicks E now bs (if now - last_refresh (fst g) > 3000 then refresh E now g else g)"

fun frames :: "gui_env \<Rightarrow> (int \<times> widget list) list \<Rightarrow> gui \<Rightarrow> gui option" where
  "frames E [] g = Some g"
| "frames E ((now, bs) # fs) g = Option.bind (update E now bs g) (frames E fs)"

section \<open>The selection\<close>

text \<open>The selected device is one of the list, unless the list is empty.\<close>

definition selection_ok :: "LiteDroidApp \<Rightarrow> bool" where
  "selection_ok a \<longleftrightarrow> app_devices a = [] \<or> list_ex (\<lambda>d. row_name d = selected_device a) (app_devices a)"

definition same_list :: "LiteDroidApp \<Rightarrow> LiteDroidApp \<Rightarrow> bool" where
  "same_list a b \<longleftrightarrow> app_devices a = app_devices b \<and> selected_device a = selected_device b
     \<and> (auto_start_attempted b \<longrightarrow> auto_start_attempted a)"

lemma selection_ok_message [simp]: "selection_ok (a\<lparr>status_message := m\<rparr>) = selection_ok a"
  by (simp add: selection_ok_def)

lemma same_listD: "same_list a b \<Longrightarrow> selection_ok a = selection_ok b"
  by (simp add: same_list_def selection_ok_def)

lemma ipc_call_same: "ipc_call E meth p (a, w) = (r, (a', w')) \<Longrightarrow> same_list a' a"
  by (auto simp: ipc_call_def same_list_def Let_def split: prod.splits outcome.splits if_splits)

lemma acknowledged_same: "same_list (fst (acknowledged E meth p msg g)) (fst g)"
proof -
  obtain r a' w' where i: "ipc_call E meth p g = (r, (a', w'))"
    by (metis prod.exhaust)
  then have "same_list a' (fst g)"
    by (cases g) (simp add: ipc_call_same)
  with i show ?thesis
    by (simp add: acknowledged_def same_list_def split: option.splits)
qed

lemma poll_status_same: "same_list (fst (poll_status E g)) (fst g)"
proof -
  obtain r a' w' where i: "ipc_call E ''device.status'' (JObject []) g = (r, (a', w'))"
    by (metis prod.exhaust)
  then have "same_list a' (fst g)"
    by (cases g) (simp add: ipc_call_same)
  with i show ?thesis
    by (simp add: poll_status_def same_list_def split: option.splits)
qed

lemma auto_start_same: "same_list (fst (auto_start E g)) (fst g)"
proof (cases "daemon_online (fst g) \<and> app_devices (fst g) \<noteq> [] \<and> \<not> auto_start_attempted (fst g)")
  case True
  let ?a = "(fst g)\<lparr>auto_start_attempted := True\<rparr>"
  obtain r a' w' where i: "ipc_call E ''device.start'' (start_params ?a) (?a, snd g) = (r, (a', w'))"
    by (metis prod.exhaust)
  then have "same_list a' ?a" by (rule ipc_call_same)
  with True i show ?thesis
    by (cases g) (auto simp: auto_start_def same_list_def Let_def split: option.splits)
next
  case False
  then show ?thesis by (cases g) (auto simp: auto_start_def same_list_def)
qed

lemma reselect_ok: "selection_ok (reselect a)"
  by (auto simp: reselect_def selection_ok_def split: list.splits)

lemma refresh_ok: "selection_ok (fst (refresh E now g))"
proof -
  obtain a w where g: "g = (a, w)" by fastforce
  obtain config w1 where l: "load_or_default E w = (config, w1)" by fastforce
  let ?h = "snd (ensure_default_device (gui_libs E) config (gw_host w1))"
  let ?g = "(reselect (a\<lparr>app_devices := list_devices E config ?h\<rparr>), w1\<lparr>gw_host := ?h\<rparr>)"
  have "selection_ok (fst (auto_start E (poll_status E ?g)))"
    using same_listD [OF auto_start_same] same_listD [OF poll_status_same, of E ?g] reselect_ok by simp
  then show ?thesis
    by (simp add: g refresh_def l Let_def case_prod_beta selection_ok_def)
qed

lemma reselect_devices [simp]: "app_devices (reselect a) = app_devices a"
  by (simp add: reselect_def split: list.splits)

lemma refresh_lists:
  assumes "load_or_default E w = (config, w1)"
  shows "app_devices (fst (refresh E now (a, w))) =
      list_devices E config (snd (ensure_default_device (gui_libs E) config (gw_host w1)))"
    and "last_refresh (fst (refresh E now (a, w))) = now"
proof -
  let ?h = "snd (ensure_default_device (gui_libs E) config (gw_host w1))"
  let ?g = "(reselect (a\<lparr>app_devices := list_devices E config ?h\<rparr>), w1\<lparr>gw_host := ?h\<rparr>)"
  have "app_devices (fst (auto_start E (poll_status E ?g))) = app_devices (fst ?g)"
    using auto_start_same [of E "poll_status E ?g"] poll_status_same [of E ?g] by (simp add: same_list_def)
  then show "app_devices (fst (refresh E now (a, w))) = list_devices E config ?h"
    by (simp add: refresh_def assms Let_def case_prod_beta)
  show "last_refresh (fst (refresh E now (a, w))) = now"
    by (simp add: refresh_def assms Let_def case_prod_beta)
qed

lemma click_ok:
  assumes "click E now b g = Some g'" and "selection_ok (fst g)"
  shows "selection_ok (fst g')"
proof (cases b)
  case (SelectDevice n)
  with assms show ?thesis
    by (cases g) (auto simp: selection_ok_def split: if_splits)
next
  case RefreshDevices
  with assms show ?thesis using refresh_ok [of E now g] by simp
next
  case CreateProfile
  with assms show ?thesis
    by (cases g) (auto simp: gui_create_device_def Let_def refresh_ok split: prod.splits outcome.splits)
next
  case RunDiagnostics
  with assms show ?thesis
    by (cases g) (auto simp: gui_run_diagnostics_def selection_ok_def split: prod.splits)
next
  case CaptureScreenshot
  obtain r a' w' where i: "ipc_call E ''device.screenshot'' (JObject []) g = (r, (a', w'))"
    by (metis prod.exhaust)
  then have "same_list a' (fst g)"
    by (cases g) (simp add: ipc_call_same)
  with i CaptureScreenshot assms show ?thesis
    by (auto simp: selection_ok_def same_list_def split: if_splits option.splits)
next
  case RefreshMetrics
  obtain r a' w' where i: "ipc_call E ''vm.stats'' (JObject []) g = (r, (a', w'))"
    by (metis prod.exhaust)
  then have "same_list a' (fst g)"
    by (cases g) (simp add: ipc_call_same)
  with i RefreshMetrics assms show ?thesis
    by (auto simp: selection_ok_def same_list_def split: if_splits option.splits)
qed (use assms in \<open>auto simp: same_listD [OF acknowledged_same] split: if_splits\<close>)

lemma update_ok:
  assumes "update E now bs g = Some g'" and "selection_ok (fst g)"
  shows "selection_ok (fst g')"
proof -
  have "selection_ok (fst g')" if "clicks E now bs u = Some g'" "selection_ok (fst u)" for u
    using that by (induction bs arbitrary: u) (auto simp: bind_eq_Some_conv intro: click_ok)
  with assms refresh_ok show ?thesis
    by (auto simp: update_def split: if_splits)
qed

text \<open>However the panel is used and whatever the daemon answers, it never acts on a device that is not listed.\<close>


definition demo_gui_env :: gui_env where
  "demo_gui_env = \<lparr>gui_libs = plain_libs (JObject [(''name'', JString ''tablet'')]) litedroid_config_default,
     gui_codec = \<lparr>request_to_vec = (\<lambda>_. Err ''no codec''), request_from_slice = (\<lambda>_. Err ''no codec''),
       response_to_vec = (\<lambda>_. Err ''no codec''), response_from_slice = (\<lambda>_. Err ''no codec''), event_to_vec = (\<lambda>_. Err ''no codec'')\<rparr>,
     gui_calls = \<lparr>uname_machine = Some ''x86_64'', kvm_api_version = 12, statvfs = (\<lambda>_. None), netlink_fd = 3\<rparr>,
     gui_conns = (\<lambda>_. Err ''Connection refused (os error 111)''), gui_read_timeout = None, gui_write_timeout = None,
     current_exe = None\<rparr>"

abbreviation demo_gui_world :: gui_world where
  "demo_gui_world \<equiv> \<lparr>gw_host = empty_host, gw_next_conn = 0, gw_sent = []\<rparr>"

lemma demo_gui_devices: "length (app_devices (fst (app_default demo_gui_env 0 demo_gui_world))) = 1"
proof -
  obtain config w1 where l: "load_or_default demo_gui_env (ensure_daemon demo_gui_env demo_gui_world) = (config, w1)"
    by fastforce
  have "length (case load_or_default demo_gui_env (ensure_daemon demo_gui_env demo_gui_world) of (config, w1) \<Rightarrow>
      list_devices demo_gui_env config (snd (ensure_default_device (gui_libs demo_gui_env) config (gw_host w1)))) = 1"
    by code_simp
  with l show ?thesis
    by (simp add: app_default_def Let_def refresh_lists(1) [OF l])
qed


text \<open>
  The name of a new profile is built from the number of profiles: when a device of that name exists already (after one of the
  others has been deleted), its file is replaced.
\<close>

theorem create_device_overwrites:
  assumes "load_or_default E w = (config, w1)" and "json_to_string_pretty (gui_libs E)
      (gui_metadata (pixel_name a) (device_config_default (new_v4 (gui_libs E)))) = Ok t"
    and "create_dir_all (path_join (devices_dir config (gw_host w1)) (pixel_name a)) (gw_host w1) = (Ok (), h)"
    and "write_file (metadata_path config (pixel_name a) (gw_host w1)) (as_bytes t) h = (Ok (), h2)"
  shows "gui_create_device E now (a, w) = Some (refresh E now (a\<lparr>status_message := ''Created '' @ pixel_name a\<rparr>, w1\<lparr>gw_host := h2\<rparr>))
    \<and> map_of (files h2) (metadata_path config (pixel_name a) (gw_host w1)) = Some (as_bytes t)"
  using assms read_write_file [OF assms(4)]
  by (simp add: gui_create_device_def Let_def metadata_path_def)

end
