(* ===== verification/LD_GuiView.thy ===== *)
theory LD_GuiView
  imports LD_Gui
begin

text \<open>
  The window of the control panel: what a frame draws, as the list of its elements in order, and how the program starts.  Sizes,
  spacing and scrolling belong to \<open>egui\<close>.  The elements are drawn from the state at that moment, so a click changes what follows it.
\<close>

datatype color = Rgb nat nat nat | LightBlue

datatype ui =
    Heading string
  | UiLabel string
  | ColoredLabel color string
  | Small string
  | Weak string
  | Monospace string
  | Separator
  | Button string bool
  | SelectableLabel string bool

definition header_panel :: "LiteDroidApp \<Rightarrow> ui list" where
  "header_panel a =
     [Heading ''LiteDroid'', UiLabel ''Android virtualization control panel'', Separator,
      (if daemon_online a then ColoredLabel (Rgb 85 190 120) ''Daemon online''
       else ColoredLabel (Rgb 220 120 90) ''Daemon offline''),
      Separator, Small (''Renderer: '' @ app_rendering_mode a)]"

definition device_entry :: "string \<Rightarrow> DeviceRow \<Rightarrow> ui list" where
  "device_entry selected d =
     [SelectableLabel (row_name d) (selected = row_name d),
      Small (''Android '' @ row_android_version d @ ''  |  '' @ show_nat (unat (row_ram_mb d)) @ '' MB  |  ''
        @ show_nat (unat (row_vcpu_count d)) @ '' vCPU'')]"

definition devices_panel :: "LiteDroidApp \<Rightarrow> ui list" where
  "devices_panel a =
     [Heading ''Devices''] @ (if app_devices a = [] then [Weak ''No device profiles found.''] else [])
     @ concat (map (device_entry (selected_device a)) (app_devices a))
     @ [Separator, Button ''Refresh devices'' True, Button ''Create device profile'' True]"

definition central_panel :: "LiteDroidApp \<Rightarrow> ui list" where
  "central_panel a =
     [Heading (selected_device a @ '' device''), UiLabel ''Power state:'', ColoredLabel LightBlue (app_power_state a),
      Button ''Start device'' (daemon_online a), Button ''Stop device'' (daemon_online a), Button ''Restart'' (daemon_online a),
      Button ''Wipe data'' (daemon_online a), Button ''Run diagnostics'' True, Button ''Capture screenshot'' (daemon_online a),
      Separator, Heading ''VM metrics'', Button ''Refresh metrics'' True, Monospace (app_stats a),
      Separator, Heading ''Diagnostics'']
     @ (if app_diagnostics a = [] then [Weak ''Run diagnostics to inspect this host.''] else [])
     @ map UiLabel (app_diagnostics a)"

definition status_panel :: "LiteDroidApp \<Rightarrow> ui list" where
  "status_panel a = [UiLabel (status_message a), Small (''IPC: '' @ DAEMON_SOCKET_PATH)]"

definition view :: "LiteDroidApp \<Rightarrow> ui list" where
  "view a = header_panel a @ devices_panel a @ central_panel a @ status_panel a"

definition gui_main :: "gui_env \<Rightarrow> int \<Rightarrow> gui_world \<Rightarrow> gui" where
  "gui_main E now w = app_default E now (w\<lparr>gw_host := configure_rendering (gw_host w)\<rparr>)"

section \<open>The buttons and what they do\<close>

fun element_of :: "widget \<Rightarrow> LiteDroidApp \<Rightarrow> ui" where
  "element_of (SelectDevice n) a = SelectableLabel n (selected_device a = n)"
| "element_of RefreshDevices a = Button ''Refresh devices'' True"
| "element_of CreateProfile a = Button ''Create device profile'' True"
| "element_of StartDevice a = Button ''Start device'' True"
| "element_of StopDevice a = Button ''Stop device'' True"
| "element_of RestartDevice a = Button ''Restart'' True"
| "element_of WipeData a = Button ''Wipe data'' True"
| "element_of RunDiagnostics a = Button ''Run diagnostics'' True"
| "element_of CaptureScreenshot a = Button ''Capture screenshot'' True"
| "element_of RefreshMetrics a = Button ''Refresh metrics'' True"

lemma device_entry_shown:
  "list_ex (\<lambda>d. row_name d = n) ds \<Longrightarrow> SelectableLabel n (s = n) \<in> set (concat (map (device_entry s) ds))"
  by (induction ds) (auto simp: device_entry_def)

text \<open>Nothing happens except through an element that the window shows and that is enabled.\<close>

theorem only_shown_elements_act:
  assumes "click E now b (a, w) \<noteq> Some (a, w)"
  shows "element_of b a \<in> set (view a)"
proof (cases b)
  case (SelectDevice n)
  with assms have "list_ex (\<lambda>d. row_name d = n) (app_devices a)"
    by (auto split: if_splits)
  with SelectDevice show ?thesis
    using device_entry_shown [of n "app_devices a" "selected_device a"] by (simp add: view_def devices_panel_def)
qed (use assms in \<open>auto simp: view_def devices_panel_def central_panel_def split: if_splits\<close>)

text \<open>Of several devices with distinct names at most one is highlighted, and it is the selected one.\<close>

lemma highlighted_is_selected: "SelectableLabel n True \<in> set (view a) \<Longrightarrow> n = selected_device a"
  by (auto simp: view_def header_panel_def devices_panel_def device_entry_def central_panel_def status_panel_def split: if_splits)

section \<open>Rendering\<close>

lemma ensure_daemon_env [simp]: "env_vars (gw_host (ensure_daemon E w)) = env_vars (gw_host w)"
  by (auto simp: ensure_daemon_def gui_connect_def spawn_def Let_def split: prod.splits outcome.splits option.splits)

lemma rendering_mode_cong: "env_vars h = env_vars h' \<Longrightarrow> rendering_mode h = rendering_mode h'"
  by (simp add: rendering_mode_def)

lemma ipc_call_mode: "ipc_call E meth p g = (r, (a', w')) \<Longrightarrow> app_rendering_mode a' = app_rendering_mode (fst g)"
  by (cases g) (auto simp: ipc_call_def Let_def split: prod.splits outcome.splits if_splits)

lemma poll_status_mode: "app_rendering_mode (fst (poll_status E g)) = app_rendering_mode (fst g)"
  by (auto simp: poll_status_def dest: ipc_call_mode split: prod.splits option.splits)

lemma auto_start_mode: "app_rendering_mode (fst (auto_start E g)) = app_rendering_mode (fst g)"
  by (cases g) (auto simp: auto_start_def Let_def dest: ipc_call_mode split: prod.splits option.splits)

lemma reselect_mode [simp]: "app_rendering_mode (reselect a) = app_rendering_mode a"
  by (simp add: reselect_def split: list.splits)

lemma refresh_mode: "app_rendering_mode (fst (refresh E now g)) = app_rendering_mode (fst g)"
  by (cases g) (simp add: refresh_def Let_def case_prod_beta auto_start_mode poll_status_mode)

text \<open>
  The panel reports software rendering exactly when it is forced by the environment, or when nothing is said there and the host has no
  rendering device.
\<close>

theorem rendering_reported:
  "app_rendering_mode (fst (gui_main E now w)) =
     (case env_vars (gw_host w) ''LIBGL_ALWAYS_SOFTWARE'' of
        Some v \<Rightarrow> if v = ''1'' then ''CPU software'' else ''Hardware/automatic''
      | None \<Rightarrow> if exists (gw_host w) ''/dev/dri'' then ''Hardware/automatic'' else ''CPU software'')"
  by (simp add: gui_main_def app_default_def Let_def refresh_mode rendering_mode_def configure_rendering_def split: option.splits)

end
