(* ===== verification/Spec2Isabelle.thy ===== *)
theory Spec2Isabelle
  imports LD_GuestIo LD_Bus LD_Graphics LD_Input LD_Adb LD_AvdSpec LD_DaemonRefine LD_DaemonMain LD_CliSpec LD_GuiView
begin

text \<open>
  LiteDroid runs Android on Linux.  A virtual machine monitor on KVM (\<^verbatim>\<open>src/crates/vmm\<close> and the crates below it)
  boots a Linux kernel and emulates the devices of the guest; a daemon (\<^verbatim>\<open>src/apps/daemon\<close>) owns the one emulator process
  of the host and serves requests over a Unix socket; a command line and a control panel (\<^verbatim>\<open>src/apps/cli\<close>,
  \<^verbatim>\<open>src/apps/gui\<close>) are its clients.  This development models those parts function by function and proves what they
  promise to each other.

  \<^bold>\<open>Conventions.\<close>  A Rust function that returns \<open>Result\<close> or may panic is a function to \<open>outcome\<close> (\<open>Ok\<close>, \<open>Err\<close>, \<open>Panic\<close>); one that
  also changes state is an \<open>action\<close>.  Integers are machine words of their width and wrap, as the release profile of
  \<^verbatim>\<open>src/Cargo.toml\<close> compiles them; slices and indices out of range and zero divisors panic.  A string is the list of its
  UTF-8 bytes.  Code outside the repository is a parameter: the ioctls of KVM, the file and socket calls of the kernel, the printers and
  readers of JSON and TOML, the programs of the Android SDK, the channel of the input queue.  What is assumed of a parameter is a
  hypothesis of the theorem that needs it, and a witness shows the hypothesis holds of a concrete instance.

  \<^bold>\<open>Shared theories.\<close>
    \<^item> \<open>LD_Prelude\<close>: \<open>outcome\<close>, \<open>action\<close>, generic lemmas and collections of rules; \<open>LD_Bytes\<close>: little- and big-endian encodings;
      \<open>LD_Text\<close>: the string functions of the standard library; \<open>LD_Core\<close>: constants, errors, configuration types and
      \<open>validate\<close> (\<^verbatim>\<open>crates/core\<close>).
    \<^item> \<open>LD_Host\<close>: files, directories, environment and child processes of the host; \<open>LD_Socket\<close>: a stream connection;
      \<open>LD_Json\<close>: JSON values.

  \<^bold>\<open>The monitor.\<close>
    \<^item> \<open>LD_Memory\<close> (\<^verbatim>\<open>crates/memory\<close>): guest RAM with checked reads and writes, and a locale for bounds-checked stores.
    \<^item> \<open>LD_Devices\<close> (\<^verbatim>\<open>crates/devices\<close>): the trait of the devices as the locales \<open>virt_device\<close> and \<open>virtio_device\<close>, the bus,
      the console and entropy devices.  \<open>LD_Storage\<close>, \<open>LD_Network\<close>, \<open>LD_Audio\<close> interpret the locale for their devices, and \<open>LD_Bus\<close>
      for the union of the five, whose bus routes every access to the right device.
    \<^item> \<open>LD_VirtioBlock\<close>, \<open>LD_BlockSpec\<close> (\<^verbatim>\<open>crates/vmm\<close>, \<open>VirtioBlock\<close>): registers, queue and requests of the disk the guest
      boots from.  Reads and writes transfer exactly the bytes of the image, a notification never panics unless the queue size is zero,
      and serving the queue makes progress up to the first failing request.
    \<^item> \<open>LD_Kvm\<close> (\<^verbatim>\<open>crates/kvm\<close>): the wrappers, each recording the ioctl it issues, and the CPUID filter.
    \<^item> \<open>LD_Boot\<close>, \<open>LD_BootSpec\<close> (\<^verbatim>\<open>crates/vmm\<close>, up to \<open>setup_boot\<close>): creation, loading, both boot paths.  The boot
      page tables are checked against the four-level walk of the processor, and the selectors against the descriptors in memory.
    \<^item> \<open>LD_Run\<close> (\<^verbatim>\<open>crates/vmm\<close>, \<open>run\<close>): one iteration, the loop, and its interleaving with \<open>stop\<close>.
    \<^item> \<open>LD_GuestIo\<close>: block I/O from the exit of the virtual CPU to the image.  Serving a batch of requests refines an abstract disk,
      a file of bytes (\<open>abs_serve\<close>); \<open>batch_ok\<close> says when the requests of a batch do not overwrite one another.
    \<^item> \<open>LD_Graphics\<close>, \<open>LD_Input\<close>: framebuffer and input events.

  \<^bold>\<open>Services and clients.\<close>
    \<^item> \<open>LD_Adb\<close> (\<^verbatim>\<open>crates/adb\<close>): wire format and server; the client handler refines an abstract \<open>conversation\<close>.
    \<^item> \<open>LD_Ipc\<close> (\<^verbatim>\<open>crates/ipc\<close>): frames, client and server.
    \<^item> \<open>LD_Config\<close> (\<^verbatim>\<open>crates/config\<close>): configuration file, directory layout, device profiles, Android images.
    \<^item> \<open>LD_Daemon\<close>, \<open>LD_DaemonSpec\<close>, \<open>LD_AvdSpec\<close> (\<^verbatim>\<open>apps/daemon\<close>): request handlers, the emulator process, the accept loop
      as a step function on events (a client served, a signal, an exit of the emulator, a test of the flag).  The invariant of
      the reachable states is proved handler by handler; the requests that only look at the emulator share the locale
      \<open>poll_stable\<close>, which is interpreted for the invariant, for the cleared flag and for the refinement.
    \<^item> \<open>LD_DaemonRefine\<close>: the specification of the daemon as one emulator that is absent, up or gone (\<open>emu_trans\<close>), and the forward
      simulation of every step of the process by it.
    \<^item> \<open>LD_DaemonMain\<close> (\<^verbatim>\<open>apps/daemon\<close>, \<open>main\<close>; \<^verbatim>\<open>crates/logging\<close>): logging, PID file, socket and its mode before the loop,
      clean-up after it.
    \<^item> \<open>LD_Diagnostics\<close>, \<open>LD_Cli\<close>, \<open>LD_CliSpec\<close>: the checks of the host and the commands.
    \<^item> \<open>LD_Gui\<close>, \<open>LD_GuiView\<close> (\<^verbatim>\<open>apps/gui\<close>): the state of the control panel and its requests; the elements a frame shows,
      and that nothing happens but through an element that is shown and enabled.

  This theory composes the command line and the control panel with the daemon; the latter rests on the specification of
  \<open>LD_DaemonRefine\<close>.

  \<^bold>\<open>Loops and bounds.\<close>  No loop runs on fuel.  The run loop is a partial function, because a guest may run forever: a run that
  does not end has no value, and that it ends is proved from a measure on the exits of the guest.  The client loop of the ADB server is
  total, because every message consumes a header of the bytes received, and so is the queue loop of the block device, where the distance
  of two 16-bit indices decreases.  Frames of the IPC protocol are shorter than four gibibytes, the range of their length field.

  \<^bold>\<open>Not modelled.\<close>  The lines that are logged (the \<open>tracing\<close> calls), the metrics structs that no code uses
  (\<^verbatim>\<open>crates/core/src/metrics.rs\<close>), argument parsing by \<open>clap\<close>, sizes, spacing and scrolling in \<open>egui\<close>, unmapping of guest memory,
  and the scripts, packaging and documents of the repository.  The signal handlers of the daemon are taken to be installed when its loop
  is entered.
  Requests of the daemon are served under its lock and are atomic in the model.
\<close>

section \<open>The command line and the daemon\<close>

text \<open>
  C9. A command of the command line and the daemon that serves it agree: the daemon reads
  exactly the request the command framed, changes its state as the dispatcher says and
  sends the framed answer, and the command exits with 0 or 1 as that answer reports
  success, having touched nothing on the host itself.
\<close>

theorem cli_daemon_end_to_end:
  assumes "cli_conn E = Ok (tape (frame bs'))" and "read_timeout E = None" and "write_timeout E = None"
    and "dispatch L pid (make_request (new_v4 (cli_libs E)) meth p) w = (Some resp, w')"
    and "request_to_vec (cli_codec E) (make_request (new_v4 (cli_libs E)) meth p) = Ok bs"
    and "request_from_slice (cli_codec E) bs = Ok (make_request (new_v4 (cli_libs E)) meth p)"
    and "response_to_vec (cli_codec E) resp = Ok bs'" and "response_from_slice (cli_codec E) bs' = Ok resp"
    and "length bs < 2 ^ 32" and "length bs' < 2 ^ 32"
  shows "handle_request (cli_codec E) L pid (tape (frame bs), w) = ((tape [])\<lparr>sent := frame bs'\<rparr>, w')
    \<and> fst (request E meth p c) = (if success resp then 0 else 1)
    \<and> to_daemon (snd (request E meth p c)) = to_daemon c @ frame bs
    \<and> con_host (snd (request E meth p c)) = con_host c"
proof -
  note x = ipc_exchange [OF assms(5,6,4,7,8,9,10), of "tape (frame bs')" "tape (frame bs)"]
  have h: "handle_request (cli_codec E) L pid (tape (frame bs), w) = ((tape [])\<lparr>sent := frame bs'\<rparr>, w')"
    and s: "send_request (cli_codec E) (new_v4 (cli_libs E)) meth p (tape (frame bs')) = (Ok resp, (tape [])\<lparr>sent := frame bs\<rparr>)"
    using x by (simp_all add: tape_def)
  have "ipc E meth p c = (Some resp, c\<lparr>to_daemon := to_daemon c @ frame bs\<rparr>)"
    using assms(1-3) s by (simp add: ipc_def ipc_connect_def tape_def)
  with h show ?thesis
    by (simp add: request_def print_resp_def println_def eprintln_def split: option.splits)
qed

definition ping_response :: IpcResponse where
  "ping_response = make_ok [] (JObject [(''pong'', JBool True), (''pid'', JUInt 42)])"

definition ping_env :: cli_env where
  "ping_env = (demo_env JNull)\<lparr>cli_libs := (plain_libs JNull litedroid_config_default)\<lparr>new_v4 := []\<rparr>,
     cli_codec := pair_codec (make_request [] ''daemon.ping'' (JObject [])) ping_response,
     cli_conn := Ok (tape (frame [2]))\<rparr>"

theorem cli_daemon_end_to_end_witness:
  "handle_request (cli_codec ping_env) demo_libs 42 (tape (frame [1]), crashed_world) = ((tape [])\<lparr>sent := frame [2]\<rparr>, crashed_world)
    \<and> fst (request ping_env ''daemon.ping'' (JObject []) demo_console) = 0
    \<and> to_daemon (snd (request ping_env ''daemon.ping'' (JObject []) demo_console)) = frame [1]"
proof -
  have d: "dispatch demo_libs 42 (make_request (new_v4 (cli_libs ping_env)) ''daemon.ping'' (JObject [])) crashed_world
      = (Some ping_response, crashed_world)"
    by (simp add: dispatch_def make_request_def json_u32_def ping_response_def ping_env_def)
  have E: "cli_conn ping_env = Ok (tape (frame [2]))" "read_timeout ping_env = None" "write_timeout ping_env = None"
    by (simp_all add: ping_env_def demo_env_def)
  have c: "request_to_vec (cli_codec ping_env) r = Ok [1]" "response_to_vec (cli_codec ping_env) q = Ok [2]"
    "request_from_slice (cli_codec ping_env) b = Ok (make_request (new_v4 (cli_libs ping_env)) ''daemon.ping'' (JObject []))"
    "response_from_slice (cli_codec ping_env) b = Ok ping_response" for r q b
    by (simp_all add: ping_env_def pair_codec_def)
  have "success ping_response" and "to_daemon demo_console = []"
    by (simp_all add: ping_response_def make_ok_def demo_console_def)
  with cli_daemon_end_to_end [OF E d c(1,3,2,4), of demo_console] show ?thesis by simp
qed

section \<open>The control panel and the daemon\<close>

lemma dispatch_result: "dispatch L pid req w = (Some resp, w') \<Longrightarrow> if success resp then resp_result resp \<noteq> None else resp_error resp \<noteq> None"
  using dispatch_shape [of req L pid w] by (auto simp: answers_to_def make_ok_def make_err_def)

lemma asked_start: "asked_device (make_request i meth (start_params a)) = selected_device a"
  by (simp add: asked_device_def make_request_def start_params_def get_str_def)

lemma ipc_call_answered:
  assumes "gui_conns E (gw_next_conn g) = Ok s" and "gui_read_timeout E = None" and "gui_write_timeout E = None"
    and "send_request (gui_codec E) (new_v4 (gui_libs E)) meth p s = (Ok resp, t)"
  shows "ipc_call E meth p (a, g) =
    (let g' = g\<lparr>gw_next_conn := Suc (gw_next_conn g), gw_sent := gw_sent g @ [sent t]\<rparr>; a' = a\<lparr>daemon_online := True\<rparr> in
     if success resp then (resp_result resp, (a', g'))
     else (None, (a'\<lparr>status_message := or_str (resp_error resp) ''Request failed''\<rparr>, g')))"
  using assms by (simp add: ipc_call_def gui_connect_def ipc_connect_def Let_def)

text \<open>
  C10. Clicking Start in the control panel, against a daemon in any reachable state: the
  panel sends exactly the frame of a start request for the selected device, the daemon
  serves it and moves as its specification says, and the panel reports the start as
  requested exactly when the answer is a success, in which case the emulator is up with the
  selected device; otherwise it shows the error of the daemon.
\<close>

theorem gui_start_end_to_end:
  assumes "daemon_reaches (gui_codec E) L pid h d" and "daemon_online a"
    and "gui_conns E (gw_next_conn g) = Ok (tape (frame bs'))" and "gui_read_timeout E = None" and "gui_write_timeout E = None"
    and "req = make_request (new_v4 (gui_libs E)) ''device.start'' (start_params a)"
    and "dispatch L pid req (dworld d) = (Some resp, w')"
    and "request_to_vec (gui_codec E) req = Ok bs" and "request_from_slice (gui_codec E) bs = Ok req"
    and "response_to_vec (gui_codec E) resp = Ok bs'" and "response_from_slice (gui_codec E) bs' = Ok resp"
    and "length bs < 2 ^ 32" and "length bs' < 2 ^ 32"
    and "click E now StartDevice (a, g) = Some (a', g')"
  shows "handle_request (gui_codec E) L pid (tape (frame bs), dworld d) = ((tape [])\<lparr>sent := frame bs'\<rparr>, w')
    \<and> gw_sent g' = gw_sent g @ [frame bs]
    \<and> emu_of w' \<in> set (start_next (selected_device a) (success resp) (emu_of (dworld d)))
    \<and> (if success resp then emu_of w' = Up (selected_device a) \<and> status_message a' = ''Android VM start requested''
       else resp_error resp = Some (status_message a'))"
proof -
  note x = ipc_exchange [OF assms(8,9,7,10,11,12,13) [unfolded assms(6)], of "tape (frame bs')" "tape (frame bs)"]
  have h: "handle_request (gui_codec E) L pid (tape (frame bs), dworld d) = ((tape [])\<lparr>sent := frame bs'\<rparr>, w')"
    and s: "send_request (gui_codec E) (new_v4 (gui_libs E)) ''device.start'' (start_params a) (tape (frame bs'))
      = (Ok resp, (tape [])\<lparr>sent := frame bs\<rparr>)"
    using x by (simp_all add: tape_def)
  have "handled (\<lambda>ok. start_next (selected_device a) ok (emu_of (dworld d))) (Some resp, w')"
    using dispatch_handled [OF daemon_reaches_tracked [OF assms(1)], of req L pid] assms(7)
    by (simp add: assms(6) asked_start emu_next_def) (simp add: make_request_def)
  then have e: "emu_of w' \<in> set (start_next (selected_device a) (success resp) (emu_of (dworld d)))"
    by (simp add: handled_def)
  moreover have "success resp \<Longrightarrow> emu_of w' = Up (selected_device a)"
    using e by (cases "emu_of (dworld d)") simp_all
  ultimately show ?thesis
    using h assms(2,14) dispatch_result [OF assms(7)] ipc_call_answered [OF assms(3-5) s, of a]
    by (auto simp: acknowledged_def Let_def or_str_def split: if_splits option.splits)
qed

definition panel_app :: LiteDroidApp where
  "panel_app = \<lparr>app_devices = [\<lparr>row_name = ''default'', row_android_version = ''14'', row_ram_mb = 2048, row_vcpu_count = 2\<rparr>],
     selected_device = ''default'', daemon_online = True, app_power_state = ''off'', app_stats = [], app_diagnostics = [],
     status_message = ''Ready'', last_refresh = 0, app_rendering_mode = [], auto_start_attempted = True\<rparr>"

definition panel_request :: IpcRequest where
  "panel_request = make_request [] ''device.start'' (start_params panel_app)"

definition panel_response :: IpcResponse where
  "panel_response = the (fst (dispatch android_libs 42 panel_request (dworld (daemon_init android_host))))"

definition panel_env :: gui_env where
  "panel_env = demo_gui_env\<lparr>gui_libs := (plain_libs JNull litedroid_config_default)\<lparr>new_v4 := []\<rparr>,
     gui_codec := pair_codec panel_request panel_response, gui_conns := (\<lambda>_. Ok (tape (frame [2])))\<rparr>"

lemma panel_start_succeeds:
  "map_option success (fst (dispatch android_libs 42 panel_request (dworld (daemon_init android_host)))) = Some True"
  by code_simp

text \<open>The panel starts the default device on a host where the emulator can be launched.\<close>

theorem gui_start_end_to_end_witness:
  "\<exists>a' g'. click panel_env 0 StartDevice (panel_app, demo_gui_world) = Some (a', g')
    \<and> gw_sent g' = gw_sent demo_gui_world @ [frame [1]] \<and> status_message a' = ''Android VM start requested''
    \<and> emu_of (snd (dispatch android_libs 42 panel_request (dworld (daemon_init android_host)))) = Up ''default''"
proof -
  obtain w' where d: "dispatch android_libs 42 panel_request (dworld (daemon_init android_host)) = (Some panel_response, w')"
    and ok: "success panel_response"
    using panel_start_succeeds unfolding panel_response_def
    by (cases "dispatch android_libs 42 panel_request (dworld (daemon_init android_host))") auto
  obtain a' g' where c: "click panel_env 0 StartDevice (panel_app, demo_gui_world) = Some (a', g')"
    by (metis click.simps(4) surj_pair)
  have E: "gui_conns panel_env n = Ok (tape (frame [2]))" "gui_read_timeout panel_env = None" "gui_write_timeout panel_env = None"
    "panel_request = make_request (new_v4 (gui_libs panel_env)) ''device.start'' (start_params panel_app)" for n
    by (simp_all add: panel_env_def demo_gui_env_def panel_request_def)
  have j: "request_to_vec (gui_codec panel_env) r = Ok [1]" "response_to_vec (gui_codec panel_env) q = Ok [2]"
    "request_from_slice (gui_codec panel_env) b = Ok panel_request" "response_from_slice (gui_codec panel_env) b = Ok panel_response" for r q b
    by (simp_all add: panel_env_def pair_codec_def)
  have "daemon_online panel_app" and "selected_device panel_app = ''default''"
    by (simp_all add: panel_app_def)
  with gui_start_end_to_end [OF daemon_reaches.start this(1) E d j(1,3,2,4) _ _ c] c d ok show ?thesis
    by auto
qed

end
